(* ===== verification/Prelude.thy ===== *)
theory Prelude
  imports Main "HOL-Library.Word" "HOL-Library.FSet" "HOL-Library.Finite_Map"
    "HOL-Library.Monad_Syntax" "HOL-Library.Signed_Division"
begin

text \<open>
  What every component shares: bytes and Go's integers, the errors of \<^verbatim>\<open>core/error.go\<close> and of the
  store, nested Go maps with the get-or-create idiom the sources use everywhere, and the reading
  of a Go call as a value of type \<open>'a option\<close>, where \<open>None\<close> is a run-time panic. A Go function
  that also returns an \<^verbatim>\<open>error\<close> has an \<open>error option\<close> in its result (\<open>None\<close> is Go's \<^verbatim>\<open>nil\<close>),
  next to the state it leaves behind: an error return does not undo what was already written.
\<close>

section \<open>Collections of facts\<close>

named_theorems go_simps \<open>unfolding rules for the primitive operations of the model\<close>
named_theorems inv_intros \<open>preservation lemmas of the component invariants\<close>
named_theorems frame_simps \<open>fields an operation leaves unchanged\<close>

section \<open>Bytes and integers\<close>

type_synonym byte = "8 word"
type_synonym bytes = "8 word list"
type_synonym NodeID = int

text \<open>
  Go's \<^verbatim>\<open>int\<close> and \<^verbatim>\<open>int64\<close> are 64-bit two's complement numbers. A value of such a type is an
  \<open>int\<close> here, and the wrap-around is written out with \<open>i64\<close> where the source adds to a value
  that may come from the network.
\<close>

definition i64 :: "int \<Rightarrow> int" where
  "i64 x = (x + 2 ^ 63) mod 2 ^ 64 - 2 ^ 63"

definition is_i64 :: "int \<Rightarrow> bool" where
  "is_i64 x \<longleftrightarrow> - (2 ^ 63) \<le> x \<and> x < 2 ^ 63"

lemma i64_range: "- (2 ^ 63) \<le> i64 x" "i64 x < 2 ^ 63"
  by (simp_all add: i64_def)

lemma is_i64_i64 [simp]: "is_i64 (i64 x)"
  using i64_range [of x] by (simp add: is_i64_def)

lemma i64_id: "is_i64 x \<Longrightarrow> i64 x = x"
  by (simp add: i64_def is_i64_def)

lemma i64_i64_add [simp]: "i64 (i64 x + y) = i64 (x + y)"
proof -
  have "((x + 2 ^ 63) mod 2 ^ 64 - 2 ^ 63 + y + 2 ^ 63) mod 2 ^ 64 = (x + 2 ^ 63 + y) mod (2 ^ 64 :: int)"
    by (simp add: mod_add_left_eq)
  then show ?thesis
    by (simp add: i64_def algebra_simps)
qed

lemma i64_succ: "is_i64 x \<Longrightarrow> x < 2 ^ 63 - 1 \<Longrightarrow> i64 (x + 1) = x + 1"
  by (rule i64_id) (simp add: is_i64_def)

lemma i64_0 [simp]: "i64 0 = 0"
  by (simp add: i64_def)

section \<open>Errors\<close>

text \<open>
  The errors of \<^verbatim>\<open>core/error.go\<close>, the store's \<^verbatim>\<open>ErrNotFoundKey\<close>, the \<^verbatim>\<open>fmt.Errorf\<close> of the vote
  check, the hex decoder's errors, and \<open>ErrExt\<close> for an error value made by code outside the
  repository.
\<close>

datatype error =
    ErrSignature int
  | ErrReference int int int
  | ErrOneMoreMessage int int int NodeID
  | ErrNotFoundKey
  | ErrVoteCheck int int NodeID NodeID
  | ErrHexLength
  | ErrHexByte byte
  | ErrExt string

section \<open>Panics\<close>

text \<open>
  \<open>go_bind\<close> facts: a computation written with \<open>do\<close> in the option monad panics when one of its
  steps panics. \<open>nonnil\<close> dereferences a pointer.
\<close>

definition nonnil :: "'a option \<Rightarrow> 'a option" where
  [go_simps]: "nonnil p = p"

lemma bind_SomeE:
  assumes "Option.bind m f = Some y"
  obtains x where "m = Some x" "f x = Some y"
  using assms by (auto simp: bind_eq_Some_conv)

lemma bind_Some_iff: "(\<exists>y. Option.bind m f = Some y) \<longleftrightarrow> (\<exists>x y. m = Some x \<and> f x = Some y)"
  by (auto simp: bind_eq_Some_conv)

section \<open>Nested maps\<close>

text \<open>
  \<^verbatim>\<open>map[K1]map[K2]V\<close>: a lookup in a missing inner map finds nothing, and a store first makes the
  inner map when it is missing (the \<^verbatim>\<open>items, ok := m[k]; if !ok { items = make(...); m[k] = items }\<close>
  of the sources). \<open>ensure\<close> is the part of that idiom that only makes the inner map.
\<close>

definition inner :: "('k \<rightharpoonup> ('l \<rightharpoonup> 'v)) \<Rightarrow> 'k \<Rightarrow> ('l \<rightharpoonup> 'v)" where
  "inner m k = (case m k of None \<Rightarrow> Map.empty | Some i \<Rightarrow> i)"

definition ensure :: "('k \<rightharpoonup> ('l \<rightharpoonup> 'v)) \<Rightarrow> 'k \<Rightarrow> ('k \<rightharpoonup> ('l \<rightharpoonup> 'v))" where
  "ensure m k = (case m k of None \<Rightarrow> m(k \<mapsto> Map.empty) | Some _ \<Rightarrow> m)"

definition get2 :: "('k \<rightharpoonup> ('l \<rightharpoonup> 'v)) \<Rightarrow> 'k \<Rightarrow> 'l \<Rightarrow> 'v option" where
  "get2 m k l = inner m k l"

definition put2 :: "('k \<rightharpoonup> ('l \<rightharpoonup> 'v)) \<Rightarrow> 'k \<Rightarrow> 'l \<Rightarrow> 'v \<Rightarrow> ('k \<rightharpoonup> ('l \<rightharpoonup> 'v))" where
  "put2 m k l v = m(k \<mapsto> (inner m k)(l \<mapsto> v))"

definition get3 :: "('k \<rightharpoonup> ('l \<rightharpoonup> ('m \<rightharpoonup> 'v))) \<Rightarrow> 'k \<Rightarrow> 'l \<Rightarrow> 'm \<Rightarrow> 'v option" where
  "get3 t k l m = get2 (inner t k) l m"

definition put3 :: "('k \<rightharpoonup> ('l \<rightharpoonup> ('m \<rightharpoonup> 'v))) \<Rightarrow> 'k \<Rightarrow> 'l \<Rightarrow> 'm \<Rightarrow> 'v \<Rightarrow>
    ('k \<rightharpoonup> ('l \<rightharpoonup> ('m \<rightharpoonup> 'v)))" where
  "put3 t k l m v = t(k \<mapsto> put2 (inner t k) l m v)"

lemma inner_upd [simp]: "inner (m(k \<mapsto> i)) k' = (if k' = k then i else inner m k')"
  by (simp add: inner_def)

lemma inner_empty [simp]: "inner Map.empty k = Map.empty"
  by (simp add: inner_def)

lemma inner_ensure [simp]: "inner (ensure m k) k' = inner m k'"
  by (simp add: inner_def ensure_def split: option.splits)

lemma get2_empty [simp]: "get2 Map.empty k l = None"
  by (simp add: get2_def)

lemma get2_ensure [simp]: "get2 (ensure m k) k' l = get2 m k' l"
  by (simp add: get2_def)

lemma put2_put2 [simp]: "put2 (put2 m k l v) k l v' = put2 m k l v'"
  by (simp add: put2_def)

lemma get2_put2 [simp]: "get2 (put2 m k l v) k' l' = (if k' = k \<and> l' = l then Some v else get2 m k' l')"
  by (simp add: get2_def put2_def)

lemma get3_empty [simp]: "get3 Map.empty k l m = None"
  by (simp add: get3_def)

lemma get3_ensure [simp]: "get3 (ensure t k) k' l m = get3 t k' l m"
  by (simp add: get3_def)

lemma get3_put3 [simp]:
  "get3 (put3 t k l m v) k' l' m' = (if k' = k \<and> l' = l \<and> m' = m then Some v else get3 t k' l' m')"
  by (simp add: get3_def put3_def)

text \<open>
  What the clients use of any such table: a store is found under its own key and leaves every
  other key alone, so the keys present only grow.
\<close>

locale table =
  fixes look :: "'t \<Rightarrow> 'k \<Rightarrow> 'v option"
    and stor :: "'t \<Rightarrow> 'k \<Rightarrow> 'v \<Rightarrow> 't"
  assumes look_stor: "look (stor t k v) k' = (if k' = k then Some v else look t k')"
begin

lemma stor_idem: "look (stor (stor t k v) k w) = look (stor t k w)"
  by (rule ext) (simp add: look_stor)

lemma stor_commute: "k \<noteq> k' \<Longrightarrow> look (stor (stor t k v) k' w) = look (stor (stor t k' w) k v)"
  by (rule ext) (simp add: look_stor)

lemma present_stor: "{k'. look (stor t k v) k' \<noteq> None} = insert k {k'. look t k' \<noteq> None}"
  by (auto simp: look_stor split: if_splits)

lemma present_mono: "look t k' \<noteq> None \<Longrightarrow> look (stor t k v) k' \<noteq> None"
  by (simp add: look_stor)

end

interpretation tab2: table "\<lambda>t (k, l). get2 t k l" "\<lambda>t (k, l) v. put2 t k l v"
  by unfold_locales (simp split: prod.split)

interpretation tab3: table "\<lambda>t (k, l, m). get3 t k l m" "\<lambda>t (k, l, m) v. put3 t k l m v"
  by unfold_locales (simp split: prod.split)

section \<open>Lists\<close>

lemma list_update_len_app [simp]: "(xs @ y # ys)[length xs := z] = xs @ z # ys"
  by (simp add: list_update_append)

lemma map_upt_shift: "map f [0..<Suc n] = map f [0..<n] @ [f n]"
  by simp

end
