(* ===== verification/Crypto.thy ===== *)
theory Crypto
  imports Prelude
begin

text \<open>
  \<^verbatim>\<open>crypto/crypto.go\<close>: the hasher that concatenates its inputs, the text and binary encodings of
  integers the messages feed to it, the keys with their hex form, signatures, threshold signature
  shares and the signing service. The primitives themselves (SHA-256, Ed25519, the BLS threshold
  scheme of kyber) are the fields of the record \<open>crypto\<close>, an argument of every definition that
  uses them.
\<close>

section \<open>The cryptographic primitives\<close>

type_synonym Digest = bytes

definition HashSize :: nat where
  "HashSize = 32"

definition zero_Digest :: Digest where
  "zero_Digest = replicate HashSize 0"

record PublickKey =
  Pubkey :: bytes

record PrivateKey =
  Prikey :: bytes

text \<open>A private share and a public polynomial, their scalars and points as marshalled bytes.\<close>

record PriShare =
  ps_I :: int
  ps_V :: bytes

record PubPoly =
  pp_base :: bytes
  pp_commits :: "bytes list"

record SecretShareKey =
  sk_PubPoly :: PubPoly
  sk_PriShare :: PriShare
  sk_N :: int
  sk_T :: int

record crypto =
  sha256_Sum256 :: "bytes \<Rightarrow> Digest"
  ed25519_Sign :: "bytes \<Rightarrow> bytes \<Rightarrow> bytes"
  ed25519_Verify :: "bytes \<Rightarrow> bytes \<Rightarrow> bytes \<Rightarrow> bool"
  tbls_Sign :: "PriShare \<Rightarrow> bytes \<Rightarrow> bytes \<times> error option"
  tbls_Recover :: "PubPoly \<Rightarrow> bytes \<Rightarrow> bytes list \<Rightarrow> int \<Rightarrow> int \<Rightarrow> bytes \<times> error option"
  bls_Verify :: "bytes \<Rightarrow> bytes \<Rightarrow> bytes \<Rightarrow> error option"

text \<open>The package documents that \<^verbatim>\<open>Verify\<close> and \<^verbatim>\<open>Sign\<close> panic on a key of the wrong size.\<close>

definition PublicKeySize :: nat where
  "PublicKeySize = 32"

definition PrivateKeySize :: nat where
  "PrivateKeySize = 64"

section \<open>The hasher\<close>

record Hasher =
  h_data :: bytes

definition NewHasher :: Hasher where
  "NewHasher = \<lparr>h_data = []\<rparr>"

definition Hasher_Add :: "Hasher \<Rightarrow> bytes \<Rightarrow> Hasher" where
  "Hasher_Add h d = h\<lparr>h_data := h_data h @ d\<rparr>"

text \<open>The deferred reset empties the buffer after the digest is computed.\<close>

definition Hasher_Sum256 :: "'a crypto_scheme \<Rightarrow> Hasher \<Rightarrow> bytes \<Rightarrow> Digest \<times> Hasher" where
  "Hasher_Sum256 w h d = (sha256_Sum256 w (h_data h @ d), h\<lparr>h_data := []\<rparr>)"

lemma h_data_Add [simp]: "h_data (Hasher_Add h d) = h_data h @ d"
  by (simp add: Hasher_Add_def)

lemma h_data_New [simp]: "h_data NewHasher = []"
  by (simp add: NewHasher_def)

lemma fst_Sum256 [simp]: "fst (Hasher_Sum256 w h d) = sha256_Sum256 w (h_data h @ d)"
  by (simp add: Hasher_Sum256_def)

section \<open>Integers as text: strconv.AppendInt in base 2\<close>

fun bin_digits :: "nat \<Rightarrow> bytes" where
  "bin_digits n = (if n < 2 then [48 + of_nat n] else bin_digits (n div 2) @ [48 + of_nat (n mod 2)])"

declare bin_digits.simps [simp del]

definition AppendInt2 :: "bytes \<Rightarrow> int \<Rightarrow> bytes" where
  "AppendInt2 dst x = dst @ (if x < 0 then 45 # bin_digits (nat (- x)) else bin_digits (nat x))"

fun bin_value :: "bytes \<Rightarrow> nat" where
  "bin_value [] = 0"
| "bin_value (x # xs) = (unat x - 48) * 2 ^ length xs + bin_value xs"

lemma bin_value_snoc: "bin_value (xs @ [x]) = 2 * bin_value xs + (unat x - 48)"
  by (induction xs) (simp_all add: algebra_simps)

lemma bin_value_digits: "bin_value (bin_digits n) = n"
proof (induction n rule: bin_digits.induct)
  case (1 n)
  show ?case
  proof (cases "n < 2")
    case True
    then have "n = 0 \<or> n = 1" by auto
    then show ?thesis by (subst bin_digits.simps) auto
  next
    case False
    have "n mod 2 = 0 \<or> n mod 2 = 1" by auto
    then have "unat (48 + of_nat (n mod 2) :: byte) - 48 = n mod 2" by auto
    with False 1 show ?thesis
      by (subst bin_digits.simps) (simp add: bin_value_snoc)
  qed
qed

lemma bin_digits_nonempty [simp]: "bin_digits n \<noteq> []"
  by (subst bin_digits.simps) simp

lemma bin_digits_hd: "hd (bin_digits n) \<noteq> 45"
proof (induction n rule: bin_digits.induct)
  case (1 n)
  show ?case
  proof (cases "n < 2")
    case True
    then have "n = 0 \<or> n = 1" by auto
    then show ?thesis by (subst bin_digits.simps) auto
  next
    case False
    with 1 show ?thesis by (subst bin_digits.simps) simp
  qed
qed

lemma bin_digits_inject [simp]: "bin_digits m = bin_digits n \<longleftrightarrow> m = n"
  by (metis bin_value_digits)

lemma AppendInt2_inject [simp]: "AppendInt2 dst x = AppendInt2 dst y \<longleftrightarrow> x = y"
proof -
  have ne: "bin_digits n \<noteq> 45 # bin_digits m" for m n
    using bin_digits_hd [of n] by (metis list.sel(1))
  show ?thesis
    using ne ne [symmetric] by (auto simp: AppendInt2_def)
qed

section \<open>Integers as eight bytes: encoding/binary\<close>

text \<open>
  \<^verbatim>\<open>uint64(x)\<close> reinterprets a 64-bit value, so the bytes are those of \<open>x mod 2 ^ 64\<close>.
\<close>

fun le_bytes :: "nat \<Rightarrow> int \<Rightarrow> bytes" where
  "le_bytes 0 x = []"
| "le_bytes (Suc n) x = word_of_int x # le_bytes n (x div 256)"

definition LittleEndian_AppendUint64 :: "bytes \<Rightarrow> int \<Rightarrow> bytes" where
  "LittleEndian_AppendUint64 dst x = dst @ le_bytes 8 (x mod 2 ^ 64)"

definition BigEndian_AppendUint64 :: "bytes \<Rightarrow> int \<Rightarrow> bytes" where
  "BigEndian_AppendUint64 dst x = dst @ rev (le_bytes 8 (x mod 2 ^ 64))"

lemma length_le_bytes [simp]: "length (le_bytes n x) = n"
  by (induction n arbitrary: x) simp_all

lemma le_bytes_eq_iff: "le_bytes n x = le_bytes n y \<longleftrightarrow> x mod 256 ^ n = y mod 256 ^ n"
proof (induction n arbitrary: x y)
  case 0
  then show ?case by simp
next
  case (Suc n)
  have hd: "(word_of_int x :: byte) = word_of_int y \<longleftrightarrow> x mod 256 = y mod 256"
    by (simp add: word_of_int_eq_iff take_bit_eq_mod)
  have split: "z mod 256 ^ Suc n = 256 * (z div 256 mod 256 ^ n) + z mod 256" for z :: int
    by (simp add: zmod_zmult2_eq)
  have digits: "256 * a + r = 256 * b + s \<longleftrightarrow> r = s \<and> a = b"
    if "0 \<le> r" "r < 256" "0 \<le> s" "s < 256" for a b r s :: int
    using that by (cases a b rule: linorder_cases) auto
  have "x mod 256 ^ Suc n = y mod 256 ^ Suc n \<longleftrightarrow>
      x mod 256 = y mod 256 \<and> x div 256 mod 256 ^ n = y div 256 mod 256 ^ n"
    unfolding split by (rule digits) simp_all
  with Suc hd show ?case by simp
qed

lemma mod_i64_inject: "is_i64 x \<Longrightarrow> is_i64 y \<Longrightarrow> x mod 2 ^ 64 = y mod 2 ^ 64 \<longleftrightarrow> x = y"
proof
  assume x: "is_i64 x" and y: "is_i64 y" and eq: "x mod 2 ^ 64 = y mod 2 ^ 64"
  then have "(x - y) mod 2 ^ 64 = 0"
    using mod_eq_dvd_iff [of x "2 ^ 64" y] by simp
  then have dvd: "2 ^ 64 dvd \<bar>x - y\<bar>"
    by (simp add: mod_eq_0_iff_dvd)
  have "\<bar>x - y\<bar> < 2 ^ 64"
    using x y by (auto simp: is_i64_def abs_if)
  then have "\<not> 0 < \<bar>x - y\<bar>"
    using zdvd_imp_le [OF dvd] by linarith
  then show "x = y" by simp
qed simp

lemma AppendUint64_inject:
  assumes "is_i64 x" "is_i64 y"
  shows "LittleEndian_AppendUint64 [] x = LittleEndian_AppendUint64 [] y \<longleftrightarrow> x = y"
    and "BigEndian_AppendUint64 [] x = BigEndian_AppendUint64 [] y \<longleftrightarrow> x = y"
  using le_bytes_eq_iff [of 8 "x mod 2 ^ 64" "y mod 2 ^ 64"] mod_i64_inject [OF assms]
  by (simp_all add: LittleEndian_AppendUint64_def BigEndian_AppendUint64_def)

lemma length_AppendUint64 [simp]:
  "length (LittleEndian_AppendUint64 dst x) = length dst + 8"
  "length (BigEndian_AppendUint64 dst x) = length dst + 8"
  by (simp_all add: LittleEndian_AppendUint64_def BigEndian_AppendUint64_def)

section \<open>Signatures\<close>

record Signature =
  Sig :: bytes

record SignatureShare =
  PartialSig :: bytes

text \<open>\<open>None\<close> is the panic on a public key that is not 32 bytes long.\<close>

definition Signature_Verify :: "'a crypto_scheme \<Rightarrow> Signature \<Rightarrow> PublickKey \<Rightarrow> Digest \<Rightarrow> bool option" where
  "Signature_Verify w s pub digest =
     (if length (Pubkey pub) \<noteq> PublicKeySize then None
      else Some (ed25519_Verify w (Pubkey pub) digest (Sig s)))"

definition SignatureShare_Verify :: "SignatureShare \<Rightarrow> Digest \<Rightarrow> bool" where
  "SignatureShare_Verify s digest = True"

definition VerifyTs :: "'a crypto_scheme \<Rightarrow> SecretShareKey \<Rightarrow> Digest \<Rightarrow> bytes \<Rightarrow> error option" where
  "VerifyTs w skey digest intactSig =
     bls_Verify w (case pp_commits (sk_PubPoly skey) of [] \<Rightarrow> [] | c # _ \<Rightarrow> c) digest intactSig"

definition CombineIntactTSPartial ::
  "'a crypto_scheme \<Rightarrow> SignatureShare list \<Rightarrow> SecretShareKey \<Rightarrow> Digest \<Rightarrow> bytes \<times> error option" where
  "CombineIntactTSPartial w sigShares skey digest =
     tbls_Recover w (sk_PubPoly skey) digest (map PartialSig sigShares) (sk_T skey) (sk_N skey)"

section \<open>The signing service\<close>

text \<open>
  A request carries its kind and digest to the service goroutine, which fills in the result and
  hands the request back over \<^verbatim>\<open>Done\<close>; the caller waits for it. \<open>SigService_serve\<close> is the body of
  the service loop for one request.
\<close>

datatype sigTyp = SIG | SHARE

datatype sigRet = RetNil | RetSignature Signature | RetShare SignatureShare

record sigReq =
  sr_typ :: sigTyp
  sr_digest :: Digest
  sr_ret :: sigRet
  sr_err :: "error option"

record SigService =
  ss_PriKey :: PrivateKey
  ss_ShareKey :: SecretShareKey

definition NewSigService :: "PrivateKey \<Rightarrow> SecretShareKey \<Rightarrow> SigService" where
  "NewSigService pri share = \<lparr>ss_PriKey = pri, ss_ShareKey = share\<rparr>"

definition SigService_serve :: "'a crypto_scheme \<Rightarrow> SigService \<Rightarrow> sigReq \<Rightarrow> sigReq option" where
  "SigService_serve w srvc req =
     (case sr_typ req of
        SIG \<Rightarrow>
          (if length (Prikey (ss_PriKey srvc)) \<noteq> PrivateKeySize then None
           else Some (req\<lparr>sr_ret := RetSignature
                  \<lparr>Sig = ed25519_Sign w (Prikey (ss_PriKey srvc)) (sr_digest req)\<rparr>\<rparr>))
      | SHARE \<Rightarrow>
          (let (partialSig, err) = tbls_Sign w (sk_PriShare (ss_ShareKey srvc)) (sr_digest req)
           in Some (req\<lparr>sr_ret := RetShare \<lparr>PartialSig = partialSig\<rparr>, sr_err := err\<rparr>)))"

text \<open>The type assertion with a discarded flag gives the zero value on another type.\<close>

definition RequestSignature :: "'a crypto_scheme \<Rightarrow> SigService \<Rightarrow> Digest \<Rightarrow> Signature option" where
  "RequestSignature w s digest =
     do { req \<leftarrow> SigService_serve w s \<lparr>sr_typ = SIG, sr_digest = digest, sr_ret = RetNil, sr_err = None\<rparr>;
          Some (case sr_ret req of RetSignature sig \<Rightarrow> sig | _ \<Rightarrow> \<lparr>Sig = []\<rparr>) }"

definition RequestTsSugnature ::
  "'a crypto_scheme \<Rightarrow> SigService \<Rightarrow> Digest \<Rightarrow> (SignatureShare \<times> error option) option" where
  "RequestTsSugnature w s digest =
     do { req \<leftarrow> SigService_serve w s \<lparr>sr_typ = SHARE, sr_digest = digest, sr_ret = RetNil, sr_err = None\<rparr>;
          Some (case sr_ret req of RetShare sig \<Rightarrow> sig | _ \<Rightarrow> \<lparr>PartialSig = []\<rparr>, sr_err req) }"

lemma RequestSignature_eq:
  "RequestSignature w s d =
     (if length (Prikey (ss_PriKey s)) = PrivateKeySize
      then Some \<lparr>Sig = ed25519_Sign w (Prikey (ss_PriKey s)) d\<rparr> else None)"
  by (simp add: RequestSignature_def SigService_serve_def)

lemma RequestTsSugnature_eq:
  "RequestTsSugnature w s d =
     (let (p, e) = tbls_Sign w (sk_PriShare (ss_ShareKey s)) d in Some (\<lparr>PartialSig = p\<rparr>, e))"
  by (cases "tbls_Sign w (sk_PriShare (ss_ShareKey s)) d")
     (simp add: RequestTsSugnature_def SigService_serve_def)

text \<open>A signature made with the private key that belongs to a public key of the right size verifies.\<close>

lemma Signature_accept:
  assumes "RequestSignature w s d = Some sig" "length (Pubkey pk) = PublicKeySize"
    and "\<And>d. ed25519_Verify w (Pubkey pk) d (ed25519_Sign w (Prikey (ss_PriKey s)) d)"
  shows "Signature_Verify w sig pk d = Some True"
  using assms by (auto simp: RequestSignature_eq Signature_Verify_def split: if_splits)

section \<open>Keys in hex\<close>

text \<open>
  \<^verbatim>\<open>hex.Encode\<close> writes two lower-case digits per byte. \<^verbatim>\<open>hex.Decode\<close> reads pairs, in either case,
  stops at the first byte that is no digit, and reports an odd length after the last full pair:
  the error of an odd trailing byte that is itself invalid comes first.
\<close>

definition hexDigit :: "nat \<Rightarrow> byte" where
  "hexDigit n = (if n < 10 then of_nat (48 + n) else of_nat (87 + n))"

fun hex_Encode :: "bytes \<Rightarrow> bytes" where
  "hex_Encode [] = []"
| "hex_Encode (b # bs) = hexDigit (unat b div 16) # hexDigit (unat b mod 16) # hex_Encode bs"

definition fromHexChar :: "byte \<Rightarrow> nat option" where
  "fromHexChar c =
     (let n = unat c in
      if 48 \<le> n \<and> n \<le> 57 then Some (n - 48)
      else if 97 \<le> n \<and> n \<le> 102 then Some (n - 87)
      else if 65 \<le> n \<and> n \<le> 70 then Some (n - 55)
      else None)"

fun hex_Decode :: "bytes \<Rightarrow> error + bytes" where
  "hex_Decode [] = Inr []"
| "hex_Decode [c] = (case fromHexChar c of None \<Rightarrow> Inl (ErrHexByte c) | Some _ \<Rightarrow> Inl ErrHexLength)"
| "hex_Decode (c # d # cs) =
     (case fromHexChar c of
        None \<Rightarrow> Inl (ErrHexByte c)
      | Some hi \<Rightarrow>
          (case fromHexChar d of
             None \<Rightarrow> Inl (ErrHexByte d)
           | Some lo \<Rightarrow>
               (case hex_Decode cs of Inl e \<Rightarrow> Inl e | Inr bs \<Rightarrow> Inr (of_nat (16 * hi + lo) # bs))))"

definition EncodePublicKey :: "PublickKey \<Rightarrow> bytes" where
  "EncodePublicKey pub = hex_Encode (Pubkey pub)"

definition DecodePublicKey :: "bytes \<Rightarrow> PublickKey \<times> error option" where
  "DecodePublicKey data =
     (case hex_Decode data of
        Inl e \<Rightarrow> (\<lparr>Pubkey = []\<rparr>, Some e)
      | Inr pub \<Rightarrow> (\<lparr>Pubkey = pub\<rparr>, None))"

definition EncodePrivateKey :: "PrivateKey \<Rightarrow> bytes" where
  "EncodePrivateKey pri = hex_Encode (Prikey pri)"

definition DecodePrivateKey :: "bytes \<Rightarrow> PrivateKey \<times> error option" where
  "DecodePrivateKey data =
     (case hex_Decode data of
        Inl e \<Rightarrow> (\<lparr>Prikey = []\<rparr>, Some e)
      | Inr pri \<Rightarrow> (\<lparr>Prikey = pri\<rparr>, None))"

lemma unat_of_nat_byte: "n < 256 \<Longrightarrow> unat (of_nat n :: byte) = n"
  by (simp add: unsigned_of_nat take_bit_eq_mod)

lemma fromHexChar_hexDigit: "n < 16 \<Longrightarrow> fromHexChar (hexDigit n) = Some n"
  by (simp add: fromHexChar_def hexDigit_def unat_of_nat_byte del: of_nat_add)

lemma hex_roundtrip: "hex_Decode (hex_Encode bs) = Inr bs"
proof (induction bs)
  case Nil
  then show ?case by simp
next
  case (Cons b bs)
  have b: "unat b < 256" using unsigned_less [of b] by simp
  then have "unat b div 16 < 16" by simp
  moreover have "of_nat (16 * (unat b div 16) + unat b mod 16) = b"
    by (simp del: of_nat_add of_nat_mult)
  ultimately show ?case
    using Cons by (simp add: fromHexChar_hexDigit del: of_nat_add of_nat_mult)
qed

lemma length_hex_Encode [simp]: "length (hex_Encode bs) = 2 * length bs"
  by (induction bs) simp_all

end
