(* ===== verification/Committee.thy ===== *)
theory Committee
  imports Crypto
begin

text \<open>
  \<^verbatim>\<open>core/config.go\<close>: the parameters of a run, the committee with its lookups, and the two vote
  thresholds. A Go map has no order of its own, and \<^verbatim>\<open>range\<close> visits it in an order the run-time
  chooses: the authorities are an association list with distinct keys, in the order of the visit,
  and the lemmas speak of sets of members.
\<close>

section \<open>Parameters\<close>

datatype Protocol = MVBA | SMVBA | VABA | MERCURY

record Parameters =
  par_SyncTimeout :: int
  par_NetwrokDelay :: int
  par_MinBlockDelay :: int
  par_DDos :: bool
  par_Faults :: int
  par_RetryDelay :: int
  par_Protocol :: Protocol

definition DefaultParameters :: Parameters where
  "DefaultParameters = \<lparr>par_SyncTimeout = 500, par_NetwrokDelay = 2000, par_MinBlockDelay = 0,
     par_DDos = False, par_Faults = 0, par_RetryDelay = 5000, par_Protocol = SMVBA\<rparr>"

section \<open>The committee\<close>

definition NONE :: NodeID where
  "NONE = - 1"

record Authority =
  au_Name :: PublickKey
  au_Id :: NodeID
  au_Addr :: string

definition zero_Authority :: Authority where
  "zero_Authority = \<lparr>au_Name = \<lparr>Pubkey = []\<rparr>, au_Id = 0, au_Addr = []\<rparr>"

record Committee =
  Authorities :: "(NodeID \<times> Authority) list"

fun find_name :: "(NodeID \<times> Authority) list \<Rightarrow> bytes \<Rightarrow> NodeID" where
  "find_name [] pk = NONE"
| "find_name ((i, a) # as) pk = (if Pubkey (au_Name a) = pk then i else find_name as pk)"

definition Committee_ID :: "Committee \<Rightarrow> PublickKey \<Rightarrow> NodeID" where
  "Committee_ID c name = find_name (Authorities c) (Pubkey name)"

definition Committee_Size :: "Committee \<Rightarrow> int" where
  "Committee_Size c = int (length (Authorities c))"

text \<open>Reading a missing key of a Go map gives the zero value.\<close>

definition lookup_authority :: "Committee \<Rightarrow> NodeID \<Rightarrow> Authority" where
  "lookup_authority c i = (case map_of (Authorities c) i of None \<Rightarrow> zero_Authority | Some a \<Rightarrow> a)"

definition Committee_Name :: "Committee \<Rightarrow> NodeID \<Rightarrow> PublickKey" where
  "Committee_Name c i = au_Name (lookup_authority c i)"

definition Committee_Address :: "Committee \<Rightarrow> NodeID \<Rightarrow> string" where
  "Committee_Address c i = au_Addr (lookup_authority c i)"

fun broadcast_addrs :: "(NodeID \<times> Authority) list \<Rightarrow> NodeID \<Rightarrow> string list" where
  "broadcast_addrs [] i = []"
| "broadcast_addrs ((j, a) # as) i =
     (if j \<noteq> i then au_Addr a # broadcast_addrs as i else broadcast_addrs as i)"

definition Committee_BroadCast :: "Committee \<Rightarrow> NodeID \<Rightarrow> string list" where
  "Committee_BroadCast c i = broadcast_addrs (Authorities c) i"

definition HightThreshold :: "Committee \<Rightarrow> int" where
  "HightThreshold c = (let n = int (length (Authorities c)) in 2 * ((n - 1) sdiv 3) + 1)"

definition LowThreshold :: "Committee \<Rightarrow> int" where
  "LowThreshold c = (let n = int (length (Authorities c)) in (n - 1) sdiv 3 + 1)"

section \<open>Well-formed committees\<close>

definition members :: "Committee \<Rightarrow> NodeID set" where
  "members c = fst ` set (Authorities c)"

definition wf_committee :: "Committee \<Rightarrow> bool" where
  "wf_committee c \<longleftrightarrow> distinct (map fst (Authorities c)) \<and> Authorities c \<noteq> []"

text \<open>The number of faults the thresholds are computed from.\<close>

definition faults :: "Committee \<Rightarrow> nat" where
  "faults c = (length (Authorities c) - 1) div 3"

lemma finite_members [simp]: "finite (members c)"
  by (simp add: members_def)

lemma card_members: "wf_committee c \<Longrightarrow> card (members c) = length (Authorities c)"
  unfolding members_def wf_committee_def
  by (metis card_image distinct_card distinct_map length_map set_map)

lemma sdiv3: "((int n - 1) sdiv 3) = int ((n - 1) div 3)"
proof (cases n)
  case 0
  then show ?thesis by (simp add: signed_divide_int_def)
next
  case (Suc m)
  then show ?thesis
    by (cases m) (auto simp: signed_divide_int_def zdiv_int sgn_if)
qed

lemma HightThreshold_eq: "HightThreshold c = int (2 * faults c + 1)"
  by (simp add: HightThreshold_def faults_def sdiv3)

lemma LowThreshold_eq: "LowThreshold c = int (faults c + 1)"
  by (simp add: LowThreshold_def faults_def sdiv3)

lemma thresholds_pos [simp]: "0 < HightThreshold c" "0 < LowThreshold c"
  by (simp_all add: HightThreshold_eq LowThreshold_eq)

lemma Low_le_Hight: "LowThreshold c \<le> HightThreshold c"
  by (simp add: HightThreshold_eq LowThreshold_eq)

lemma Low_eq_Hight_iff: "LowThreshold c = HightThreshold c \<longleftrightarrow> length (Authorities c) \<le> 3"
  by (auto simp: HightThreshold_eq LowThreshold_eq faults_def)

lemma not_member_zero: "i \<notin> members c \<Longrightarrow> lookup_authority c i = zero_Authority"
  by (simp add: lookup_authority_def members_def map_of_eq_None_iff [THEN iffD2])

section \<open>Quorums\<close>

text \<open>
  What the protocols need of the thresholds: two high quorums share more members than can be
  faulty, and the members that are not faulty are enough for one.
\<close>

locale quorums =
  fixes memb :: "'c \<Rightarrow> 'n set"
    and high :: "'c \<Rightarrow> nat"
    and bad :: "'c \<Rightarrow> nat"
    and ok :: "'c \<Rightarrow> bool"
  assumes memb_finite: "ok c \<Longrightarrow> finite (memb c)"
    and overlap: "ok c \<Longrightarrow> card (memb c) + bad c < 2 * high c"
    and avail: "ok c \<Longrightarrow> high c + bad c \<le> card (memb c)"
begin

lemma card_overlap:
  assumes "ok c" "A \<subseteq> memb c" "B \<subseteq> memb c" "high c \<le> card A" "high c \<le> card B"
  shows "bad c < card (A \<inter> B)"
proof -
  have fin: "finite A" "finite B"
    using assms(1-3) memb_finite finite_subset by blast+
  have "card (A \<union> B) \<le> card (memb c)"
    using assms(1-3) memb_finite by (intro card_mono) auto
  moreover have "card A + card B = card (A \<union> B) + card (A \<inter> B)"
    using fin by (rule card_Un_Int)
  ultimately show ?thesis
    using assms(4,5) overlap [OF assms(1)] by linarith
qed

lemma common_correct:
  assumes "ok c" "A \<subseteq> memb c" "B \<subseteq> memb c" "high c \<le> card A" "high c \<le> card B"
    and "finite F" "card F \<le> bad c"
  shows "\<exists>x. x \<in> A \<inter> B \<and> x \<notin> F"
proof (rule ccontr)
  assume "\<not> ?thesis"
  then have "A \<inter> B \<subseteq> F" by blast
  then have "card (A \<inter> B) \<le> card F"
    using assms(6) by (rule card_mono [rotated])
  then show False
    using card_overlap [OF assms(1-5)] assms(7) by linarith
qed

lemma correct_quorum:
  assumes "ok c" "F \<subseteq> memb c" "card F \<le> bad c"
  shows "high c \<le> card (memb c - F)"
proof -
  have "card (memb c - F) = card (memb c) - card F"
    using assms(1,2) memb_finite finite_subset by (intro card_Diff_subset) blast+
  then show ?thesis
    using avail [OF assms(1)] assms(3) by linarith
qed

end

text \<open>A committee of \<open>3 f + 1\<close> members.\<close>

definition bft_committee :: "Committee \<Rightarrow> bool" where
  "bft_committee c \<longleftrightarrow> wf_committee c \<and> length (Authorities c) mod 3 = 1"

lemma bft_size: "bft_committee c \<Longrightarrow> length (Authorities c) = 3 * faults c + 1"
proof -
  assume "bft_committee c"
  then have "length (Authorities c) mod 3 = 1" by (simp add: bft_committee_def)
  then show ?thesis unfolding faults_def by presburger
qed

interpretation cq: quorums members "\<lambda>c. nat (HightThreshold c)" faults bft_committee
proof unfold_locales
  fix c
  assume ok: "bft_committee c"
  have n: "card (members c) = 3 * faults c + 1"
    using bft_size [OF ok] card_members [of c] ok unfolding bft_committee_def by simp
  show "finite (members c)" by simp
  show "card (members c) + faults c < 2 * nat (HightThreshold c)"
    by (simp add: n HightThreshold_eq nat_add_distrib)
  show "nat (HightThreshold c) + faults c \<le> card (members c)"
    by (simp add: n HightThreshold_eq nat_add_distrib)
qed

text \<open>Two sets of prescribed size that share as little as possible.\<close>

lemma small_overlap:
  assumes "finite M" "q \<le> card M"
  obtains A B where "A \<subseteq> M" "B \<subseteq> M" "card A = q" "card B = q" "card (A \<inter> B) = 2 * q - card M"
proof -
  obtain A where A: "A \<subseteq> M" "card A = q" "finite A"
    using obtain_subset_with_card_n [OF assms(2)] .
  have co: "card (M - A) = card M - q" "finite (M - A)"
    using A assms by (simp_all add: card_Diff_subset)
  show ?thesis
  proof (cases "q \<le> card M - q")
    case True
    then obtain B where B: "B \<subseteq> M - A" "card B = q"
      using obtain_subset_with_card_n [of q "M - A"] co by auto
    then have "A \<inter> B = {}" by blast
    then show ?thesis
      using that [of A B] A B True assms(2) by auto
  next
    case False
    then have "2 * q - card M \<le> card A" using A assms(2) by linarith
    then obtain E where E: "E \<subseteq> A" "card E = 2 * q - card M" "finite E"
      by (rule obtain_subset_with_card_n)
    have "card (E \<union> (M - A)) = card E + card (M - A)"
      using E co A by (intro card_Un_disjoint) auto
    then have "card (E \<union> (M - A)) = q"
      using E co False assms(2) by linarith
    moreover have "A \<inter> (E \<union> (M - A)) = E" using E by blast
    ultimately show ?thesis
      using that [of A "E \<union> (M - A)"] A E by auto
  qed
qed

section \<open>Lookups and broadcast\<close>

lemma broadcast_addrs_eq:
  "broadcast_addrs as i = map (au_Addr \<circ> snd) (filter (\<lambda>(j, a). j \<noteq> i) as)"
  by (induction as i rule: broadcast_addrs.induct) auto

lemma find_name_NONE: "(\<And>j a. (j, a) \<in> set as \<Longrightarrow> Pubkey (au_Name a) \<noteq> pk) \<Longrightarrow> find_name as pk = NONE"
  by (induction as pk rule: find_name.induct) auto

lemma find_name_in: "(j, a) \<in> set as \<Longrightarrow> Pubkey (au_Name a) = pk \<Longrightarrow>
    \<exists>a'. (find_name as pk, a') \<in> set as \<and> Pubkey (au_Name a') = pk"
  by (induction as pk rule: find_name.induct) auto

end
