(* ===== verification/Network.thy ===== *)
theory Network
  imports Committee
begin

text \<open>
  \<^verbatim>\<open>network/codec.go\<close>, \<^verbatim>\<open>network/network.go\<close> and \<^verbatim>\<open>core/transmitor.go\<close>: the framing of messages on
  a connection, the sender with one queue per connection, and the transmitor between a protocol
  core and the network. A channel is the list of what has been sent on it and not yet received,
  oldest first; that a full channel blocks its sender is not modelled.
\<close>

section \<open>The codec\<close>

text \<open>
  A gob stream is a sequence of values. \<open>gob_as ty m\<close> is what gob gives when the value \<open>m\<close> is
  decoded into a fresh struct of type \<open>ty\<close>; \<open>gob_err\<close> is the error it reports on encoding.
\<close>

datatype 'm wire = WInt int | WMsg 'm

definition ErrEOF :: error where
  "ErrEOF = ErrExt ''EOF''"

definition ErrGobType :: error where
  "ErrGobType = ErrExt ''gob: wrong type''"

record 'ty Codec =
  cc_types :: "int \<rightharpoonup> 'ty"

definition NewCodec :: "(int \<rightharpoonup> 'ty) \<Rightarrow> 'ty Codec" where
  "NewCodec types = \<lparr>cc_types = types\<rparr>"

text \<open>The type number is written before the message is encoded, and stays on the stream when
  encoding the message fails.\<close>

definition Codec_Write ::
  "('m \<Rightarrow> int) \<Rightarrow> ('m \<Rightarrow> error option) \<Rightarrow> 'm \<Rightarrow> 'm wire list \<Rightarrow> error option \<times> 'm wire list" where
  "Codec_Write MsgType gob_err msg stream =
     (let stream1 = stream @ [WInt (MsgType msg)] in
      case gob_err msg of
        Some e \<Rightarrow> (Some e, stream1)
      | None \<Rightarrow> (None, stream1 @ [WMsg msg]))"

text \<open>
  \<open>None\<close> is the panic of \<^verbatim>\<open>reflect.New\<close> on the nil type a missing type number gives; the result
  holds the message or the error, and the rest of the stream.
\<close>

fun Codec_Read ::
  "('ty \<Rightarrow> 'm \<Rightarrow> error + 'm) \<Rightarrow> 'ty Codec \<Rightarrow> 'm wire list \<Rightarrow> ((error + 'm) \<times> 'm wire list) option" where
  "Codec_Read gob_as cc [] = Some (Inl ErrEOF, [])"
| "Codec_Read gob_as cc (WMsg m # s) = Some (Inl ErrGobType, s)"
| "Codec_Read gob_as cc (WInt typeId # s) =
     (case cc_types cc typeId of
        None \<Rightarrow> None
      | Some ty \<Rightarrow>
          (case s of
             [] \<Rightarrow> Some (Inl ErrEOF, [])
           | WInt _ # s' \<Rightarrow> Some (Inl ErrGobType, s')
           | WMsg m # s' \<Rightarrow> Some (gob_as ty m, s')))"

text \<open>\<^verbatim>\<open>Receiver.serveConn\<close>: messages are passed on until the first error ends the connection.\<close>

function serveConn ::
  "('ty \<Rightarrow> 'm \<Rightarrow> error + 'm) \<Rightarrow> 'ty Codec \<Rightarrow> 'm wire list \<Rightarrow> 'm list \<Rightarrow> 'm list option" where
  "serveConn gob_as cc s ch =
     (case Codec_Read gob_as cc s of
        None \<Rightarrow> None
      | Some (Inl e, s') \<Rightarrow> Some ch
      | Some (Inr m, s') \<Rightarrow> if length s' < length s then serveConn gob_as cc s' (ch @ [m]) else Some ch)"
  by pat_completeness auto
termination
  by (relation "measure (\<lambda>(g, c, s, ch). length s)") auto

declare serveConn.simps [simp del]

lemma Codec_Read_shorter: "Codec_Read g cc s = Some (Inr m, s') \<Longrightarrow> length s' < length s"
  by (induction g cc s rule: Codec_Read.induct)
     (auto split: option.splits list.splits wire.splits)

lemma Codec_roundtrip:
  assumes "gob_err m = None" "cc_types cc (MsgType m) = Some ty" "gob_as ty m = Inr m"
  shows "Codec_Write MsgType gob_err m [] = (None, [WInt (MsgType m), WMsg m])"
    and "Codec_Read gob_as cc (snd (Codec_Write MsgType gob_err m []) @ rest) = Some (Inr m, rest)"
  using assms by (simp_all add: Codec_Write_def)

fun write_all :: "('m \<Rightarrow> int) \<Rightarrow> ('m \<Rightarrow> error option) \<Rightarrow> 'm list \<Rightarrow> 'm wire list" where
  "write_all MsgType gob_err [] = []"
| "write_all MsgType gob_err (m # ms) =
     snd (Codec_Write MsgType gob_err m []) @ write_all MsgType gob_err ms"

lemma serve_write_all:
  assumes "\<And>m. m \<in> set ms \<Longrightarrow> gob_err m = None"
    and "\<And>m. m \<in> set ms \<Longrightarrow> \<exists>ty. cc_types cc (MsgType m) = Some ty \<and> gob_as ty m = Inr m"
  shows "serveConn gob_as cc (write_all MsgType gob_err ms) ch = Some (ch @ ms)"
  using assms
proof (induction ms arbitrary: ch)
  case Nil
  then show ?case by (simp add: serveConn.simps)
next
  case (Cons m ms)
  obtain ty where "cc_types cc (MsgType m) = Some ty" "gob_as ty m = Inr m" "gob_err m = None"
    using Cons.prems by auto
  then have "serveConn gob_as cc (write_all MsgType gob_err (m # ms)) ch =
      serveConn gob_as cc (write_all MsgType gob_err ms) (ch @ [m])"
    by (subst serveConn.simps) (simp add: Codec_Write_def)
  also have "\<dots> = Some ((ch @ [m]) @ ms)"
    by (rule Cons.IH) (use Cons.prems in auto)
  finally show ?case by simp
qed

section \<open>The sender\<close>

record 'm NetMessage =
  nm_Msg :: 'm
  nm_Address :: "string list"

text \<open>
  A connection is the queue of the messages put on its channel. \<open>dial\<close> says whether
  \<^verbatim>\<open>net.Dial\<close> fails for an address while a message is being sent.
\<close>

type_synonym 'm conns = "string \<rightharpoonup> 'm list"

fun Sender_send :: "(string \<Rightarrow> error option) \<Rightarrow> 'm \<Rightarrow> string list \<Rightarrow> 'm conns \<Rightarrow> 'm conns" where
  "Sender_send dial msg [] conns = conns"
| "Sender_send dial msg (addr # addrs) conns =
     (case conns addr of
        Some conn \<Rightarrow> Sender_send dial msg addrs (conns(addr \<mapsto> conn @ [msg]))
      | None \<Rightarrow>
          (case dial addr of
             Some e \<Rightarrow> Sender_send dial msg addrs conns
           | None \<Rightarrow> Sender_send dial msg addrs (conns(addr \<mapsto> [msg]))))"

text \<open>\<^verbatim>\<open>Sender.Run\<close> over the messages taken from its channel, each with the dial outcomes it meets.\<close>

fun Sender_Run :: "((string \<Rightarrow> error option) \<times> 'm NetMessage) list \<Rightarrow> 'm conns \<Rightarrow> 'm conns" where
  "Sender_Run [] conns = conns"
| "Sender_Run ((dial, msg) # msgs) conns =
     Sender_Run msgs (Sender_send dial (nm_Msg msg) (nm_Address msg) conns)"

lemma Sender_send_connected:
  "conns a = Some q \<Longrightarrow>
   Sender_send dial msg addrs conns a = Some (q @ replicate (count_list addrs a) msg)"
proof (induction addrs arbitrary: conns q)
  case Nil
  then show ?case by simp
next
  case (Cons addr addrs)
  show ?case
  proof (cases "addr = a")
    case True
    then show ?thesis
      using Cons.prems Cons.IH [of "conns(addr \<mapsto> q @ [msg])" "q @ [msg]"]
      by (simp add: fun_upd_same del: fun_upd_apply)
  next
    case False
    then show ?thesis
      using Cons.prems Cons.IH by (simp split: option.split)
  qed
qed

text \<open>What was sent to an address, in order, once for each time the message names it.\<close>

definition sent_to :: "string \<Rightarrow> ((string \<Rightarrow> error option) \<times> 'm NetMessage) list \<Rightarrow> 'm list" where
  "sent_to a msgs = concat (map (\<lambda>(d, m). replicate (count_list (nm_Address m) a) (nm_Msg m)) msgs)"

lemma Sender_Run_connected:
  "conns a = Some q \<Longrightarrow> Sender_Run msgs conns a = Some (q @ sent_to a msgs)"
  by (induction msgs conns arbitrary: q rule: Sender_Run.induct)
     (simp_all add: sent_to_def Sender_send_connected)

section \<open>The transmitor\<close>

record 'm Transmitor =
  tr_recvCh :: "'m list"
  tr_msgCh :: "'m NetMessage list"
  tr_parameters :: Parameters
  tr_committee :: Committee

definition NewTransmitor :: "Parameters \<Rightarrow> Committee \<Rightarrow> 'm Transmitor" where
  "NewTransmitor parameters committee =
     \<lparr>tr_recvCh = [], tr_msgCh = [], tr_parameters = parameters, tr_committee = committee\<rparr>"

definition Transmitor_Send :: "NodeID \<Rightarrow> NodeID \<Rightarrow> 'm \<Rightarrow> 'm Transmitor \<Rightarrow> 'm Transmitor" where
  "Transmitor_Send from to msg tr =
     (let addr = (if to = NONE then Committee_BroadCast (tr_committee tr) from
                  else [Committee_Address (tr_committee tr) to])
      in tr\<lparr>tr_msgCh := tr_msgCh tr @ [\<lparr>nm_Msg = msg, nm_Address = addr\<rparr>]\<rparr>)"

text \<open>\<^verbatim>\<open>tr.RecvChannel() <- msg\<close>: a core puts its own message in its own queue.\<close>

definition RecvChannel_push :: "'m \<Rightarrow> 'm Transmitor \<Rightarrow> 'm Transmitor" where
  "RecvChannel_push msg tr = tr\<lparr>tr_recvCh := tr_recvCh tr @ [msg]\<rparr>"

text \<open>\<^verbatim>\<open>Transmitor.Recv\<close> takes the oldest message; it waits while there is none.\<close>

definition Transmitor_Recv :: "'m Transmitor \<Rightarrow> ('m \<times> 'm Transmitor) option" where
  "Transmitor_Recv tr =
     (case tr_recvCh tr of [] \<Rightarrow> None | m # ms \<Rightarrow> Some (m, tr\<lparr>tr_recvCh := ms\<rparr>))"

lemma tr_Send_fields [simp]:
  "tr_recvCh (Transmitor_Send from to m tr) = tr_recvCh tr"
  "tr_committee (Transmitor_Send from to m tr) = tr_committee tr"
  "tr_parameters (Transmitor_Send from to m tr) = tr_parameters tr"
  by (simp_all add: Transmitor_Send_def Let_def)

lemma tr_push_fields [simp]:
  "tr_recvCh (RecvChannel_push m tr) = tr_recvCh tr @ [m]"
  "tr_msgCh (RecvChannel_push m tr) = tr_msgCh tr"
  "tr_committee (RecvChannel_push m tr) = tr_committee tr"
  "tr_parameters (RecvChannel_push m tr) = tr_parameters tr"
  by (simp_all add: RecvChannel_push_def)

lemma tr_msgCh_Send [simp]:
  "map nm_Msg (tr_msgCh (Transmitor_Send from to m tr)) = map nm_Msg (tr_msgCh tr) @ [m]"
  by (simp add: Transmitor_Send_def Let_def)

end
