(* ===== verification/Pool.thy ===== *)
theory Pool
  imports Prelude
begin

text \<open>
  \<^verbatim>\<open>pool/pool.go\<close>, \<^verbatim>\<open>pool/message.go\<close> and \<^verbatim>\<open>pool/config.go\<close>: batches, the transaction queue that
  makes them, and the pool. A nil slice of transactions, which the sources tell apart from an
  empty one, is \<open>None\<close>. The transaction maker's body is commented out in the source, so nothing
  is ever sent on the transaction channel.
\<close>

type_synonym Transaction = bytes

record Batch =
  bt_ID :: int
  bt_Txs :: "Transaction list option"

definition zero_Batch :: Batch where
  "zero_Batch = \<lparr>bt_ID = 0, bt_Txs = None\<rparr>"

record pool_Parameters =
  pp_Rate :: int
  pp_TxSize :: int
  pp_BatchSize :: int
  pp_MaxQueueSize :: int

definition pool_DefaultParameters :: pool_Parameters where
  "pool_DefaultParameters = \<lparr>pp_Rate = 1000, pp_TxSize = 16, pp_BatchSize = 200, pp_MaxQueueSize = 10000\<rparr>"

section \<open>The transaction queue\<close>

record txQueue =
  q_queue :: "Transaction list"
  q_batchChannel :: "Batch list"
  q_wind :: int
  q_rind :: int
  q_nums :: int
  q_maxQueueSize :: int
  q_batchSize :: int
  q_txSize :: int
  q_N :: int
  q_Id :: int
  q_bcnt :: int

text \<open>\<^verbatim>\<open>make([]Transaction, n)\<close> panics for a negative \<open>n\<close>. The field \<^verbatim>\<open>txSize\<close> is not set.\<close>

definition newTxQueue ::
  "int \<Rightarrow> int \<Rightarrow> Batch list \<Rightarrow> int \<Rightarrow> int \<Rightarrow> int \<Rightarrow> txQueue option" where
  "newTxQueue maxQueueSize batchSize batchChannel N nid txSize =
     (if maxQueueSize < 0 then None
      else Some \<lparr>q_queue = replicate (nat maxQueueSize) [], q_batchChannel = batchChannel,
             q_wind = 0, q_rind = - 1, q_nums = 0, q_maxQueueSize = maxQueueSize,
             q_batchSize = batchSize, q_txSize = 0, q_N = N, q_Id = nid, q_bcnt = 0\<rparr>)"

text \<open>The loop of \<^verbatim>\<open>make\<close>: one blank transaction appended per turn.\<close>

fun make_txs :: "nat \<Rightarrow> Transaction \<Rightarrow> Transaction list option \<Rightarrow> Transaction list option" where
  "make_txs 0 tx txs = txs"
| "make_txs (Suc n) tx txs = make_txs n tx (Some ((case txs of None \<Rightarrow> [] | Some l \<Rightarrow> l) @ [tx]))"

definition txQueue_make :: "txQueue \<Rightarrow> txQueue option" where
  "txQueue_make q =
     (if 0 < q_batchSize q \<and> q_txSize q < 0 then None
      else let batch = \<lparr>bt_ID = q_Id q + q_N q * q_bcnt q,
                        bt_Txs = make_txs (nat (q_batchSize q)) (replicate (nat (q_txSize q)) 0) None\<rparr>
           in Some (q\<lparr>q_batchChannel := q_batchChannel q @ [batch], q_bcnt := q_bcnt q + 1\<rparr>))"

definition txQueue_put :: "Batch \<Rightarrow> txQueue \<Rightarrow> txQueue" where
  "txQueue_put b q = q\<lparr>q_batchChannel := q_batchChannel q @ [b]\<rparr>"

text \<open>Receiving from a channel: nothing to take means waiting for ever, as this goroutine is the
  one that would send.\<close>

definition batch_recv :: "txQueue \<Rightarrow> (Batch \<times> txQueue) option" where
  "batch_recv q =
     (case q_batchChannel q of [] \<Rightarrow> None | b # bs \<Rightarrow> Some (b, q\<lparr>q_batchChannel := bs\<rparr>))"

definition txQueue_get :: "txQueue \<Rightarrow> (Batch \<times> txQueue) option" where
  "txQueue_get q =
     (if 0 < length (q_batchChannel q) then batch_recv q
      else do { q1 \<leftarrow> txQueue_make q; batch_recv q1 })"

text \<open>
  \<^verbatim>\<open>run\<close> over the transactions received: it stops when the write index meets the read index.
  An index outside the queue, and the remainder by zero, panic.
\<close>

fun txQueue_run :: "Transaction list \<Rightarrow> txQueue \<Rightarrow> txQueue option" where
  "txQueue_run [] q = Some q"
| "txQueue_run (tx # txs) q =
     (if q_wind q = q_rind q then Some q
      else if q_wind q < 0 \<or> int (length (q_queue q)) \<le> q_wind q \<or> q_maxQueueSize q = 0 then None
      else let q1 = q\<lparr>q_queue := (q_queue q)[nat (q_wind q) := tx],
                      q_wind := (q_wind q + 1) smod q_maxQueueSize q, q_nums := q_nums q + 1\<rparr>
           in if q_batchSize q1 \<le> q_nums q1
              then do { q2 \<leftarrow> txQueue_make q1; txQueue_run txs q2 }
              else txQueue_run txs q1)"

section \<open>The pool\<close>

record Pool =
  p_parameters :: pool_Parameters
  p_queue :: txQueue

definition NewPool :: "pool_Parameters \<Rightarrow> int \<Rightarrow> int \<Rightarrow> Pool option" where
  "NewPool parameters N nid =
     do { q \<leftarrow> newTxQueue (pp_MaxQueueSize parameters) (pp_BatchSize parameters) [] N nid (pp_TxSize parameters);
          Some \<lparr>p_parameters = parameters, p_queue = q\<rparr> }"

definition GetBatch :: "Pool \<Rightarrow> (Batch \<times> Pool) option" where
  "GetBatch p = do { (b, q) \<leftarrow> txQueue_get (p_queue p); Some (b, p\<lparr>p_queue := q\<rparr>) }"

definition PutBatch :: "Batch \<Rightarrow> Pool \<Rightarrow> Pool" where
  "PutBatch b p = p\<lparr>p_queue := txQueue_put b (p_queue p)\<rparr>"

section \<open>The queue's invariant\<close>

lemma make_txs_eq:
  "make_txs n tx txs =
     (if n = 0 then txs else Some ((case txs of None \<Rightarrow> [] | Some l \<Rightarrow> l) @ replicate n tx))"
  by (induction n tx txs rule: make_txs.induct) (auto simp: replicate_app_Cons_same split: option.splits)

text \<open>
  A pool that can make batches: no negative sizes, and every batch number handed out so far
  comes from its own counter.
\<close>

definition pool_wf :: "Pool \<Rightarrow> bool" where
  "pool_wf p \<longleftrightarrow> q_txSize (p_queue p) = 0 \<and> 0 \<le> q_bcnt (p_queue p)"

text \<open>The numbers the queue has given, or may give, to its own batches.\<close>

definition own_ID :: "Pool \<Rightarrow> int \<Rightarrow> bool" where
  "own_ID p i \<longleftrightarrow> (\<exists>k. 0 \<le> k \<and> k < q_bcnt (p_queue p) \<and> i = q_Id (p_queue p) + q_N (p_queue p) * k)"

lemma pool_wf_New: "NewPool par N nid = Some p \<Longrightarrow> pool_wf p"
  by (auto simp: NewPool_def newTxQueue_def pool_wf_def split: if_splits)

lemma GetBatch_cases:
  assumes "pool_wf p"
  obtains (queued) b bs where "q_batchChannel (p_queue p) = b # bs"
      "GetBatch p = Some (b, p\<lparr>p_queue := (p_queue p)\<lparr>q_batchChannel := bs\<rparr>\<rparr>)"
    | (fresh) b where "q_batchChannel (p_queue p) = []"
      "bt_ID b = q_Id (p_queue p) + q_N (p_queue p) * q_bcnt (p_queue p)"
      "GetBatch p = Some (b, p\<lparr>p_queue := (p_queue p)\<lparr>q_bcnt := q_bcnt (p_queue p) + 1\<rparr>\<rparr>)"
proof (cases "q_batchChannel (p_queue p)")
  case Nil
  then show ?thesis
    using assms fresh
    by (fastforce simp: GetBatch_def txQueue_get_def txQueue_make_def batch_recv_def pool_wf_def Let_def)
next
  case (Cons b bs)
  then show ?thesis
    using queued by (simp add: GetBatch_def txQueue_get_def batch_recv_def)
qed

lemma GetBatch_total: "pool_wf p \<Longrightarrow> \<exists>b p'. GetBatch p = Some (b, p')"
  by (erule GetBatch_cases) blast+

lemma GetBatch_wf [inv_intros]: "GetBatch p = Some (b, p') \<Longrightarrow> pool_wf p \<Longrightarrow> pool_wf p'"
  by (frule GetBatch_cases) (auto simp: pool_wf_def)

lemma PutBatch_wf [inv_intros]: "pool_wf p \<Longrightarrow> pool_wf (PutBatch b p)"
  by (simp add: pool_wf_def PutBatch_def txQueue_put_def)

lemma GetBatch_config:
  assumes "GetBatch p = Some (b, p')" "pool_wf p"
  shows "q_Id (p_queue p') = q_Id (p_queue p)" "q_N (p_queue p') = q_N (p_queue p)"
  using assms(2,1) by (cases rule: GetBatch_cases; auto)+

text \<open>Successive calls of \<^verbatim>\<open>GetBatch\<close>.\<close>

fun GetBatches :: "nat \<Rightarrow> Pool \<Rightarrow> (Batch list \<times> Pool) option" where
  "GetBatches 0 p = Some ([], p)"
| "GetBatches (Suc n) p =
     do { (b, p1) \<leftarrow> GetBatch p; (bs, p2) \<leftarrow> GetBatches n p1; Some (b # bs, p2) }"

lemma GetBatches_fresh:
  assumes "pool_wf p" "q_batchChannel (p_queue p) = []"
  shows "\<exists>bs p'. GetBatches n p = Some (bs, p') \<and>
     map bt_ID bs = map (\<lambda>k. q_Id (p_queue p) + q_N (p_queue p) * (q_bcnt (p_queue p) + int k)) [0..<n]"
  using assms
proof (induction n arbitrary: p)
  case 0
  then show ?case by simp
next
  case (Suc n)
  obtain b where b: "bt_ID b = q_Id (p_queue p) + q_N (p_queue p) * q_bcnt (p_queue p)"
    and get: "GetBatch p = Some (b, p\<lparr>p_queue := (p_queue p)\<lparr>q_bcnt := q_bcnt (p_queue p) + 1\<rparr>\<rparr>)"
    using Suc.prems by (auto elim: GetBatch_cases)
  let ?p = "p\<lparr>p_queue := (p_queue p)\<lparr>q_bcnt := q_bcnt (p_queue p) + 1\<rparr>\<rparr>"
  have "pool_wf ?p" using get Suc.prems(1) by (rule GetBatch_wf)
  then obtain bs p' where bs: "GetBatches n ?p = Some (bs, p')"
    "map bt_ID bs = map (\<lambda>k. q_Id (p_queue ?p) + q_N (p_queue ?p) * (q_bcnt (p_queue ?p) + int k)) [0..<n]"
    using Suc.IH [of ?p] Suc.prems(2) by auto
  have "map (\<lambda>k. q_Id (p_queue p) + q_N (p_queue p) * (q_bcnt (p_queue p) + int k)) [0..<Suc n] =
      bt_ID b # map bt_ID bs"
    unfolding map_upt_Suc by (simp add: b bs(2) algebra_simps)
  with get bs show ?case by auto
qed

end
