(* ===== verification/Store.thy ===== *)
theory Store
  imports Prelude
begin

text \<open>
  \<^verbatim>\<open>store/store.go\<close> and \<^verbatim>\<open>store/nutsdb.go\<close>: the key-value store behind a request channel, over the
  interface \<^verbatim>\<open>DB\<close>. An interface value is the record of its methods together with the state they
  work on. \<open>NutsDB_DB\<close> is the method set of \<^verbatim>\<open>NutsDB\<close> over the \<^verbatim>\<open>Get\<close> and \<^verbatim>\<open>Put\<close> of a nutsdb
  transaction, which are arguments.
\<close>

section \<open>The interface and the nutsdb driver\<close>

record 'db DB =
  db_Put :: "bytes \<Rightarrow> bytes \<Rightarrow> 'db \<Rightarrow> error option \<times> 'db"
  db_Get :: "bytes \<Rightarrow> 'db \<Rightarrow> bytes \<times> error option"

definition DefaultBucket :: string where
  "DefaultBucket = ''DefaultBucket''"

text \<open>\<^verbatim>\<open>View\<close> and \<^verbatim>\<open>Update\<close> run the function in a transaction; \<^verbatim>\<open>Update\<close> returns its error. The
  values of \<^verbatim>\<open>Get\<close> reach the caller through the captured result variables.\<close>

definition NutsDB_Get ::
  "(string \<Rightarrow> bytes \<Rightarrow> 'db \<Rightarrow> bytes \<times> error option) \<Rightarrow> bytes \<Rightarrow> 'db \<Rightarrow> bytes \<times> error option" where
  "NutsDB_Get tx_Get key db = (let (val, err) = tx_Get DefaultBucket key db in (val, err))"

definition NutsDB_Put ::
  "(string \<Rightarrow> bytes \<Rightarrow> bytes \<Rightarrow> nat \<Rightarrow> 'db \<Rightarrow> error option \<times> 'db) \<Rightarrow> bytes \<Rightarrow> bytes \<Rightarrow> 'db \<Rightarrow>
     error option \<times> 'db" where
  "NutsDB_Put tx_Put key val db =
     (case tx_Put DefaultBucket key val 0 db of
        (Some err, db') \<Rightarrow> (Some err, db')
      | (None, db') \<Rightarrow> (None, db'))"

definition NutsDB_DB ::
  "(string \<Rightarrow> bytes \<Rightarrow> 'db \<Rightarrow> bytes \<times> error option) \<Rightarrow>
   (string \<Rightarrow> bytes \<Rightarrow> bytes \<Rightarrow> nat \<Rightarrow> 'db \<Rightarrow> error option \<times> 'db) \<Rightarrow> 'db DB" where
  "NutsDB_DB tx_Get tx_Put = \<lparr>db_Put = NutsDB_Put tx_Put, db_Get = NutsDB_Get tx_Get\<rparr>"

section \<open>The store\<close>

datatype reqTyp = READ | WRITE

record storeReq =
  rq_typ :: reqTyp
  rq_key :: bytes
  rq_val :: bytes
  rq_err :: "error option"

record 'db Store =
  st_db :: 'db
  st_ops :: "'db DB"

definition NewStore :: "'db DB \<Rightarrow> 'db \<Rightarrow> 'db Store" where
  "NewStore ops db = \<lparr>st_db = db, st_ops = ops\<rparr>"

text \<open>The body of the store's loop for one request; the caller waits for its request to be done.\<close>

definition Store_serve :: "storeReq \<Rightarrow> 'db Store \<Rightarrow> storeReq \<times> 'db Store" where
  "Store_serve req s =
     (case rq_typ req of
        READ \<Rightarrow>
          (let (val, err) = db_Get (st_ops s) (rq_key req) (st_db s)
           in (req\<lparr>rq_val := val, rq_err := err\<rparr>, s))
      | WRITE \<Rightarrow>
          (let (err, db') = db_Put (st_ops s) (rq_key req) (rq_val req) (st_db s)
           in (req\<lparr>rq_err := err\<rparr>, s\<lparr>st_db := db'\<rparr>)))"

definition Store_Read :: "bytes \<Rightarrow> 'db Store \<Rightarrow> (bytes \<times> error option) \<times> 'db Store" where
  "Store_Read key s =
     (let (req, s') = Store_serve \<lparr>rq_typ = READ, rq_key = key, rq_val = [], rq_err = None\<rparr> s
      in ((rq_val req, rq_err req), s'))"

definition Store_Write :: "bytes \<Rightarrow> bytes \<Rightarrow> 'db Store \<Rightarrow> error option \<times> 'db Store" where
  "Store_Write key val s =
     (let (req, s') = Store_serve \<lparr>rq_typ = WRITE, rq_key = key, rq_val = val, rq_err = None\<rparr> s
      in (rq_err req, s'))"

lemma Store_Read_eq: "Store_Read key s = (db_Get (st_ops s) key (st_db s), s)"
  by (simp add: Store_Read_def Store_serve_def split: prod.splits)

lemma Store_Write_eq:
  "Store_Write key val s =
     (let (err, db') = db_Put (st_ops s) key val (st_db s) in (err, s\<lparr>st_db := db'\<rparr>))"
  by (simp add: Store_Write_def Store_serve_def split: prod.splits)

lemma st_ops_Write [simp]: "st_ops (snd (Store_Write key val s)) = st_ops s"
  by (simp add: Store_Write_eq split: prod.splits)

section \<open>What the code relies on\<close>

text \<open>
  The documented behaviour of the database: a key that was put without an error is read back
  until it is put again, a put touches no other key, and a failed put changes nothing.
\<close>

definition db_laws :: "'db DB \<Rightarrow> bool" where
  "db_laws ops \<longleftrightarrow>
     (\<forall>k v db db'. db_Put ops k v db = (None, db') \<longrightarrow> db_Get ops k db' = (v, None)) \<and>
     (\<forall>k v db e db'. db_Put ops k v db = (Some e, db') \<longrightarrow> db_Get ops k db' = db_Get ops k db) \<and>
     (\<forall>k v db e db' k'. db_Put ops k v db = (e, db') \<longrightarrow> k' \<noteq> k \<longrightarrow> db_Get ops k' db' = db_Get ops k' db)"

lemma Read_Write_same:
  assumes "db_laws (st_ops s)" "Store_Write k v s = (None, s')"
  shows "Store_Read k s' = ((v, None), s')"
  using assms unfolding db_laws_def
  by (auto simp: Store_Read_eq Store_Write_eq Let_def split: prod.splits)

lemma Read_Write_other:
  assumes "db_laws (st_ops s)" "Store_Write k v s = (e, s')" "k' \<noteq> k"
  shows "fst (Store_Read k' s') = fst (Store_Read k' s)"
  using assms unfolding db_laws_def
  by (auto simp: Store_Read_eq Store_Write_eq Let_def split: prod.splits)

text \<open>An instance that satisfies the laws: a map, with an error of the driver's own for a missing key.\<close>

definition map_DB :: "error \<Rightarrow> (bytes \<rightharpoonup> bytes) DB" where
  "map_DB e = \<lparr>db_Put = (\<lambda>k v m. (None, m(k \<mapsto> v))),
     db_Get = (\<lambda>k m. case m k of None \<Rightarrow> ([], Some e) | Some v \<Rightarrow> (v, None))\<rparr>"

lemma map_DB_laws: "db_laws (map_DB e)"
  by (simp add: db_laws_def map_DB_def)

end
