(* ===== verification/Vote_Counting.thy ===== *)
theory Vote_Counting
  imports Committee
begin

text \<open>
  The contract of every vote aggregator in the repository, as two locales. An aggregator
  remembers who voted, refuses a second vote of the same author with an error and without any
  change, and reports its event exactly when the number of different authors reaches a threshold.
  The lemmas speak of a whole sequence of votes, which is what the protocol handlers feed it.
\<close>

section \<open>Feeding votes\<close>

fun feed :: "('v \<Rightarrow> 'a \<Rightarrow> 'r \<times> 'a) \<Rightarrow> 'v list \<Rightarrow> 'a \<Rightarrow> 'r list \<times> 'a" where
  "feed app [] a = ([], a)"
| "feed app (v # vs) a =
     (let (r, a1) = app v a; (rs, a2) = feed app vs a1 in (r # rs, a2))"

lemma feed_Cons:
  "fst (feed app (v # vs) a) = fst (app v a) # fst (feed app vs (snd (app v a)))"
  "snd (feed app (v # vs) a) = snd (feed app vs (snd (app v a)))"
  by (simp_all split: prod.splits)

lemma length_feed [simp]: "length (fst (feed app vs a)) = length vs"
  by (induction vs arbitrary: a) (simp_all add: feed_Cons del: feed.simps(2))

lemma feed_snoc: "snd (feed app (vs @ [v]) a) = snd (app v (snd (feed app vs a)))"
  by (induction vs arbitrary: a) (simp_all add: feed_Cons split: prod.splits del: feed.simps(2))

lemma feed_nth: "i < length vs \<Longrightarrow> fst (feed app vs a) ! i = fst (app (vs ! i) (snd (feed app (take i vs) a)))"
proof (induction vs arbitrary: a i)
  case Nil
  then show ?case by simp
next
  case (Cons v vs)
  then show ?case by (cases i) (simp_all add: feed_Cons del: feed.simps(2))
qed

text \<open>A property of the state that every vote of the sequence keeps holds after all of them.\<close>

lemma feed_invariant:
  assumes "I [] a" "\<And>us u b. I us b \<Longrightarrow> I (us @ [u]) (snd (app u b))"
  shows "I vs (snd (feed app vs a))"
  by (induction vs rule: rev_induct) (use assms in \<open>simp_all add: feed_snoc\<close>)

text \<open>The number of accepted votes whose result is an event.\<close>

definition events :: "('r \<Rightarrow> bool) \<Rightarrow> ('r \<times> error option) list \<Rightarrow> nat" where
  "events ev rs = length (filter (\<lambda>(r, err). err = None \<and> ev r) rs)"

lemma events_Nil [simp]: "events ev [] = 0"
  by (simp add: events_def)

lemma events_Cons [simp]:
  "events ev ((r, err) # rs) = (if err = None \<and> ev r then 1 else 0) + events ev rs"
  by (simp add: events_def)

section \<open>One vote per author\<close>

locale vote_counter =
  fixes auth :: "'a \<Rightarrow> NodeID fset"
    and app :: "'e \<Rightarrow> 'v \<Rightarrow> 'a \<Rightarrow> ('r \<times> error option) \<times> 'a"
    and who :: "'v \<Rightarrow> NodeID"
    and inv :: "'a \<Rightarrow> bool"
    and ok :: "'e \<Rightarrow> bool"
  assumes dup: "who v |\<in>| auth a \<Longrightarrow> \<exists>r err. app e v a = ((r, Some err), a)"
    and new_auth: "ok e \<Longrightarrow> inv a \<Longrightarrow> who v |\<notin>| auth a \<Longrightarrow> auth (snd (app e v a)) = finsert (who v) (auth a)"
    and inv_app: "ok e \<Longrightarrow> inv a \<Longrightarrow> inv (snd (app e v a))"
begin

lemma auth_app: "ok e \<Longrightarrow> inv a \<Longrightarrow> auth (snd (app e v a)) = finsert (who v) (auth a)"
  by (cases "who v |\<in>| auth a") (use dup [of v a e] in \<open>auto simp: new_auth finsert_absorb\<close>)

lemma feed_inv: "ok e \<Longrightarrow> inv a \<Longrightarrow> inv (snd (feed (app e) vs a))"
  by (induction vs arbitrary: a) (simp_all add: feed_Cons inv_app del: feed.simps(2))

lemma feed_auth: "ok e \<Longrightarrow> inv a \<Longrightarrow> auth (snd (feed (app e) vs a)) = auth a |\<union>| fset_of_list (map who vs)"
  by (induction vs arbitrary: a) (simp_all add: feed_Cons inv_app auth_app del: feed.simps(2))

lemma feed_dup_error:
  assumes "ok e" "inv a" "i < length vs" "who (vs ! i) |\<in>| auth a |\<union>| fset_of_list (map who (take i vs))"
  shows "snd (fst (feed (app e) vs a) ! i) \<noteq> None"
  using assms
proof (induction vs arbitrary: a i)
  case Nil
  then show ?case by simp
next
  case (Cons v vs)
  show ?case
  proof (cases i)
    case 0
    then obtain r err where "app e v a = ((r, Some err), a)"
      using Cons.prems dup [of v a e] by auto
    then show ?thesis using 0 by (simp add: feed_Cons del: feed.simps(2))
  next
    case (Suc j)
    then show ?thesis
      using Cons.prems Cons.IH [of "snd (app e v a)" j]
      by (auto simp: feed_Cons inv_app auth_app simp del: feed.simps(2))
  qed
qed

end

section \<open>A threshold of different authors\<close>

locale quorum_counter = vote_counter auth app who inv ok
  for auth :: "'a \<Rightarrow> NodeID fset"
    and app :: "'e \<Rightarrow> 'v \<Rightarrow> 'a \<Rightarrow> ('r \<times> error option) \<times> 'a"
    and who :: "'v \<Rightarrow> NodeID"
    and inv :: "'a \<Rightarrow> bool"
    and ok :: "'e \<Rightarrow> bool" +
  fixes ev :: "'r \<Rightarrow> bool"
    and th :: "'e \<Rightarrow> nat"
  assumes ev_new: "ok e \<Longrightarrow> inv a \<Longrightarrow> who v |\<notin>| auth a \<Longrightarrow> app e v a = ((r, err), a') \<Longrightarrow>
      err = None \<and> (ev r \<longleftrightarrow> Suc (fcard (auth a)) = th e)"
begin

lemma events_app:
  assumes "ok e" "inv a"
  shows "events ev [fst (app e v a)] = (if fcard (auth a) < th e \<and> th e \<le> fcard (finsert (who v) (auth a)) then 1 else 0)"
proof (cases "who v |\<in>| auth a")
  case True
  then show ?thesis using dup [of v a e] by (auto simp: finsert_absorb)
next
  case False
  obtain r err a' where app: "app e v a = ((r, err), a')"
    by (metis prod.exhaust)
  have "err = None \<and> (ev r \<longleftrightarrow> Suc (fcard (auth a)) = th e)"
    using assms False app by (rule ev_new)
  then show ?thesis using app False by (auto simp: fcard_finsert_disjoint)
qed

text \<open>
  Over any sequence of votes the event happens once if the number of different authors reaches
  the threshold, and never otherwise.
\<close>

lemma events_feed:
  assumes "ok e" "inv a"
  shows "events ev (fst (feed (app e) vs a)) =
     (if fcard (auth a) < th e \<and> th e \<le> fcard (auth a |\<union>| fset_of_list (map who vs)) then 1 else 0)"
  using assms(2)
proof (induction vs arbitrary: a)
  case Nil
  then show ?case by simp
next
  case (Cons v vs)
  let ?a = "snd (app e v a)"
  have split: "events ev (fst (feed (app e) (v # vs) a)) =
      events ev [fst (app e v a)] + events ev (fst (feed (app e) vs ?a))"
    by (cases "fst (app e v a)") (simp add: feed_Cons del: feed.simps(2))
  have un: "finsert (who v) (auth a) |\<union>| fset_of_list (map who vs) = auth a |\<union>| fset_of_list (map who (v # vs))"
    by auto
  have "fcard (auth a) \<le> fcard (finsert (who v) (auth a))"
    by (rule fcard_mono) auto
  moreover have "fcard (finsert (who v) (auth a)) \<le> fcard (auth a |\<union>| fset_of_list (map who (v # vs)))"
    by (rule fcard_mono) auto
  moreover have "events ev (fst (feed (app e) vs ?a)) =
      (if fcard (finsert (who v) (auth a)) < th e \<and>
          th e \<le> fcard (auth a |\<union>| fset_of_list (map who (v # vs))) then 1 else 0)"
    using Cons.IH [OF inv_app [OF assms(1) Cons.prems, of v]] unfolding auth_app [OF assms(1) Cons.prems] un .
  ultimately show ?case
    unfolding split events_app [OF assms(1) Cons.prems] by auto
qed

end

end
