(* ===== verification/Commit_Order.thy ===== *)
theory Commit_Order
  imports Prelude "HOL-Library.Sublist"
begin

text \<open>
  The contract of the committors: blocks are submitted under epochs in any order and leave in the
  order of the epochs, from 0 on and without a gap. \<open>drain\<close> is the common loop, on the index, the
  pending blocks and the sequence of blocks sent so far; the locale \<open>reorder_buffer\<close> is what a
  committor has to provide, and its lemmas describe the output of a whole history of submissions.
\<close>

section \<open>The loop\<close>

type_synonym 'b buffer = "int \<times> (int, 'b) fmap \<times> 'b list"

lemma fcard_fmdrop: "fmlookup m k = Some b \<Longrightarrow> Suc (fcard (fmdom (fmdrop k m))) = fcard (fmdom m)"
  using fcard_Suc_fminus1 [of k "fmdom m"] by (simp add: fmdomI)

lemma fcard_fmdrop_less: "fmlookup m k = Some b \<Longrightarrow> fcard (fmdom (fmdrop k m)) < fcard (fmdom m)"
  using fcard_fmdrop [of m k b] by simp

function drain :: "'b buffer \<Rightarrow> 'b buffer" where
  "drain (i, m, out) =
     (case fmlookup m i of
        Some b \<Rightarrow> drain (i64 (i + 1), fmdrop i m, out @ [b])
      | None \<Rightarrow> (i, m, out))"
  by pat_completeness auto

termination
  by (relation "measure (\<lambda>(i, m, out). fcard (fmdom m))") (simp_all add: fcard_fmdrop_less del: fmdom_drop)

declare drain.simps [simp del]

section \<open>What the buffer holds of a history\<close>

definition holds :: "(int \<times> 'b) list \<Rightarrow> 'b buffer \<Rightarrow> bool" where
  "holds h = (\<lambda>(i, m, out).
     i = int (length out) \<and> (\<forall>k < length out. (int k, out ! k) \<in> set h) \<and>
     (\<forall>e b. fmlookup m e = Some b \<longrightarrow> (e, b) \<in> set h \<and> i \<le> e) \<and>
     (\<forall>(e, b) \<in> set h. e < i \<or> e |\<in>| fmdom m) \<and>
     length out + fcard (fmdom m) \<le> length h)"

lemma holds_Nil: "holds [] (0, fmempty, [])"
  by (simp add: holds_def)

lemma holds_skip:
  assumes "holds h (i, m, out)" "e < i"
  shows "holds (h @ [(e, b)]) (i, m, out)"
  using assms by (auto simp: holds_def)

lemma holds_insert:
  assumes "holds h (i, m, out)" "i \<le> e"
  shows "holds (h @ [(e, b)]) (i, fmupd e b m, out)"
proof -
  have "fcard (fmdom (fmupd e b m)) \<le> Suc (fcard (fmdom m))"
    by (simp add: fcard_finsert_if)
  then show ?thesis using assms by (auto simp: holds_def split: if_splits)
qed

lemma holds_step:
  assumes "holds h (i, m, out)" "fmlookup m i = Some b" "int (length h) < 2 ^ 63"
  shows "holds h (i64 (i + 1), fmdrop i m, out @ [b])"
proof -
  have card: "Suc (fcard (fmdom (fmdrop i m))) = fcard (fmdom m)"
    by (rule fcard_fmdrop [OF assms(2)])
  have i: "i = int (length out)" and le: "length out + fcard (fmdom m) \<le> length h"
    using assms(1) by (simp_all add: holds_def)
  have "i64 (i + 1) = i + 1"
    using i le card assms(3) by (intro i64_id) (simp add: is_i64_def)
  moreover have "(int k, (out @ [b]) ! k) \<in> set h" if "k < Suc (length out)" for k
    using that assms(1,2) by (cases "k = length out") (auto simp: holds_def nth_append)
  moreover have "i + 1 \<le> e" if "e \<noteq> i" "fmlookup m e = Some b'" for e b'
    using that assms(1) by (fastforce simp: holds_def)
  ultimately show ?thesis
    using assms(1,2) card by (auto simp: holds_def split: if_splits)
qed

lemma holds_drain:
  assumes "holds h (i, m, out)" "int (length h) < 2 ^ 63"
  shows "holds h (drain (i, m, out)) \<and> fst (drain (i, m, out)) |\<notin>| fmdom (fst (snd (drain (i, m, out))))"
  using assms
proof (induction "(i, m, out)" arbitrary: i m out rule: drain.induct)
  case (1 i m out)
  show ?case
  proof (cases "fmlookup m i")
    case None
    then show ?thesis using 1 by (auto simp: drain.simps [of i m out] fmlookup_dom_iff)
  next
    case (Some b)
    then show ?thesis
      using 1(1) [OF Some holds_step [OF 1(2) Some 1(3)] 1(3)] by (simp add: drain.simps [of i m out])
  qed
qed

text \<open>A drained buffer has sent exactly the epochs up to the first one that was not submitted.\<close>

lemma holds_output:
  assumes "holds h (i, m, out)" "i |\<notin>| fmdom m"
  shows "length out = (LEAST k. int k \<notin> fst ` set h)" "\<forall>k < length out. (int k, out ! k) \<in> set h"
proof -
  have sent: "\<forall>k < length out. (int k, out ! k) \<in> set h"
    using assms(1) by (simp add: holds_def)
  then show "\<forall>k < length out. (int k, out ! k) \<in> set h" .
  have "int (length out) \<notin> fst ` set h"
    using assms by (auto simp: holds_def)
  moreover have "length out \<le> k" if "int k \<notin> fst ` set h" for k
    using that sent by (metis fst_conv image_eqI not_le)
  ultimately show "length out = (LEAST k. int k \<notin> fst ` set h)"
    by (metis (mono_tags, lifting) Least_equality)
qed

section \<open>Any number of submissions\<close>

text \<open>
  Without a bound on the number of submissions the index may wrap; the blocks sent still have the
  epochs 0, 1, 2, ... modulo \<open>2 ^ 64\<close>, when each block is submitted under its own epoch.
\<close>

definition in_order :: "('b \<Rightarrow> int) \<Rightarrow> 'b buffer \<Rightarrow> bool" where
  "in_order ep = (\<lambda>(i, m, out). i = i64 (int (length out)) \<and>
     map ep out = map (\<lambda>k. i64 (int k)) [0..<length out] \<and> (\<forall>e b. fmlookup m e = Some b \<longrightarrow> ep b = e))"

lemma in_order_drain: "in_order ep (i, m, out) \<Longrightarrow> in_order ep (drain (i, m, out))"
proof (induction "(i, m, out)" arbitrary: i m out rule: drain.induct)
  case (1 i m out)
  show ?case
  proof (cases "fmlookup m i")
    case None
    then show ?thesis using 1 by (simp add: drain.simps [of i m out])
  next
    case (Some b)
    have "in_order ep (i64 (i + 1), fmdrop i m, out @ [b])"
      using 1(2) Some by (auto simp: in_order_def add.commute [of 1] split: if_splits)
    then show ?thesis using 1(1) [OF Some] Some by (simp add: drain.simps [of i m out])
  qed
qed

lemma in_order_insert: "in_order ep (i, m, out) \<Longrightarrow> ep b = e \<Longrightarrow> in_order ep (i, fmupd e b m, out)"
  by (auto simp: in_order_def split: if_splits)

section \<open>The output only grows\<close>

definition delivered :: "'b buffer \<Rightarrow> 'b list" where
  "delivered = (\<lambda>(i, m, out). out)"

lemma drain_prefix: "prefix out (delivered (drain (i, m, out)))"
proof (induction "(i, m, out)" arbitrary: i m out rule: drain.induct)
  case (1 i m out)
  show ?case
  proof (cases "fmlookup m i")
    case None
    then show ?thesis by (simp add: drain.simps [of i m out] delivered_def)
  next
    case (Some b)
    have "prefix (out @ [b]) (delivered (drain (i64 (i + 1), fmdrop i m, out @ [b])))"
      using 1 [OF Some] by simp
    then show ?thesis
      using Some prefix_order.trans [of out "out @ [b]"] by (simp add: drain.simps [of i m out])
  qed
qed

lemma drain_sends: "fmlookup m i = Some b \<Longrightarrow> b \<in> set (delivered (drain (i, m, out)))"
  using drain_prefix [of "out @ [b]" "i64 (i + 1)" "fmdrop i m"]
  by (auto simp: drain.simps [of i m out] dest!: set_mono_prefix)

section \<open>The interface\<close>

locale reorder_buffer =
  fixes view :: "'s \<Rightarrow> 'b buffer"
    and key :: "'x \<Rightarrow> int"
    and val :: "'x \<Rightarrow> 'b"
    and submit :: "'x \<Rightarrow> 's \<Rightarrow> 's"
  assumes submit_old: "view s = (i, m, out) \<Longrightarrow> key x < i \<Longrightarrow> view (submit x s) = (i, m, out)"
    and submit_new: "view s = (i, m, out) \<Longrightarrow> i \<le> key x \<Longrightarrow>
      view (submit x s) = drain (i, fmupd (key x) (val x) m, out)"
begin

definition pairs :: "'x list \<Rightarrow> (int \<times> 'b) list" where
  "pairs xs = map (\<lambda>x. (key x, val x)) xs"

lemma submits_holds:
  assumes "view s = (0, fmempty, [])" "int (length xs) < 2 ^ 63"
  shows "holds (pairs xs) (view (fold submit xs s)) \<and>
    fst (view (fold submit xs s)) |\<notin>| fmdom (fst (snd (view (fold submit xs s))))"
  using assms(2)
proof (induction xs rule: rev_induct)
  case Nil
  then show ?case by (simp add: pairs_def assms(1) holds_Nil)
next
  case (snoc x xs)
  obtain i m out where v: "view (fold submit xs s) = (i, m, out)" by (cases "view (fold submit xs s)")
  have IH: "holds (pairs xs) (i, m, out)" "i |\<notin>| fmdom m"
    using snoc v by simp_all
  have next_eq: "fold submit (xs @ [x]) s = submit x (fold submit xs s)"
    "pairs (xs @ [x]) = pairs xs @ [(key x, val x)]"
    by (simp_all add: pairs_def)
  show ?case
  proof (cases "key x < i")
    case True
    then show ?thesis
      unfolding next_eq submit_old [OF v True] using IH by (simp add: holds_skip)
  next
    case False
    then have le: "i \<le> key x" by simp
    have len: "int (length (pairs xs @ [(key x, val x)])) < 2 ^ 63"
      using snoc.prems by (simp add: pairs_def)
    show ?thesis
      unfolding next_eq submit_new [OF v le] by (rule holds_drain [OF holds_insert [OF IH(1) le] len])
  qed
qed

text \<open>Blocks that are submitted under their own epochs leave in the order of their epochs.\<close>

lemma submit_in_order:
  assumes "in_order ep (view s)" "ep (val x) = key x"
  shows "in_order ep (view (submit x s))"
proof -
  obtain i m out where v: "view s = (i, m, out)" by (cases "view s")
  show ?thesis
  proof (cases "key x < i")
    case True
    then show ?thesis using assms(1) submit_old [OF v] v by simp
  next
    case False
    then show ?thesis
      using assms v submit_new [OF v] by (simp add: in_order_drain in_order_insert)
  qed
qed

lemma submit_grows: "prefix (delivered (view s)) (delivered (view (submit x s)))"
proof -
  obtain i m out where v: "view s = (i, m, out)" by (cases "view s")
  show ?thesis
    using drain_prefix [of out i "fmupd (key x) (val x) m"] submit_old [OF v] submit_new [OF v] v
    by (cases "key x < i") (auto simp: delivered_def)
qed

lemma submit_sends: "view s = (key x, m, out) \<Longrightarrow> val x \<in> set (delivered (view (submit x s)))"
  by (simp add: submit_new drain_sends)

text \<open>The output of a history: the epochs from 0 up to the first one that was not submitted.\<close>

lemma submits_output:
  assumes "view s = (0, fmempty, [])" "int (length xs) < 2 ^ 63" "view (fold submit xs s) = (i, m, out)"
  shows "length out = (LEAST k. int k \<notin> key ` set xs)"
    "\<forall>k < length out. \<exists>x \<in> set xs. key x = int k \<and> val x = out ! k"
proof -
  have fst: "fst ` set (pairs xs) = key ` set xs" by (force simp: pairs_def)
  have "holds (pairs xs) (i, m, out)" "i |\<notin>| fmdom m"
    using submits_holds [OF assms(1,2)] assms(3) by auto
  note out = holds_output [OF this]
  show "length out = (LEAST k. int k \<notin> key ` set xs)"
    using out(1) unfolding fst .
  show "\<forall>k < length out. \<exists>x \<in> set xs. key x = int k \<and> val x = out ! k"
    using out(2) by (fastforce simp: pairs_def)
qed

text \<open>Of two buffers that were given the same block for every epoch, one has sent a prefix of the other.\<close>

lemma submits_prefix:
  assumes "view s = (0, fmempty, [])" "int (length xs) < 2 ^ 63" "view (fold submit xs s) = (i, m, out)"
    and "view s' = (0, fmempty, [])" "int (length xs') < 2 ^ 63" "view (fold submit xs' s') = (i', m', out')"
    and agree: "\<And>x x'. x \<in> set xs \<Longrightarrow> x' \<in> set xs' \<Longrightarrow> key x = key x' \<Longrightarrow> val x = val x'"
  shows "prefix out out' \<or> prefix out' out"
proof -
  have "out ! k = out' ! k" if "k < length out" "k < length out'" for k
    using submits_output(2) [OF assms(1,2,3)] submits_output(2) [OF assms(4,5,6)] that agree by metis
  then have "take (length out) out' = out \<or> take (length out') out = out'"
    by (cases "length out \<le> length out'") (auto intro!: nth_equalityI)
  then show ?thesis by (metis take_is_prefix)
qed

end

end
