(* ===== verification/Protocol_Base.thy ===== *)
theory Protocol_Base
  imports Network Pool Store Vote_Counting Commit_Order
begin

text \<open>
  What the protocols share: the gob encoding of their blocks, the loop that turns a combined
  threshold signature into a random number, what a node relies on in its keys and libraries, and
  the list of the goroutines that run beside a node's main loop.
\<close>

section \<open>Encodings\<close>

text \<open>What gob does with a type of the program: an encoder and a decoder, each with its error.\<close>

record 'b gob =
  gob_Encode :: "'b \<Rightarrow> error + bytes"
  gob_Decode :: "bytes \<Rightarrow> error + 'b"

definition zero_Signature :: Signature where
  "zero_Signature = \<lparr>Sig = []\<rparr>"

section \<open>The common coin\<close>

definition RANDOM_LEN :: nat where
  "RANDOM_LEN = 3"

text \<open>
  The loop over the first bytes of the combined signature. Indexing past its end panics. Since
  \<^verbatim>\<open>coin[i]\<close> is an unsigned byte, the other branch of the loop is only taken for a zero byte.
\<close>

fun coin_loop :: "nat \<Rightarrow> nat \<Rightarrow> bytes \<Rightarrow> int \<Rightarrow> int option" where
  "coin_loop 0 i coin rand = Some rand"
| "coin_loop (Suc k) i coin rand =
     (if i < length coin then
        (if coin ! i > 0
         then coin_loop k (Suc i) coin (i64 (push_bit 8 rand + uint (coin ! i)))
         else coin_loop k (Suc i) coin (i64 (push_bit 8 rand + uint (- (coin ! i)))))
      else None)"

lemma coin_loop_Some: "i + k \<le> length coin \<Longrightarrow> \<exists>r. coin_loop k i coin rand = Some r"
  by (induction k i coin rand rule: coin_loop.induct) auto

lemma coin_loop_bounds:
  assumes "coin_loop k i coin rand = Some r" "0 \<le> rand" "(rand + 1) * 256 ^ k \<le> 2 ^ 63"
  shows "0 \<le> r \<and> r < (rand + 1) * 256 ^ k"
  using assms
proof (induction k i coin rand rule: coin_loop.induct)
  case (1 i coin rand)
  then show ?case by simp
next
  case (2 k i coin rand)
  define b where "b = (if coin ! i > 0 then coin ! i else - (coin ! i))"
  let ?r = "push_bit 8 rand + uint b"
  have b: "0 \<le> uint b" "uint b < 256"
    using uint_bounded [of b] by simp_all
  have r: "0 \<le> ?r" "?r + 1 \<le> (rand + 1) * 256"
    using b 2(4) by (simp_all add: push_bit_eq_mult)
  have "(?r + 1) * 256 ^ k \<le> (rand + 1) * 256 * 256 ^ k"
    by (rule mult_right_mono [OF r(2)]) simp
  then have le: "(?r + 1) * 256 ^ k \<le> (rand + 1) * 256 ^ Suc k"
    by simp
  have "?r + 1 \<le> (?r + 1) * 256 ^ k"
    using mult_left_mono [of 1 "256 ^ k" "?r + 1"] r(1) by simp
  then have "?r < 2 ^ 63"
    using le 2(5) by linarith
  then have id: "i64 ?r = ?r"
    using r(1) by (intro i64_id) (simp add: is_i64_def)
  have le2: "(?r + 1) * 256 ^ k \<le> 2 ^ 63"
    using le 2(5) by linarith
  have step: "coin_loop k (Suc i) coin ?r = Some r" "i < length coin"
    using 2(3) id by (auto simp: b_def split: if_splits)
  have "0 \<le> r \<and> r < (?r + 1) * 256 ^ k"
  proof (cases "coin ! i > 0")
    case True
    then show ?thesis using 2(1) [OF step(2) True] step id r(1) le2 by (simp add: b_def)
  next
    case False
    then show ?thesis using 2(2) [OF step(2) False] step id r(1) le2 by (simp add: b_def)
  qed
  then show ?case using le by linarith
qed

lemma coin_nonneg: "coin_loop RANDOM_LEN 0 coin 0 = Some r \<Longrightarrow> 0 \<le> r \<and> r < 2 ^ 24"
  using coin_loop_bounds [of RANDOM_LEN 0 coin 0 r] by (simp add: RANDOM_LEN_def)

lemma smod_nonneg: "0 \<le> a \<Longrightarrow> 0 < b \<Longrightarrow> (a::int) smod b = a mod b"
  by (cases "a = 0") (simp_all add: signed_modulo_int_def)

lemma threshold_nat: "(m = nat (HightThreshold c)) = (int m = HightThreshold c)"
    "(m = nat (LowThreshold c)) = (int m = LowThreshold c)"
  by (auto simp: HightThreshold_eq LowThreshold_eq)

section \<open>What a node relies on\<close>

text \<open>
  Keys of the sizes ed25519 demands, a threshold library that signs without error and recovers
  signatures of at least three bytes, and a committee with members.
\<close>

definition env_ok :: "'a crypto_scheme \<Rightarrow> Committee \<Rightarrow> SigService \<Rightarrow> bool" where
  "env_ok w cm sig \<longleftrightarrow>
     Authorities cm \<noteq> [] \<and>
     (\<forall>i \<in> members cm. length (Pubkey (Committee_Name cm i)) = PublicKeySize) \<and>
     length (Prikey (ss_PriKey sig)) = PrivateKeySize \<and>
     (\<forall>d. snd (tbls_Sign w (sk_PriShare (ss_ShareKey sig)) d) = None) \<and>
     (\<forall>pp d sigs t n coin. tbls_Recover w pp d sigs t n = (coin, None) \<longrightarrow> RANDOM_LEN \<le> length coin)"

lemma env_share: "env_ok w cm sig \<Longrightarrow> RequestTsSugnature w sig d \<noteq> Some (share, Some err)"
  by (cases "tbls_Sign w (sk_PriShare (ss_ShareKey sig)) d") (auto simp: env_ok_def RequestTsSugnature_eq dest: spec [of _ d])

lemma Signature_Verify_total:
  "env_ok w cm sig \<Longrightarrow> i \<in> members cm \<Longrightarrow> Signature_Verify w s (Committee_Name cm i) d \<noteq> None"
  by (simp add: env_ok_def Signature_Verify_def)

lemma RequestSignature_total: "env_ok w cm sig \<Longrightarrow> RequestSignature w sig d \<noteq> None"
  by (simp add: env_ok_def RequestSignature_eq)

lemma coin_total:
  assumes "env_ok w cm sig" "CombineIntactTSPartial w shares key d = (coin, None)"
  shows "coin_loop RANDOM_LEN 0 coin 0 \<noteq> None"
  using assms coin_loop_Some [of 0 RANDOM_LEN coin 0] by (auto simp: env_ok_def CombineIntactTSPartial_def)

section \<open>Flags and channels\<close>

lemma ensure_None: "m k = None \<Longrightarrow> m(k \<mapsto> Map.empty) = ensure m k"
  by (simp add: ensure_def)

lemma not_Some_unit: "x \<noteq> Some () \<Longrightarrow> x = None"
  by (cases x) simp_all

lemma tr_msgCh_set [simp]:
  "nm \<in> set (tr_msgCh (Transmitor_Send from to m tr)) \<longleftrightarrow>
     nm \<in> set (tr_msgCh tr) \<or>
     nm = \<lparr>nm_Msg = m, nm_Address = (if to = NONE then Committee_BroadCast (tr_committee tr) from
        else [Committee_Address (tr_committee tr) to])\<rparr>"
  by (auto simp: Transmitor_Send_def Let_def)

section \<open>Goroutines\<close>

text \<open>
  The live goroutines of a node, each with the key of the instance it works on. A piece of the
  \<open>i\<close>-th one leaves it at its next position or ends it, and starts others on the same instance.
\<close>

definition task_update :: "nat \<Rightarrow> 'k \<Rightarrow> 'p option \<Rightarrow> 'p list \<Rightarrow> ('k \<times> 'p) list \<Rightarrow> ('k \<times> 'p) list" where
  "task_update i key pc spawned ts =
     take i ts @ (case pc of None \<Rightarrow> [] | Some p \<Rightarrow> [(key, p)]) @ drop (Suc i) ts @ map (Pair key) spawned"

lemma set_task_update:
  "set (task_update i key pc spawned ts) \<subseteq> set ts \<union> {(key, p) | p. pc = Some p \<or> p \<in> set spawned}"
  using set_take_subset [of i ts] set_drop_subset [of "Suc i" ts]
  by (auto simp: task_update_def split: option.splits)

text \<open>How a piece changes the number of goroutines with a property.\<close>

lemma count_task_update:
  assumes "i < length ts"
  shows "length (filter P (task_update i key pc spawned ts)) + (if P (ts ! i) then 1 else 0) =
    length (filter P ts) + (case pc of None \<Rightarrow> 0 | Some p \<Rightarrow> if P (key, p) then 1 else 0) +
    length (filter P (map (Pair key) spawned))"
proof -
  have "length (filter P ts) = length (filter P (take i ts @ ts ! i # drop (Suc i) ts))"
    by (rule arg_cong [OF id_take_nth_drop [OF assms], of "\<lambda>xs. length (filter P xs)"])
  then show ?thesis by (simp add: task_update_def split: option.split)
qed

end
