(* ===== verification/Samples.thy ===== *)
theory Samples
  imports Protocol_Base
begin

text \<open>
  A small concrete deployment for the witnesses: four nodes, a toy hash that keeps its input, a
  toy signature scheme in which the signature of a digest is the digest, a toy threshold scheme
  whose coin is always 1, 2, 3, and a map as database. None of it stands for code of the
  repository; it shows that the hypotheses of the theorems can hold together.
\<close>

definition toy_crypto :: crypto where
  "toy_crypto = \<lparr>sha256_Sum256 = (\<lambda>bs. bs), ed25519_Sign = (\<lambda>sk d. d), ed25519_Verify = (\<lambda>pk d s. s = d),
     tbls_Sign = (\<lambda>sh d. ([1], None)), tbls_Recover = (\<lambda>pp d sigs t n. ([1, 2, 3], None)),
     bls_Verify = (\<lambda>pk d s. None)\<rparr>"

definition toy_authority :: "int \<Rightarrow> string \<Rightarrow> byte \<Rightarrow> NodeID \<times> Authority" where
  "toy_authority i addr b = (i, \<lparr>au_Name = \<lparr>Pubkey = replicate 32 b\<rparr>, au_Id = i, au_Addr = addr\<rparr>)"

definition four :: Committee where
  "four = \<lparr>Authorities = [toy_authority 0 ''a'' 0, toy_authority 1 ''b'' 1, toy_authority 2 ''c'' 2,
     toy_authority 3 ''d'' 3]\<rparr>"

definition toy_sig :: SigService where
  "toy_sig = \<lparr>ss_PriKey = \<lparr>Prikey = replicate 64 0\<rparr>,
     ss_ShareKey = \<lparr>sk_PubPoly = \<lparr>pp_base = [], pp_commits = []\<rparr>, sk_PriShare = \<lparr>ps_I = 0, ps_V = []\<rparr>, sk_N = 4, sk_T = 3\<rparr>\<rparr>"

definition toy_queue :: txQueue where
  "toy_queue = \<lparr>q_queue = [], q_batchChannel = [], q_wind = 0, q_rind = - 1, q_nums = 0, q_maxQueueSize = 0,
     q_batchSize = 1, q_txSize = 0, q_N = 4, q_Id = 0, q_bcnt = 0\<rparr>"

definition toy_pool :: Pool where
  "toy_pool = \<lparr>p_parameters = pool_DefaultParameters\<lparr>pp_MaxQueueSize := 0, pp_BatchSize := 1\<rparr>, p_queue = toy_queue\<rparr>"

definition toy_store :: "(bytes \<rightharpoonup> bytes) Store" where
  "toy_store = NewStore (map_DB ErrNotFoundKey) Map.empty"

lemma four_members: "members four = {0, 1, 2, 3}"
  by (simp add: members_def four_def toy_authority_def)

lemma four_size: "Committee_Size four = 4" "HightThreshold four = 3" "LowThreshold four = 2" "faults four = 1"
  by (simp_all add: Committee_Size_def four_def HightThreshold_eq LowThreshold_eq faults_def)

lemma four_bft: "bft_committee four"
  by (simp add: bft_committee_def wf_committee_def four_def toy_authority_def)

lemma four_keys: "\<forall>i \<in> members four. length (Pubkey (Committee_Name four i)) = PublicKeySize"
  unfolding four_members
  by (simp add: Committee_Name_def lookup_authority_def four_def toy_authority_def PublicKeySize_def)

lemma toy_pool_New:
  "NewPool (pool_DefaultParameters\<lparr>pp_MaxQueueSize := 0, pp_BatchSize := 1\<rparr>) 4 0 = Some toy_pool"
  by (simp add: NewPool_def newTxQueue_def toy_pool_def toy_queue_def pool_DefaultParameters_def)

end
