(* ===== verification/Ts_Keys.thy ===== *)
theory Ts_Keys
  imports Crypto
begin

text \<open>
  \<^verbatim>\<open>crypto/crypto.go\<close>, the text form of the threshold keys: a share or a public polynomial is first made
  into a struct of bytes and then written as JSON. The binary form of scalars and points (kyber) and
  the JSON form of a struct (encoding/json) are parameters. The two steps are one locale each way:
  what was encoded is decoded again.
\<close>

section \<open>The libraries\<close>

record kyber =
  scalar_MarshalBinary :: "bytes \<Rightarrow> error + bytes"
  scalar_UnmarshalBinary :: "bytes \<Rightarrow> error + bytes"
  point_MarshalBinary :: "bytes \<Rightarrow> error + bytes"
  point_UnmarshalBinary :: "bytes \<Rightarrow> error + bytes"

record 'd json =
  json_Encode :: "'d \<Rightarrow> error + bytes"
  json_Decode :: "bytes \<Rightarrow> error + 'd"

section \<open>Steps that may fail\<close>

fun and_then :: "error + 'a \<Rightarrow> ('a \<Rightarrow> error + 'b) \<Rightarrow> error + 'b" where
  "and_then (Inl e) f = Inl e"
| "and_then (Inr x) f = f x"

fun try_all :: "('a \<Rightarrow> error + 'b) \<Rightarrow> 'a list \<Rightarrow> error + 'b list" where
  "try_all f [] = Inr []"
| "try_all f (x # xs) = and_then (f x) (\<lambda>y. and_then (try_all f xs) (\<lambda>ys. Inr (y # ys)))"

section \<open>Shares\<close>

record TSPartialMarshalled =
  tp_I :: int
  tp_Binary :: bytes

definition MarshallTSPartialKey :: "kyber \<Rightarrow> PriShare \<Rightarrow> error + TSPartialMarshalled" where
  "MarshallTSPartialKey k priShare =
     and_then (scalar_MarshalBinary k (ps_V priShare))
       (\<lambda>shareAsBytes. Inr \<lparr>tp_I = ps_I priShare, tp_Binary = shareAsBytes\<rparr>)"

definition UnMarshallTSPartialKey :: "kyber \<Rightarrow> TSPartialMarshalled \<Rightarrow> error + PriShare" where
  "UnMarshallTSPartialKey k par =
     and_then (scalar_UnmarshalBinary k (tp_Binary par)) (\<lambda>v. Inr \<lparr>ps_I = tp_I par, ps_V = v\<rparr>)"

definition EncodeTSPartialKey :: "kyber \<Rightarrow> TSPartialMarshalled json \<Rightarrow> PriShare \<Rightarrow> error + bytes" where
  "EncodeTSPartialKey k j priShare = and_then (MarshallTSPartialKey k priShare) (json_Encode j)"

definition DecodeTSPartialKey :: "kyber \<Rightarrow> TSPartialMarshalled json \<Rightarrow> bytes \<Rightarrow> error + PriShare" where
  "DecodeTSPartialKey k j data = and_then (json_Decode j data) (UnMarshallTSPartialKey k)"

section \<open>Public polynomials\<close>

record TSPublicMarshalled =
  tm_BaseBytes :: bytes
  tm_CommitBytes :: "bytes list"

definition MarshallTSPublicKey :: "kyber \<Rightarrow> PubPoly \<Rightarrow> error + TSPublicMarshalled" where
  "MarshallTSPublicKey k pubKey =
     and_then (point_MarshalBinary k (pp_base pubKey)) (\<lambda>baseAsBytes.
     and_then (try_all (point_MarshalBinary k) (pp_commits pubKey)) (\<lambda>commitBytes.
     Inr \<lparr>tm_BaseBytes = baseAsBytes, tm_CommitBytes = commitBytes\<rparr>))"

definition UnMarshallTSPublicKey :: "kyber \<Rightarrow> TSPublicMarshalled \<Rightarrow> error + PubPoly" where
  "UnMarshallTSPublicKey k tspm =
     and_then (point_UnmarshalBinary k (tm_BaseBytes tspm)) (\<lambda>baseDecoded.
     and_then (try_all (point_UnmarshalBinary k) (tm_CommitBytes tspm)) (\<lambda>commitsDecoded.
     Inr \<lparr>pp_base = baseDecoded, pp_commits = commitsDecoded\<rparr>))"

definition EncodeTSPublicKey :: "kyber \<Rightarrow> TSPublicMarshalled json \<Rightarrow> PubPoly \<Rightarrow> error + bytes" where
  "EncodeTSPublicKey k j pubkey = and_then (MarshallTSPublicKey k pubkey) (json_Encode j)"

definition DecodeTSPublicKey :: "kyber \<Rightarrow> TSPublicMarshalled json \<Rightarrow> bytes \<Rightarrow> error + PubPoly" where
  "DecodeTSPublicKey k j data = and_then (json_Decode j data) (UnMarshallTSPublicKey k)"

section \<open>Round trips\<close>

locale round_trip =
  fixes enc :: "'a \<Rightarrow> error + 'b"
    and dec :: "'b \<Rightarrow> error + 'a"
    and good :: "'a \<Rightarrow> bool"
  assumes rt: "good x \<Longrightarrow> \<exists>y. enc x = Inr y \<and> dec y = Inr x"
begin

lemma rt_all: "list_all good xs \<Longrightarrow> \<exists>ys. try_all enc xs = Inr ys \<and> try_all dec ys = Inr xs"
proof (induction xs)
  case (Cons x xs)
  obtain y ys where "enc x = Inr y" "dec y = Inr x" "try_all enc xs = Inr ys" "try_all dec ys = Inr xs"
    using Cons rt [of x] by auto
  then show ?case by (intro exI [of _ "y # ys"]) simp
qed simp

end

text \<open>One round trip inside another.\<close>

locale round_trip_chain =
  inn: round_trip enc dec good + out: round_trip enc' dec' good'
  for enc :: "'a \<Rightarrow> error + 'b" and dec and good and enc' :: "'b \<Rightarrow> error + 'c" and dec' and good'
begin

lemma rt_chain:
  assumes "good x" "\<And>y. enc x = Inr y \<Longrightarrow> good' y"
  shows "\<exists>z. and_then (enc x) enc' = Inr z \<and> and_then (dec' z) dec = Inr x"
proof -
  obtain y where y: "enc x = Inr y" "dec y = Inr x" using inn.rt [OF assms(1)] by blast
  obtain z where "enc' y = Inr z" "dec' z = Inr y" using out.rt [OF assms(2) [OF y(1)]] by blast
  then show ?thesis using y by simp
qed

end

text \<open>
  The values that kyber and encoding/json give back: every scalar, every point, every struct of
  numbers and bytes, as their packages document.
\<close>

definition scalar_ok :: "kyber \<Rightarrow> bytes \<Rightarrow> bool" where
  "scalar_ok k v \<longleftrightarrow> (case scalar_MarshalBinary k v of Inl e \<Rightarrow> False | Inr b \<Rightarrow> scalar_UnmarshalBinary k b = Inr v)"

definition point_ok :: "kyber \<Rightarrow> bytes \<Rightarrow> bool" where
  "point_ok k p \<longleftrightarrow> (case point_MarshalBinary k p of Inl e \<Rightarrow> False | Inr b \<Rightarrow> point_UnmarshalBinary k b = Inr p)"

definition json_ok :: "'d json \<Rightarrow> 'd \<Rightarrow> bool" where
  "json_ok j d \<longleftrightarrow> (case json_Encode j d of Inl e \<Rightarrow> False | Inr b \<Rightarrow> json_Decode j b = Inr d)"

interpretation pt: round_trip "point_MarshalBinary k" "point_UnmarshalBinary k" "point_ok k" for k
  by unfold_locales (auto simp: point_ok_def split: sum.splits)

interpretation tsp: round_trip_chain "MarshallTSPartialKey k" "UnMarshallTSPartialKey k" "\<lambda>s. scalar_ok k (ps_V s)"
  "json_Encode j" "json_Decode j" "json_ok j" for k j
  by unfold_locales
     (auto simp: MarshallTSPartialKey_def UnMarshallTSPartialKey_def scalar_ok_def json_ok_def split: sum.splits)

lemma MarshallTSPublicKey_ok:
  assumes "point_ok k (pp_base p)" "list_all (point_ok k) (pp_commits p)"
  shows "\<exists>m. MarshallTSPublicKey k p = Inr m \<and> UnMarshallTSPublicKey k m = Inr p"
  using pt.rt [OF assms(1)] pt.rt_all [OF assms(2)]
  by (auto simp: MarshallTSPublicKey_def UnMarshallTSPublicKey_def)

interpretation tpk: round_trip_chain "MarshallTSPublicKey k" "UnMarshallTSPublicKey k"
  "\<lambda>p. point_ok k (pp_base p) \<and> list_all (point_ok k) (pp_commits p)"
  "json_Encode j" "json_Decode j" "json_ok j" for k j
  by unfold_locales (auto simp: MarshallTSPublicKey_ok json_ok_def split: sum.splits)

lemma EncodeTSPartialKey_ok:
  assumes "scalar_ok k (ps_V s)" "\<And>m. MarshallTSPartialKey k s = Inr m \<Longrightarrow> json_ok j m"
  shows "\<exists>b. EncodeTSPartialKey k j s = Inr b \<and> DecodeTSPartialKey k j b = Inr s"
  using tsp.rt_chain [OF assms] by (simp add: EncodeTSPartialKey_def DecodeTSPartialKey_def)

lemma EncodeTSPublicKey_ok:
  assumes "point_ok k (pp_base p)" "list_all (point_ok k) (pp_commits p)"
    and "\<And>m. MarshallTSPublicKey k p = Inr m \<Longrightarrow> json_ok j m"
  shows "\<exists>b. EncodeTSPublicKey k j p = Inr b \<and> DecodeTSPublicKey k j b = Inr p"
  using tpk.rt_chain [OF conjI, OF assms] by (simp add: EncodeTSPublicKey_def DecodeTSPublicKey_def)

end
