(* ===== verification/Config.thy ===== *)
theory Config
  imports Ts_Keys Pool Committee "HOL-Library.AList"
begin

text \<open>
  \<^verbatim>\<open>config/config.go\<close>: the files of keys, threshold keys, committee and parameters, how they are
  written and how they are read again. The file system is a map from names to contents; opening a
  file for writing may fail. What the libraries draw at random (the ed25519 keys and the shares of
  the threshold key) is an argument. A JSON object is a finite map, as in Go; a number of it is the
  value that a \<^verbatim>\<open>float64\<close> holds, which is the integer itself up to \<open>2 ^ 53\<close>. Where the code ranges over a
  Go map, the order of the visit is an argument.
\<close>

section \<open>Numbers as text\<close>

definition digit :: "nat \<Rightarrow> char" where
  "digit n = char_of (48 + n)"

fun dec_digits :: "nat \<Rightarrow> string" where
  "dec_digits n = (if n < 10 then [digit n] else dec_digits (n div 10) @ [digit (n mod 10)])"

declare dec_digits.simps [simp del]

definition Itoa :: "int \<Rightarrow> string" where
  "Itoa x = (if x < 0 then CHR ''-'' # dec_digits (nat (- x)) else dec_digits (nat x))"

definition digit_val :: "char \<Rightarrow> nat option" where
  "digit_val c = (let n = of_char c in if 48 \<le> n \<and> n \<le> 57 then Some (n - 48) else None)"

fun dec_value :: "nat \<Rightarrow> string \<Rightarrow> nat option" where
  "dec_value acc [] = Some acc"
| "dec_value acc (c # cs) = (case digit_val c of None \<Rightarrow> None | Some d \<Rightarrow> dec_value (10 * acc + d) cs)"

text \<open>A text that is no number gives 0, and a number that is too large the nearest one that is not.\<close>

definition Atoi :: "string \<Rightarrow> int \<times> error option" where
  "Atoi s =
     (let (neg, t) = (case s of
            [] \<Rightarrow> (False, [])
          | c # cs \<Rightarrow> if c = CHR ''-'' then (True, cs) else if c = CHR ''+'' then (False, cs) else (False, s)) in
      if t = [] then (0, Some (ErrExt ''invalid syntax''))
      else case dec_value 0 t of
        None \<Rightarrow> (0, Some (ErrExt ''invalid syntax''))
      | Some n \<Rightarrow>
          let x = (if neg then - int n else int n) in
          if is_i64 x then (x, None)
          else (if neg then - (2 ^ 63) else 2 ^ 63 - 1, Some (ErrExt ''value out of range'')))"

lemma digit_val_digit [simp]: "n < 10 \<Longrightarrow> digit_val (digit n) = Some n"
  by (simp add: digit_val_def digit_def)

lemma dec_value_append: "dec_value acc (xs @ ys) = (case dec_value acc xs of None \<Rightarrow> None | Some a \<Rightarrow> dec_value a ys)"
  by (induction xs arbitrary: acc) (auto split: option.splits)

lemma dec_value_digits [simp]: "dec_value 0 (dec_digits n) = Some n"
proof (induction n rule: dec_digits.induct)
  case (1 n)
  then show ?case by (cases "n < 10") (simp_all add: dec_digits.simps [of n] dec_value_append)
qed

lemma dec_digits_inject [simp]: "dec_digits m = dec_digits n \<longleftrightarrow> m = n"
  by (metis dec_value_digits option.inject)

lemma dec_digits_hd: "\<exists>c cs. dec_digits n = c # cs \<and> digit_val c \<noteq> None"
proof (induction n rule: dec_digits.induct)
  case (1 n)
  then show ?case
    by (cases "n < 10") (auto simp: dec_digits.simps [of n])
qed

lemma no_digits [simp]: "digit_val CHR ''-'' = None" "digit_val CHR ''+'' = None"
  by (simp_all add: digit_val_def)

lemma Itoa_inject [simp]: "Itoa x = Itoa y \<longleftrightarrow> x = y"
  using dec_digits_hd [of "nat x"] dec_digits_hd [of "nat y"] by (auto simp: Itoa_def)

lemma Atoi_Itoa: "is_i64 x \<Longrightarrow> Atoi (Itoa x) = (x, None)"
  using dec_digits_hd [of "nat x"] dec_digits_hd [of "nat (- x)"] dec_value_digits [of "nat x"] dec_value_digits [of "nat (- x)"]
  by (auto simp: Atoi_def Itoa_def Let_def simp del: dec_value_digits)

section \<open>Text and bytes\<close>

definition string_of :: "bytes \<Rightarrow> string" where
  "string_of bs = map (\<lambda>b. char_of (unat b)) bs"

definition bytes_of :: "string \<Rightarrow> bytes" where
  "bytes_of s = map (\<lambda>c. of_nat (of_char c)) s"

lemma bytes_of_string_of [simp]: "bytes_of (string_of bs) = bs"
proof -
  have "of_nat (of_char (char_of (unat b)) :: nat) = b" for b :: byte
  proof -
    have "unat b < 256" using unsigned_less [of b] by simp
    then show ?thesis by (simp del: of_nat_of_char)
  qed
  then show ?thesis by (simp add: bytes_of_def string_of_def o_def del: of_nat_of_char)
qed

section \<open>JSON files\<close>

datatype jval = JStr string | JNum int | JObj "(string, jval) fmap"

type_synonym obj = "(string, jval) fmap"
type_synonym files = "string \<rightharpoonup> bytes"

text \<open>The type assertions, which panic on a missing key or another type.\<close>

fun as_str :: "jval option \<Rightarrow> string option" where
  "as_str (Some (JStr s)) = Some s" | "as_str _ = None"

fun as_num :: "jval option \<Rightarrow> int option" where
  "as_num (Some (JNum n)) = Some n" | "as_num _ = None"

fun as_obj :: "jval option \<Rightarrow> obj option" where
  "as_obj (Some (JObj d)) = Some d" | "as_obj _ = None"

text \<open>The file is opened without truncation: what the new text does not reach stays behind it.\<close>

definition savetoFile :: "'d json \<Rightarrow> (string \<Rightarrow> bool) \<Rightarrow> string \<Rightarrow> 'd \<Rightarrow> files \<Rightarrow> files option" where
  "savetoFile j opens filename data fs =
     (if \<not> opens filename then None
      else case json_Encode j data of
        Inl err \<Rightarrow> None
      | Inr b \<Rightarrow>
          let old = (case fs filename of None \<Rightarrow> [] | Some old \<Rightarrow> old)
          in Some (fs(filename \<mapsto> b @ drop (length b) old)))"

definition readFromFile :: "obj json \<Rightarrow> files \<Rightarrow> string \<Rightarrow> (error + obj) option" where
  "readFromFile j fs filename = (case fs filename of None \<Rightarrow> None | Some b \<Rightarrow> Some (json_Decode j b))"

section \<open>Key files\<close>

fun for_files :: "(nat \<Rightarrow> files \<Rightarrow> files option) \<Rightarrow> nat list \<Rightarrow> files \<Rightarrow> files option" where
  "for_files body [] fs = Some fs"
| "for_files body (i # ks) fs = do { fs \<leftarrow> body i fs; for_files body ks fs }"

definition key_file :: "string \<Rightarrow> nat \<Rightarrow> string" where
  "key_file path i = path @ ''/.node-key-'' @ Itoa (int i) @ ''.json''"

definition key_object :: "PrivateKey \<times> PublickKey \<Rightarrow> obj" where
  "key_object = (\<lambda>(pri, pub). fmap_of_list
     [(''public'', JStr (string_of (EncodePublicKey pub))), (''private'', JStr (string_of (EncodePrivateKey pri)))])"

definition GenerateKeyFiles ::
  "obj json \<Rightarrow> (string \<Rightarrow> bool) \<Rightarrow> (nat \<Rightarrow> PrivateKey \<times> PublickKey) \<Rightarrow> nat \<Rightarrow> string \<Rightarrow> files \<Rightarrow> files option" where
  "GenerateKeyFiles j opens keys pairs path fs =
     for_files (\<lambda>i. savetoFile j opens (key_file path i) (key_object (keys i))) [0..<pairs] fs"

definition GenKeysFromFile ::
  "obj json \<Rightarrow> files \<Rightarrow> string \<Rightarrow> (PublickKey \<times> PrivateKey \<times> error option) option" where
  "GenKeysFromFile j fs filename = do {
     res \<leftarrow> readFromFile j fs filename;
     case res of
       Inl err \<Rightarrow> Some (\<lparr>Pubkey = []\<rparr>, \<lparr>Prikey = []\<rparr>, Some err)
     | Inr data \<Rightarrow> do {
         pub \<leftarrow> as_str (fmlookup data ''public'');
         pri \<leftarrow> as_str (fmlookup data ''private'');
         let (pubKey, err) = DecodePublicKey (bytes_of pub);
         if err \<noteq> None then Some (pubKey, \<lparr>Prikey = []\<rparr>, err)
         else
           let (priKey, err) = DecodePrivateKey (bytes_of pri)
           in Some (pubKey, priKey, err) } }"

section \<open>Threshold key files\<close>

record ts_libs =
  l_kyber :: kyber
  l_share :: "TSPartialMarshalled json"
  l_pub :: "TSPublicMarshalled json"
  l_json :: "obj json"

definition ts_key_file :: "string \<Rightarrow> nat \<Rightarrow> string" where
  "ts_key_file path i = path @ ''/.node-ts-key-'' @ Itoa (int i) @ ''.json''"

text \<open>An error of encoding is dropped and leaves no bytes.\<close>

definition bytes_or_nil :: "error + bytes \<Rightarrow> bytes" where
  "bytes_or_nil r = (case r of Inl err \<Rightarrow> [] | Inr b \<Rightarrow> b)"

definition ts_object :: "ts_libs \<Rightarrow> PriShare \<Rightarrow> PubPoly \<Rightarrow> int \<Rightarrow> int \<Rightarrow> obj" where
  "ts_object l s pub n t = fmap_of_list
     [(''share'', JStr (string_of (bytes_or_nil (EncodeTSPartialKey (l_kyber l) (l_share l) s)))),
      (''pub'', JStr (string_of (bytes_or_nil (EncodeTSPublicKey (l_kyber l) (l_pub l) pub)))),
      (''N'', JNum n), (''T'', JNum t)]"

definition GenerateTsKeyFiles ::
  "ts_libs \<Rightarrow> (string \<Rightarrow> bool) \<Rightarrow> PriShare list \<times> PubPoly \<Rightarrow> nat \<Rightarrow> int \<Rightarrow> string \<Rightarrow> files \<Rightarrow> files option" where
  "GenerateTsKeyFiles l opens keys n t path fs =
     (let (shares, pub) = keys in
      for_files (\<lambda>i fs.
        if i < length shares
        then savetoFile (l_json l) opens (ts_key_file path i) (ts_object l (shares ! i) pub (int n) t) fs
        else None) [0..<n] fs)"

definition GenTsKeyFromFile :: "ts_libs \<Rightarrow> files \<Rightarrow> string \<Rightarrow> (error + SecretShareKey) option" where
  "GenTsKeyFromFile l fs filename = do {
     res \<leftarrow> readFromFile (l_json l) fs filename;
     case res of
       Inl err \<Rightarrow> Some (Inl err)
     | Inr data \<Rightarrow> do {
         share \<leftarrow> as_str (fmlookup data ''share'');
         pub \<leftarrow> as_str (fmlookup data ''pub'');
         n \<leftarrow> as_num (fmlookup data ''N'');
         t \<leftarrow> as_num (fmlookup data ''T'');
         Some (and_then (DecodeTSPartialKey (l_kyber l) (l_share l) (bytes_of share)) (\<lambda>priShare.
               and_then (DecodeTSPublicKey (l_kyber l) (l_pub l) (bytes_of pub)) (\<lambda>pubPoly.
               Inr \<lparr>sk_PubPoly = pubPoly, sk_PriShare = priShare, sk_N = n, sk_T = t\<rparr>))) } }"

section \<open>Parameters\<close>

record config_Parameters =
  cp_Pool :: pool_Parameters
  cp_Consensus :: Parameters

definition GenDefaultParameters :: config_Parameters where
  "GenDefaultParameters = \<lparr>cp_Pool = pool_DefaultParameters, cp_Consensus = DefaultParameters\<rparr>"

definition GenerateSampleParameters :: "config_Parameters json \<Rightarrow> (string \<Rightarrow> bool) \<Rightarrow> files \<Rightarrow> files option" where
  "GenerateSampleParameters j opens fs = savetoFile j opens ''./.parameters.json'' GenDefaultParameters fs"

definition GenParamatersFromFile ::
  "config_Parameters json \<Rightarrow> files \<Rightarrow> string \<Rightarrow> error + pool_Parameters \<times> Parameters" where
  "GenParamatersFromFile j fs filename =
     (case fs filename of
        None \<Rightarrow> Inl (ErrExt ''no such file or directory'')
      | Some b \<Rightarrow> and_then (json_Decode j b) (\<lambda>p. Inr (cp_Pool p, cp_Consensus p)))"

section \<open>The committee\<close>

definition DefaultPort :: int where
  "DefaultPort = 9000"

definition GenDefaultCommittee ::
  "(nat \<Rightarrow> PrivateKey \<times> PublickKey) \<Rightarrow> (int \<Rightarrow> nat \<Rightarrow> PriShare list \<times> PubPoly) \<Rightarrow> nat \<Rightarrow>
     (Committee \<times> PrivateKey list \<times> SecretShareKey list) option" where
  "GenDefaultCommittee keys GenTSKeys n =
     (let committee = \<lparr>Authorities = map (\<lambda>i. (int i,
            \<lparr>au_Name = snd (keys i), au_Id = int i, au_Addr = ''127.0.0.1:'' @ Itoa (DefaultPort + int i)\<rparr>)) [0..<n]\<rparr>;
          priKeys = map (\<lambda>i. fst (keys i)) [0..<n];
          (shares, pub) = GenTSKeys (HightThreshold committee) n in
      if length shares < n then None
      else Some (committee, priKeys, map (\<lambda>i. \<lparr>sk_PubPoly = pub, sk_PriShare = shares ! i, sk_N = int n,
             sk_T = HightThreshold committee\<rparr>) [0..<n]))"

definition authority_object :: "NodeID \<Rightarrow> Authority \<Rightarrow> obj" where
  "authority_object i item = fmap_of_list
     [(''name'', JStr (string_of (EncodePublicKey (au_Name item)))), (''node_id'', JNum i), (''addr'', JStr (au_Addr item))]"

definition committee_object :: "Committee \<Rightarrow> obj" where
  "committee_object c = fmap_of_list (map (\<lambda>(i, item). (Itoa i, JObj (authority_object i item))) (Authorities c))"

definition GenerateSmapleCommittee ::
  "obj json \<Rightarrow> (string \<Rightarrow> bool) \<Rightarrow> (nat \<Rightarrow> PrivateKey \<times> PublickKey) \<Rightarrow> (int \<Rightarrow> nat \<Rightarrow> PriShare list \<times> PubPoly) \<Rightarrow>
     files \<Rightarrow> files option" where
  "GenerateSmapleCommittee j opens keys GenTSKeys fs = do {
     (committee, _, _) \<leftarrow> GenDefaultCommittee keys GenTSKeys 4;
     savetoFile j opens ''./.committee.json'' (committee_object committee) fs }"

fun committee_loop :: "obj \<Rightarrow> string list \<Rightarrow> (NodeID \<times> Authority) list \<Rightarrow> (NodeID \<times> Authority) list option" where
  "committee_loop data [] auths = Some auths"
| "committee_loop data (key # ids) auths = do {
     info \<leftarrow> as_obj (fmlookup data key);
     name \<leftarrow> as_str (fmlookup info ''name'');
     addr \<leftarrow> as_str (fmlookup info ''addr'');
     let ID = fst (Atoi key);
     committee_loop data ids (AList.update ID
       \<lparr>au_Name = fst (DecodePublicKey (bytes_of name)), au_Id = ID, au_Addr = addr\<rparr> auths) }"

text \<open>\<open>visit\<close> is the order in which the run-time visits the keys of a map.\<close>

definition GenCommitteeFromFile ::
  "obj json \<Rightarrow> (string fset \<Rightarrow> string list) \<Rightarrow> files \<Rightarrow> string \<Rightarrow> (error + Committee) option" where
  "GenCommitteeFromFile j visit fs filename = do {
     res \<leftarrow> readFromFile j fs filename;
     case res of
       Inl err \<Rightarrow> Some (Inl err)
     | Inr data \<Rightarrow> do {
         auths \<leftarrow> committee_loop data (visit (fmdom data)) [];
         Some (Inr \<lparr>Authorities = auths\<rparr>) } }"

section \<open>What was written is read\<close>

text \<open>
  \<^verbatim>\<open>json.Decoder\<close> reads one value and leaves what comes after it, so a value that was written in front of
  older text is still found.
\<close>

definition reads_back :: "'d json \<Rightarrow> 'd \<Rightarrow> bool" where
  "reads_back j d \<longleftrightarrow> (case json_Encode j d of Inl e \<Rightarrow> False | Inr b \<Rightarrow> (\<forall>rest. json_Decode j (b @ rest) = Inr d))"

definition holds_value :: "'d json \<Rightarrow> files \<Rightarrow> string \<Rightarrow> 'd \<Rightarrow> bool" where
  "holds_value j fs f d \<longleftrightarrow> (case fs f of None \<Rightarrow> False | Some b \<Rightarrow> json_Decode j b = Inr d)"

lemma savetoFile_ok:
  assumes "opens f" "reads_back j d"
  shows "\<exists>fs'. savetoFile j opens f d fs = Some fs' \<and> holds_value j fs' f d \<and> (\<forall>g. g \<noteq> f \<longrightarrow> fs' g = fs g)"
  using assms by (auto simp: savetoFile_def reads_back_def holds_value_def Let_def split: sum.splits)

lemma holds_frame: "fs' f = fs f \<Longrightarrow> holds_value j fs' f d = holds_value j fs f d"
  by (simp add: holds_value_def)

lemma for_files_ok:
  assumes "\<And>i fs. i \<in> set ks \<Longrightarrow> \<exists>fs'. body i fs = Some fs' \<and> holds_value j fs' (name i) (dat i) \<and>
      (\<forall>g. g \<noteq> name i \<longrightarrow> fs' g = fs g)"
    and "inj name" "distinct ks"
  shows "\<exists>fs'. for_files body ks fs = Some fs' \<and> (\<forall>i \<in> set ks. holds_value j fs' (name i) (dat i)) \<and>
      (\<forall>g. g \<notin> name ` set ks \<longrightarrow> fs' g = fs g)"
  using assms
proof (induction ks arbitrary: fs)
  case (Cons i ks)
  obtain fs1 where fs1: "body i fs = Some fs1" "holds_value j fs1 (name i) (dat i)" "\<forall>g. g \<noteq> name i \<longrightarrow> fs1 g = fs g"
    using Cons.prems(1) [of i fs] by auto
  obtain fs2 where fs2: "for_files body ks fs1 = Some fs2" "\<forall>i \<in> set ks. holds_value j fs2 (name i) (dat i)"
      "\<forall>g. g \<notin> name ` set ks \<longrightarrow> fs2 g = fs1 g"
    using Cons.IH [of fs1] Cons.prems by auto
  have "name i \<notin> name ` set ks" using Cons.prems(2,3) by (auto dest: injD)
  then have "holds_value j fs2 (name i) (dat i)" using fs1(2) fs2(3) holds_frame by metis
  then show ?case using fs1 fs2 by auto
qed simp

lemma key_file_inj: "inj (key_file path)" "inj (ts_key_file path)"
  by (auto simp: inj_on_def key_file_def ts_key_file_def)

lemma readFromFile_holds: "holds_value j fs f d \<Longrightarrow> readFromFile j fs f = Some (Inr d)"
  by (auto simp: holds_value_def readFromFile_def split: option.splits)

lemma hex_keys [simp]:
  "DecodePublicKey (EncodePublicKey pk) = (pk, None)" "DecodePrivateKey (EncodePrivateKey sk) = (sk, None)"
  by (simp_all add: DecodePublicKey_def EncodePublicKey_def DecodePrivateKey_def EncodePrivateKey_def hex_roundtrip)

lemma GenKeysFromFile_holds:
  "holds_value j fs f (key_object (sk, pk)) \<Longrightarrow> GenKeysFromFile j fs f = Some (pk, sk, None)"
  by (simp add: GenKeysFromFile_def readFromFile_holds key_object_def fmlookup_of_list)

lemma GenTsKeyFromFile_holds:
  assumes "holds_value (l_json l) fs f (ts_object l s pub n t)"
    and "EncodeTSPartialKey (l_kyber l) (l_share l) s = Inr b" "DecodeTSPartialKey (l_kyber l) (l_share l) b = Inr s"
    and "EncodeTSPublicKey (l_kyber l) (l_pub l) pub = Inr b'" "DecodeTSPublicKey (l_kyber l) (l_pub l) b' = Inr pub"
  shows "GenTsKeyFromFile l fs f = Some (Inr \<lparr>sk_PubPoly = pub, sk_PriShare = s, sk_N = n, sk_T = t\<rparr>)"
  using assms(2-5)
  by (simp add: GenTsKeyFromFile_def readFromFile_holds [OF assms(1)] ts_object_def bytes_or_nil_def fmlookup_of_list)

subsection \<open>The committee\<close>

lemma committee_object_lookup:
  assumes "distinct (map fst (Authorities c))" "(i, a) \<in> set (Authorities c)"
  shows "fmlookup (committee_object c) (Itoa i) = Some (JObj (authority_object i a))"
proof -
  have "map_of (map (\<lambda>(i, item). (Itoa i, JObj (authority_object i item))) as) (Itoa i) = Some (JObj (authority_object i a))"
    if "distinct (map fst as)" "(i, a) \<in> set as" for as
    using that by (induction as) (auto simp: rev_image_eqI)
  then show ?thesis using assms by (simp add: committee_object_def fmlookup_of_list)
qed

lemma committee_object_dom: "fset (fmdom (committee_object c)) = Itoa ` members c"
  by (force simp: committee_object_def members_def fmdom_fmap_of_list fset_of_list.rep_eq)

lemma committee_loop_ok:
  assumes "distinct (map fst (Authorities c))" "\<forall>(i, a) \<in> set (Authorities c). au_Id a = i \<and> is_i64 i"
    and "set ids \<subseteq> Itoa ` members c" "distinct (map fst as)"
  shows "\<exists>r. committee_loop (committee_object c) ids as = Some r \<and> distinct (map fst r) \<and>
    (\<forall>i. map_of r i = (if Itoa i \<in> set ids then map_of (Authorities c) i else map_of as i))"
  using assms(3,4)
proof (induction ids arbitrary: as)
  case (Cons key ids)
  obtain i a where ia: "(i, a) \<in> set (Authorities c)" "key = Itoa i"
    using Cons.prems(1) by (auto simp: members_def)
  have at: "map_of (Authorities c) i = Some a" using ia(1) assms(1) by (rule map_of_is_SomeI [rotated])
  have a: "au_Id a = i" "is_i64 i" using assms(2) ia(1) by auto
  then have same: "\<lparr>au_Name = au_Name a, au_Id = i, au_Addr = au_Addr a\<rparr> = a" by simp
  have "committee_loop (committee_object c) (key # ids) as = committee_loop (committee_object c) ids (AList.update i a as)"
    using committee_object_lookup [OF assms(1) ia(1)] ia(2) a(2)
    by (simp add: Atoi_Itoa authority_object_def fmlookup_of_list same)
  moreover have "distinct (map fst (AList.update i a as))" using Cons.prems(2) by (rule distinct_update)
  ultimately obtain r where r: "committee_loop (committee_object c) (key # ids) as = Some r" "distinct (map fst r)"
      "\<forall>i'. map_of r i' = (if Itoa i' \<in> set ids then map_of (Authorities c) i' else map_of (AList.update i a as) i')"
    using Cons.IH [of "AList.update i a as"] Cons.prems(1) by auto
  then show ?case using at ia(2) by (auto simp: update_conv')
qed simp

lemma committee_read:
  assumes "holds_value j fs f (committee_object c)" "distinct (map fst (Authorities c))"
    and "\<forall>(i, a) \<in> set (Authorities c). au_Id a = i \<and> is_i64 i"
    and "set (visit (fmdom (committee_object c))) = fset (fmdom (committee_object c))"
  shows "\<exists>c'. GenCommitteeFromFile j visit fs f = Some (Inr c') \<and> distinct (map fst (Authorities c')) \<and>
    map_of (Authorities c') = map_of (Authorities c)"
proof -
  have "set (visit (fmdom (committee_object c))) = Itoa ` members c" using assms(4) committee_object_dom by simp
  then obtain r where r: "committee_loop (committee_object c) (visit (fmdom (committee_object c))) [] = Some r"
      "distinct (map fst r)" "\<forall>i. map_of r i = (if i \<in> members c then map_of (Authorities c) i else None)"
    using committee_loop_ok [OF assms(2,3), of "visit (fmdom (committee_object c))" "[]"] by (auto simp: image_iff)
  then have "map_of r = map_of (Authorities c)"
    by (intro ext) (auto simp: members_def map_of_eq_None_iff [symmetric])
  then show ?thesis
    using r by (simp add: GenCommitteeFromFile_def readFromFile_holds [OF assms(1)])
qed

lemma GenDefaultCommittee_wf:
  assumes "GenDefaultCommittee keys GenTSKeys n = Some (c, sks, shares)"
  shows "distinct (map fst (Authorities c))" "length (Authorities c) = n"
    "\<forall>(i, a) \<in> set (Authorities c). au_Id a = i \<and> 0 \<le> i \<and> i < int n"
  using assms by (auto simp: GenDefaultCommittee_def Let_def o_def distinct_map inj_on_def split: prod.splits if_splits)

lemma same_authorities_size:
  assumes "distinct (map fst (Authorities c))" "distinct (map fst (Authorities c'))"
    and "map_of (Authorities c') = map_of (Authorities c)"
  shows "HightThreshold c' = HightThreshold c" "LowThreshold c' = LowThreshold c"
proof -
  have "length as = card (dom (map_of as))" if "distinct (map fst as)" for as :: "(NodeID \<times> Authority) list"
    using distinct_card [OF that] by (simp add: dom_map_of_conv_image_fst)
  then have "length (Authorities c') = length (Authorities c)" using assms by simp
  then show "HightThreshold c' = HightThreshold c" "LowThreshold c' = LowThreshold c"
    by (simp_all add: HightThreshold_def LowThreshold_def)
qed

end
