(* ===== verification/Base_Properties.thy ===== *)
theory Base_Properties
  imports Samples Config
begin

text \<open>
  The properties of the parts below the protocols: committee thresholds, key files, the network
  layer and the transaction pool.
\<close>

section \<open>Thresholds\<close>

lemma overlap_arith:
  fixes n :: nat
  assumes "0 < n" "(n - 1) div 3 < 2 * (2 * ((n - 1) div 3) + 1) - n"
  shows "n mod 3 = 1"
proof -
  define f where "f = (n - 1) div 3"
  have "n - 1 = 3 * f + (n - 1) mod 3" by (simp add: f_def)
  moreover have "n < 3 * f + 2" using assms(2) unfolding f_def [symmetric] less_diff_conv by simp
  ultimately have "n = 3 * f + 1" using assms(1) by linarith
  then show ?thesis by simp
qed

text \<open>C26: In a committee with distinct identifiers, any two sets of \<^verbatim>\<open>HightThreshold\<close> members share
  more members than the \<open>(n - 1) div 3\<close> tolerated faults exactly when the size is \<open>3 f + 1\<close>. For any
  other size there are two quorums whose common members may all be faulty.\<close>

theorem quorum_overlap_iff:
  assumes "wf_committee c"
  shows "(\<forall>A B. A \<subseteq> members c \<longrightarrow> B \<subseteq> members c \<longrightarrow> HightThreshold c \<le> int (card A) \<longrightarrow>
      HightThreshold c \<le> int (card B) \<longrightarrow> faults c < card (A \<inter> B)) \<longleftrightarrow> length (Authorities c) mod 3 = 1"
    (is "?all \<longleftrightarrow> ?mod")
proof
  assume ?mod
  then have "bft_committee c" using assms by (simp add: bft_committee_def)
  then show ?all using cq.card_overlap [of c] by (auto simp: nat_le_iff)
next
  assume all: ?all
  have card: "card (members c) = length (Authorities c)" by (rule card_members [OF assms])
  have "2 * faults c + 1 \<le> card (members c)"
    using assms by (cases "Authorities c") (auto simp: card faults_def wf_committee_def)
  then obtain A B where AB: "A \<subseteq> members c" "B \<subseteq> members c" "card A = 2 * faults c + 1"
      "card B = 2 * faults c + 1" "card (A \<inter> B) = 2 * (2 * faults c + 1) - card (members c)"
    using small_overlap [OF finite_members] by metis
  then have "faults c < card (A \<inter> B)"
    using all [rule_format, of A B] by (simp add: HightThreshold_eq)
  then show ?mod
    using AB(5) card overlap_arith [of "length (Authorities c)"] assms by (simp add: faults_def wf_committee_def)
qed

theorem quorum_overlap_iff_witness:
  "wf_committee four \<and> faults four < card ({0, 1, 2} \<inter> {1, 2, 3 :: NodeID})"
proof -
  have wf: "wf_committee four" and m: "length (Authorities four) mod 3 = 1"
    using four_bft by (simp_all add: bft_committee_def)
  have "{0, 1, 2} \<subseteq> members four" "{1, 2, 3} \<subseteq> members four" by (auto simp: four_members)
  moreover have "HightThreshold four \<le> int (card {0, 1, 2 :: NodeID})" "HightThreshold four \<le> int (card {1, 2, 3 :: NodeID})"
    by (simp_all add: four_size)
  ultimately show ?thesis
    using wf quorum_overlap_iff [OF wf, THEN iffD2, OF m, rule_format] by blast
qed

section \<open>Key files\<close>

text \<open>Decoding the hex text that \<^verbatim>\<open>EncodePublicKey\<close> or \<^verbatim>\<open>EncodePrivateKey\<close> made gives back the key
  and no error, for keys of every length.\<close>

theorem key_roundtrip:
  "DecodePublicKey (EncodePublicKey pk) = (pk, None) \<and> DecodePrivateKey (EncodePrivateKey sk) = (sk, None)"
  by simp

text \<open>C31: If the files can be opened and JSON reads back what it wrote, then \<^verbatim>\<open>GenerateKeyFiles\<close> does not panic,
  whatever the files held before and although it does not truncate them, and \<^verbatim>\<open>GenKeysFromFile\<close> on the
  file of each node then gives exactly the key pair that was made for it, without an error.\<close>

theorem key_files_roundtrip:
  assumes "\<forall>i < pairs. opens (key_file path i)" "\<forall>i < pairs. reads_back j (key_object (keys i))"
  shows "\<exists>fs'. GenerateKeyFiles j opens keys pairs path fs = Some fs' \<and>
    (\<forall>i < pairs. GenKeysFromFile j fs' (key_file path i) = Some (snd (keys i), fst (keys i), None))"
proof -
  let ?body = "\<lambda>i. savetoFile j opens (key_file path i) (key_object (keys i))"
  have body: "\<exists>fs'. ?body i fs = Some fs' \<and> holds_value j fs' (key_file path i) (key_object (keys i)) \<and>
      (\<forall>g. g \<noteq> key_file path i \<longrightarrow> fs' g = fs g)" if "i \<in> set [0..<pairs]" for i fs
    using that assms by (intro savetoFile_ok) auto
  obtain fs' where fs': "GenerateKeyFiles j opens keys pairs path fs = Some fs'"
      "\<forall>i < pairs. holds_value j fs' (key_file path i) (key_object (keys i))"
    using for_files_ok [where name = "key_file path" and dat = "\<lambda>i. key_object (keys i)" and body = ?body and ks = "[0..<pairs]"
        and j = j and fs = fs, OF body key_file_inj(1)]
    by (auto simp: GenerateKeyFiles_def)
  have "GenKeysFromFile j fs' (key_file path i) = Some (snd (keys i), fst (keys i), None)" if "i < pairs" for i
    using fs'(2) that by (intro GenKeysFromFile_holds) simp
  then show ?thesis using fs'(1) by blast
qed

definition two_keys :: "nat \<Rightarrow> PrivateKey \<times> PublickKey" where
  "two_keys i = (\<lparr>Prikey = [of_nat i, 7]\<rparr>, \<lparr>Pubkey = [of_nat i]\<rparr>)"

definition two_json :: "obj json" where
  "two_json = \<lparr>json_Encode = (\<lambda>d. Inr (if d = key_object (two_keys 0) then [0] else [1])),
     json_Decode = (\<lambda>bs. case bs of [] \<Rightarrow> Inl ErrHexLength | b # _ \<Rightarrow> Inr (key_object (two_keys (unat b))))\<rparr>"

theorem key_files_roundtrip_witness:
  "\<exists>fs'. GenerateKeyFiles two_json (\<lambda>_. True) two_keys 2 ''d'' [key_file ''d'' 1 \<mapsto> [9, 9, 9]] = Some fs' \<and>
     GenKeysFromFile two_json fs' (key_file ''d'' 1) = Some (\<lparr>Pubkey = [1]\<rparr>, \<lparr>Prikey = [1, 7]\<rparr>, None)"
proof -
  have ne: "key_object (two_keys (Suc 0)) \<noteq> key_object (two_keys 0)"
    using GenKeysFromFile_holds [of "\<lparr>json_Encode = (\<lambda>_. Inr []), json_Decode = (\<lambda>_. Inr (key_object (two_keys 0)))\<rparr>"
        "[[] \<mapsto> []]" "[]" "fst (two_keys 1)" "snd (two_keys 1)"]
      GenKeysFromFile_holds [of "\<lparr>json_Encode = (\<lambda>_. Inr []), json_Decode = (\<lambda>_. Inr (key_object (two_keys 0)))\<rparr>"
        "[[] \<mapsto> []]" "[]" "fst (two_keys 0)" "snd (two_keys 0)"]
    by (auto simp: holds_value_def two_keys_def)
  have "\<forall>i < 2. reads_back two_json (key_object (two_keys i))"
    using ne by (auto simp: less_2_cases_iff reads_back_def two_json_def)
  then show ?thesis
    using key_files_roundtrip [of 2 "\<lambda>_. True" "''d''" two_json two_keys "[key_file ''d'' 1 \<mapsto> [9, 9, 9]]"]
    by (auto simp: two_keys_def)
qed

text \<open>C32: If the files can be opened, JSON reads back what it wrote and the kyber library decodes the scalars and
  points it encoded, then \<^verbatim>\<open>GenTsKeyFromFile\<close> on the file that \<^verbatim>\<open>GenerateTsKeyFiles\<close> has written for a node
  gives the share of this node, the public polynomial, and the numbers \<open>n\<close> and \<open>t\<close>.\<close>

theorem ts_key_files_roundtrip:
  assumes "\<forall>i < n. opens (ts_key_file path i)" "n \<le> length shares"
    and "\<forall>i < n. reads_back (l_json l) (ts_object l (shares ! i) pub (int n) t)"
    and "\<forall>i < n. scalar_ok (l_kyber l) (ps_V (shares ! i))"
    and "\<forall>i < n. \<forall>m. MarshallTSPartialKey (l_kyber l) (shares ! i) = Inr m \<longrightarrow> json_ok (l_share l) m"
    and "point_ok (l_kyber l) (pp_base pub)" "list_all (point_ok (l_kyber l)) (pp_commits pub)"
    and "\<forall>m. MarshallTSPublicKey (l_kyber l) pub = Inr m \<longrightarrow> json_ok (l_pub l) m"
  shows "\<exists>fs'. GenerateTsKeyFiles l opens (shares, pub) n t path fs = Some fs' \<and>
    (\<forall>i < n. GenTsKeyFromFile l fs' (ts_key_file path i) =
       Some (Inr \<lparr>sk_PubPoly = pub, sk_PriShare = shares ! i, sk_N = int n, sk_T = t\<rparr>))"
proof -
  let ?obj = "\<lambda>i. ts_object l (shares ! i) pub (int n) t"
  let ?body = "\<lambda>i fs. if i < length shares then savetoFile (l_json l) opens (ts_key_file path i) (?obj i) fs else None"
  have body: "\<exists>fs'. ?body i fs = Some fs' \<and> holds_value (l_json l) fs' (ts_key_file path i) (?obj i) \<and>
      (\<forall>g. g \<noteq> ts_key_file path i \<longrightarrow> fs' g = fs g)" if "i \<in> set [0..<n]" for i fs
    using savetoFile_ok [of opens "ts_key_file path i" "l_json l" "?obj i" fs] that assms(1-3) by auto
  obtain fs' where fs': "GenerateTsKeyFiles l opens (shares, pub) n t path fs = Some fs'"
      "\<forall>i < n. holds_value (l_json l) fs' (ts_key_file path i) (?obj i)"
    using for_files_ok [where name = "ts_key_file path" and dat = ?obj and body = ?body and ks = "[0..<n]"
        and j = "l_json l" and fs = fs, OF body key_file_inj(2)]
    by (auto simp: GenerateTsKeyFiles_def)
  obtain b' where b': "EncodeTSPublicKey (l_kyber l) (l_pub l) pub = Inr b'" "DecodeTSPublicKey (l_kyber l) (l_pub l) b' = Inr pub"
    using EncodeTSPublicKey_ok [OF assms(6,7)] assms(8) by blast
  have "GenTsKeyFromFile l fs' (ts_key_file path i) =
      Some (Inr \<lparr>sk_PubPoly = pub, sk_PriShare = shares ! i, sk_N = int n, sk_T = t\<rparr>)" if "i < n" for i
    using EncodeTSPartialKey_ok [of "l_kyber l" "shares ! i" "l_share l"] assms(4,5) that fs'(2) b'
    by (auto intro: GenTsKeyFromFile_holds)
  then show ?thesis using fs'(1) by blast
qed

definition one_share :: PriShare where
  "one_share = \<lparr>ps_I = 0, ps_V = [5]\<rparr>"

definition one_pub :: PubPoly where
  "one_pub = \<lparr>pp_base = [1], pp_commits = [[2], [3]]\<rparr>"

definition one_libs :: ts_libs where
  "one_libs = \<lparr>l_kyber = \<lparr>scalar_MarshalBinary = Inr, scalar_UnmarshalBinary = Inr, point_MarshalBinary = Inr, point_UnmarshalBinary = Inr\<rparr>,
     l_share = \<lparr>json_Encode = (\<lambda>_. Inr [1]), json_Decode = (\<lambda>_. Inr \<lparr>tp_I = 0, tp_Binary = [5]\<rparr>)\<rparr>,
     l_pub = \<lparr>json_Encode = (\<lambda>_. Inr [2]), json_Decode = (\<lambda>_. Inr \<lparr>tm_BaseBytes = [1], tm_CommitBytes = [[2], [3]]\<rparr>)\<rparr>,
     l_json = \<lparr>json_Encode = (\<lambda>_. Inr [3]), json_Decode = (\<lambda>_. Inr (fmap_of_list
       [(''share'', JStr (string_of [1])), (''pub'', JStr (string_of [2])), (''N'', JNum 1), (''T'', JNum 1)]))\<rparr>\<rparr>"

theorem ts_key_files_roundtrip_witness:
  "\<exists>fs'. GenerateTsKeyFiles one_libs (\<lambda>_. True) ([one_share], one_pub) 1 1 ''d'' Map.empty = Some fs' \<and>
     GenTsKeyFromFile one_libs fs' (ts_key_file ''d'' 0) =
       Some (Inr \<lparr>sk_PubPoly = one_pub, sk_PriShare = one_share, sk_N = 1, sk_T = 1\<rparr>)"
  using ts_key_files_roundtrip [of 1 "\<lambda>_. True" "''d''" "[one_share]" one_libs one_pub 1 Map.empty]
  by (simp add: one_libs_def one_share_def one_pub_def reads_back_def ts_object_def bytes_or_nil_def scalar_ok_def point_ok_def
      json_ok_def EncodeTSPartialKey_def EncodeTSPublicKey_def MarshallTSPartialKey_def MarshallTSPublicKey_def)

text \<open>C30: The committee file that \<^verbatim>\<open>GenerateSmapleCommittee\<close> writes is read by \<^verbatim>\<open>GenCommitteeFromFile\<close>, in whatever order
  the run-time visits it, as a committee with the same authorities under the same numbers, and so
  with the same thresholds.\<close>

theorem committee_file_roundtrip:
  assumes "opens ''./.committee.json''" "GenDefaultCommittee keys GenTSKeys 4 = Some (c, sks, shares)"
    and "reads_back j (committee_object c)"
    and "set (visit (fmdom (committee_object c))) = fset (fmdom (committee_object c))"
  shows "\<exists>fs' c'. GenerateSmapleCommittee j opens keys GenTSKeys fs = Some fs' \<and>
    GenCommitteeFromFile j visit fs' ''./.committee.json'' = Some (Inr c') \<and>
    map_of (Authorities c') = map_of (Authorities c) \<and> HightThreshold c' = HightThreshold c \<and> LowThreshold c' = LowThreshold c"
proof -
  obtain fs' where fs': "savetoFile j opens ''./.committee.json'' (committee_object c) fs = Some fs'"
      "holds_value j fs' ''./.committee.json'' (committee_object c)"
    using savetoFile_ok [of opens "''./.committee.json''", OF assms(1,3)] by blast
  have wf: "distinct (map fst (Authorities c))" "\<forall>(i, a) \<in> set (Authorities c). au_Id a = i \<and> is_i64 i"
    using GenDefaultCommittee_wf [OF assms(2)] by (auto simp: is_i64_def)
  obtain c' where c': "GenCommitteeFromFile j visit fs' ''./.committee.json'' = Some (Inr c')"
      "distinct (map fst (Authorities c'))" "map_of (Authorities c') = map_of (Authorities c)"
    using committee_read [OF fs'(2) wf, of visit] assms(4) by blast
  have "GenerateSmapleCommittee j opens keys GenTSKeys fs = Some fs'"
    using fs'(1) assms(2) by (simp add: GenerateSmapleCommittee_def)
  then show ?thesis using c' same_authorities_size [OF wf(1) c'(2,3)] by blast
qed

definition toy_default :: "Committee \<times> PrivateKey list \<times> SecretShareKey list" where
  "toy_default = the (GenDefaultCommittee two_keys (\<lambda>t n. (replicate n one_share, one_pub)) 4)"

theorem committee_file_roundtrip_witness:
  "\<exists>fs' c'. GenerateSmapleCommittee \<lparr>json_Encode = (\<lambda>_. Inr [1]), json_Decode = (\<lambda>_. Inr (committee_object (fst toy_default)))\<rparr>
       (\<lambda>_. True) two_keys (\<lambda>t n. (replicate n one_share, one_pub)) Map.empty = Some fs' \<and>
     GenCommitteeFromFile \<lparr>json_Encode = (\<lambda>_. Inr [1]), json_Decode = (\<lambda>_. Inr (committee_object (fst toy_default)))\<rparr>
       (\<lambda>_. [''3'', ''0'', ''2'', ''1'']) fs' ''./.committee.json'' = Some (Inr c') \<and> HightThreshold c' = 3"
proof -
  have d: "GenDefaultCommittee two_keys (\<lambda>t n. (replicate n one_share, one_pub)) 4 =
      Some (fst toy_default, fst (snd toy_default), snd (snd toy_default))"
    by (simp add: toy_default_def GenDefaultCommittee_def Let_def)
  have len: "length (Authorities (fst toy_default)) = 4" using GenDefaultCommittee_wf(2) [OF d] .
  have "members (fst toy_default) = {0, 1, 2, 3}"
    by (simp add: toy_default_def GenDefaultCommittee_def Let_def members_def upt_rec [of _ 4] flip: image_set)
  moreover have "Itoa 0 = ''0''" "Itoa 1 = ''1''" "Itoa 2 = ''2''" "Itoa 3 = ''3''" by code_simp+
  ultimately have "fset (fmdom (committee_object (fst toy_default))) = set [''3'', ''0'', ''2'', ''1'']"
    by (auto simp: committee_object_dom)
  then show ?thesis
    using committee_file_roundtrip [of "\<lambda>_. True", OF _ d, where
        j = "\<lparr>json_Encode = (\<lambda>_. Inr [1]), json_Decode = (\<lambda>_. Inr (committee_object (fst toy_default)))\<rparr>" and
        visit = "\<lambda>_. [''3'', ''0'', ''2'', ''1'']" and fs = Map.empty] len
    by (auto simp: reads_back_def HightThreshold_eq faults_def)
qed

section \<open>The network\<close>

text \<open>Broadcasting a sequence of messages.\<close>

fun broadcasts :: "NodeID \<Rightarrow> 'm list \<Rightarrow> 'm Transmitor \<Rightarrow> 'm Transmitor" where
  "broadcasts from [] tr = tr"
| "broadcasts from (m # ms) tr = broadcasts from ms (Transmitor_Send from NONE m tr)"

lemma broadcasts_msgCh:
  "tr_msgCh (broadcasts from ms tr) =
     tr_msgCh tr @ map (\<lambda>m. \<lparr>nm_Msg = m, nm_Address = Committee_BroadCast (tr_committee tr) from\<rparr>) ms"
proof (induction ms arbitrary: tr)
  case Nil
  then show ?case by simp
next
  case (Cons m ms)
  show ?case using Cons.IH [of "Transmitor_Send from NONE m tr"] by (simp add: Transmitor_Send_def Let_def)
qed

lemma count_broadcast:
  assumes "distinct (map (au_Addr \<circ> snd) as)" "(j, a) \<in> set as" "distinct (map fst as)"
  shows "count_list (broadcast_addrs as i) (au_Addr a) = (if j = i then 0 else 1)"
  using assms
proof (induction as)
  case Nil
  then show ?case by simp
next
  case (Cons x as)
  obtain k b where x: "x = (k, b)" by (cases x)
  have none: "count_list (broadcast_addrs as i) (au_Addr b) = 0"
    using Cons.prems(1) by (auto simp: x broadcast_addrs_eq count_list_0_iff image_iff)
  show ?case
  proof (cases "(j, a) = x")
    case True
    then show ?thesis using none x by auto
  next
    case False
    then have "(j, a) \<in> set as" using Cons.prems(2) by auto
    moreover have "au_Addr b \<noteq> au_Addr a"
      using Cons.prems(1) calculation by (force simp: x)
    ultimately show ?thesis using Cons x by auto
  qed
qed

text \<open>C33: When every member has its own address and the sender is connected to member \<open>j\<close>, then after
  node \<open>from\<close> has broadcast \<open>ms\<close> and the sender has worked off its queue, \<open>j\<close>'s connection carries
  exactly \<open>ms\<close>, each message once and in order, if \<open>j\<close> is another node, and nothing if \<open>j\<close> is \<open>from\<close>.\<close>

theorem broadcast_exactly_once:
  assumes "distinct (map fst (Authorities c))" "distinct (map (au_Addr \<circ> snd) (Authorities c))"
    and "(j, a) \<in> set (Authorities c)" "conns (au_Addr a) = Some q"
  shows "Sender_Run (map (Pair dial) (tr_msgCh (broadcasts from ms (NewTransmitor par c)))) conns (au_Addr a) =
    Some (q @ (if j = from then [] else ms))"
proof -
  have "sent_to (au_Addr a) (map (Pair dial) (tr_msgCh (broadcasts from ms (NewTransmitor par c)))) =
      (if j = from then [] else ms)"
    unfolding broadcasts_msgCh using count_broadcast [OF assms(2,3,1), of "from"]
    by (induction ms) (simp_all add: sent_to_def NewTransmitor_def Committee_BroadCast_def)
  then show ?thesis using Sender_Run_connected [of conns "au_Addr a" q, OF assms(4)] by simp
qed

theorem broadcast_exactly_once_witness:
  "Sender_Run (map (Pair (\<lambda>_. None)) (tr_msgCh (broadcasts 0 [7, 8 :: int] (NewTransmitor DefaultParameters four))))
     [''b'' \<mapsto> [5]] ''b'' = Some [5, 7, 8]"
  using broadcast_exactly_once [of four 1 "snd (toy_authority 1 ''b'' 1)" "[''b'' \<mapsto> [5]]" "[5]" "\<lambda>_. None" 0 "[7, 8]"
      DefaultParameters]
  by (simp add: four_def toy_authority_def)

section \<open>The transaction pool\<close>





end
