(* ===== verification/Smvba_Message.thy ===== *)
theory Smvba_Message
  imports Protocol_Base
begin

text \<open>
  \<^verbatim>\<open>core/smvba/consensus/message.go\<close>: the block and the eight messages of the SMVBA protocol, with
  their constructors, hashes and signature checks. The gob encoding of a block is a field of the
  protocol's environment \<open>smvba_env\<close>, next to the cryptographic primitives. A phase or flag is an
  \<^verbatim>\<open>int8\<close> that arrives from the network with any value, so it stays a number.
\<close>

section \<open>Blocks\<close>

record Block =
  b_Proposer :: NodeID
  b_Batch :: Batch
  b_Epoch :: int

definition NewBlock :: "NodeID \<Rightarrow> Batch \<Rightarrow> int \<Rightarrow> Block" where
  "NewBlock proposer batch epoch = \<lparr>b_Proposer = proposer, b_Batch = batch, b_Epoch = epoch\<rparr>"

record smvba_env = crypto +
  env_gob :: "Block gob"

definition Block_Encode :: "'a smvba_env_scheme \<Rightarrow> Block \<Rightarrow> error + bytes" where
  "Block_Encode w b = (case gob_Encode (env_gob w) b of Inl err \<Rightarrow> Inl err | Inr buf \<Rightarrow> Inr buf)"

definition Block_Decode :: "'a smvba_env_scheme \<Rightarrow> bytes \<Rightarrow> error + Block" where
  "Block_Decode w data = (case gob_Decode (env_gob w) data of Inl err \<Rightarrow> Inl err | Inr b \<Rightarrow> Inr b)"

definition Block_Hash :: "'a crypto_scheme \<Rightarrow> Block \<Rightarrow> Digest" where
  "Block_Hash w b =
     (let hasher = NewHasher;
          hasher = Hasher_Add hasher (AppendInt2 [] (b_Proposer b));
          hasher = Hasher_Add hasher (AppendInt2 [] (b_Epoch b));
          hasher = Hasher_Add hasher (AppendInt2 [] (bt_ID (b_Batch b)))
      in fst (Hasher_Sum256 w hasher []))"

lemma Block_Hash_eq:
  "Block_Hash w b = sha256_Sum256 w
     (AppendInt2 [] (b_Proposer b) @ AppendInt2 [] (b_Epoch b) @ AppendInt2 [] (bt_ID (b_Batch b)))"
  by (simp add: Block_Hash_def)

section \<open>Phases and flags\<close>

definition SPB_ONE_PHASE :: int where "SPB_ONE_PHASE = 0"
definition SPB_TWO_PHASE :: int where "SPB_TWO_PHASE = 1"
definition VOTE_FLAG_YES :: int where "VOTE_FLAG_YES = 0"
definition VOTE_FLAG_NO :: int where "VOTE_FLAG_NO = 1"

lemma phase_distinct [simp]:
  "SPB_ONE_PHASE \<noteq> SPB_TWO_PHASE" "SPB_TWO_PHASE \<noteq> SPB_ONE_PHASE"
  by (simp_all add: SPB_ONE_PHASE_def SPB_TWO_PHASE_def)

lemma vflag_distinct [simp]:
  "VOTE_FLAG_YES \<noteq> VOTE_FLAG_NO" "VOTE_FLAG_NO \<noteq> VOTE_FLAG_YES"
  by (simp_all add: VOTE_FLAG_YES_def VOTE_FLAG_NO_def)

section \<open>SPBProposal\<close>

record SPBProposal =
  sp_Author :: NodeID
  sp_B :: "Block option"
  sp_Epoch :: int
  sp_Round :: int
  sp_Phase :: int
  sp_Signature :: Signature

definition SPBProposal_Hash :: "'a crypto_scheme \<Rightarrow> SPBProposal \<Rightarrow> Digest" where
  "SPBProposal_Hash w p =
     (let hasher = NewHasher;
          hasher = Hasher_Add hasher (AppendInt2 [] (sp_Author p));
          hasher = Hasher_Add hasher (AppendInt2 [] (sp_Epoch p));
          hasher = Hasher_Add hasher (AppendInt2 [] (sp_Round p));
          hasher = Hasher_Add hasher (AppendInt2 [] (sp_Phase p));
          hasher = (case sp_B p of None \<Rightarrow> hasher | Some b \<Rightarrow> Hasher_Add hasher (Block_Hash w b))
      in fst (Hasher_Sum256 w hasher []))"

definition NewSPBProposal ::
  "'a crypto_scheme \<Rightarrow> NodeID \<Rightarrow> Block option \<Rightarrow> int \<Rightarrow> int \<Rightarrow> int \<Rightarrow> SigService \<Rightarrow> SPBProposal option" where
  "NewSPBProposal w author b epoch rnd phase sigService =
     (let proposal = \<lparr>sp_Author = author, sp_B = b, sp_Epoch = epoch, sp_Round = rnd,
                      sp_Phase = phase, sp_Signature = zero_Signature\<rparr>
      in do { sig \<leftarrow> RequestSignature w sigService (SPBProposal_Hash w proposal);
              Some (proposal\<lparr>sp_Signature := sig\<rparr>) })"

definition SPBProposal_Verify :: "'a crypto_scheme \<Rightarrow> Committee \<Rightarrow> SPBProposal \<Rightarrow> bool option" where
  "SPBProposal_Verify w committee p =
     (let pub = Committee_Name committee (sp_Author p)
      in Signature_Verify w (sp_Signature p) pub (SPBProposal_Hash w p))"

section \<open>SPBVote\<close>

record SPBVote =
  sv_Author :: NodeID
  sv_Proposer :: NodeID
  sv_BlockHash :: Digest
  sv_Epoch :: int
  sv_Round :: int
  sv_Phase :: int
  sv_Signature :: Signature

definition SPBVote_Hash :: "'a crypto_scheme \<Rightarrow> SPBVote \<Rightarrow> Digest" where
  "SPBVote_Hash w v =
     (let hasher = NewHasher;
          hasher = Hasher_Add hasher (AppendInt2 [] (sv_Author v));
          hasher = Hasher_Add hasher (AppendInt2 [] (sv_Epoch v));
          hasher = Hasher_Add hasher (AppendInt2 [] (sv_Round v));
          hasher = Hasher_Add hasher (AppendInt2 [] (sv_Phase v));
          hasher = Hasher_Add hasher (sv_BlockHash v)
      in fst (Hasher_Sum256 w hasher []))"

definition NewSPBVote ::
  "'a crypto_scheme \<Rightarrow> NodeID \<Rightarrow> NodeID \<Rightarrow> Digest \<Rightarrow> int \<Rightarrow> int \<Rightarrow> int \<Rightarrow> SigService \<Rightarrow> SPBVote option" where
  "NewSPBVote w author proposer blockHash epoch rnd phase sigService =
     (let vote = \<lparr>sv_Author = author, sv_Proposer = proposer, sv_BlockHash = blockHash,
                  sv_Epoch = epoch, sv_Round = rnd, sv_Phase = phase, sv_Signature = zero_Signature\<rparr>
      in do { sig \<leftarrow> RequestSignature w sigService (SPBVote_Hash w vote);
              Some (vote\<lparr>sv_Signature := sig\<rparr>) })"

definition SPBVote_Verify :: "'a crypto_scheme \<Rightarrow> Committee \<Rightarrow> SPBVote \<Rightarrow> bool option" where
  "SPBVote_Verify w committee v =
     (let pub = Committee_Name committee (sv_Author v)
      in Signature_Verify w (sv_Signature v) pub (SPBVote_Hash w v))"

section \<open>Finish\<close>

record Finish =
  fi_Author :: NodeID
  fi_BlockHash :: Digest
  fi_Epoch :: int
  fi_Round :: int
  fi_Signature :: Signature

definition Finish_Hash :: "'a crypto_scheme \<Rightarrow> Finish \<Rightarrow> Digest" where
  "Finish_Hash w f =
     (let hasher = NewHasher;
          hasher = Hasher_Add hasher (fi_BlockHash f);
          hasher = Hasher_Add hasher (AppendInt2 [] (fi_Author f));
          hasher = Hasher_Add hasher (AppendInt2 [] (fi_Epoch f));
          hasher = Hasher_Add hasher (AppendInt2 [] (fi_Round f))
      in fst (Hasher_Sum256 w hasher []))"

definition NewFinish ::
  "'a crypto_scheme \<Rightarrow> NodeID \<Rightarrow> Digest \<Rightarrow> int \<Rightarrow> int \<Rightarrow> SigService \<Rightarrow> Finish option" where
  "NewFinish w author blockHash epoch rnd sigService =
     (let finish = \<lparr>fi_Author = author, fi_BlockHash = blockHash, fi_Epoch = epoch, fi_Round = rnd,
                    fi_Signature = zero_Signature\<rparr>
      in do { sig \<leftarrow> RequestSignature w sigService (Finish_Hash w finish);
              Some (finish\<lparr>fi_Signature := sig\<rparr>) })"

definition Finish_Verify :: "'a crypto_scheme \<Rightarrow> Committee \<Rightarrow> Finish \<Rightarrow> bool option" where
  "Finish_Verify w committee f =
     (let pub = Committee_Name committee (fi_Author f)
      in Signature_Verify w (fi_Signature f) pub (Finish_Hash w f))"

section \<open>Done\<close>

record Done =
  dn_Author :: NodeID
  dn_Epoch :: int
  dn_Round :: int
  dn_Signature :: Signature

definition Done_Hash :: "'a crypto_scheme \<Rightarrow> Done \<Rightarrow> Digest" where
  "Done_Hash w d =
     (let hasher = NewHasher;
          hasher = Hasher_Add hasher (AppendInt2 [] (dn_Author d));
          hasher = Hasher_Add hasher (AppendInt2 [] (dn_Epoch d));
          hasher = Hasher_Add hasher (AppendInt2 [] (dn_Round d))
      in fst (Hasher_Sum256 w hasher []))"

definition NewDone :: "'a crypto_scheme \<Rightarrow> NodeID \<Rightarrow> int \<Rightarrow> int \<Rightarrow> SigService \<Rightarrow> Done option" where
  "NewDone w author epoch rnd sigService =
     (let d = \<lparr>dn_Author = author, dn_Epoch = epoch, dn_Round = rnd, dn_Signature = zero_Signature\<rparr>
      in do { sig \<leftarrow> RequestSignature w sigService (Done_Hash w d);
              Some (d\<lparr>dn_Signature := sig\<rparr>) })"

definition Done_Verify :: "'a crypto_scheme \<Rightarrow> Committee \<Rightarrow> Done \<Rightarrow> bool option" where
  "Done_Verify w committee d =
     (let pub = Committee_Name committee (dn_Author d)
      in Signature_Verify w (dn_Signature d) pub (Done_Hash w d))"

section \<open>ElectShare\<close>

record ElectShare =
  es_Author :: NodeID
  es_Epoch :: int
  es_Round :: int
  es_SigShare :: SignatureShare

definition ElectShare_Hash :: "'a crypto_scheme \<Rightarrow> ElectShare \<Rightarrow> Digest" where
  "ElectShare_Hash w e =
     (let hasher = NewHasher;
          hasher = Hasher_Add hasher (AppendInt2 [] (es_Epoch e));
          hasher = Hasher_Add hasher (AppendInt2 [] (es_Round e))
      in fst (Hasher_Sum256 w hasher []))"

text \<open>The constructor returns a nil pointer next to the error when signing the share fails.\<close>

definition NewElectShare ::
  "'a crypto_scheme \<Rightarrow> NodeID \<Rightarrow> int \<Rightarrow> int \<Rightarrow> SigService \<Rightarrow> (ElectShare option \<times> error option) option" where
  "NewElectShare w author epoch rnd sigService =
     (let elect = \<lparr>es_Author = author, es_Epoch = epoch, es_Round = rnd, es_SigShare = \<lparr>PartialSig = []\<rparr>\<rparr>
      in do { (sig, err) \<leftarrow> RequestTsSugnature w sigService (ElectShare_Hash w elect);
              Some (case err of
                      Some e \<Rightarrow> (None, Some e)
                    | None \<Rightarrow> (Some (elect\<lparr>es_SigShare := sig\<rparr>), None)) })"

text \<open>Called on a nil pointer, the method panics when it reads the author.\<close>

definition ElectShare_Verify :: "'a crypto_scheme \<Rightarrow> Committee \<Rightarrow> ElectShare option \<Rightarrow> bool option" where
  "ElectShare_Verify w committee p =
     do { e \<leftarrow> nonnil p; Some (SignatureShare_Verify (es_SigShare e) (ElectShare_Hash w e)) }"

section \<open>Prevote\<close>

record Prevote =
  pv_Author :: NodeID
  pv_Leader :: NodeID
  pv_Epoch :: int
  pv_Round :: int
  pv_Flag :: int
  pv_BlockHash :: Digest
  pv_Signature :: Signature

definition Prevote_Hash :: "'a crypto_scheme \<Rightarrow> Prevote \<Rightarrow> Digest" where
  "Prevote_Hash w p =
     (let hasher = NewHasher;
          hasher = Hasher_Add hasher (AppendInt2 [] (pv_Author p));
          hasher = Hasher_Add hasher (AppendInt2 [] (pv_Leader p));
          hasher = Hasher_Add hasher (AppendInt2 [] (pv_Epoch p));
          hasher = Hasher_Add hasher (AppendInt2 [] (pv_Round p));
          hasher = Hasher_Add hasher (AppendInt2 [] (pv_Flag p));
          hasher = Hasher_Add hasher (pv_BlockHash p)
      in fst (Hasher_Sum256 w hasher []))"

definition NewPrevote ::
  "'a crypto_scheme \<Rightarrow> NodeID \<Rightarrow> NodeID \<Rightarrow> int \<Rightarrow> int \<Rightarrow> int \<Rightarrow> Digest \<Rightarrow> SigService \<Rightarrow> Prevote option" where
  "NewPrevote w author leader epoch rnd flag blockHash sigService =
     (let prevote = \<lparr>pv_Author = author, pv_Leader = leader, pv_Epoch = epoch, pv_Round = rnd,
                     pv_Flag = flag, pv_BlockHash = blockHash, pv_Signature = zero_Signature\<rparr>
      in do { sig \<leftarrow> RequestSignature w sigService (Prevote_Hash w prevote);
              Some (prevote\<lparr>pv_Signature := sig\<rparr>) })"

definition Prevote_Verify :: "'a crypto_scheme \<Rightarrow> Committee \<Rightarrow> Prevote \<Rightarrow> bool option" where
  "Prevote_Verify w committee p =
     (let pub = Committee_Name committee (pv_Author p)
      in Signature_Verify w (pv_Signature p) pub (Prevote_Hash w p))"

section \<open>FinVote\<close>

record FinVote =
  fv_Author :: NodeID
  fv_Leader :: NodeID
  fv_Epoch :: int
  fv_Round :: int
  fv_Flag :: int
  fv_BlockHash :: Digest
  fv_Signature :: Signature

definition FinVote_Hash :: "'a crypto_scheme \<Rightarrow> FinVote \<Rightarrow> Digest" where
  "FinVote_Hash w p =
     (let hasher = NewHasher;
          hasher = Hasher_Add hasher (AppendInt2 [] (fv_Author p));
          hasher = Hasher_Add hasher (AppendInt2 [] (fv_Leader p));
          hasher = Hasher_Add hasher (AppendInt2 [] (fv_Epoch p));
          hasher = Hasher_Add hasher (AppendInt2 [] (fv_Round p));
          hasher = Hasher_Add hasher (AppendInt2 [] (fv_Flag p));
          hasher = Hasher_Add hasher (fv_BlockHash p)
      in fst (Hasher_Sum256 w hasher []))"

text \<open>The composite literal of the constructor does not set \<^verbatim>\<open>Leader\<close>, which stays 0.\<close>

definition NewFinVote ::
  "'a crypto_scheme \<Rightarrow> NodeID \<Rightarrow> NodeID \<Rightarrow> int \<Rightarrow> int \<Rightarrow> int \<Rightarrow> Digest \<Rightarrow> SigService \<Rightarrow> FinVote option" where
  "NewFinVote w author leader epoch rnd flag blockHash sigService =
     (let prevote = \<lparr>fv_Author = author, fv_Leader = 0, fv_Epoch = epoch, fv_Round = rnd,
                     fv_Flag = flag, fv_BlockHash = blockHash, fv_Signature = zero_Signature\<rparr>
      in do { sig \<leftarrow> RequestSignature w sigService (FinVote_Hash w prevote);
              Some (prevote\<lparr>fv_Signature := sig\<rparr>) })"

definition FinVote_Verify :: "'a crypto_scheme \<Rightarrow> Committee \<Rightarrow> FinVote \<Rightarrow> bool option" where
  "FinVote_Verify w committee p =
     (let pub = Committee_Name committee (fv_Author p)
      in Signature_Verify w (fv_Signature p) pub (FinVote_Hash w p))"

section \<open>Halt\<close>

record Halt =
  ha_Author :: NodeID
  ha_Epoch :: int
  ha_Round :: int
  ha_Leader :: NodeID
  ha_BlockHash :: Digest
  ha_Signature :: Signature

definition Halt_Hash :: "'a crypto_scheme \<Rightarrow> Halt \<Rightarrow> Digest" where
  "Halt_Hash w h =
     (let hasher = NewHasher;
          hasher = Hasher_Add hasher (AppendInt2 [] (ha_Author h));
          hasher = Hasher_Add hasher (AppendInt2 [] (ha_Epoch h));
          hasher = Hasher_Add hasher (AppendInt2 [] (ha_Leader h));
          hasher = Hasher_Add hasher (ha_BlockHash h)
      in fst (Hasher_Sum256 w hasher []))"

definition NewHalt ::
  "'a crypto_scheme \<Rightarrow> NodeID \<Rightarrow> NodeID \<Rightarrow> Digest \<Rightarrow> int \<Rightarrow> int \<Rightarrow> SigService \<Rightarrow> Halt option" where
  "NewHalt w author leader blockHash epoch rnd sigService =
     (let h = \<lparr>ha_Author = author, ha_Epoch = epoch, ha_Round = rnd, ha_Leader = leader,
               ha_BlockHash = blockHash, ha_Signature = zero_Signature\<rparr>
      in do { sig \<leftarrow> RequestSignature w sigService (Halt_Hash w h);
              Some (h\<lparr>ha_Signature := sig\<rparr>) })"

definition Halt_Verify :: "'a crypto_scheme \<Rightarrow> Committee \<Rightarrow> Halt \<Rightarrow> bool option" where
  "Halt_Verify w committee h =
     (let pub = Committee_Name committee (ha_Author h)
      in Signature_Verify w (ha_Signature h) pub (Halt_Hash w h))"

section \<open>The messages of the protocol\<close>

datatype smvba_msg =
    SPBProposalMsg SPBProposal
  | SPBVoteMsg SPBVote
  | FinishMsg Finish
  | DoneMsg Done
  | ElectShareMsg "ElectShare option"
  | PrevoteMsg Prevote
  | FinVoteMsg FinVote
  | HaltMsg Halt

fun MsgType :: "smvba_msg \<Rightarrow> int" where
  "MsgType (SPBProposalMsg _) = 0"
| "MsgType (SPBVoteMsg _) = 1"
| "MsgType (FinishMsg _) = 2"
| "MsgType (DoneMsg _) = 3"
| "MsgType (ElectShareMsg _) = 4"
| "MsgType (PrevoteMsg _) = 5"
| "MsgType (FinVoteMsg _) = 6"
| "MsgType (HaltMsg _) = 7"

datatype smvba_type =
  TSPBProposal | TSPBVote | TFinish | TDone | TElectShare | TPrevote | TFinVote | THalt

definition DefaultMessageTypeMap :: "int \<rightharpoonup> smvba_type" where
  "DefaultMessageTypeMap = [0 \<mapsto> TSPBProposal, 1 \<mapsto> TSPBVote, 2 \<mapsto> TFinish, 3 \<mapsto> TDone,
     4 \<mapsto> TElectShare, 5 \<mapsto> TPrevote, 6 \<mapsto> TFinVote, 7 \<mapsto> THalt]"

text \<open>The interface \<^verbatim>\<open>Validator\<close>, which every message of the protocol implements.\<close>

fun Verify :: "'a crypto_scheme \<Rightarrow> Committee \<Rightarrow> smvba_msg \<Rightarrow> bool option" where
  "Verify w c (SPBProposalMsg p) = SPBProposal_Verify w c p"
| "Verify w c (SPBVoteMsg v) = SPBVote_Verify w c v"
| "Verify w c (FinishMsg f) = Finish_Verify w c f"
| "Verify w c (DoneMsg d) = Done_Verify w c d"
| "Verify w c (ElectShareMsg e) = ElectShare_Verify w c e"
| "Verify w c (PrevoteMsg p) = Prevote_Verify w c p"
| "Verify w c (FinVoteMsg v) = FinVote_Verify w c v"
| "Verify w c (HaltMsg h) = Halt_Verify w c h"

lemmas smvba_hash_defs =
  SPBProposal_Hash_def SPBVote_Hash_def Finish_Hash_def Done_Hash_def ElectShare_Hash_def
  Prevote_Hash_def FinVote_Hash_def Halt_Hash_def

lemmas smvba_new_defs =
  NewSPBProposal_def NewSPBVote_def NewFinish_def NewDone_def NewElectShare_def
  NewPrevote_def NewFinVote_def NewHalt_def

lemmas smvba_verify_defs =
  SPBProposal_Verify_def SPBVote_Verify_def Finish_Verify_def Done_Verify_def ElectShare_Verify_def
  Prevote_Verify_def FinVote_Verify_def Halt_Verify_def

section \<open>A node's own messages\<close>

text \<open>
  The messages whose author is the node and whose signature is the node's own over their hash; a
  proposal of the first phase has a block, and a share is nil only when signing a share can fail.
\<close>

fun own_msg :: "'a crypto_scheme \<Rightarrow> NodeID \<Rightarrow> SigService \<Rightarrow> smvba_msg \<Rightarrow> bool" where
  "own_msg w name sig (SPBProposalMsg p) \<longleftrightarrow>
     sp_Author p = name \<and> (sp_Phase p = SPB_ONE_PHASE \<longrightarrow> sp_B p \<noteq> None) \<and>
     RequestSignature w sig (SPBProposal_Hash w p) = Some (sp_Signature p)"
| "own_msg w name sig (SPBVoteMsg p) \<longleftrightarrow>
     sv_Author p = name \<and> RequestSignature w sig (SPBVote_Hash w p) = Some (sv_Signature p)"
| "own_msg w name sig (FinishMsg p) \<longleftrightarrow>
     fi_Author p = name \<and> RequestSignature w sig (Finish_Hash w p) = Some (fi_Signature p)"
| "own_msg w name sig (DoneMsg p) \<longleftrightarrow>
     dn_Author p = name \<and> RequestSignature w sig (Done_Hash w p) = Some (dn_Signature p)"
| "own_msg w name sig (ElectShareMsg None) \<longleftrightarrow> (\<exists>d share err. RequestTsSugnature w sig d = Some (share, Some err))"
| "own_msg w name sig (ElectShareMsg (Some p)) \<longleftrightarrow>
     es_Author p = name \<and> RequestTsSugnature w sig (ElectShare_Hash w p) = Some (es_SigShare p, None)"
| "own_msg w name sig (PrevoteMsg p) \<longleftrightarrow>
     pv_Author p = name \<and> RequestSignature w sig (Prevote_Hash w p) = Some (pv_Signature p)"
| "own_msg w name sig (FinVoteMsg p) \<longleftrightarrow>
     fv_Author p = name \<and> RequestSignature w sig (FinVote_Hash w p) = Some (fv_Signature p)"
| "own_msg w name sig (HaltMsg p) \<longleftrightarrow>
     ha_Author p = name \<and> RequestSignature w sig (Halt_Hash w p) = Some (ha_Signature p)"

lemma own_NewSPBProposal:
  "NewSPBProposal w name b e r ph sig = Some p \<Longrightarrow> ph = SPB_ONE_PHASE \<longrightarrow> b \<noteq> None \<Longrightarrow>
     own_msg w name sig (SPBProposalMsg p)"
  by (auto simp: NewSPBProposal_def SPBProposal_Hash_def bind_eq_Some_conv)

lemma own_NewSPBVote: "NewSPBVote w name n d e r ph sig = Some p \<Longrightarrow> own_msg w name sig (SPBVoteMsg p)"
  by (auto simp: NewSPBVote_def SPBVote_Hash_def bind_eq_Some_conv)

lemma own_NewFinish: "NewFinish w name d e r sig = Some p \<Longrightarrow> own_msg w name sig (FinishMsg p)"
  by (auto simp: NewFinish_def Finish_Hash_def bind_eq_Some_conv)

lemma own_NewDone: "NewDone w name e r sig = Some p \<Longrightarrow> own_msg w name sig (DoneMsg p)"
  by (auto simp: NewDone_def Done_Hash_def bind_eq_Some_conv)

lemma own_NewElectShare:
  assumes "NewElectShare w name e r sig = Some (p, err)"
  shows "own_msg w name sig (ElectShareMsg p)"
proof -
  let ?elect = "\<lparr>es_Author = name, es_Epoch = e, es_Round = r, es_SigShare = \<lparr>PartialSig = []\<rparr>\<rparr>"
  obtain share serr where sh: "RequestTsSugnature w sig (ElectShare_Hash w ?elect) = Some (share, serr)"
    using assms by (auto simp: NewElectShare_def bind_eq_Some_conv Let_def)
  show ?thesis
  proof (cases serr)
    case None
    then have "p = Some (?elect\<lparr>es_SigShare := share\<rparr>)"
      using assms sh by (simp add: NewElectShare_def Let_def)
    then show ?thesis using sh None by (simp add: ElectShare_Hash_def)
  next
    case (Some err')
    then have "p = None" using assms sh by (simp add: NewElectShare_def Let_def)
    then show ?thesis using sh Some by auto
  qed
qed

lemma own_NewPrevote: "NewPrevote w name l e r fl d sig = Some p \<Longrightarrow> own_msg w name sig (PrevoteMsg p)"
  by (auto simp: NewPrevote_def Prevote_Hash_def bind_eq_Some_conv)

lemma own_NewFinVote: "NewFinVote w name l e r fl d sig = Some p \<Longrightarrow> own_msg w name sig (FinVoteMsg p)"
  by (auto simp: NewFinVote_def FinVote_Hash_def bind_eq_Some_conv)

lemma own_NewHalt: "NewHalt w name l d e r sig = Some p \<Longrightarrow> own_msg w name sig (HaltMsg p)"
  by (auto simp: NewHalt_def Halt_Hash_def bind_eq_Some_conv)

lemmas own_New = own_NewSPBProposal own_NewSPBVote own_NewFinish own_NewDone own_NewElectShare
  own_NewPrevote own_NewFinVote own_NewHalt

end
