(* ===== verification/Smvba_Spb.thy ===== *)
theory Smvba_Spb
  imports Smvba_Message
begin

text \<open>
  \<^verbatim>\<open>core/smvba/consensus/spb.go\<close>: one strong provable broadcast. \<open>processProposal\<close> and \<open>processVote\<close>
  are the methods run without interruption. The core starts each call in a goroutine of its own,
  so \<open>spb_step\<close> cuts them into their atomic pieces (an atomic load or store, a section under a
  mutex, an operation on a channel), and \<open>solo\<close> runs the pieces of one goroutine to its end. The
  part of the core an instance uses is the record \<open>smvba_ctx\<close>, which the core extends.
\<close>

section \<open>Instances\<close>

record smvba_ctx =
  c_Name :: NodeID
  c_Committee :: Committee
  c_Parameters :: Parameters
  c_SigService :: SigService
  c_Transimtor :: "smvba_msg Transmitor"

definition c_send :: "NodeID \<Rightarrow> smvba_msg \<Rightarrow> 'c smvba_ctx_scheme \<Rightarrow> 'c smvba_ctx_scheme" where
  "c_send to msg c = c\<lparr>c_Transimtor := Transmitor_Send (c_Name c) to msg (c_Transimtor c)\<rparr>"

definition c_push :: "smvba_msg \<Rightarrow> 'c smvba_ctx_scheme \<Rightarrow> 'c smvba_ctx_scheme" where
  "c_push msg c = c\<lparr>c_Transimtor := RecvChannel_push msg (c_Transimtor c)\<rparr>"

record SPB =
  s_Proposer :: NodeID
  s_Epoch :: int
  s_Round :: int
  s_BlockHash :: "Digest option"
  s_Votes :: "int \<rightharpoonup> int"
  s_unHandleVote :: "SPBVote list"
  s_unHandleProposal :: "SPBProposal list"
  s_LockFlag :: bool

definition NewSPB :: "int \<Rightarrow> int \<Rightarrow> NodeID \<Rightarrow> SPB" where
  "NewSPB epoch rnd proposer = \<lparr>s_Proposer = proposer, s_Epoch = epoch, s_Round = rnd,
     s_BlockHash = None, s_Votes = Map.empty, s_unHandleVote = [], s_unHandleProposal = [],
     s_LockFlag = False\<rparr>"

definition IsLock :: "SPB \<Rightarrow> bool" where
  "IsLock s = s_LockFlag s"

definition GetBlockHash :: "SPB \<Rightarrow> Digest option" where
  "GetBlockHash s = s_BlockHash s"

section \<open>Goroutines\<close>

text \<open>Where a goroutine of the instance stands.\<close>

datatype spb_pc =
    PropEntry SPBProposal
  | PropStore SPBProposal
  | PropVote SPBProposal Digest
  | PropFlush
  | PropQueue SPBProposal
  | PropLock SPBProposal
  | PropVote2 SPBProposal
  | VoteEntry SPBVote
  | VoteQueue SPBVote
  | VoteCount SPBVote
  | VoteAct SPBVote int
  | Push smvba_msg

text \<open>A vote goes to the proposer, over the network or through the node's own queue.\<close>

definition send_vote ::
  "'a crypto_scheme \<Rightarrow> SPBProposal \<Rightarrow> Digest \<Rightarrow> SPB \<Rightarrow> 'c smvba_ctx_scheme \<Rightarrow> 'c smvba_ctx_scheme option" where
  "send_vote w p blockHash s c = do {
     vote \<leftarrow> NewSPBVote w (c_Name c) (sp_Author p) blockHash (s_Epoch s) (s_Round s) (sp_Phase p) (c_SigService c);
     if c_Name c \<noteq> s_Proposer s then Some (c_send (s_Proposer s) (SPBVoteMsg vote) c)
     else Some (c_push (SPBVoteMsg vote) c) }"

definition votes_of :: "SPB \<Rightarrow> int \<Rightarrow> int" where
  "votes_of s phase = (case s_Votes s phase of None \<Rightarrow> 0 | Some n \<Rightarrow> n)"

text \<open>The goroutines that the flush of the waiting lists starts.\<close>

definition unhandled :: "SPB \<Rightarrow> spb_pc list" where
  "unhandled s = map PropEntry (s_unHandleProposal s) @ map VoteEntry (s_unHandleVote s)"

section \<open>The methods run without interruption\<close>

text \<open>
  The result has the goroutines that were started, the instance and the core. The condition
  reads the block's proposer only when no hash is stored yet, and panics there for a nil block.
\<close>

definition processProposal ::
  "'a crypto_scheme \<Rightarrow> SPBProposal \<Rightarrow> SPB \<Rightarrow> 'c smvba_ctx_scheme \<Rightarrow>
     (spb_pc list \<times> SPB \<times> 'c smvba_ctx_scheme) option" where
  "processProposal w p s c =
     (if sp_Phase p = SPB_ONE_PHASE then
        (if s_BlockHash s \<noteq> None then Some ([], s, c)
         else do {
           b \<leftarrow> nonnil (sp_B p);
           if s_Proposer s \<noteq> b_Proposer b then Some ([], s, c)
           else do {
             let blockHash = Block_Hash w b;
             let s = s\<lparr>s_BlockHash := Some blockHash\<rparr>;
             c \<leftarrow> send_vote w p blockHash s c;
             let spawned = unhandled s;
             Some (spawned, s\<lparr>s_unHandleProposal := [], s_unHandleVote := []\<rparr>, c) } })
      else if sp_Phase p = SPB_TWO_PHASE then
        (if s_BlockHash s = None
         then Some ([], s\<lparr>s_unHandleProposal := s_unHandleProposal s @ [p]\<rparr>, c)
         else do {
           let s = s\<lparr>s_LockFlag := True\<rparr>;
           c \<leftarrow> send_vote w p zero_Digest s c;
           Some ([], s, c) })
      else Some ([], s, c))"

definition processVote ::
  "'a crypto_scheme \<Rightarrow> SPBVote \<Rightarrow> SPB \<Rightarrow> 'c smvba_ctx_scheme \<Rightarrow> (SPB \<times> 'c smvba_ctx_scheme) option" where
  "processVote w p s c =
     (if s_BlockHash s = None then Some (s\<lparr>s_unHandleVote := s_unHandleVote s @ [p]\<rparr>, c)
      else
        let s = s\<lparr>s_Votes := (s_Votes s)(sv_Phase p \<mapsto> votes_of s (sv_Phase p) + 1)\<rparr>;
            num = votes_of s (sv_Phase p) in
        if num = HightThreshold (c_Committee c) then
          (if sv_Phase p = SPB_ONE_PHASE then do {
             proposal \<leftarrow> NewSPBProposal w (c_Name c) None (s_Epoch s) (s_Round s) SPB_TWO_PHASE (c_SigService c);
             let c = c_send NONE (SPBProposalMsg proposal) c;
             Some (s, c_push (SPBProposalMsg proposal) c) }
           else if sv_Phase p = SPB_TWO_PHASE then do {
             blockHash \<leftarrow> s_BlockHash s;
             finish \<leftarrow> NewFinish w (c_Name c) blockHash (s_Epoch s) (s_Round s) (c_SigService c);
             let c = c_send NONE (FinishMsg finish) c;
             Some (s, c_push (FinishMsg finish) c) }
           else Some (s, c))
        else Some (s, c))"

section \<open>The methods in atomic pieces\<close>

text \<open>
  One piece of a goroutine: where it goes on (\<open>None\<close> at its end), the goroutines it starts, the
  instance and the core; a panic of any goroutine ends the process.
\<close>

fun spb_step ::
  "'a crypto_scheme \<Rightarrow> spb_pc \<Rightarrow> SPB \<Rightarrow> 'c smvba_ctx_scheme \<Rightarrow>
     (spb_pc option \<times> spb_pc list \<times> SPB \<times> 'c smvba_ctx_scheme) option" where
  "spb_step w (PropEntry p) s c =
     (if sp_Phase p = SPB_ONE_PHASE then
        (if s_BlockHash s \<noteq> None then Some (None, [], s, c)
         else do {
           b \<leftarrow> nonnil (sp_B p);
           if s_Proposer s \<noteq> b_Proposer b then Some (None, [], s, c)
           else Some (Some (PropStore p), [], s, c) })
      else if sp_Phase p = SPB_TWO_PHASE then
        (if s_BlockHash s = None then Some (Some (PropQueue p), [], s, c)
         else Some (Some (PropLock p), [], s, c))
      else Some (None, [], s, c))"
| "spb_step w (PropStore p) s c = do {
     b \<leftarrow> nonnil (sp_B p);
     let blockHash = Block_Hash w b;
     Some (Some (PropVote p blockHash), [], s\<lparr>s_BlockHash := Some blockHash\<rparr>, c) }"
| "spb_step w (PropVote p blockHash) s c = do {
     c \<leftarrow> send_vote w p blockHash s c;
     Some (Some PropFlush, [], s, c) }"
| "spb_step w PropFlush s c =
     Some (None, unhandled s, s\<lparr>s_unHandleProposal := [], s_unHandleVote := []\<rparr>, c)"
| "spb_step w (PropQueue p) s c =
     Some (None, [], s\<lparr>s_unHandleProposal := s_unHandleProposal s @ [p]\<rparr>, c)"
| "spb_step w (PropLock p) s c = Some (Some (PropVote2 p), [], s\<lparr>s_LockFlag := True\<rparr>, c)"
| "spb_step w (PropVote2 p) s c = do {
     c \<leftarrow> send_vote w p zero_Digest s c;
     Some (None, [], s, c) }"
| "spb_step w (VoteEntry v) s c =
     (if s_BlockHash s = None then Some (Some (VoteQueue v), [], s, c)
      else Some (Some (VoteCount v), [], s, c))"
| "spb_step w (VoteQueue v) s c =
     Some (None, [], s\<lparr>s_unHandleVote := s_unHandleVote s @ [v]\<rparr>, c)"
| "spb_step w (VoteCount v) s c =
     (let s = s\<lparr>s_Votes := (s_Votes s)(sv_Phase v \<mapsto> votes_of s (sv_Phase v) + 1)\<rparr>
      in Some (Some (VoteAct v (votes_of s (sv_Phase v))), [], s, c))"
| "spb_step w (VoteAct v num) s c =
     (if num = HightThreshold (c_Committee c) then
        (if sv_Phase v = SPB_ONE_PHASE then do {
           proposal \<leftarrow> NewSPBProposal w (c_Name c) None (s_Epoch s) (s_Round s) SPB_TWO_PHASE (c_SigService c);
           Some (Some (Push (SPBProposalMsg proposal)), [], s, c_send NONE (SPBProposalMsg proposal) c) }
         else if sv_Phase v = SPB_TWO_PHASE then do {
           blockHash \<leftarrow> s_BlockHash s;
           finish \<leftarrow> NewFinish w (c_Name c) blockHash (s_Epoch s) (s_Round s) (c_SigService c);
           Some (Some (Push (FinishMsg finish)), [], s, c_send NONE (FinishMsg finish) c) }
         else Some (None, [], s, c))
      else Some (None, [], s, c))"
| "spb_step w (Push msg) s c = Some (None, [], s, c_push msg c)"

text \<open>A goroutine run to its end with no other goroutine in between.\<close>

fun solo ::
  "nat \<Rightarrow> 'a crypto_scheme \<Rightarrow> spb_pc \<Rightarrow> SPB \<Rightarrow> 'c smvba_ctx_scheme \<Rightarrow>
     (spb_pc list \<times> SPB \<times> 'c smvba_ctx_scheme) option" where
  "solo 0 w pc s c = None"
| "solo (Suc n) w pc s c = do {
     (pc', spawned, s, c) \<leftarrow> spb_step w pc s c;
     case pc' of
       None \<Rightarrow> Some (spawned, s, c)
     | Some pc' \<Rightarrow> do { (spawned', s, c) \<leftarrow> solo n w pc' s c; Some (spawned @ spawned', s, c) } }"

section \<open>Both readings agree\<close>

lemma solo_4: "solo 4 w pc s c = solo (Suc (Suc (Suc (Suc 0)))) w pc s c"
  by (simp add: numeral_eq_Suc)

lemma solo_PropEntry: "solo 4 w (PropEntry p) s c = processProposal w p s c"
  by (cases "s_BlockHash s"; cases "sp_B p")
     (simp_all add: solo_4 processProposal_def send_vote_def unhandled_def Let_def go_simps bind_assoc
       split: option.split bind_splits)

lemma solo_VoteEntry: "solo 4 w (VoteEntry v) s c = do { (s, c) \<leftarrow> processVote w v s c; Some ([], s, c) }"
  by (cases "s_BlockHash s") (simp_all add: solo_4 processVote_def Let_def split: option.split bind_splits)

end
