(* ===== verification/Smvba_Aggreator.thy ===== *)
theory Smvba_Aggreator
  imports Smvba_Message
begin

text \<open>
  The vote aggregators of \<^verbatim>\<open>core/smvba/consensus/aggreator.go\<close>. Every aggregator is interpreted as
  the vote counter of \<^verbatim>\<open>Vote_Counting\<close>, so one vote per author and one event per threshold hold
  for each of them; the prevote aggregator, which has no such event, gets its own lemmas.
  A Go set \<^verbatim>\<open>map[NodeID]struct{}\<close> is an \<open>fset\<close>.
\<close>

section \<open>Finish votes\<close>

record FinishAggreator =
  fa_Authors :: "NodeID fset"

definition NewFinishAggreator :: FinishAggreator where
  "NewFinishAggreator = \<lparr>fa_Authors = {||}\<rparr>"

definition FinishAggreator_Append ::
  "Committee \<Rightarrow> Finish \<Rightarrow> FinishAggreator \<Rightarrow> (bool \<times> error option) \<times> FinishAggreator" where
  "FinishAggreator_Append committee finish f =
     (if fi_Author finish |\<in>| fa_Authors f
      then ((False, Some (ErrOneMoreMessage (MsgType (FinishMsg finish)) (fi_Epoch finish) (fi_Round finish)
                            (fi_Author finish))), f)
      else
        let f = f\<lparr>fa_Authors := finsert (fi_Author finish) (fa_Authors f)\<rparr> in
        if int (fcard (fa_Authors f)) = HightThreshold committee then ((True, None), f)
        else ((False, None), f))"

section \<open>Done votes\<close>

definition DONE_LOW_FLAG :: int where "DONE_LOW_FLAG = 0"
definition DONE_HIGH_FLAG :: int where "DONE_HIGH_FLAG = 1"
definition DONE_NONE_FLAG :: int where "DONE_NONE_FLAG = 2"

lemma done_flags [simp]:
  "DONE_LOW_FLAG \<noteq> DONE_HIGH_FLAG" "DONE_HIGH_FLAG \<noteq> DONE_LOW_FLAG"
  "DONE_LOW_FLAG \<noteq> DONE_NONE_FLAG" "DONE_NONE_FLAG \<noteq> DONE_LOW_FLAG"
  "DONE_HIGH_FLAG \<noteq> DONE_NONE_FLAG" "DONE_NONE_FLAG \<noteq> DONE_HIGH_FLAG"
  by (simp_all add: DONE_LOW_FLAG_def DONE_HIGH_FLAG_def DONE_NONE_FLAG_def)

record DoneAggreator =
  da_Authors :: "NodeID fset"

definition NewDoneAggreator :: DoneAggreator where
  "NewDoneAggreator = \<lparr>da_Authors = {||}\<rparr>"

definition DoneAggreator_Append ::
  "Committee \<Rightarrow> Done \<Rightarrow> DoneAggreator \<Rightarrow> (int \<times> error option) \<times> DoneAggreator" where
  "DoneAggreator_Append committee dn d =
     (if dn_Author dn |\<in>| da_Authors d
      then ((0, Some (ErrOneMoreMessage (MsgType (DoneMsg dn)) (dn_Epoch dn) (dn_Round dn) (dn_Author dn))), d)
      else
        let d = d\<lparr>da_Authors := finsert (dn_Author dn) (da_Authors d)\<rparr> in
        if int (fcard (da_Authors d)) = LowThreshold committee then ((DONE_LOW_FLAG, None), d)
        else if int (fcard (da_Authors d)) = HightThreshold committee then ((DONE_HIGH_FLAG, None), d)
        else ((DONE_NONE_FLAG, None), d))"

section \<open>Shares of the common coin\<close>

record ElectAggreator =
  ea_shares :: "SignatureShare list"
  ea_authors :: "NodeID fset"

definition NewElectAggreator :: ElectAggreator where
  "NewElectAggreator = \<lparr>ea_shares = [], ea_authors = {||}\<rparr>"

text \<open>\<^verbatim>\<open>%\<close> panics for a zero divisor; Go's remainder has the sign of the dividend.\<close>

definition ElectAggreator_Append ::
  "'a crypto_scheme \<Rightarrow> Committee \<Rightarrow> SigService \<Rightarrow> ElectShare \<Rightarrow> ElectAggreator \<Rightarrow>
     ((NodeID \<times> error option) \<times> ElectAggreator) option" where
  "ElectAggreator_Append w committee sigService elect e =
     (if es_Author elect |\<in>| ea_authors e
      then Some ((NONE, Some (ErrOneMoreMessage (MsgType (ElectShareMsg (Some elect))) (es_Epoch elect)
                                (es_Round elect) (es_Author elect))), e)
      else
        let e = e\<lparr>ea_authors := finsert (es_Author elect) (ea_authors e)\<rparr>;
            e = e\<lparr>ea_shares := ea_shares e @ [es_SigShare elect]\<rparr> in
        if int (length (ea_shares e)) = HightThreshold committee then
          (case CombineIntactTSPartial w (ea_shares e) (ss_ShareKey sigService) (ElectShare_Hash w elect) of
             (coin, Some err) \<Rightarrow> Some ((NONE, Some err), e)
           | (coin, None) \<Rightarrow> do {
               rand \<leftarrow> coin_loop RANDOM_LEN 0 coin 0;
               if Committee_Size committee = 0 then None
               else Some ((rand smod Committee_Size committee, None), e) })
        else Some ((NONE, None), e))"

section \<open>Prevotes\<close>

definition ACTION_YES :: int where "ACTION_YES = 0"
definition ACTION_NO :: int where "ACTION_NO = 1"
definition ACTION_COMMIT :: int where "ACTION_COMMIT = 2"
definition ACTION_NONE :: int where "ACTION_NONE = 3"

lemma actions [simp]:
  "ACTION_YES \<noteq> ACTION_NO" "ACTION_YES \<noteq> ACTION_COMMIT" "ACTION_YES \<noteq> ACTION_NONE"
  "ACTION_NO \<noteq> ACTION_YES" "ACTION_NO \<noteq> ACTION_COMMIT" "ACTION_NO \<noteq> ACTION_NONE"
  "ACTION_COMMIT \<noteq> ACTION_YES" "ACTION_COMMIT \<noteq> ACTION_NO" "ACTION_COMMIT \<noteq> ACTION_NONE"
  "ACTION_NONE \<noteq> ACTION_YES" "ACTION_NONE \<noteq> ACTION_NO" "ACTION_NONE \<noteq> ACTION_COMMIT"
  by (simp_all add: ACTION_YES_def ACTION_NO_def ACTION_COMMIT_def ACTION_NONE_def)

record PreVoteAggreator =
  pa_authors :: "NodeID fset"
  pa_yesNums :: int
  pa_noNums :: int
  pa_flag :: bool

definition NewPrevoteAggreator :: PreVoteAggreator where
  "NewPrevoteAggreator = \<lparr>pa_authors = {||}, pa_yesNums = 0, pa_noNums = 0, pa_flag = False\<rparr>"

definition PreVoteAggreator_Append ::
  "Committee \<Rightarrow> Prevote \<Rightarrow> PreVoteAggreator \<Rightarrow> (int \<times> error option) \<times> PreVoteAggreator" where
  "PreVoteAggreator_Append committee vote p =
     (if pv_Author vote |\<in>| pa_authors p
      then ((ACTION_NONE, Some (ErrOneMoreMessage (MsgType (PrevoteMsg vote)) (pv_Epoch vote)
                                  (pv_Round vote) (pv_Author vote))), p)
      else
        let p = p\<lparr>pa_authors := finsert (pv_Author vote) (pa_authors p)\<rparr>;
            p = (if pv_Flag vote = VOTE_FLAG_NO then p\<lparr>pa_noNums := pa_noNums p + 1\<rparr>
                 else p\<lparr>pa_yesNums := pa_yesNums p + 1\<rparr>) in
        if pa_yesNums p > 0 \<and> \<not> pa_flag p then ((ACTION_YES, None), p\<lparr>pa_flag := True\<rparr>)
        else if pa_noNums p = HightThreshold committee \<and> \<not> pa_flag p then ((ACTION_NO, None), p)
        else ((ACTION_NONE, None), p))"

section \<open>Final votes\<close>

record FinVoteAggreator =
  va_authors :: "NodeID fset"
  va_yesNums :: int
  va_noNums :: int

definition NewFinVoteAggreator :: FinVoteAggreator where
  "NewFinVoteAggreator = \<lparr>va_authors = {||}, va_yesNums = 0, va_noNums = 0\<rparr>"

definition FinVoteAggreator_Append ::
  "Committee \<Rightarrow> FinVote \<Rightarrow> FinVoteAggreator \<Rightarrow> (int \<times> error option) \<times> FinVoteAggreator" where
  "FinVoteAggreator_Append committee vote f =
     (if fv_Author vote |\<in>| va_authors f
      then ((ACTION_NONE, Some (ErrOneMoreMessage (MsgType (FinVoteMsg vote)) (fv_Epoch vote)
                                  (fv_Round vote) (fv_Author vote))), f)
      else
        let f = f\<lparr>va_authors := finsert (fv_Author vote) (va_authors f)\<rparr>;
            f = (if fv_Flag vote = VOTE_FLAG_YES then f\<lparr>va_yesNums := va_yesNums f + 1\<rparr>
                 else f\<lparr>va_noNums := va_noNums f + 1\<rparr>);
            th = HightThreshold committee in
        if va_yesNums f + va_noNums f = th then
          (if va_yesNums f = th then ((ACTION_COMMIT, None), f)
           else if va_noNums f = th then ((ACTION_NO, None), f)
           else ((ACTION_YES, None), f))
        else ((ACTION_NONE, None), f))"

section \<open>The aggregator of all epochs and rounds\<close>

record Aggreator =
  ag_committee :: Committee
  ag_finish :: "int \<rightharpoonup> int \<rightharpoonup> FinishAggreator"
  ag_done :: "int \<rightharpoonup> int \<rightharpoonup> DoneAggreator"
  ag_prevote :: "int \<rightharpoonup> int \<rightharpoonup> PreVoteAggreator"
  ag_finvote :: "int \<rightharpoonup> int \<rightharpoonup> FinVoteAggreator"

definition NewAggreator :: "Committee \<Rightarrow> Aggreator" where
  "NewAggreator committee = \<lparr>ag_committee = committee, ag_finish = Map.empty, ag_done = Map.empty,
     ag_prevote = Map.empty, ag_finvote = Map.empty\<rparr>"

text \<open>
  On the first vote of a round \<^verbatim>\<open>AddFinishVote\<close> appends to one new aggregator and stores another one:
  the vote is not in the aggregator that the later votes reach.
\<close>

definition AddFinishVote :: "Finish \<Rightarrow> Aggreator \<Rightarrow> (bool \<times> error option) \<times> Aggreator" where
  "AddFinishVote finish a =
     (case get2 (ag_finish a) (fi_Epoch finish) (fi_Round finish) of
        Some item \<Rightarrow>
          let (r, item) = FinishAggreator_Append (ag_committee a) finish item
          in (r, a\<lparr>ag_finish := put2 (ag_finish a) (fi_Epoch finish) (fi_Round finish) item\<rparr>)
      | None \<Rightarrow>
          let item = NewFinishAggreator;
              a = a\<lparr>ag_finish := put2 (ag_finish a) (fi_Epoch finish) (fi_Round finish) NewFinishAggreator\<rparr>;
              (r, item) = FinishAggreator_Append (ag_committee a) finish item
          in (r, a))"

definition AddDoneVote :: "Done \<Rightarrow> Aggreator \<Rightarrow> (int \<times> error option) \<times> Aggreator" where
  "AddDoneVote dn a =
     (let item = (case get2 (ag_done a) (dn_Epoch dn) (dn_Round dn) of
                    Some item \<Rightarrow> item | None \<Rightarrow> NewDoneAggreator);
          (r, item) = DoneAggreator_Append (ag_committee a) dn item
      in (r, a\<lparr>ag_done := put2 (ag_done a) (dn_Epoch dn) (dn_Round dn) item\<rparr>))"

definition AddPreVote :: "Prevote \<Rightarrow> Aggreator \<Rightarrow> (int \<times> error option) \<times> Aggreator" where
  "AddPreVote vote a =
     (let item = (case get2 (ag_prevote a) (pv_Epoch vote) (pv_Round vote) of
                    Some item \<Rightarrow> item | None \<Rightarrow> NewPrevoteAggreator);
          (r, item) = PreVoteAggreator_Append (ag_committee a) vote item
      in (r, a\<lparr>ag_prevote := put2 (ag_prevote a) (pv_Epoch vote) (pv_Round vote) item\<rparr>))"

definition AddFinVote :: "FinVote \<Rightarrow> Aggreator \<Rightarrow> (int \<times> error option) \<times> Aggreator" where
  "AddFinVote vote a =
     (let item = (case get2 (ag_finvote a) (fv_Epoch vote) (fv_Round vote) of
                    Some item \<Rightarrow> item | None \<Rightarrow> NewFinVoteAggreator);
          (r, item) = FinVoteAggreator_Append (ag_committee a) vote item
      in (r, a\<lparr>ag_finvote := put2 (ag_finvote a) (fv_Epoch vote) (fv_Round vote) item\<rparr>))"

section \<open>The aggregators count votes\<close>

lemmas append_defs = FinishAggreator_Append_def DoneAggreator_Append_def PreVoteAggreator_Append_def
  FinVoteAggreator_Append_def

interpretation fa: quorum_counter fa_Authors FinishAggreator_Append fi_Author "\<lambda>_. True" "\<lambda>_. True"
    "\<lambda>r. r" "\<lambda>c. nat (HightThreshold c)"
  by unfold_locales (auto simp: FinishAggreator_Append_def fcard_finsert_disjoint Let_def threshold_nat split: if_splits)

interpretation dl: quorum_counter da_Authors DoneAggreator_Append dn_Author "\<lambda>_. True" "\<lambda>_. True"
    "\<lambda>r. r = DONE_LOW_FLAG" "\<lambda>c. nat (LowThreshold c)"
  by unfold_locales (auto simp: DoneAggreator_Append_def fcard_finsert_disjoint Let_def threshold_nat split: if_splits)

text \<open>In a committee of at most three nodes both thresholds are 1 and the high flag is never returned.\<close>

interpretation dh: quorum_counter da_Authors DoneAggreator_Append dn_Author "\<lambda>_. True"
    "\<lambda>c. 3 < length (Authorities c)" "\<lambda>r. r = DONE_HIGH_FLAG" "\<lambda>c. nat (HightThreshold c)"
proof -
  have "LowThreshold c \<noteq> HightThreshold c" if "3 < length (Authorities c)" for c
    using that by (simp add: Low_eq_Hight_iff)
  then show "quorum_counter da_Authors DoneAggreator_Append dn_Author (\<lambda>_. True)
    (\<lambda>c. 3 < length (Authorities c)) (\<lambda>r. r = DONE_HIGH_FLAG) (\<lambda>c. nat (HightThreshold c))"
    by unfold_locales (auto simp: DoneAggreator_Append_def fcard_finsert_disjoint Let_def threshold_nat split: if_splits)
qed

definition fin_inv :: "FinVoteAggreator \<Rightarrow> bool" where
  "fin_inv f \<longleftrightarrow> 0 \<le> va_yesNums f \<and> 0 \<le> va_noNums f \<and> va_yesNums f + va_noNums f = int (fcard (va_authors f))"

interpretation va: quorum_counter va_authors FinVoteAggreator_Append fv_Author fin_inv "\<lambda>_. True"
    "\<lambda>r. r \<noteq> ACTION_NONE" "\<lambda>c. nat (HightThreshold c)"
  by unfold_locales
    (auto simp: FinVoteAggreator_Append_def fin_inv_def fcard_finsert_disjoint Let_def threshold_nat split: if_splits)

definition pre_inv :: "PreVoteAggreator \<Rightarrow> bool" where
  "pre_inv p \<longleftrightarrow> 0 \<le> pa_yesNums p \<and> 0 \<le> pa_noNums p \<and> pa_yesNums p + pa_noNums p = int (fcard (pa_authors p)) \<and>
     (pa_flag p \<longleftrightarrow> 0 < pa_yesNums p)"

interpretation pa: vote_counter pa_authors PreVoteAggreator_Append pv_Author pre_inv "\<lambda>_. True"
  by unfold_locales
    (auto simp: PreVoteAggreator_Append_def pre_inv_def fcard_finsert_disjoint Let_def threshold_nat split: if_splits)

text \<open>The coin's aggregator, when the library combines every full set of shares to a long enough coin.\<close>

type_synonym 'w elect_env = "'w crypto_scheme \<times> Committee \<times> SigService"

definition elect_inv :: "ElectAggreator \<Rightarrow> bool" where
  "elect_inv e \<longleftrightarrow> length (ea_shares e) = fcard (ea_authors e)"

definition coin_ok :: "'w elect_env \<Rightarrow> bool" where
  "coin_ok = (\<lambda>(w, c, sig). 0 < Committee_Size c \<and>
     (\<forall>shares d. int (length shares) = HightThreshold c \<longrightarrow>
        (\<exists>coin. CombineIntactTSPartial w shares (ss_ShareKey sig) d = (coin, None) \<and> RANDOM_LEN \<le> length coin)))"

definition elect_append ::
  "'w elect_env \<Rightarrow> ElectShare \<Rightarrow> ElectAggreator \<Rightarrow> (NodeID \<times> error option) \<times> ElectAggreator" where
  "elect_append = (\<lambda>(w, c, sig) v a. the (ElectAggreator_Append w c sig v a))"

text \<open>Every result that is not an error and not \<open>NONE\<close> is the index of a committee member.\<close>

lemma ElectAggreator_Append_range:
  assumes "ElectAggreator_Append w c sig elect e = Some ((node, err), e')" "node \<noteq> NONE"
  shows "err = None \<and> 0 \<le> node \<and> node < Committee_Size c \<and>
     int (length (ea_shares e')) = HightThreshold c \<and> es_Author elect |\<notin>| ea_authors e"
proof -
  have "0 \<le> Committee_Size c" by (simp add: Committee_Size_def)
  then show ?thesis
    using assms
    by (auto simp: ElectAggreator_Append_def Let_def bind_eq_Some_conv coin_nonneg smod_nonneg
        split: if_splits prod.splits option.splits dest!: coin_nonneg)
qed

lemma elect_new:
  assumes ok: "coin_ok (w, c, sig)" and new: "es_Author v |\<notin>| ea_authors a" and inv: "elect_inv a"
  shows "\<exists>node. ElectAggreator_Append w c sig v a =
     Some ((node, None), a\<lparr>ea_authors := finsert (es_Author v) (ea_authors a), ea_shares := ea_shares a @ [es_SigShare v]\<rparr>) \<and>
     (node \<noteq> NONE \<longleftrightarrow> int (Suc (fcard (ea_authors a))) = HightThreshold c)"
proof (cases "int (Suc (length (ea_shares a))) = HightThreshold c")
  case True
  then obtain coin where coin: "CombineIntactTSPartial w (ea_shares a @ [es_SigShare v]) (ss_ShareKey sig)
      (ElectShare_Hash w v) = (coin, None)" "RANDOM_LEN \<le> length coin"
    using ok [unfolded coin_ok_def] by (auto dest!: spec [of _ "ea_shares a @ [es_SigShare v]"])
  obtain r where "coin_loop RANDOM_LEN 0 coin 0 = Some r"
    using coin_loop_Some [of 0 RANDOM_LEN coin 0] coin(2) by auto
  moreover have "r mod Committee_Size c \<noteq> - 1"
  proof -
    have "0 < Committee_Size c" using ok by (simp add: coin_ok_def)
    then have "0 \<le> r mod Committee_Size c" by (rule pos_mod_sign)
    then show ?thesis by linarith
  qed
  ultimately show ?thesis
    using True new inv ok coin(1) coin_nonneg [of coin r]
    by (auto simp: ElectAggreator_Append_def Let_def coin_ok_def elect_inv_def smod_nonneg NONE_def)
next
  case False
  then show ?thesis
    using new inv by (auto simp: ElectAggreator_Append_def Let_def elect_inv_def)
qed

lemma elect_append_dup: "es_Author v |\<in>| ea_authors a \<Longrightarrow> \<exists>r err. elect_append e v a = ((r, Some err), a)"
  by (cases e) (simp add: elect_append_def ElectAggreator_Append_def)

lemma elect_append_new:
  assumes "coin_ok e" "elect_inv a" "es_Author v |\<notin>| ea_authors a"
  obtains node where "elect_append e v a = ((node, None),
      a\<lparr>ea_authors := finsert (es_Author v) (ea_authors a), ea_shares := ea_shares a @ [es_SigShare v]\<rparr>)"
    "node \<noteq> NONE \<longleftrightarrow> Suc (fcard (ea_authors a)) = (case e of (w, c, sig) \<Rightarrow> nat (HightThreshold c))"
proof -
  obtain w c sig where e: "e = (w, c, sig)" by (cases e)
  show ?thesis
    using elect_new [of w c sig v a] assms that
    by (auto simp: e elect_append_def threshold_nat)
qed

interpretation ea: quorum_counter ea_authors elect_append es_Author elect_inv coin_ok
    "\<lambda>node. node \<noteq> NONE" "\<lambda>(w, c, sig). nat (HightThreshold c)"
proof unfold_locales
  fix v a and e :: "'a elect_env"
  show "es_Author v |\<in>| ea_authors a \<Longrightarrow> \<exists>r err. elect_append e v a = ((r, Some err), a)"
    by (rule elect_append_dup)
  assume ok: "coin_ok e" and inv: "elect_inv a"
  show "elect_inv (snd (elect_append e v a))"
  proof (cases "es_Author v |\<in>| ea_authors a")
    case True
    then show ?thesis using elect_append_dup [of v a e] inv by auto
  next
    case False
    show ?thesis
      by (rule elect_append_new [OF ok inv False]) (use inv False in \<open>simp add: elect_inv_def fcard_finsert_disjoint\<close>)
  qed
  assume new: "es_Author v |\<notin>| ea_authors a"
  show "ea_authors (snd (elect_append e v a)) = finsert (es_Author v) (ea_authors a)"
    by (rule elect_append_new [OF ok inv new]) simp
  fix r err a'
  assume "elect_append e v a = ((r, err), a')"
  then show "err = None \<and> (r \<noteq> NONE \<longleftrightarrow> Suc (fcard (ea_authors a)) = (case e of (w, c, sig) \<Rightarrow> nat (HightThreshold c)))"
    by - (rule elect_append_new [OF ok inv new], simp)
qed

lemma new_inv [simp]: "fin_inv NewFinVoteAggreator" "pre_inv NewPrevoteAggreator"
  by (simp_all add: fin_inv_def pre_inv_def NewFinVoteAggreator_def NewPrevoteAggreator_def)

section \<open>Who is behind an outcome\<close>

text \<open>Every counted vote has a different author who did send such a vote.\<close>

definition flag_authors :: "bool \<Rightarrow> FinVote list \<Rightarrow> NodeID set" where
  "flag_authors yes vs = fv_Author ` {v \<in> set vs. (fv_Flag v = VOTE_FLAG_YES) = yes}"

definition fin_backed :: "FinVote list \<Rightarrow> FinVoteAggreator \<Rightarrow> bool" where
  "fin_backed vs f \<longleftrightarrow> (\<exists>Y N. Y \<subseteq> flag_authors True vs \<and> N \<subseteq> flag_authors False vs \<and>
     Y \<union> N = fset (va_authors f) \<and> int (card Y) = va_yesNums f \<and> int (card N) = va_noNums f)"

lemma flag_authors_snoc: "flag_authors yes (vs @ [v]) =
    (if (fv_Flag v = VOTE_FLAG_YES) = yes then insert (fv_Author v) (flag_authors yes vs) else flag_authors yes vs)"
  by (auto simp: flag_authors_def)

lemma fin_backed_New: "fin_backed [] NewFinVoteAggreator"
  by (auto simp: fin_backed_def NewFinVoteAggreator_def)

lemma fin_backed_Append:
  assumes "fin_backed vs f"
  shows "fin_backed (vs @ [v]) (snd (FinVoteAggreator_Append c v f))"
proof (cases "fv_Author v |\<in>| va_authors f")
  case True
  then have same: "snd (FinVoteAggreator_Append c v f) = f"
    by (simp add: FinVoteAggreator_Append_def)
  have "flag_authors yes vs \<subseteq> flag_authors yes (vs @ [v])" for yes
    by (auto simp: flag_authors_def)
  then show ?thesis
    using assms unfolding fin_backed_def same by (meson subset_trans)
next
  case False
  obtain Y N where YN: "Y \<subseteq> flag_authors True vs" "N \<subseteq> flag_authors False vs" "Y \<union> N = fset (va_authors f)"
    "int (card Y) = va_yesNums f" "int (card N) = va_noNums f"
    using assms by (auto simp: fin_backed_def)
  have fin: "finite Y" "finite N" and notin: "fv_Author v \<notin> Y" "fv_Author v \<notin> N"
    using False YN(3) finite_Un [of Y N] by auto
  let ?f = "snd (FinVoteAggreator_Append c v f)"
  have f: "va_authors ?f = finsert (fv_Author v) (va_authors f)"
    "va_yesNums ?f = va_yesNums f + (if fv_Flag v = VOTE_FLAG_YES then 1 else 0)"
    "va_noNums ?f = va_noNums f + (if fv_Flag v = VOTE_FLAG_YES then 0 else 1)"
    using False by (simp_all add: FinVoteAggreator_Append_def Let_def)
  show ?thesis
  proof (cases "fv_Flag v = VOTE_FLAG_YES")
    case True
    then show ?thesis
      unfolding fin_backed_def flag_authors_snoc f
      using YN fin notin by (intro exI [of _ "insert (fv_Author v) Y"] exI [of _ N]) auto
  next
    case False
    then show ?thesis
      unfolding fin_backed_def flag_authors_snoc f
      using YN fin notin by (intro exI [of _ Y] exI [of _ "insert (fv_Author v) N"]) auto
  qed
qed

lemma fin_backed_feed: "fin_backed vs (snd (feed (FinVoteAggreator_Append c) vs NewFinVoteAggreator))"
  by (rule feed_invariant) (auto intro: fin_backed_New fin_backed_Append)

text \<open>The votes behind \<open>ACTION_COMMIT\<close> and \<open>ACTION_NO\<close>: a quorum of one kind and no other vote counted.\<close>

lemma fin_outcome_quorum:
  assumes "fst (FinVoteAggreator_Append c v f) = (act, None)" "fin_backed vs f"
    and "act = (if yes then ACTION_COMMIT else ACTION_NO)"
  shows "\<exists>Q. Q \<subseteq> flag_authors yes (vs @ [v]) \<and> int (card Q) = HightThreshold c"
proof -
  have new: "fv_Author v |\<notin>| va_authors f"
    using assms(1) by (auto simp: FinVoteAggreator_Append_def)
  let ?f = "snd (FinVoteAggreator_Append c v f)"
  have "(if yes then va_yesNums ?f else va_noNums ?f) = HightThreshold c"
    using assms(1,3) new by (auto simp: FinVoteAggreator_Append_def Let_def split: if_splits)
  then show ?thesis
    using fin_backed_Append [OF assms(2), of v c] unfolding fin_backed_def by (cases yes) auto
qed

lemma feed_fin_outcome:
  assumes "(act, None) \<in> set (fst (feed (FinVoteAggreator_Append c) vs NewFinVoteAggreator))"
    and "act = (if yes then ACTION_COMMIT else ACTION_NO)"
  shows "\<exists>Q. Q \<subseteq> flag_authors yes vs \<and> int (card Q) = HightThreshold c"
proof -
  obtain i where i: "i < length vs"
    "fst (feed (FinVoteAggreator_Append c) vs NewFinVoteAggreator) ! i = (act, None)"
    using assms(1) by (auto simp: in_set_conv_nth)
  have "flag_authors yes (take i vs @ [vs ! i]) \<subseteq> flag_authors yes vs"
    using i(1) set_take_subset [of i vs] by (auto simp: flag_authors_def)
  moreover have "\<exists>Q \<subseteq> flag_authors yes (take i vs @ [vs ! i]). int (card Q) = HightThreshold c"
    using i fin_outcome_quorum [OF _ fin_backed_feed [of "take i vs" c] assms(2)] by (simp add: feed_nth)
  ultimately show ?thesis by blast
qed

text \<open>
  The prevote aggregator says \<open>ACTION_NO\<close> only for a quorum of no-votes with no yes-vote before.
\<close>

lemma prevote_no:
  assumes "fst (PreVoteAggreator_Append c v p) = (ACTION_NO, None)" "pre_inv p"
  shows "pv_Flag v = VOTE_FLAG_NO \<and> pa_yesNums p = 0 \<and> int (fcard (pa_authors p)) + 1 = HightThreshold c"
  using assms by (auto simp: PreVoteAggreator_Append_def pre_inv_def Let_def split: if_splits)

lemma prevote_yes:
  assumes "fst (PreVoteAggreator_Append c v p) = (ACTION_YES, None)" "pre_inv p"
  shows "pv_Flag v \<noteq> VOTE_FLAG_NO \<and> pa_yesNums p = 0"
  using assms by (auto simp: PreVoteAggreator_Append_def pre_inv_def Let_def split: if_splits)

end
