(* ===== verification/Smvba_Commitor.thy ===== *)
theory Smvba_Commitor
  imports Smvba_Message
begin

text \<open>
  \<^verbatim>\<open>core/smvba/consensus/commitor.go\<close>: blocks arrive in any order of epochs and leave over \<^verbatim>\<open>commitCh\<close>
  in the order of their epochs. \<open>cm_commitCh\<close> is the sequence of everything sent on the channel. The
  loop of \<^verbatim>\<open>Commit\<close> ends because each round removes a pending block.
\<close>

record Committor =
  cm_Index :: int
  cm_Blocks :: "(int, Block) fmap"
  cm_commitCh :: "Block list"

definition NewCommittor :: Committor where
  "NewCommittor = \<lparr>cm_Index = 0, cm_Blocks = fmempty, cm_commitCh = []\<rparr>"

function commit_loop :: "Committor \<Rightarrow> Committor" where
  "commit_loop c =
     (case fmlookup (cm_Blocks c) (cm_Index c) of
        Some b \<Rightarrow>
          let c = c\<lparr>cm_commitCh := cm_commitCh c @ [b]\<rparr>;
              c = c\<lparr>cm_Blocks := fmdrop (cm_Index c) (cm_Blocks c)\<rparr>
          in commit_loop (c\<lparr>cm_Index := i64 (cm_Index c + 1)\<rparr>)
      | None \<Rightarrow> c)"
  by pat_completeness auto

termination
  by (relation "measure (\<lambda>c. fcard (fmdom (cm_Blocks c)))") (simp_all add: fcard_fmdrop_less del: fmdom_drop)

declare commit_loop.simps [simp del]

text \<open>\<^verbatim>\<open>Commit(nil)\<close> panics when it reads the epoch.\<close>

definition Commit :: "Block option \<Rightarrow> Committor \<Rightarrow> Committor option" where
  "Commit block c = do {
     b \<leftarrow> nonnil block;
     if b_Epoch b < cm_Index c then Some c
     else Some (commit_loop (c\<lparr>cm_Blocks := fmupd (b_Epoch b) b (cm_Blocks c)\<rparr>)) }"

text \<open>
  The goroutine that receives the committed blocks: one log line for each block that has
  transactions, one call-back for each block.
\<close>

fun Committor_run :: "Block list \<Rightarrow> (int \<times> NodeID \<times> int) list \<times> nat" where
  "Committor_run [] = ([], 0)"
| "Committor_run (block # bs) =
     (let (infos, callBack) = Committor_run bs in
      (if bt_Txs (b_Batch block) \<noteq> None
       then (b_Epoch block, b_Proposer block, bt_ID (b_Batch block)) # infos else infos, Suc callBack))"

section \<open>The committor is a reorder buffer\<close>

definition cm_view :: "Committor \<Rightarrow> Block buffer" where
  "cm_view c = (cm_Index c, cm_Blocks c, cm_commitCh c)"

lemma commit_loop_drain: "cm_view (commit_loop c) = drain (cm_view c)"
proof (induction c rule: commit_loop.induct)
  case (1 c)
  show ?case
  proof (cases "fmlookup (cm_Blocks c) (cm_Index c)")
    case None
    then show ?thesis by (simp add: commit_loop.simps [of c] cm_view_def drain.simps)
  next
    case (Some b)
    show ?thesis
      using 1 [OF Some refl refl] Some
      by (simp add: commit_loop.simps [of c] cm_view_def drain.simps [of "cm_Index c"])
  qed
qed

lemma Commit_Some:
  "Commit (Some b) c = Some (if b_Epoch b < cm_Index c then c
     else commit_loop (c\<lparr>cm_Blocks := fmupd (b_Epoch b) b (cm_Blocks c)\<rparr>))"
  by (simp add: Commit_def go_simps)

lemma Commit_total: "Commit block c \<noteq> None \<longleftrightarrow> block \<noteq> None"
  by (cases block) (simp_all add: Commit_def go_simps)

text \<open>Committing a sequence of blocks, none of them nil.\<close>

definition cm_submit :: "Block \<Rightarrow> Committor \<Rightarrow> Committor" where
  "cm_submit b c = the (Commit (Some b) c)"

interpretation co: reorder_buffer cm_view b_Epoch "\<lambda>b. b" cm_submit
proof unfold_locales
  fix c i m out x
  assume v: "cm_view c = (i, m, out)"
  show "b_Epoch x < i \<Longrightarrow> cm_view (cm_submit x c) = (i, m, out)"
    using v by (simp add: cm_submit_def Commit_Some cm_view_def)
  show "i \<le> b_Epoch x \<Longrightarrow> cm_view (cm_submit x c) = drain (i, fmupd (b_Epoch x) x m, out)"
    using v by (simp add: cm_submit_def Commit_Some commit_loop_drain) (simp add: cm_view_def)
qed

lemma Commit_in_order:
  "Commit (Some b) c = Some c' \<Longrightarrow> in_order b_Epoch (cm_view c) \<Longrightarrow> in_order b_Epoch (cm_view c')"
  using co.submit_in_order [of b_Epoch c b] by (simp add: cm_submit_def)

fun Commits :: "Block list \<Rightarrow> Committor \<Rightarrow> Committor option" where
  "Commits [] c = Some c"
| "Commits (b # bs) c = do { c \<leftarrow> Commit (Some b) c; Commits bs c }"

lemma Commits_fold: "Commits bs c = Some (fold cm_submit bs c)"
  by (induction bs arbitrary: c) (simp_all add: cm_submit_def Commit_Some)

lemma New_view [simp]: "cm_view NewCommittor = (0, fmempty, [])"
  by (simp add: cm_view_def NewCommittor_def)

lemma Committor_run_callbacks: "snd (Committor_run bs) = length bs"
  by (induction bs) (auto split: prod.splits)

end
