(* ===== verification/Smvba_Core.thy ===== *)
theory Smvba_Core
  imports Smvba_Spb Smvba_Elector Smvba_Commitor
begin

text \<open>
  \<^verbatim>\<open>core/smvba/consensus/core.go\<close>: the state of one node, every handler, the dispatch of a message
  and the main loop. A handler takes the core and returns its \<^verbatim>\<open>error\<close> with the core it leaves, or
  \<open>None\<close> for a panic. \<open>c_tasks\<close> holds the goroutines of the SPB instances that were started and
  have not ended, each with the key of its instance; \<^verbatim>\<open>Smvba_Node\<close> interleaves them.
\<close>

section \<open>State\<close>

record 'db Core = smvba_ctx +
  c_Store :: "'db Store"
  c_TxPool :: Pool
  c_Aggreator :: Aggreator
  c_Elector :: Elector
  c_Commitor :: Committor
  c_FinishFlags :: "int \<rightharpoonup> int \<rightharpoonup> NodeID \<rightharpoonup> Digest"
  c_SPbInstances :: "int \<rightharpoonup> int \<rightharpoonup> NodeID \<rightharpoonup> SPB"
  c_DoneFlags :: "int \<rightharpoonup> int \<rightharpoonup> unit"
  c_ReadyFlags :: "int \<rightharpoonup> int \<rightharpoonup> unit"
  c_HaltFlags :: "int fset"
  c_Epoch :: int
  c_tasks :: "((int \<times> int \<times> NodeID) \<times> spb_pc) list"

definition NewCore ::
  "NodeID \<Rightarrow> Committee \<Rightarrow> Parameters \<Rightarrow> SigService \<Rightarrow> 'db Store \<Rightarrow> Pool \<Rightarrow> smvba_msg Transmitor \<Rightarrow> 'db Core" where
  "NewCore Name committee parameters sigService store txPool transimtor =
     \<lparr>c_Name = Name, c_Committee = committee, c_Parameters = parameters, c_SigService = sigService,
      c_Transimtor = transimtor, c_Store = store, c_TxPool = txPool,
      c_Aggreator = NewAggreator committee, c_Elector = NewElector sigService committee,
      c_Commitor = NewCommittor, c_FinishFlags = Map.empty, c_SPbInstances = Map.empty,
      c_DoneFlags = Map.empty, c_ReadyFlags = Map.empty, c_HaltFlags = {||}, c_Epoch = 0, c_tasks = []\<rparr>"

section \<open>Helpers\<close>

definition messgaeFilter :: "int \<Rightarrow> 'db Core \<Rightarrow> bool" where
  "messgaeFilter epoch c \<longleftrightarrow> epoch < c_Epoch c"

definition storeBlock ::
  "'a smvba_env_scheme \<Rightarrow> Block option \<Rightarrow> 'db Core \<Rightarrow> (error option \<times> 'db Core) option" where
  "storeBlock w block c = do {
     b \<leftarrow> nonnil block;
     let key = Block_Hash w b;
     case Block_Encode w b of
       Inl err \<Rightarrow> Some (Some err, c)
     | Inr val \<Rightarrow>
         let (err, store) = Store_Write key val (c_Store c)
         in Some (err, c\<lparr>c_Store := store\<rparr>) }"

definition getBlock ::
  "'a smvba_env_scheme \<Rightarrow> Digest \<Rightarrow> 'db Core \<Rightarrow> (Block option \<times> error option) \<times> 'db Core" where
  "getBlock w digest c =
     (let ((val, err), store) = Store_Read digest (c_Store c);
          c = c\<lparr>c_Store := store\<rparr> in
      if err = Some ErrNotFoundKey then ((None, None), c)
      else if err \<noteq> None then ((None, err), c)
      else case Block_Decode w val of
             Inl err \<Rightarrow> ((None, Some err), c)
           | Inr b \<Rightarrow> ((Some b, None), c))"

definition getSpbInstance :: "int \<Rightarrow> int \<Rightarrow> NodeID \<Rightarrow> 'db Core \<Rightarrow> SPB \<times> 'db Core" where
  "getSpbInstance epoch rnd node c =
     (case get3 (c_SPbInstances c) epoch rnd node of
        Some inst \<Rightarrow> (inst, c)
      | None \<Rightarrow>
          let inst = NewSPB epoch rnd node
          in (inst, c\<lparr>c_SPbInstances := put3 (c_SPbInstances c) epoch rnd node inst\<rparr>))"

definition hasFinish :: "int \<Rightarrow> int \<Rightarrow> NodeID \<Rightarrow> 'db Core \<Rightarrow> bool \<times> Digest" where
  "hasFinish epoch rnd node c =
     (case c_FinishFlags c epoch of
        None \<Rightarrow> (False, zero_Digest)
      | Some items \<Rightarrow>
          (case items rnd of
             None \<Rightarrow> (False, zero_Digest)
           | Some item \<Rightarrow> (case item node of None \<Rightarrow> (False, zero_Digest) | Some d \<Rightarrow> (True, d))))"

definition hasReady :: "int \<Rightarrow> int \<Rightarrow> 'db Core \<Rightarrow> bool \<times> 'db Core" where
  "hasReady epoch rnd c =
     (case c_ReadyFlags c epoch of
        None \<Rightarrow> (False, c\<lparr>c_ReadyFlags := (c_ReadyFlags c)(epoch \<mapsto> Map.empty)\<rparr>)
      | Some items \<Rightarrow> (items rnd \<noteq> None, c))"

definition hasDone :: "int \<Rightarrow> int \<Rightarrow> 'db Core \<Rightarrow> bool \<times> 'db Core" where
  "hasDone epoch rnd c =
     (case c_DoneFlags c epoch of
        None \<Rightarrow> (False, c\<lparr>c_DoneFlags := (c_DoneFlags c)(epoch \<mapsto> Map.empty)\<rparr>)
      | Some items \<Rightarrow> (items rnd \<noteq> None, c))"

definition generatorBlock :: "int \<Rightarrow> 'db Core \<Rightarrow> (Block \<times> 'db Core) option" where
  "generatorBlock epoch c = do {
     (batch, txPool) \<leftarrow> GetBatch (c_TxPool c);
     Some (NewBlock (c_Name c) batch epoch, c\<lparr>c_TxPool := txPool\<rparr>) }"

text \<open>\<^verbatim>\<open>go spb.processProposal(p)\<close> and \<^verbatim>\<open>go spb.processVote(v)\<close>.\<close>

definition c_go :: "int \<times> int \<times> NodeID \<Rightarrow> spb_pc \<Rightarrow> 'db Core \<Rightarrow> 'db Core" where
  "c_go key pc c = c\<lparr>c_tasks := c_tasks c @ [(key, pc)]\<rparr>"

text \<open>\<^verbatim>\<open>c.Elector.Leader(epoch, round)\<close>\<close>

definition c_Leader :: "int \<Rightarrow> int \<Rightarrow> 'db Core \<Rightarrow> NodeID \<times> 'db Core" where
  "c_Leader epoch rnd c =
     (let (leader, el) = Leader epoch rnd (c_Elector c) in (leader, c\<lparr>c_Elector := el\<rparr>))"

section \<open>Broadcasts of blocks\<close>

definition handleSpbProposal ::
  "'a smvba_env_scheme \<Rightarrow> SPBProposal \<Rightarrow> 'db Core \<Rightarrow> (error option \<times> 'db Core) option" where
  "handleSpbProposal w p c = do {
     c \<leftarrow> (if sp_Phase p = SPB_ONE_PHASE \<and> sp_Epoch p |\<in>| c_HaltFlags c then
             let (leader, c) = c_Leader (sp_Epoch p) (sp_Round p) c in
             if leader = sp_Author p then do {
               cm \<leftarrow> Commit (sp_B p) (c_Commitor c);
               Some (c\<lparr>c_Commitor := cm\<rparr>) }
             else Some c
           else Some c);
     if messgaeFilter (sp_Epoch p) c then Some (None, c)
     else do {
       (err, c) \<leftarrow> (if sp_Phase p = SPB_ONE_PHASE then storeBlock w (sp_B p) c else Some (None, c));
       if err \<noteq> None then Some (err, c)
       else
         let (spb, c) = getSpbInstance (sp_Epoch p) (sp_Round p) (sp_Author p) c
         in Some (None, c_go (sp_Epoch p, sp_Round p, sp_Author p) (PropEntry p) c) } }"

definition handleSpbVote :: "SPBVote \<Rightarrow> 'db Core \<Rightarrow> (error option \<times> 'db Core) option" where
  "handleSpbVote v c =
     (if messgaeFilter (sv_Epoch v) c then Some (None, c)
      else
        let (spb, c) = getSpbInstance (sv_Epoch v) (sv_Round v) (sv_Proposer v) c
        in Some (None, c_go (sv_Epoch v, sv_Round v, sv_Proposer v) (VoteEntry v) c))"

section \<open>Finishing and electing\<close>

definition invokeDoneAndShare ::
  "'a smvba_env_scheme \<Rightarrow> int \<Rightarrow> int \<Rightarrow> 'db Core \<Rightarrow> (error option \<times> 'db Core) option" where
  "invokeDoneAndShare w epoch rnd c =
     (let (flag, c) = hasDone epoch rnd c in
      if \<not> flag then do {
        dn \<leftarrow> NewDone w (c_Name c) epoch rnd (c_SigService c);
        (share, _) \<leftarrow> NewElectShare w (c_Name c) epoch rnd (c_SigService c);
        let c = c_send NONE (DoneMsg dn) c;
        let c = c_send NONE (ElectShareMsg share) c;
        let c = c_push (DoneMsg dn) c;
        let c = c_push (ElectShareMsg share) c;
        Some (None, c\<lparr>c_DoneFlags := put2 (c_DoneFlags c) epoch rnd ()\<rparr>) }
      else Some (None, c))"

definition handleFinish ::
  "'a smvba_env_scheme \<Rightarrow> Finish \<Rightarrow> 'db Core \<Rightarrow> (error option \<times> 'db Core) option" where
  "handleFinish w f c =
     (if messgaeFilter (fi_Epoch f) c then Some (None, c)
      else
        let ((flag, err), ag) = AddFinishVote f (c_Aggreator c);
            c = c\<lparr>c_Aggreator := ag\<rparr> in
        if err \<noteq> None then Some (err, c)
        else
          let c = c\<lparr>c_FinishFlags :=
                put3 (c_FinishFlags c) (fi_Epoch f) (fi_Round f) (fi_Author f) (fi_BlockHash f)\<rparr> in
          if flag then invokeDoneAndShare w (fi_Epoch f) (fi_Round f) c
          else Some (None, c))"

text \<open>The leader is also read for the debug output at the start.\<close>

definition processLeader ::
  "'a smvba_env_scheme \<Rightarrow> int \<Rightarrow> int \<Rightarrow> 'db Core \<Rightarrow> (error option \<times> 'db Core) option" where
  "processLeader w epoch rnd c =
     (let (_, c) = c_Leader epoch rnd c;
          (ready, c) = hasReady epoch rnd c in
      if ready then
        let (leader, c) = c_Leader epoch rnd c in
        if leader \<noteq> NONE then
          let (ok, d) = hasFinish epoch rnd leader c in
          if ok then do {
            halt \<leftarrow> NewHalt w (c_Name c) leader d epoch rnd (c_SigService c);
            let c = c_send NONE (HaltMsg halt) c;
            Some (None, c_push (HaltMsg halt) c) }
          else do {
            let (spb, c) = getSpbInstance epoch rnd leader c;
            preVote \<leftarrow> (if IsLock spb then do {
                          blockHash \<leftarrow> GetBlockHash spb;
                          NewPrevote w (c_Name c) leader epoch rnd VOTE_FLAG_YES blockHash (c_SigService c) }
                        else NewPrevote w (c_Name c) leader epoch rnd VOTE_FLAG_NO zero_Digest (c_SigService c));
            let c = c_send NONE (PrevoteMsg preVote) c;
            Some (None, c_push (PrevoteMsg preVote) c) }
        else Some (None, c)
      else Some (None, c))"

definition handleDone ::
  "'a smvba_env_scheme \<Rightarrow> Done \<Rightarrow> 'db Core \<Rightarrow> (error option \<times> 'db Core) option" where
  "handleDone w d c =
     (if messgaeFilter (dn_Epoch d) c then Some (None, c)
      else
        let ((flag, err), ag) = AddDoneVote d (c_Aggreator c);
            c = c\<lparr>c_Aggreator := ag\<rparr> in
        if err \<noteq> None then Some (err, c)
        else if flag = DONE_LOW_FLAG then invokeDoneAndShare w (dn_Epoch d) (dn_Round d) c
        else if flag = DONE_HIGH_FLAG then
          processLeader w (dn_Epoch d) (dn_Round d)
            (c\<lparr>c_ReadyFlags := put2 (c_ReadyFlags c) (dn_Epoch d) (dn_Round d) ()\<rparr>)
        else Some (None, c))"

definition handleElectShare ::
  "'a smvba_env_scheme \<Rightarrow> ElectShare \<Rightarrow> 'db Core \<Rightarrow> (error option \<times> 'db Core) option" where
  "handleElectShare w share c =
     (if messgaeFilter (es_Epoch share) c then Some (None, c)
      else do {
        ((leader, err), el) \<leftarrow> AddShareVote w share (c_Elector c);
        let c = c\<lparr>c_Elector := el\<rparr>;
        if err \<noteq> None then Some (err, c)
        else if leader \<noteq> NONE then do {
          (_, c) \<leftarrow> processLeader w (es_Epoch share) (es_Round share) c;
          Some (None, c) }
        else Some (None, c) })"

section \<open>Voting\<close>

definition handlePrevote ::
  "'a smvba_env_scheme \<Rightarrow> Prevote \<Rightarrow> 'db Core \<Rightarrow> (error option \<times> 'db Core) option" where
  "handlePrevote w pv c =
     (if messgaeFilter (pv_Epoch pv) c then Some (None, c)
      else
        let ((flag, err), ag) = AddPreVote pv (c_Aggreator c);
            c = c\<lparr>c_Aggreator := ag\<rparr> in
        if err \<noteq> None then Some (err, c)
        else if flag = ACTION_NO then do {
          vote \<leftarrow> NewFinVote w (c_Name c) (pv_Leader pv) (pv_Epoch pv) (pv_Round pv) VOTE_FLAG_NO
                    (pv_BlockHash pv) (c_SigService c);
          let c = c_send NONE (FinVoteMsg vote) c;
          Some (None, c_push (FinVoteMsg vote) c) }
        else if flag = ACTION_YES then do {
          vote \<leftarrow> NewFinVote w (c_Name c) (pv_Leader pv) (pv_Epoch pv) (pv_Round pv) VOTE_FLAG_YES
                    (pv_BlockHash pv) (c_SigService c);
          let c = c_send NONE (FinVoteMsg vote) c;
          Some (None, c_push (FinVoteMsg vote) c) }
        else Some (None, c))"

definition advanceNextRound ::
  "'a smvba_env_scheme \<Rightarrow> int \<Rightarrow> int \<Rightarrow> int \<Rightarrow> Digest \<Rightarrow> 'db Core \<Rightarrow> (error option \<times> 'db Core) option" where
  "advanceNextRound w epoch rnd flag blockHash c =
     (if messgaeFilter epoch c then Some (None, c)
      else
        let (blockHash, c) =
              (if flag = ACTION_NO then
                 let (spb, c) = getSpbInstance epoch rnd (c_Name c) c
                 in (case GetBlockHash spb of Some inte \<Rightarrow> inte | None \<Rightarrow> blockHash, c)
               else (blockHash, c));
            ((block, err), c) = getBlock w blockHash c in
        if err \<noteq> None then Some (err, c)
        else do {
          (block, c) \<leftarrow> (case block of Some b \<Rightarrow> Some (b, c) | None \<Rightarrow> generatorBlock epoch c);
          proposal \<leftarrow> NewSPBProposal w (c_Name c) (Some block) epoch (i64 (rnd + 1)) SPB_ONE_PHASE (c_SigService c);
          let c = c_send NONE (SPBProposalMsg proposal) c;
          Some (None, c_push (SPBProposalMsg proposal) c) })"

definition handleFinvote ::
  "'a smvba_env_scheme \<Rightarrow> FinVote \<Rightarrow> 'db Core \<Rightarrow> (error option \<times> 'db Core) option" where
  "handleFinvote w fv c =
     (if messgaeFilter (fv_Epoch fv) c then Some (None, c)
      else
        let ((flag, err), ag) = AddFinVote fv (c_Aggreator c);
            c = c\<lparr>c_Aggreator := ag\<rparr> in
        if err \<noteq> None then Some (err, c)
        else if flag = ACTION_YES then advanceNextRound w (fv_Epoch fv) (fv_Round fv) flag (fv_BlockHash fv) c
        else if flag = ACTION_NO then advanceNextRound w (fv_Epoch fv) (fv_Round fv) flag zero_Digest c
        else if flag = ACTION_COMMIT then do {
          halt \<leftarrow> NewHalt w (c_Name c) (fv_Leader fv) (fv_BlockHash fv) (fv_Epoch fv) (fv_Round fv) (c_SigService c);
          let c = c_send NONE (HaltMsg halt) c;
          Some (None, c_push (HaltMsg halt) c) }
        else Some (None, c))"

section \<open>Output and the next epoch\<close>

definition handleOutput ::
  "'a smvba_env_scheme \<Rightarrow> int \<Rightarrow> Digest \<Rightarrow> 'db Core \<Rightarrow> (error option \<times> 'db Core) option" where
  "handleOutput w epoch blockHash c =
     (let ((b, err), c) = getBlock w blockHash c in
      if err \<noteq> None then Some (err, c)
      else case b of
        None \<Rightarrow> Some (None, c)
      | Some b \<Rightarrow> do {
          cm \<leftarrow> Commit (Some b) (c_Commitor c);
          let c = c\<lparr>c_Commitor := cm\<rparr>;
          if b_Proposer b \<noteq> c_Name c then
            let (spb, c) = getSpbInstance epoch 0 (c_Name c) c in
            (case GetBlockHash spb of
               None \<Rightarrow> Some (None, c)
             | Some temp \<Rightarrow>
                 let ((block, err), c) = getBlock w temp c in
                 Some (None,
                   case (block, err) of
                     (Some block, None) \<Rightarrow> c\<lparr>c_TxPool := PutBatch (b_Batch block) (c_TxPool c)\<rparr>
                   | _ \<Rightarrow> c))
          else Some (None, c) })"

definition advanceNextEpoch :: "'a smvba_env_scheme \<Rightarrow> int \<Rightarrow> 'db Core \<Rightarrow> 'db Core option" where
  "advanceNextEpoch w epoch c =
     (if epoch \<le> c_Epoch c then Some c
      else do {
        let c = c\<lparr>c_Epoch := epoch\<rparr>;
        (block, c) \<leftarrow> generatorBlock epoch c;
        proposal \<leftarrow> NewSPBProposal w (c_Name c) (Some block) epoch 0 SPB_ONE_PHASE (c_SigService c);
        let c = c_send NONE (SPBProposalMsg proposal) c;
        Some (c_push (SPBProposalMsg proposal) c) })"

definition handleHalt ::
  "'a smvba_env_scheme \<Rightarrow> Halt \<Rightarrow> 'db Core \<Rightarrow> (error option \<times> 'db Core) option" where
  "handleHalt w h c =
     (if messgaeFilter (ha_Epoch h) c then Some (None, c)
      else if ha_Epoch h |\<notin>| c_HaltFlags c then do {
        let c = c\<lparr>c_Elector := SetLeader (ha_Epoch h) (ha_Round h) (ha_Leader h) (c_Elector c)\<rparr>;
        (err, c) \<leftarrow> handleOutput w (ha_Epoch h) (ha_BlockHash h) c;
        if err \<noteq> None then Some (err, c)
        else do {
          let c = c\<lparr>c_HaltFlags := finsert (ha_Epoch h) (c_HaltFlags c)\<rparr>;
          c \<leftarrow> advanceNextEpoch w (i64 (ha_Epoch h + 1)) c;
          Some (None, c) } }
      else Some (None, c))"

section \<open>The main loop\<close>

fun handle ::
  "'a smvba_env_scheme \<Rightarrow> smvba_msg \<Rightarrow> 'db Core \<Rightarrow> (error option \<times> 'db Core) option" where
  "handle w (SPBProposalMsg p) c = handleSpbProposal w p c"
| "handle w (SPBVoteMsg v) c = handleSpbVote v c"
| "handle w (FinishMsg f) c = handleFinish w f c"
| "handle w (DoneMsg d) c = handleDone w d c"
| "handle w (ElectShareMsg e) c = do { share \<leftarrow> nonnil e; handleElectShare w share c }"
| "handle w (PrevoteMsg p) c = handlePrevote w p c"
| "handle w (FinVoteMsg v) c = handleFinvote w v c"
| "handle w (HaltMsg h) c = handleHalt w h c"

text \<open>A message that does not verify is reported and dropped.\<close>

definition dispatch ::
  "'a smvba_env_scheme \<Rightarrow> smvba_msg \<Rightarrow> 'db Core \<Rightarrow> (error option \<times> 'db Core) option" where
  "dispatch w msg c = do {
     valid \<leftarrow> Verify w (c_Committee c) msg;
     if \<not> valid then Some (Some (ErrSignature (MsgType msg)), c)
     else handle w msg c }"

text \<open>\<^verbatim>\<open>Run\<close> before its loop, and one turn of the loop.\<close>

definition Run_start :: "'a smvba_env_scheme \<Rightarrow> 'db Core \<Rightarrow> 'db Core option" where
  "Run_start w c = do {
     (block, c) \<leftarrow> generatorBlock (c_Epoch c) c;
     proposal \<leftarrow> NewSPBProposal w (c_Name c) (Some block) (c_Epoch c) 0 SPB_ONE_PHASE (c_SigService c);
     let c = c_send NONE (SPBProposalMsg proposal) c;
     Some (c_push (SPBProposalMsg proposal) c) }"

definition Run_turn :: "'a smvba_env_scheme \<Rightarrow> 'db Core \<Rightarrow> (error option \<times> 'db Core) option" where
  "Run_turn w c =
     (case Transmitor_Recv (c_Transimtor c) of
        None \<Rightarrow> Some (None, c)
      | Some (msg, tr) \<Rightarrow> dispatch w msg (c\<lparr>c_Transimtor := tr\<rparr>))"

end
