(* ===== verification/Smvba_Effects.thy ===== *)
theory Smvba_Effects
  imports Smvba_Core
begin

text \<open>
  What the handlers of the core can do to its state. \<open>core_upd\<close> lists the single updates: a
  message sent or queued, an instance made, a goroutine started, a vote counted, a block stored
  or committed, a flag set, the epoch advanced. Every handler is a sequence of such updates
  (\<open>handle_effects\<close>), so an invariant needs one case for each update and none for the handlers.
\<close>

section \<open>Single updates\<close>

inductive core_upd :: "'a smvba_env_scheme \<Rightarrow> 'db Core \<Rightarrow> 'db Core \<Rightarrow> bool" for w where
  send: "own_msg w (c_Name c) (c_SigService c) msg \<Longrightarrow> (\<And>d. msg \<noteq> DoneMsg d) \<Longrightarrow>
    core_upd w c (c_send to msg c)"
| push: "own_msg w (c_Name c) (c_SigService c) msg \<Longrightarrow> core_upd w c (c_push msg c)"
| inst: "get3 (c_SPbInstances c) e r n = None \<Longrightarrow>
    core_upd w c (c\<lparr>c_SPbInstances := put3 (c_SPbInstances c) e r n (NewSPB e r n)\<rparr>)"
| go_proposal: "(sp_Phase p = SPB_ONE_PHASE \<Longrightarrow> sp_B p \<noteq> None) \<Longrightarrow>
    get3 (c_SPbInstances c) (sp_Epoch p) (sp_Round p) (sp_Author p) \<noteq> None \<Longrightarrow>
    core_upd w c (c_go (sp_Epoch p, sp_Round p, sp_Author p) (PropEntry p) c)"
| go_vote: "get3 (c_SPbInstances c) (sv_Epoch v) (sv_Round v) (sv_Proposer v) \<noteq> None \<Longrightarrow>
    core_upd w c (c_go (sv_Epoch v, sv_Round v, sv_Proposer v) (VoteEntry v) c)"
| store: "Block_Encode w b = Inr val \<Longrightarrow> Store_Write (Block_Hash w b) val (c_Store c) = (err, store) \<Longrightarrow>
    core_upd w c (c\<lparr>c_Store := store\<rparr>)"
| get_batch: "GetBatch (c_TxPool c) = Some (batch, txPool) \<Longrightarrow> core_upd w c (c\<lparr>c_TxPool := txPool\<rparr>)"
| put_batch: "core_upd w c (c\<lparr>c_TxPool := PutBatch batch (c_TxPool c)\<rparr>)"
| finish_vote: "AddFinishVote f (c_Aggreator c) = (res, ag) \<Longrightarrow> core_upd w c (c\<lparr>c_Aggreator := ag\<rparr>)"
| done_vote: "AddDoneVote d (c_Aggreator c) = (res', ag) \<Longrightarrow> core_upd w c (c\<lparr>c_Aggreator := ag\<rparr>)"
| pre_vote: "AddPreVote pv (c_Aggreator c) = (res', ag) \<Longrightarrow> core_upd w c (c\<lparr>c_Aggreator := ag\<rparr>)"
| fin_vote: "AddFinVote fv (c_Aggreator c) = (res', ag) \<Longrightarrow> core_upd w c (c\<lparr>c_Aggreator := ag\<rparr>)"
| share_vote: "AddShareVote w share (c_Elector c) = Some (res'', el) \<Longrightarrow> core_upd w c (c\<lparr>c_Elector := el\<rparr>)"
| read_leader: "Leader e r (c_Elector c) = (leader, el) \<Longrightarrow> core_upd w c (c\<lparr>c_Elector := el\<rparr>)"
| set_leader: "core_upd w c (c\<lparr>c_Elector := SetLeader e r leader (c_Elector c)\<rparr>)"
| commit: "Commit (Some b) (c_Commitor c) = Some cm \<Longrightarrow> core_upd w c (c\<lparr>c_Commitor := cm\<rparr>)"
| finish_flag: "core_upd w c (c\<lparr>c_FinishFlags := put3 (c_FinishFlags c) e r n d\<rparr>)"
| ready_row: "core_upd w c (c\<lparr>c_ReadyFlags := ensure (c_ReadyFlags c) e\<rparr>)"
| ready_flag: "core_upd w c (c\<lparr>c_ReadyFlags := put2 (c_ReadyFlags c) e r ()\<rparr>)"
| done_row: "core_upd w c (c\<lparr>c_DoneFlags := ensure (c_DoneFlags c) e\<rparr>)"
| done_flag: "get2 (c_DoneFlags c) e r = None \<Longrightarrow> NewDone w (c_Name c) e r (c_SigService c) = Some dn \<Longrightarrow>
    core_upd w c ((c_send NONE (DoneMsg dn) c)\<lparr>c_DoneFlags := put2 (c_DoneFlags c) e r ()\<rparr>)"
| halt: "core_upd w c (c\<lparr>c_HaltFlags := finsert e (c_HaltFlags c),
      c_Epoch := (if i64 (e + 1) \<le> c_Epoch c then c_Epoch c else i64 (e + 1))\<rparr>)"

text \<open>Sequences of updates, with a rule for each update at their end.\<close>

abbreviation core_upds :: "'a smvba_env_scheme \<Rightarrow> 'db Core \<Rightarrow> 'db Core \<Rightarrow> bool" where
  "core_upds w \<equiv> (core_upd w)\<^sup>*\<^sup>*"

lemma upds_snoc: "core_upd w c1 c2 \<Longrightarrow> core_upds w c c1 \<Longrightarrow> core_upds w c c2"
  by (rule rtranclp.rtrancl_into_rtrancl)

lemmas upds_intros = core_upd.intros [THEN upds_snoc]

text \<open>The fields that no update touches.\<close>

lemma core_upd_const:
  "core_upd w c c' \<Longrightarrow> c_Name c' = c_Name c \<and> c_Committee c' = c_Committee c \<and>
     c_Parameters c' = c_Parameters c \<and> c_SigService c' = c_SigService c"
  by (induction rule: core_upd.induct) (simp_all add: c_send_def c_push_def c_go_def)

lemma core_upds_const:
  "core_upds w c c' \<Longrightarrow> c_Name c' = c_Name c \<and> c_Committee c' = c_Committee c \<and>
     c_Parameters c' = c_Parameters c \<and> c_SigService c' = c_SigService c"
  by (induction rule: rtranclp_induct) (auto dest: core_upd_const)

section \<open>The helpers\<close>

lemma getBlock_snd [simp]: "snd (getBlock w d c) = c"
  by (simp add: getBlock_def Store_Read_eq split: prod.split sum.split)

lemma getSpbInstance_upds:
  "core_upds w c0 c \<Longrightarrow> core_upds w c0 (snd (getSpbInstance e r n c))"
  by (auto simp: getSpbInstance_def Let_def split: option.splits intro: upds_intros(3))

lemma getSpbInstance_get [simp]:
  "get3 (c_SPbInstances (snd (getSpbInstance e r n c))) e r n = Some (fst (getSpbInstance e r n c))"
  by (simp add: getSpbInstance_def Let_def split: option.splits)

lemma c_Leader_upds: "core_upds w c0 c \<Longrightarrow> core_upds w c0 (snd (c_Leader e r c))"
  by (auto simp: c_Leader_def split: prod.splits intro: upds_intros(14))

lemma hasReady_upds: "core_upds w c0 c \<Longrightarrow> core_upds w c0 (snd (hasReady e r c))"
  by (auto simp: hasReady_def ensure_None split: option.splits intro: upds_intros(18))

lemma hasDone_upds: "core_upds w c0 c \<Longrightarrow> core_upds w c0 (snd (hasDone e r c))"
  by (auto simp: hasDone_def ensure_None split: option.splits intro: upds_intros(20))

lemma hasDone_get: "fst (hasDone e r c) = (get2 (c_DoneFlags c) e r \<noteq> None)"
  "get2 (c_DoneFlags (snd (hasDone e r c))) e' r' = get2 (c_DoneFlags c) e' r'"
  by (auto simp: hasDone_def get2_def inner_def split: option.splits)

lemma helper_ctx [simp]:
  "c_Name (snd (getSpbInstance e r n c)) = c_Name c"
  "c_SigService (snd (getSpbInstance e r n c)) = c_SigService c"
  "c_Name (snd (c_Leader e r c)) = c_Name c" "c_SigService (snd (c_Leader e r c)) = c_SigService c"
  "c_Name (snd (hasReady e r c)) = c_Name c" "c_SigService (snd (hasReady e r c)) = c_SigService c"
  "c_Name (snd (hasDone e r c)) = c_Name c" "c_SigService (snd (hasDone e r c)) = c_SigService c"
  "c_Name (c_send to m c) = c_Name c" "c_SigService (c_send to m c) = c_SigService c"
  "c_Name (c_push m c) = c_Name c" "c_SigService (c_push m c) = c_SigService c"
  by (simp_all add: getSpbInstance_def c_Leader_def hasReady_def hasDone_def c_send_def c_push_def Let_def
      split: option.splits prod.splits)

lemma generatorBlock_upds:
  assumes "generatorBlock e c = Some (b, c')" "core_upds w c0 c"
  shows "core_upds w c0 c' \<and> c_Name c' = c_Name c \<and> c_SigService c' = c_SigService c"
  using assms by (auto simp: generatorBlock_def bind_eq_Some_conv intro: upds_intros(7))

lemma storeBlock_upds:
  assumes "storeBlock w p c = Some (err, c')" "core_upds w c0 c"
  shows "core_upds w c0 c' \<and> p \<noteq> None"
proof -
  obtain b where p: "p = Some b" using assms(1) by (cases p) (simp_all add: storeBlock_def go_simps)
  show ?thesis
  proof (cases "Block_Encode w b")
    case (Inl e)
    then show ?thesis using assms p by (simp add: storeBlock_def go_simps)
  next
    case (Inr val)
    obtain e st where wr: "Store_Write (Block_Hash w b) val (c_Store c) = (e, st)" by fastforce
    then have "c' = c\<lparr>c_Store := st\<rparr>" using assms(1) p Inr by (simp add: storeBlock_def go_simps)
    then show ?thesis using upds_intros(6) [OF Inr wr assms(2)] p by simp
  qed
qed

lemma bcast_upds:
  assumes "own_msg w (c_Name c) (c_SigService c) m" "\<And>d. m \<noteq> DoneMsg d" "core_upds w c0 c"
  shows "core_upds w c0 (c_push m (c_send NONE m c))"
  using assms by (auto intro!: upds_intros(1,2))

section \<open>The handlers\<close>

lemmas upds_helpers = getSpbInstance_upds c_Leader_upds hasReady_upds hasDone_upds bcast_upds

lemma handleSpbProposal_upds:
  assumes "handleSpbProposal w p c = Some (err, c')"
  shows "core_upds w c c'"
proof -
  define halted where "halted c1 \<longleftrightarrow> (if sp_Phase p = SPB_ONE_PHASE \<and> sp_Epoch p |\<in>| c_HaltFlags c then
             let (leader, c) = c_Leader (sp_Epoch p) (sp_Round p) c in
             if leader = sp_Author p then do {
               cm \<leftarrow> Commit (sp_B p) (c_Commitor c);
               Some (c\<lparr>c_Commitor := cm\<rparr>) }
             else Some c
           else Some c) = Some c1" for c1
  have halted_upds: "core_upds w c c1" if "halted c1" for c1
    using that
    by (cases "sp_B p")
       (auto simp: halted_def Let_def split_beta bind_eq_Some_conv Commit_def go_simps split: if_splits
         intro!: upds_intros(16) c_Leader_upds)
  obtain c1 where c1: "halted c1" and rest: "(if messgaeFilter (sp_Epoch p) c1 then Some (None, c1)
     else do {
       (err, c) \<leftarrow> (if sp_Phase p = SPB_ONE_PHASE then storeBlock w (sp_B p) c1 else Some (None, c1));
       if err \<noteq> None then Some (err, c)
       else
         let (spb, c) = getSpbInstance (sp_Epoch p) (sp_Round p) (sp_Author p) c
         in Some (None, c_go (sp_Epoch p, sp_Round p, sp_Author p) (PropEntry p) c) }) = Some (err, c')"
    using assms unfolding handleSpbProposal_def halted_def by (auto elim!: bind_SomeE)
  show ?thesis
    using rest halted_upds [OF c1]
    by (auto simp: Let_def split_beta bind_eq_Some_conv split: if_splits
        intro!: upds_intros(4) getSpbInstance_upds dest!: storeBlock_upds [where ?c0.0 = c])
qed

lemma handleSpbVote_upds: "handleSpbVote v c = Some (err, c') \<Longrightarrow> core_upds w c c'"
  by (auto simp: handleSpbVote_def Let_def split_beta split: if_splits intro!: upds_intros(5) getSpbInstance_upds)

lemma DoneFlags_commute: "c\<lparr>c_DoneFlags := m, c_Transimtor := t\<rparr> = c\<lparr>c_Transimtor := t, c_DoneFlags := m\<rparr>"
  by (rule Core.equality) simp_all

lemma invokeDoneAndShare_upds:
  assumes "invokeDoneAndShare w e r c = Some (err, c')" "core_upds w c0 c"
  shows "core_upds w c0 c'"
proof (cases "fst (hasDone e r c)")
  case True
  then show ?thesis
    using assms by (auto simp: invokeDoneAndShare_def Let_def split_beta intro: hasDone_upds)
next
  case False
  let ?c = "snd (hasDone e r c)"
  obtain dn share serr where dn: "NewDone w (c_Name c) e r (c_SigService c) = Some dn"
    and share: "NewElectShare w (c_Name c) e r (c_SigService c) = Some (share, serr)"
    and c': "c' = (c_push (ElectShareMsg share) (c_push (DoneMsg dn) (c_send NONE (ElectShareMsg share)
        (c_send NONE (DoneMsg dn) ?c))))\<lparr>c_DoneFlags := put2 (c_DoneFlags ?c) e r ()\<rparr>"
    using assms(1) False
    by (auto simp: invokeDoneAndShare_def Let_def split_beta bind_eq_Some_conv c_push_def c_send_def)
  let ?d = "(c_send NONE (DoneMsg dn) ?c)\<lparr>c_DoneFlags := put2 (c_DoneFlags ?c) e r ()\<rparr>"
  have "core_upds w c0 ?d"
    using False dn assms(2) by (intro upds_intros(21)) (auto simp: hasDone_get hasDone_upds intro: not_Some_unit)
  then have "core_upds w c0 (c_push (ElectShareMsg share) (c_push (DoneMsg dn) (c_send NONE (ElectShareMsg share) ?d)))"
    using own_New(4) [OF dn] own_New(5) [OF share] by (intro upds_intros(1,2)) simp_all
  then show ?thesis
    unfolding c' by (simp add: c_push_def c_send_def DoneFlags_commute)
qed

lemma flag_upds:
  "m = put3 (c_FinishFlags c) e r n d \<Longrightarrow> core_upds w c0 c \<Longrightarrow> core_upds w c0 (c\<lparr>c_FinishFlags := m\<rparr>)"
  "m' = put2 (c_ReadyFlags c) e r () \<Longrightarrow> core_upds w c0 c \<Longrightarrow> core_upds w c0 (c\<lparr>c_ReadyFlags := m'\<rparr>)"
  by (simp_all add: upds_intros(17,19))

lemma handleFinish_upds: "handleFinish w f c = Some (err, c') \<Longrightarrow> core_upds w c c'"
  by (auto simp: handleFinish_def Let_def split: if_splits prod.splits
      intro!: upds_intros(9) flag_upds elim!: invokeDoneAndShare_upds)

lemma processLeader_upds:
  assumes "processLeader w e r c = Some (err, c')" "core_upds w c0 c"
  shows "core_upds w c0 c'"
  using assms
  by (auto simp: processLeader_def Let_def split_beta bind_eq_Some_conv split: if_splits
      intro!: upds_helpers dest: own_New)

lemma handleDone_upds: "handleDone w d c = Some (err, c') \<Longrightarrow> core_upds w c c'"
  by (auto simp: handleDone_def Let_def split: if_splits prod.splits
      intro!: upds_intros(10) flag_upds elim!: invokeDoneAndShare_upds processLeader_upds)

lemma handleElectShare_upds: "handleElectShare w s c = Some (err, c') \<Longrightarrow> core_upds w c c'"
  by (auto simp: handleElectShare_def Let_def bind_eq_Some_conv split: if_splits
      intro!: upds_intros(13) elim!: processLeader_upds dest: AddShareVote_leader(1))

lemma handlePrevote_upds: "handlePrevote w pv c = Some (err, c') \<Longrightarrow> core_upds w c c'"
  by (auto simp: handlePrevote_def Let_def bind_eq_Some_conv split: if_splits prod.splits
      intro!: bcast_upds upds_intros(11) dest: own_New)

lemma advanceNextRound_upds:
  assumes "advanceNextRound w e r fl d c = Some (err, c')" "core_upds w c0 c"
  shows "core_upds w c0 c'"
proof -
  define c1 where "c1 = (if fl = ACTION_NO then snd (getSpbInstance e r (c_Name c) c) else c)"
  have c1: "core_upds w c0 c1" "c_Name c1 = c_Name c" "c_SigService c1 = c_SigService c"
    using assms(2) by (auto simp: c1_def intro: getSpbInstance_upds)
  show ?thesis
    using assms c1
    by (auto simp: advanceNextRound_def Let_def split_beta bind_eq_Some_conv c1_def
        split: if_splits option.splits intro!: bcast_upds dest: own_New(1) dest!: generatorBlock_upds [where w = w and ?c0.0 = c0])
qed

lemma handleFinvote_upds: "handleFinvote w fv c = Some (err, c') \<Longrightarrow> core_upds w c c'"
  by (auto simp: handleFinvote_def Let_def bind_eq_Some_conv split: if_splits prod.splits
      intro!: bcast_upds upds_intros(12) dest: own_New elim!: advanceNextRound_upds)

lemma handleOutput_upds:
  assumes "handleOutput w e d c = Some (err, c')" "core_upds w c0 c"
  shows "core_upds w c0 c'"
  using assms
  by (auto simp: handleOutput_def Let_def split_beta bind_eq_Some_conv
      split: if_splits option.splits intro!: upds_intros(8,16) getSpbInstance_upds)

lemma advanceNextEpoch_upds:
  assumes "advanceNextEpoch w (i64 (e + 1)) (c\<lparr>c_HaltFlags := finsert e (c_HaltFlags c)\<rparr>) = Some c'"
    and "core_upds w c0 c"
  shows "core_upds w c0 c'"
proof -
  let ?c = "c\<lparr>c_HaltFlags := finsert e (c_HaltFlags c),
      c_Epoch := (if i64 (e + 1) \<le> c_Epoch c then c_Epoch c else i64 (e + 1))\<rparr>"
  have "core_upds w c0 ?c" using assms(2) by (rule upds_intros(22))
  then show ?thesis
    using assms(1)
    by (cases "i64 (e + 1) \<le> c_Epoch c")
       (auto simp: advanceNextEpoch_def Let_def bind_eq_Some_conv intro!: bcast_upds dest: own_New(1)
         dest!: generatorBlock_upds [where w = w and ?c0.0 = c0])
qed

lemma handleHalt_upds: "handleHalt w h c = Some (err, c') \<Longrightarrow> core_upds w c c'"
  by (auto simp: handleHalt_def Let_def bind_eq_Some_conv split: if_splits
      intro!: upds_intros(15) elim!: handleOutput_upds advanceNextEpoch_upds)

lemma handle_effects: "handle w msg c = Some (err, c') \<Longrightarrow> core_upds w c c'"
  by (cases msg)
     (auto simp: go_simps bind_eq_Some_conv intro: handleSpbProposal_upds handleSpbVote_upds handleFinish_upds
       handleDone_upds handleElectShare_upds handlePrevote_upds handleFinvote_upds handleHalt_upds)

lemma dispatch_effects: "dispatch w msg c = Some (err, c') \<Longrightarrow> core_upds w c c'"
  by (auto simp: dispatch_def bind_eq_Some_conv split: if_splits intro: handle_effects)

lemma Run_start_effects: "Run_start w c = Some c' \<Longrightarrow> core_upds w c c'"
  by (auto simp: Run_start_def Let_def bind_eq_Some_conv intro!: bcast_upds dest: own_New(1)
      dest!: generatorBlock_upds [where w = w and ?c0.0 = c])

end
