(* ===== verification/Smvba_Node.thy ===== *)
theory Smvba_Node
  imports Smvba_Effects
begin

text \<open>
  A running SMVBA node: the main loop, the receiver that delivers messages from the network, and
  the goroutines of the SPB instances, interleaved in any order. Whatever the other nodes send,
  in whatever order the pieces run, the invariants below hold in every reachable state. They are
  instances of the locale \<open>core_invariant\<close>, whose laws ask for one case per update of the core.
\<close>

section \<open>Steps\<close>

text \<open>One piece of the \<open>i\<close>-th live goroutine, on its instance and the core.\<close>

definition task_step :: "'a smvba_env_scheme \<Rightarrow> nat \<Rightarrow> 'db Core \<Rightarrow> 'db Core option" where
  "task_step w i c =
     (case c_tasks c ! i of ((e, r, n), pc) \<Rightarrow> do {
        s \<leftarrow> get3 (c_SPbInstances c) e r n;
        (pc', spawned, s, c) \<leftarrow> spb_step w pc s c;
        let c = c\<lparr>c_SPbInstances := put3 (c_SPbInstances c) e r n s\<rparr>;
        Some (c\<lparr>c_tasks := take i (c_tasks c) @ (case pc' of None \<Rightarrow> [] | Some pc \<Rightarrow> [((e, r, n), pc)]) @
                 drop (Suc i) (c_tasks c) @ map (Pair (e, r, n)) spawned\<rparr>) })"

text \<open>\<open>net\<close> says which messages the network may deliver.\<close>

inductive smvba_step ::
  "'a smvba_env_scheme \<Rightarrow> (smvba_msg \<Rightarrow> bool) \<Rightarrow> 'db Core \<Rightarrow> 'db Core \<Rightarrow> bool" for w net where
  deliver: "net msg \<Longrightarrow> smvba_step w net c (c_push msg c)"
| turn: "Run_turn w c = Some (err, c') \<Longrightarrow> smvba_step w net c c'"
| task: "i < length (c_tasks c) \<Longrightarrow> task_step w i c = Some c' \<Longrightarrow> smvba_step w net c c'"

inductive smvba_reach ::
  "'a smvba_env_scheme \<Rightarrow> (smvba_msg \<Rightarrow> bool) \<Rightarrow> 'db Core \<Rightarrow> 'db Core \<Rightarrow> bool" for w net c0 where
  start: "Run_start w c0 = Some c \<Longrightarrow> smvba_reach w net c0 c"
| step: "smvba_reach w net c0 c \<Longrightarrow> smvba_step w net c c' \<Longrightarrow> smvba_reach w net c0 c'"

text \<open>The process dies when a turn of the loop or a goroutine panics.\<close>

definition panics :: "'a smvba_env_scheme \<Rightarrow> 'db Core \<Rightarrow> bool" where
  "panics w c \<longleftrightarrow> Run_turn w c = None \<or> (\<exists>i < length (c_tasks c). task_step w i c = None)"

section \<open>What a goroutine does to the core\<close>

lemma send_vote_ctx:
  assumes "send_vote w p d s c = Some c'"
  obtains (send) to v where "c' = c_send to (SPBVoteMsg v) c" "own_msg w (c_Name c) (c_SigService c) (SPBVoteMsg v)"
    | (push) v where "c' = c_push (SPBVoteMsg v) c" "own_msg w (c_Name c) (c_SigService c) (SPBVoteMsg v)"
  using assms
  by (auto simp: send_vote_def bind_eq_Some_conv split: if_splits dest!: own_New(2))

lemma spb_step_ctx:
  assumes "spb_step w pc s c = Some (pc', spawned, s', c')"
  obtains (same) "c' = c"
    | (send) to m where "c' = c_send to m c" "own_msg w (c_Name c) (c_SigService c) m" "\<And>d. m \<noteq> DoneMsg d"
    | (push) m where "c' = c_push m c" "own_msg w (c_Name c) (c_SigService c) m \<or> pc = Push m"
  using assms
  by (cases pc)
     (auto simp: bind_eq_Some_conv Let_def split: if_splits dest: own_New elim!: send_vote_ctx)

lemma task_step_cases:
  assumes "task_step w i c = Some c'" "i < length (c_tasks c)"
  obtains e r n pc s pc' spawned s' c1 where
    "c_tasks c ! i = ((e, r, n), pc)" "get3 (c_SPbInstances c) e r n = Some s"
    "spb_step w pc s c = Some (pc', spawned, s', c1)"
    "c1 = c \<or> (\<exists>to m. c1 = c_send to m c \<and> own_msg w (c_Name c) (c_SigService c) m \<and> (\<forall>d. m \<noteq> DoneMsg d)) \<or>
     (\<exists>m. c1 = c_push m c \<and> (own_msg w (c_Name c) (c_SigService c) m \<or> pc = Push m))"
    "c' = c1\<lparr>c_SPbInstances := put3 (c_SPbInstances c) e r n s',
            c_tasks := take i (c_tasks c) @ (case pc' of None \<Rightarrow> [] | Some pc \<Rightarrow> [((e, r, n), pc)]) @
               drop (Suc i) (c_tasks c) @ map (Pair (e, r, n)) spawned\<rparr>"
proof -
  obtain e r n pc where key: "c_tasks c ! i = ((e, r, n), pc)" by (metis prod.exhaust)
  obtain s pc' spawned s' c1 where st: "get3 (c_SPbInstances c) e r n = Some s"
    "spb_step w pc s c = Some (pc', spawned, s', c1)"
    and c': "c' = c1\<lparr>c_SPbInstances := put3 (c_SPbInstances c1) e r n s',
            c_tasks := take i (c_tasks c1) @ (case pc' of None \<Rightarrow> [] | Some pc \<Rightarrow> [((e, r, n), pc)]) @
               drop (Suc i) (c_tasks c1) @ map (Pair (e, r, n)) spawned\<rparr>"
    using assms(1) key by (auto simp: task_step_def bind_eq_Some_conv Let_def)
  have ctx: "c1 = c \<or> (\<exists>to m. c1 = c_send to m c \<and> own_msg w (c_Name c) (c_SigService c) m \<and> (\<forall>d. m \<noteq> DoneMsg d)) \<or>
     (\<exists>m. c1 = c_push m c \<and> (own_msg w (c_Name c) (c_SigService c) m \<or> pc = Push m))"
    using st(2) by (rule spb_step_ctx) blast+
  moreover have "c_SPbInstances c1 = c_SPbInstances c" "c_tasks c1 = c_tasks c"
    using ctx by (auto simp: c_send_def c_push_def)
  ultimately show thesis using that [OF key st] c' by simp
qed

section \<open>Invariants of a node\<close>

locale core_invariant =
  fixes I :: "'db Core \<Rightarrow> bool"
    and w :: "'a smvba_env_scheme"
    and net :: "smvba_msg \<Rightarrow> bool"
  assumes upd: "I c \<Longrightarrow> core_upd w c c' \<Longrightarrow> I c'"
    and deliver: "I c \<Longrightarrow> net m \<Longrightarrow> I (c_push m c)"
    and recv: "I c \<Longrightarrow> tr_recvCh (c_Transimtor c) = m # ms \<Longrightarrow>
      I (c\<lparr>c_Transimtor := (c_Transimtor c)\<lparr>tr_recvCh := ms\<rparr>\<rparr>)"
    and task: "I c \<Longrightarrow> i < length (c_tasks c) \<Longrightarrow> task_step w i c = Some c' \<Longrightarrow> I c'"
begin

lemma upds: "core_upds w c c' \<Longrightarrow> I c \<Longrightarrow> I c'"
  by (induction rule: rtranclp_induct) (auto intro: upd)

lemma turn: "Run_turn w c = Some (err, c') \<Longrightarrow> I c \<Longrightarrow> I c'"
  by (auto simp: Run_turn_def Transmitor_Recv_def split: list.splits intro: upds recv dest!: dispatch_effects)

lemma step: "smvba_step w net c c' \<Longrightarrow> I c \<Longrightarrow> I c'"
  by (erule smvba_step.cases) (auto intro: deliver turn task)

lemma steps: "(smvba_step w net)\<^sup>*\<^sup>* c c' \<Longrightarrow> I c \<Longrightarrow> I c'"
  by (induction rule: rtranclp_induct) (auto intro: step)

lemma reach: "smvba_reach w net c0 c \<Longrightarrow> I c0 \<Longrightarrow> I c"
  by (induction rule: smvba_reach.induct) (auto intro: step upds Run_start_effects)

end

subsection \<open>The configuration never changes\<close>

definition config_inv :: "'db Core \<Rightarrow> 'db Core \<Rightarrow> bool" where
  "config_inv c0 c \<longleftrightarrow> c_Name c = c_Name c0 \<and> c_Committee c = c_Committee c0 \<and> c_SigService c = c_SigService c0 \<and>
     ag_committee (c_Aggreator c) = c_Committee c0 \<and> el_committee (c_Elector c) = c_Committee c0 \<and>
     el_sigService (c_Elector c) = c_SigService c0 \<and> tr_committee (c_Transimtor c) = tr_committee (c_Transimtor c0)"

lemma ag_committee_Add [simp]:
  "ag_committee (snd (AddFinishVote f a)) = ag_committee a"
  "ag_committee (snd (AddDoneVote d a)) = ag_committee a"
  "ag_committee (snd (AddPreVote pv a)) = ag_committee a"
  "ag_committee (snd (AddFinVote fv a)) = ag_committee a"
  by (simp_all add: AddFinishVote_def AddDoneVote_def AddPreVote_def AddFinVote_def Let_def
      split: option.splits prod.splits)

lemma config_upd: "core_upd w c c' \<Longrightarrow> config_inv c0 c \<Longrightarrow> config_inv c0 c'"
  by (induction rule: core_upd.induct)
     (auto simp: config_inv_def c_send_def c_push_def c_go_def dest: AddShareVote_leader(4)
       dest!: arg_cong [where f = snd])

interpretation cfg: core_invariant "config_inv c0" w net for c0 w net
  by unfold_locales
     (auto simp: config_upd, auto simp: config_inv_def c_send_def c_push_def elim!: task_step_cases)

lemma config_New: "config_inv (NewCore name cm par sig st pool tr) (NewCore name cm par sig st pool tr)"
  by (simp add: config_inv_def NewCore_def NewAggreator_def NewElector_def)

subsection \<open>Everything a node sends is its own\<close>

definition own_inv :: "'a smvba_env_scheme \<Rightarrow> 'db Core \<Rightarrow> bool" where
  "own_inv w c \<longleftrightarrow> (\<forall>nm \<in> set (tr_msgCh (c_Transimtor c)). own_msg w (c_Name c) (c_SigService c) (nm_Msg nm))"

interpretation own: core_invariant "own_inv w" w net for w net
proof unfold_locales
  show "own_inv w c \<Longrightarrow> core_upd w c c' \<Longrightarrow> own_inv w c'" for c c'
    by (rotate_tac, induction rule: core_upd.induct)
       (auto simp: own_inv_def c_send_def c_push_def c_go_def dest!: own_New(4))
qed (auto simp: own_inv_def c_send_def c_push_def elim!: task_step_cases)

subsection \<open>Epochs\<close>

text \<open>The epoch never decreases, and it has passed every epoch that has halted.\<close>

definition epoch_inv :: "int \<Rightarrow> 'db Core \<Rightarrow> bool" where
  "epoch_inv k c \<longleftrightarrow> k \<le> c_Epoch c"

definition halt_inv :: "'db Core \<Rightarrow> bool" where
  "halt_inv c \<longleftrightarrow> (\<forall>e. e |\<in>| c_HaltFlags c \<longrightarrow> i64 (e + 1) \<le> c_Epoch c)"

interpretation ep: core_invariant "epoch_inv k" w net for k w net
proof unfold_locales
  show "epoch_inv k c \<Longrightarrow> core_upd w c c' \<Longrightarrow> epoch_inv k c'" for c c'
    by (rotate_tac, induction rule: core_upd.induct) (auto simp: epoch_inv_def c_send_def c_push_def c_go_def)
qed (auto simp: epoch_inv_def c_send_def c_push_def elim!: task_step_cases)

interpretation ha: core_invariant halt_inv w net for w net
proof unfold_locales
  show "halt_inv c \<Longrightarrow> core_upd w c c' \<Longrightarrow> halt_inv c'" for c c'
    by (rotate_tac, induction rule: core_upd.induct)
       (auto simp: halt_inv_def c_send_def c_push_def c_go_def intro: order_trans)
qed (auto simp: halt_inv_def c_send_def c_push_def elim!: task_step_cases)

subsection \<open>One done message for each round\<close>

definition is_done :: "int \<Rightarrow> int \<Rightarrow> smvba_msg \<Rightarrow> bool" where
  "is_done e r m = (case m of DoneMsg d \<Rightarrow> dn_Epoch d = e \<and> dn_Round d = r | _ \<Rightarrow> False)"

definition dones :: "int \<Rightarrow> int \<Rightarrow> smvba_msg Transmitor \<Rightarrow> nat" where
  "dones e r tr = length (filter (is_done e r) (map nm_Msg (tr_msgCh tr)))"

lemma dones_simps [simp]:
  "dones e r (Transmitor_Send from to m tr) = (if is_done e r m then Suc (dones e r tr) else dones e r tr)"
  "dones e r (RecvChannel_push m tr) = dones e r tr"
  "dones e r (tr\<lparr>tr_recvCh := ms\<rparr>) = dones e r tr"
  by (simp_all add: dones_def)

definition done_inv :: "'db Core \<Rightarrow> bool" where
  "done_inv c \<longleftrightarrow> (\<forall>e r. dones e r (c_Transimtor c) = (if get2 (c_DoneFlags c) e r = None then 0 else 1))"

lemma is_done_New: "NewDone w name e r sig = Some dn \<Longrightarrow> is_done e' r' (DoneMsg dn) \<longleftrightarrow> e' = e \<and> r' = r"
  by (auto simp: NewDone_def is_done_def bind_eq_Some_conv)

lemma is_done_other: "(\<And>d. m \<noteq> DoneMsg d) \<Longrightarrow> \<not> is_done e r m"
  by (auto simp: is_done_def split: smvba_msg.splits)

interpretation dn: core_invariant done_inv w net for w net
proof unfold_locales
  show "done_inv c \<Longrightarrow> core_upd w c c' \<Longrightarrow> done_inv c'" for c c'
    by (rotate_tac, induction rule: core_upd.induct)
       (auto simp: done_inv_def c_send_def c_push_def c_go_def is_done_other is_done_New)
qed (auto simp: done_inv_def c_send_def c_push_def is_done_other elim!: task_step_cases)

subsection \<open>Blocks are committed in the order of their epochs\<close>

definition commit_inv :: "'db Core \<Rightarrow> bool" where
  "commit_inv c \<longleftrightarrow> in_order b_Epoch (cm_view (c_Commitor c))"

interpretation cmt: core_invariant commit_inv w net for w net
proof unfold_locales
  show "commit_inv c \<Longrightarrow> core_upd w c c' \<Longrightarrow> commit_inv c'" for c c'
    by (rotate_tac, induction rule: core_upd.induct)
       (auto simp: commit_inv_def c_send_def c_push_def c_go_def intro: Commit_in_order)
qed (auto simp: commit_inv_def c_send_def c_push_def elim!: task_step_cases)

subsection \<open>SPB instances and their goroutines\<close>

text \<open>
  An instance is filed under its own epoch, round and proposer; the hash it holds is the hash of a
  block of its proposer, and it is locked only with a hash. A goroutine that has seen a hash still
  finds one.
\<close>

definition spb_ok :: "'a crypto_scheme \<Rightarrow> int \<Rightarrow> int \<Rightarrow> NodeID \<Rightarrow> SPB \<Rightarrow> bool" where
  "spb_ok w e r n s \<longleftrightarrow> s_Epoch s = e \<and> s_Round s = r \<and> s_Proposer s = n \<and>
     (s_LockFlag s \<longrightarrow> s_BlockHash s \<noteq> None) \<and>
     (\<forall>d. s_BlockHash s = Some d \<longrightarrow> (\<exists>b. d = Block_Hash w b \<and> b_Proposer b = n))"

fun pc_ok :: "NodeID \<Rightarrow> SPB \<Rightarrow> spb_pc \<Rightarrow> bool" where
  "pc_ok n s (PropStore p) \<longleftrightarrow> (\<exists>b. sp_B p = Some b \<and> b_Proposer b = n)"
| "pc_ok n s (PropVote p d) \<longleftrightarrow> s_BlockHash s \<noteq> None"
| "pc_ok n s PropFlush \<longleftrightarrow> s_BlockHash s \<noteq> None"
| "pc_ok n s (PropLock p) \<longleftrightarrow> s_BlockHash s \<noteq> None"
| "pc_ok n s (PropVote2 p) \<longleftrightarrow> s_BlockHash s \<noteq> None"
| "pc_ok n s (VoteCount v) \<longleftrightarrow> s_BlockHash s \<noteq> None"
| "pc_ok n s (VoteAct v k) \<longleftrightarrow> s_BlockHash s \<noteq> None"
| "pc_ok n s _ \<longleftrightarrow> True"

definition inst_inv :: "'a crypto_scheme \<Rightarrow> 'db Core \<Rightarrow> bool" where
  "inst_inv w c \<longleftrightarrow>
     (\<forall>e r n s. get3 (c_SPbInstances c) e r n = Some s \<longrightarrow> spb_ok w e r n s) \<and>
     (\<forall>e r n pc. ((e, r, n), pc) \<in> set (c_tasks c) \<longrightarrow>
        (\<exists>s. get3 (c_SPbInstances c) e r n = Some s \<and> pc_ok n s pc))"

lemma spb_ok_New: "spb_ok w e r n (NewSPB e r n)"
  by (simp add: spb_ok_def NewSPB_def)

lemma spb_step_ok:
  assumes "spb_step w pc s c = Some (pc', spawned, s', c')" "spb_ok w e r n s" "pc_ok n s pc"
  shows "spb_ok w e r n s'" "\<forall>pc. pc' = Some pc \<longrightarrow> pc_ok n s' pc" "\<forall>pc \<in> set spawned. pc_ok n s' pc"
    "\<forall>pc. pc_ok n s pc \<longrightarrow> pc_ok n s' pc"
proof -
  have mono: "s_BlockHash s \<noteq> None \<longrightarrow> s_BlockHash s' \<noteq> None"
    using assms(1) by (cases pc) (auto simp: bind_eq_Some_conv Let_def split: if_splits)
  then show "\<forall>pc. pc_ok n s pc \<longrightarrow> pc_ok n s' pc"
    by (auto elim!: pc_ok.elims)
  show "spb_ok w e r n s'" "\<forall>pc. pc' = Some pc \<longrightarrow> pc_ok n s' pc" "\<forall>pc \<in> set spawned. pc_ok n s' pc"
    using assms
    by (cases pc; auto simp: spb_ok_def bind_eq_Some_conv Let_def go_simps unhandled_def split: if_splits)+
qed

lemma inst_inv_task:
  assumes "inst_inv w c" "i < length (c_tasks c)" "task_step w i c = Some c'"
  shows "inst_inv w c'"
  using assms(3,2)
proof (rule task_step_cases)
  fix e r n pc s pc' spawned s' c1
  assume key: "c_tasks c ! i = ((e, r, n), pc)" and s: "get3 (c_SPbInstances c) e r n = Some s"
    and st: "spb_step w pc s c = Some (pc', spawned, s', c1)"
    and c': "c' = c1\<lparr>c_SPbInstances := put3 (c_SPbInstances c) e r n s',
            c_tasks := take i (c_tasks c) @ (case pc' of None \<Rightarrow> [] | Some pc \<Rightarrow> [((e, r, n), pc)]) @
               drop (Suc i) (c_tasks c) @ map (Pair (e, r, n)) spawned\<rparr>"
  have mem: "((e, r, n), pc) \<in> set (c_tasks c)"
    using key assms(2) by (metis nth_mem)
  have ok: "spb_ok w e r n s" "pc_ok n s pc"
    using assms(1) s mem unfolding inst_inv_def by fastforce+
  note step = spb_step_ok [OF st ok]
  have old: "\<exists>s2. get3 (put3 (c_SPbInstances c) e r n s') e2 r2 n2 = Some s2 \<and> pc_ok n2 s2 pc2"
    if "((e2, r2, n2), pc2) \<in> set (c_tasks c)" for e2 r2 n2 pc2
    using assms(1) that s step(4) by (fastforce simp: inst_inv_def)
  have sub: "set (c_tasks c') \<subseteq> set (c_tasks c) \<union> {((e, r, n), p) | p. pc' = Some p \<or> p \<in> set spawned}"
    using set_take_subset [of i "c_tasks c"] set_drop_subset [of "Suc i" "c_tasks c"]
    by (auto simp: c' split: option.splits)
  have "\<exists>s2. get3 (c_SPbInstances c') e2 r2 n2 = Some s2 \<and> pc_ok n2 s2 pc2"
    if "((e2, r2, n2), pc2) \<in> set (c_tasks c')" for e2 r2 n2 pc2
  proof (cases "((e2, r2, n2), pc2) \<in> set (c_tasks c)")
    case True
    then show ?thesis using old by (simp add: c')
  next
    case False
    then have "(e2, r2, n2) = (e, r, n)" "pc' = Some pc2 \<or> pc2 \<in> set spawned"
      using that sub by auto
    then show ?thesis using step(2,3) by (auto simp: c')
  qed
  moreover have "spb_ok w e2 r2 n2 s2" if "get3 (c_SPbInstances c') e2 r2 n2 = Some s2" for e2 r2 n2 s2
    using assms(1) step(1) that by (auto simp: inst_inv_def c' split: if_splits)
  ultimately show "inst_inv w c'" by (simp add: inst_inv_def)
qed

interpretation ins: core_invariant "inst_inv w" w net for w :: "'a smvba_env_scheme" and net
proof unfold_locales
  show "inst_inv w c \<Longrightarrow> core_upd w c c' \<Longrightarrow> inst_inv w c'" for c c' :: "'b Core"
    by (rotate_tac, induction rule: core_upd.induct)
       (auto simp: inst_inv_def c_send_def c_push_def c_go_def spb_ok_New, fastforce)
qed (auto simp: inst_inv_task, auto simp: inst_inv_def c_push_def)

end
