(* ===== verification/Smvba_Safety.thy ===== *)
theory Smvba_Safety
  imports Smvba_Node
begin

text \<open>
  When an SMVBA node can panic. With keys of the right size and a threshold-signature library that
  keeps its contract, a node whose network delivers only messages of members, with a block in each
  proposal of the first phase and no nil share, never panics, in any interleaving.
\<close>

section \<open>What the node relies on\<close>

definition prop_ok :: "SPBProposal \<Rightarrow> bool" where
  "prop_ok p \<longleftrightarrow> (sp_Phase p = SPB_ONE_PHASE \<longrightarrow> sp_B p \<noteq> None)"

fun msg_ok :: "Committee \<Rightarrow> smvba_msg \<Rightarrow> bool" where
  "msg_ok cm (SPBProposalMsg p) \<longleftrightarrow> sp_Author p \<in> members cm \<and> prop_ok p"
| "msg_ok cm (SPBVoteMsg v) \<longleftrightarrow> sv_Author v \<in> members cm"
| "msg_ok cm (FinishMsg f) \<longleftrightarrow> fi_Author f \<in> members cm"
| "msg_ok cm (DoneMsg d) \<longleftrightarrow> dn_Author d \<in> members cm"
| "msg_ok cm (ElectShareMsg e) \<longleftrightarrow> e \<noteq> None"
| "msg_ok cm (PrevoteMsg p) \<longleftrightarrow> pv_Author p \<in> members cm"
| "msg_ok cm (FinVoteMsg v) \<longleftrightarrow> fv_Author v \<in> members cm"
| "msg_ok cm (HaltMsg h) \<longleftrightarrow> ha_Author h \<in> members cm"

fun pc_safe :: "Committee \<Rightarrow> spb_pc \<Rightarrow> bool" where
  "pc_safe cm (PropEntry p) \<longleftrightarrow> prop_ok p"
| "pc_safe cm (PropQueue p) \<longleftrightarrow> prop_ok p"
| "pc_safe cm (Push m) \<longleftrightarrow> msg_ok cm m"
| "pc_safe cm _ \<longleftrightarrow> True"

definition safe_inv :: "'a crypto_scheme \<Rightarrow> Committee \<Rightarrow> 'db Core \<Rightarrow> bool" where
  "safe_inv w cm c \<longleftrightarrow>
     c_Committee c = cm \<and> env_ok w cm (c_SigService c) \<and> c_Name c \<in> members cm \<and> pool_wf (c_TxPool c) \<and>
     el_committee (c_Elector c) = cm \<and>
     (\<forall>m \<in> set (tr_recvCh (c_Transimtor c)). msg_ok cm m) \<and>
     (\<forall>(k, pc) \<in> set (c_tasks c). pc_safe cm pc) \<and>
     (\<forall>e r n s. get3 (c_SPbInstances c) e r n = Some s \<longrightarrow> (\<forall>p \<in> set (s_unHandleProposal s). prop_ok p))"

section \<open>It stays so\<close>

lemma own_msg_ok:
  assumes "own_msg w name sig m" "env_ok w cm sig" "name \<in> members cm"
  shows "msg_ok cm m"
proof (cases m)
  case (ElectShareMsg e)
  then show ?thesis using assms env_share [OF assms(2)] by (cases e) auto
qed (use assms in \<open>auto simp: prop_ok_def\<close>)

lemma spb_step_push:
  "spb_step w pc s c = Some (Some (Push m), spawned, s', c') \<Longrightarrow> own_msg w (c_Name c) (c_SigService c) m"
  by (cases pc) (auto simp: bind_eq_Some_conv Let_def split: if_splits simp del: own_msg.simps intro: own_New)

lemma spb_step_safe:
  assumes "spb_step w pc s c = Some (pc', spawned, s', c')" "pc_safe cm pc"
    "\<forall>p \<in> set (s_unHandleProposal s). prop_ok p" "env_ok w cm (c_SigService c)" "c_Name c \<in> members cm"
  shows "\<forall>p \<in> set (s_unHandleProposal s'). prop_ok p" "\<forall>pc. pc' = Some pc \<longrightarrow> pc_safe cm pc"
    "\<forall>pc \<in> set spawned. pc_safe cm pc"
proof -
  show "\<forall>p \<in> set (s_unHandleProposal s'). prop_ok p" "\<forall>pc \<in> set spawned. pc_safe cm pc"
    using assms(1-3) by (cases pc; auto simp: bind_eq_Some_conv Let_def unhandled_def split: if_splits)+
  have "pc_safe cm pc2" if pc': "pc' = Some pc2" for pc2
  proof (cases pc2)
    case (Push m)
    have "own_msg w (c_Name c) (c_SigService c) m"
      by (rule spb_step_push [OF assms(1) [unfolded pc' Push]])
    then show ?thesis using Push own_msg_ok [OF _ assms(4,5)] by simp
  next
    case (PropQueue p)
    then show ?thesis
      using assms(1,2) pc' by (cases pc) (auto simp: bind_eq_Some_conv Let_def split: if_splits)
  next
    case (PropEntry p)
    then show ?thesis
      using assms(1,2) pc' by (cases pc) (auto simp: bind_eq_Some_conv Let_def split: if_splits)
  qed simp_all
  then show "\<forall>pc. pc' = Some pc \<longrightarrow> pc_safe cm pc" by blast
qed

lemma safe_task:
  assumes "safe_inv w cm c" "i < length (c_tasks c)" "task_step w i c = Some c'"
  shows "safe_inv w cm c'"
  using assms(3,2)
proof (rule task_step_cases)
  fix e r n pc s pc' spawned s' c1
  assume key: "c_tasks c ! i = ((e, r, n), pc)" and s: "get3 (c_SPbInstances c) e r n = Some s"
    and st: "spb_step w pc s c = Some (pc', spawned, s', c1)"
    and ctx: "c1 = c \<or> (\<exists>to m. c1 = c_send to m c \<and> own_msg w (c_Name c) (c_SigService c) m \<and> (\<forall>d. m \<noteq> DoneMsg d)) \<or>
     (\<exists>m. c1 = c_push m c \<and> (own_msg w (c_Name c) (c_SigService c) m \<or> pc = Push m))"
    and c': "c' = c1\<lparr>c_SPbInstances := put3 (c_SPbInstances c) e r n s',
            c_tasks := take i (c_tasks c) @ (case pc' of None \<Rightarrow> [] | Some pc \<Rightarrow> [((e, r, n), pc)]) @
               drop (Suc i) (c_tasks c) @ map (Pair (e, r, n)) spawned\<rparr>"
  have mem: "((e, r, n), pc) \<in> set (c_tasks c)"
    using key assms(2) by (metis nth_mem)
  have env: "env_ok w cm (c_SigService c)" "c_Name c \<in> members cm" and safe: "pc_safe cm pc"
    "\<forall>p \<in> set (s_unHandleProposal s). prop_ok p"
    using assms(1) s mem by (auto simp: safe_inv_def)
  note step = spb_step_safe [OF st safe env]
  have "set (c_tasks c') \<subseteq> set (c_tasks c) \<union> {((e, r, n), p) | p. pc' = Some p \<or> p \<in> set spawned}"
    using set_take_subset [of i "c_tasks c"] set_drop_subset [of "Suc i" "c_tasks c"]
    by (auto simp: c' split: option.splits)
  then have tasks: "\<forall>(k, pc) \<in> set (c_tasks c'). pc_safe cm pc"
    using assms(1) step(2,3) by (fastforce simp: safe_inv_def)
  have recv: "\<forall>m \<in> set (tr_recvCh (c_Transimtor c1)). msg_ok cm m"
    using ctx assms(1) safe(1) own_msg_ok [OF _ env] by (auto simp: safe_inv_def c_send_def c_push_def)
  have fields: "c_Committee c1 = c_Committee c" "c_SigService c1 = c_SigService c" "c_Name c1 = c_Name c"
    "c_TxPool c1 = c_TxPool c" "c_Elector c1 = c_Elector c"
    using ctx by (auto simp: c_send_def c_push_def)
  show "safe_inv w cm c'"
    using assms(1) tasks recv step(1) fields by (auto simp: safe_inv_def c')
qed

interpretation sf: core_invariant "safe_inv w cm" w "msg_ok cm" for w :: "'a smvba_env_scheme" and cm
proof unfold_locales
  show "safe_inv w cm c \<Longrightarrow> core_upd w c c' \<Longrightarrow> safe_inv w cm c'" for c c' :: "'b Core"
    by (rotate_tac, induction rule: core_upd.induct)
       (auto simp: safe_inv_def c_send_def c_push_def c_go_def NewSPB_def prop_ok_def
         intro: own_msg_ok GetBatch_wf PutBatch_wf dest: AddShareVote_leader(4) dest!: arg_cong [where f = snd])
qed (auto simp: safe_task, auto simp: safe_inv_def c_push_def)

section \<open>No handler panics\<close>

lemma Verify_total: "env_ok w cm sig \<Longrightarrow> msg_ok cm m \<Longrightarrow> Verify w cm m \<noteq> None"
  by (cases m) (auto simp: smvba_verify_defs go_simps Signature_Verify_total)

text \<open>Under \<open>env_ok\<close> every constructor returns a message.\<close>

lemma New_total:
  assumes "env_ok w cm sig"
  shows "NewSPBProposal w name b e r ph sig \<noteq> None" "NewSPBVote w name n d e r ph sig \<noteq> None"
    "NewFinish w name d e r sig \<noteq> None" "NewDone w name e r sig \<noteq> None"
    "NewElectShare w name e r sig \<noteq> None" "NewPrevote w name l e r fl d sig \<noteq> None"
    "NewFinVote w name l e r fl d sig \<noteq> None" "NewHalt w name l d e r sig \<noteq> None"
  using assms
  by (simp_all add: smvba_new_defs env_ok_def RequestSignature_eq RequestTsSugnature_eq split_beta Let_def)

lemma send_vote_total:
  assumes "env_ok w cm (c_SigService c)"
  shows "send_vote w p d s c \<noteq> None"
  using New_total(2) [OF assms] by (simp add: send_vote_def bind_eq_None_conv)

lemma spb_step_total:
  assumes "env_ok w cm (c_SigService c)" "pc_safe cm pc" "pc_ok n s pc"
  shows "spb_step w pc s c \<noteq> None"
proof (cases pc)
  case (VoteAct v k)
  then show ?thesis
    using assms(3) New_total(1,3) [OF assms(1)] by (simp add: bind_eq_None_conv del: not_None_eq)
next
  case (PropEntry p)
  then show ?thesis using assms(2) by (auto simp: prop_ok_def go_simps)
next
  case (PropStore p)
  then show ?thesis using assms(3) by (auto simp: go_simps Let_def)
qed (use send_vote_total [OF assms(1)] in \<open>simp_all add: Let_def bind_eq_None_conv\<close>)

lemma task_step_total:
  assumes "inst_inv w c" "safe_inv w cm c" "i < length (c_tasks c)"
  shows "task_step w i c \<noteq> None"
proof -
  obtain e r n pc where key: "c_tasks c ! i = ((e, r, n), pc)" by (metis prod.exhaust)
  then have mem: "((e, r, n), pc) \<in> set (c_tasks c)" using assms(3) by (metis nth_mem)
  then obtain s where s: "get3 (c_SPbInstances c) e r n = Some s" "pc_ok n s pc"
    using assms(1) unfolding inst_inv_def by blast
  have "pc_safe cm pc" "env_ok w cm (c_SigService c)"
    using assms(2) mem by (auto simp: safe_inv_def)
  then have "spb_step w pc s c \<noteq> None" using s(2) by (intro spb_step_total)
  then show ?thesis using key s(1) by (auto simp: task_step_def Let_def)
qed

lemma generatorBlock_total:
  assumes "pool_wf (c_TxPool c)"
  shows "generatorBlock e c \<noteq> None" "c_SigService (snd (the (generatorBlock e c))) = c_SigService c"
  using GetBatch_total [OF assms] by (auto simp: generatorBlock_def)

text \<open>What a handler needs of the state, kept by every update.\<close>

definition live :: "'a smvba_env_scheme \<Rightarrow> Committee \<Rightarrow> 'db Core \<Rightarrow> bool" where
  "live w cm c \<longleftrightarrow> inst_inv w c \<and> safe_inv w cm c"

lemma live_upds: "core_upds w c c' \<Longrightarrow> live w cm c \<Longrightarrow> live w cm c'"
  unfolding live_def using ins.upds [of w c c'] sf.upds [of w c c' cm] by blast

lemma live_env: "live w cm c \<Longrightarrow> env_ok w cm (c_SigService c)"
  and live_pool: "live w cm c \<Longrightarrow> pool_wf (c_TxPool c)"
  and live_lock: "live w cm c \<Longrightarrow> get3 (c_SPbInstances c) e r n = Some s \<Longrightarrow> IsLock s \<Longrightarrow> GetBlockHash s \<noteq> None"
  by (auto simp: live_def safe_inv_def inst_inv_def spb_ok_def IsLock_def GetBlockHash_def)

lemma storeBlock_total: "p \<noteq> None \<Longrightarrow> storeBlock w p c \<noteq> None"
  by (cases p) (auto simp: storeBlock_def go_simps split_beta Let_def split: sum.split)

lemma handleSpbProposal_total: "prop_ok p \<Longrightarrow> handleSpbProposal w p c \<noteq> None"
  using storeBlock_total [of "sp_B p" w]
  by (auto simp: handleSpbProposal_def prop_ok_def bind_eq_None_conv Let_def split_beta Commit_total
      simp del: not_None_eq)

lemma handleSpbVote_total: "handleSpbVote v c \<noteq> None"
  by (simp add: handleSpbVote_def split_beta Let_def)

lemma invokeDoneAndShare_total:
  assumes "live w cm c"
  shows "invokeDoneAndShare w e r c \<noteq> None"
  using New_total(4,5) [OF live_env [OF assms]]
  by (simp add: invokeDoneAndShare_def bind_eq_None_conv Let_def split_beta del: not_None_eq)

lemma handleFinish_total:
  assumes "live w cm c"
  shows "handleFinish w f c \<noteq> None"
proof -
  have "invokeDoneAndShare w (fi_Epoch f) (fi_Round f) (c\<lparr>c_Aggreator := snd (AddFinishVote f (c_Aggreator c)),
     c_FinishFlags := m\<rparr>) \<noteq> None" for m
    using New_total(4,5) [OF live_env [OF assms]]
    by (simp add: invokeDoneAndShare_def hasDone_def bind_eq_None_conv Let_def split_beta split: option.split del: not_None_eq)
  then show ?thesis by (simp add: handleFinish_def Let_def split_beta del: not_None_eq)
qed

lemma live_inst_lock:
  assumes "live w cm c" "IsLock (fst (getSpbInstance e r n c))"
  shows "GetBlockHash (fst (getSpbInstance e r n c)) \<noteq> None"
proof (rule live_lock [OF _ getSpbInstance_get])
  show "live w cm (snd (getSpbInstance e r n c))"
    using assms(1) by (rule live_upds [rotated]) (simp add: getSpbInstance_upds)
qed (rule assms(2))

lemma processLeader_total:
  assumes "live w cm c"
  shows "processLeader w e r c \<noteq> None"
proof -
  let ?c3 = "snd (c_Leader e r (snd (hasReady e r (snd (c_Leader e r c)))))"
  have "live w cm ?c3"
    using assms by (rule live_upds [rotated]) (simp add: upds_helpers)
  note lock = live_inst_lock [OF this]
  show ?thesis
    using New_total(6,8) [OF live_env [OF assms]] lock
    by (simp add: processLeader_def bind_eq_None_conv Let_def split_beta del: not_None_eq)
qed

lemma handleDone_total:
  assumes "live w cm c"
  shows "handleDone w d c \<noteq> None"
proof -
  let ?c = "c\<lparr>c_Aggreator := snd (AddDoneVote d (c_Aggreator c))\<rparr>"
  have upds: "core_upds w c ?c"
    by (rule upds_intros(10) [where d = d and res' = "fst (AddDoneVote d (c_Aggreator c))"]) simp_all
  have "invokeDoneAndShare w e r ?c \<noteq> None" for e r
    by (rule invokeDoneAndShare_total [OF live_upds [OF upds assms]])
  moreover have "processLeader w e r (?c\<lparr>c_ReadyFlags := put2 (c_ReadyFlags c) e r ()\<rparr>) \<noteq> None" for e r
    by (rule processLeader_total [OF live_upds [OF flag_upds(2) [where c = ?c, OF _ upds] assms]]) simp
  ultimately show ?thesis
    by (simp add: handleDone_def Let_def split_beta del: not_None_eq)
qed

lemma ElectAggreator_Append_total:
  assumes "env_ok w cm sig'"
  shows "ElectAggreator_Append w cm sig share e \<noteq> None"
proof -
  have "coin_loop RANDOM_LEN 0 coin 0 \<noteq> None"
    if "CombineIntactTSPartial w shares key d = (coin, None)" for shares key d coin
    using that assms coin_loop_Some [of 0 RANDOM_LEN coin 0]
    by (auto simp: env_ok_def CombineIntactTSPartial_def)
  then show ?thesis
    using assms
    by (auto simp: ElectAggreator_Append_def Let_def bind_eq_None_conv env_ok_def Committee_Size_def
        split: prod.split option.split simp del: not_None_eq)
qed

lemma handleElectShare_total:
  assumes "live w cm c"
  shows "handleElectShare w share c \<noteq> None"
proof -
  have cm: "el_committee (c_Elector c) = cm"
    using assms by (simp add: live_def safe_inv_def)
  have "processLeader w e r (c\<lparr>c_Elector := el\<rparr>) \<noteq> None"
    if "AddShareVote w share (c_Elector c) = Some (res, el)" for e r res el
    using assms that by (intro processLeader_total live_upds [OF upds_intros(13)]) auto
  moreover have "AddShareVote w share (c_Elector c) \<noteq> None"
    using ElectAggreator_Append_total [OF live_env [OF assms]]
    by (auto simp: AddShareVote_def cm bind_eq_None_conv Let_def split_beta simp del: not_None_eq)
  then obtain node err el where "AddShareVote w share (c_Elector c) = Some ((node, err), el)"
    by (metis not_None_eq prod.exhaust)
  ultimately show ?thesis
    by (simp add: handleElectShare_def Let_def bind_eq_None_conv split_beta del: not_None_eq)
qed

lemma handlePrevote_total:
  assumes "live w cm c"
  shows "handlePrevote w pv c \<noteq> None"
  using New_total(7) [OF live_env [OF assms]]
  by (simp add: handlePrevote_def Let_def bind_eq_None_conv split_beta del: not_None_eq)

lemma getSpbInstance_pool [simp]: "c_TxPool (snd (getSpbInstance e r n c)) = c_TxPool c"
  by (simp add: getSpbInstance_def Let_def split: option.split)

lemma advanceNextRound_total:
  assumes "live w cm c"
  shows "advanceNextRound w e r fl d c \<noteq> None"
  using New_total(1) [OF live_env [OF assms]] live_pool [OF assms]
  by (auto simp: advanceNextRound_def Let_def bind_eq_None_conv split_beta generatorBlock_total
      split: option.split simp del: not_None_eq)

lemma handleFinvote_total:
  assumes "live w cm c"
  shows "handleFinvote w fv c \<noteq> None"
proof -
  let ?c = "c\<lparr>c_Aggreator := snd (AddFinVote fv (c_Aggreator c))\<rparr>"
  have "core_upds w c ?c"
    by (rule upds_intros(12) [where fv = fv and res' = "fst (AddFinVote fv (c_Aggreator c))"]) simp_all
  then have "live w cm ?c" by (rule live_upds [OF _ assms])
  then have "advanceNextRound w e r fl d ?c \<noteq> None" for e r fl d by (rule advanceNextRound_total)
  then show ?thesis
    using New_total(8) [OF live_env [OF assms]]
    by (simp add: handleFinvote_def Let_def bind_eq_None_conv split_beta del: not_None_eq)
qed

lemma handleOutput_total: "handleOutput w e d c \<noteq> None"
  by (auto simp: handleOutput_def Let_def bind_eq_None_conv split_beta Commit_total split: option.split
      simp del: not_None_eq)

lemma advanceNextEpoch_total:
  assumes "live w cm c"
  shows "advanceNextEpoch w (i64 (e + 1)) (c\<lparr>c_HaltFlags := finsert e (c_HaltFlags c)\<rparr>) \<noteq> None"
  using New_total(1) [OF live_env [OF assms]] live_pool [OF assms]
  by (simp add: advanceNextEpoch_def Let_def bind_eq_None_conv split_beta generatorBlock_total del: not_None_eq)

lemma handleHalt_total:
  assumes "live w cm c"
  shows "handleHalt w h c \<noteq> None"
proof -
  let ?c = "c\<lparr>c_Elector := SetLeader (ha_Epoch h) (ha_Round h) (ha_Leader h) (c_Elector c)\<rparr>"
  obtain err c1 where out: "handleOutput w (ha_Epoch h) (ha_BlockHash h) ?c = Some (err, c1)"
    using handleOutput_total [of w "ha_Epoch h" "ha_BlockHash h" ?c] by auto
  have "core_upds w c c1"
    by (rule handleOutput_upds [OF out]) (rule upds_intros(15), simp)
  then have "live w cm c1" by (rule live_upds [OF _ assms])
  then show ?thesis
    using advanceNextEpoch_total [of w cm c1 "ha_Epoch h"] out
    by (simp add: handleHalt_def Let_def bind_eq_None_conv del: not_None_eq)
qed

lemma handle_total:
  assumes "live w cm c" "msg_ok cm m"
  shows "handle w m c \<noteq> None"
proof (cases m)
  case (SPBProposalMsg p)
  then show ?thesis using assms(2) handleSpbProposal_total [of p w c] by simp
next
  case (ElectShareMsg e)
  then obtain share where "m = ElectShareMsg (Some share)" using assms(2) by auto
  then show ?thesis using handleElectShare_total [OF assms(1), of share] by (simp add: go_simps)
qed (simp_all add: handleSpbVote_total handleFinish_total [OF assms(1)] handleDone_total [OF assms(1)]
      handlePrevote_total [OF assms(1)] handleFinvote_total [OF assms(1)] handleHalt_total [OF assms(1)] del: not_None_eq)

lemma live_no_panic:
  assumes "live w cm c"
  shows "\<not> panics w c"
proof -
  have "Run_turn w c \<noteq> None"
  proof (cases "tr_recvCh (c_Transimtor c)")
    case Nil
    then show ?thesis by (simp add: Run_turn_def Transmitor_Recv_def)
  next
    case (Cons m ms)
    let ?c = "c\<lparr>c_Transimtor := (c_Transimtor c)\<lparr>tr_recvCh := ms\<rparr>\<rparr>"
    have ok: "msg_ok cm m" and live: "live w cm ?c" and cm: "c_Committee c = cm"
      using assms Cons ins.recv [of w c m ms] sf.recv [of w cm c m ms] by (auto simp: live_def safe_inv_def)
    show ?thesis
      using Verify_total [OF live_env [OF assms] ok] handle_total [OF live ok] cm
      by (simp add: Run_turn_def Transmitor_Recv_def Cons dispatch_def bind_eq_None_conv del: not_None_eq)
  qed
  then show ?thesis
    using assms task_step_total [of w c cm] by (auto simp: panics_def live_def simp del: not_None_eq)
qed

end
