(* ===== verification/Smvba_Parts.thy ===== *)
theory Smvba_Parts
  imports Smvba_Core Samples
begin

text \<open>
  The properties of the single parts of SMVBA: the broadcast instance, the aggregators, the
  elector, the committor, the block store and the message codec.
\<close>

definition toy_block :: Block where
  "toy_block = \<lparr>b_Proposer = 0, b_Batch = \<lparr>bt_ID = 0, bt_Txs = Some [[]]\<rparr>, b_Epoch = 0\<rparr>"

definition toy_env :: smvba_env where
  "toy_env = crypto.extend toy_crypto
     \<lparr>env_gob = \<lparr>gob_Encode = (\<lambda>b. Inr []), gob_Decode = (\<lambda>bs. Inr toy_block)\<rparr>\<rparr>"

lemma toy_env_simps [simp]:
  "sha256_Sum256 toy_env = (\<lambda>bs. bs)" "ed25519_Sign toy_env = (\<lambda>sk d. d)" "ed25519_Verify toy_env = (\<lambda>pk d s. s = d)"
  "tbls_Sign toy_env = (\<lambda>sh d. ([1], None))" "tbls_Recover toy_env = (\<lambda>pp d sigs t n. ([1, 2, 3], None))"
  "env_gob toy_env = \<lparr>gob_Encode = (\<lambda>b. Inr []), gob_Decode = (\<lambda>bs. Inr toy_block)\<rparr>"
  by (simp_all add: toy_env_def toy_crypto_def crypto.extend_def)

definition toy_core :: "(bytes \<rightharpoonup> bytes) Core" where
  "toy_core = NewCore 0 four DefaultParameters toy_sig toy_store toy_pool (NewTransmitor DefaultParameters four)"

section \<open>The broadcast instance\<close>


text \<open>The votes of the first phase that a node has sent to others or queued for itself.\<close>

definition votes1 :: "'c smvba_ctx_scheme \<Rightarrow> SPBVote list" where
  "votes1 c = [v. SPBVoteMsg v \<leftarrow> map nm_Msg (tr_msgCh (c_Transimtor c)) @ tr_recvCh (c_Transimtor c), sv_Phase v = SPB_ONE_PHASE]"

text \<open>Calls of \<^verbatim>\<open>processProposal\<close> one after the other.\<close>

fun proposals :: "'a crypto_scheme \<Rightarrow> SPBProposal list \<Rightarrow> SPB \<Rightarrow> 'c smvba_ctx_scheme \<Rightarrow>
    (SPB \<times> 'c smvba_ctx_scheme) option" where
  "proposals w [] s c = Some (s, c)"
| "proposals w (p # ps) s c = do { (_, s, c) \<leftarrow> processProposal w p s c; proposals w ps s c }"

lemma votes1_send [simp]:
  "length (votes1 (c_send to (SPBVoteMsg v) c)) = length (votes1 c) + (if sv_Phase v = SPB_ONE_PHASE then 1 else 0)"
  "length (votes1 (c_push (SPBVoteMsg v) c)) = length (votes1 c) + (if sv_Phase v = SPB_ONE_PHASE then 1 else 0)"
  by (simp_all add: votes1_def c_send_def c_push_def Transmitor_Send_def RecvChannel_push_def Let_def)

lemma send_vote_votes1:
  assumes "send_vote w p d s c = Some c'"
  shows "length (votes1 c') = length (votes1 c) + (if sp_Phase p = SPB_ONE_PHASE then 1 else 0)"
  using assms by (auto simp: send_vote_def NewSPBVote_def bind_eq_Some_conv Let_def split: if_splits)

lemma processProposal_votes1:
  assumes "processProposal w p s c = Some (sp, s', c')"
  shows "length (votes1 c') = length (votes1 c) + (if s_BlockHash s = None \<and> s_BlockHash s' \<noteq> None then 1 else 0)"
    and "s_BlockHash s \<noteq> None \<Longrightarrow> s_BlockHash s' = s_BlockHash s"
  using assms
  by (auto simp: processProposal_def Let_def go_simps bind_eq_Some_conv split: if_splits dest!: send_vote_votes1)

text \<open>C27: If the calls of \<^verbatim>\<open>processProposal\<close> on one instance do not overlap, a node casts at most one vote of
  the first phase for the instance, whatever proposals arrive, and once the instance holds a hash
  it keeps it.\<close>

theorem spb_one_vote:
  assumes "proposals w ps s c = Some (s', c')"
  shows "length (votes1 c') \<le> length (votes1 c) + 1 \<and> (s_BlockHash s \<noteq> None \<longrightarrow>
    s_BlockHash s' = s_BlockHash s \<and> length (votes1 c') = length (votes1 c))"
  using assms
proof (induction ps arbitrary: s c)
  case Nil
  then show ?case by simp
next
  case (Cons p ps)
  obtain sp s1 c1 where step: "processProposal w p s c = Some (sp, s1, c1)" "proposals w ps s1 c1 = Some (s', c')"
    using Cons.prems by (auto simp: bind_eq_Some_conv)
  show ?case
    using processProposal_votes1 [OF step(1)] Cons.IH [OF step(2)] by (auto split: if_splits)
qed

definition toy_prop :: "int \<Rightarrow> SPBProposal" where
  "toy_prop i = \<lparr>sp_Author = 0, sp_B = Some (toy_block\<lparr>b_Batch := \<lparr>bt_ID = i, bt_Txs = None\<rparr>\<rparr>), sp_Epoch = 0, sp_Round = 0,
     sp_Phase = SPB_ONE_PHASE, sp_Signature = zero_Signature\<rparr>"

theorem spb_one_vote_witness:
  "\<exists>s' c'. proposals toy_env [toy_prop 1, toy_prop 2] (NewSPB 0 0 0) toy_core = Some (s', c') \<and>
     length (votes1 c') \<le> length (votes1 toy_core) + 1"
proof -
  have "proposals toy_env [toy_prop 1, toy_prop 2] (NewSPB 0 0 0) toy_core \<noteq> None" by code_simp
  then obtain s' c' where r: "proposals toy_env [toy_prop 1, toy_prop 2] (NewSPB 0 0 0) toy_core = Some (s', c')"
    by auto
  show ?thesis using spb_one_vote [OF r] r by auto
qed

text \<open>Goroutines of one instance, run piece by piece in the order of a schedule of positions.\<close>

fun schedule :: "'a crypto_scheme \<Rightarrow> nat list \<Rightarrow> spb_pc list \<Rightarrow> SPB \<Rightarrow> 'c smvba_ctx_scheme \<Rightarrow>
    (spb_pc list \<times> SPB \<times> 'c smvba_ctx_scheme) option" where
  "schedule w [] ts s c = Some (ts, s, c)"
| "schedule w (i # is) ts s c =
     (if i < length ts then do {
        (pc', spawned, s, c) \<leftarrow> spb_step w (ts ! i) s c;
        schedule w is (take i ts @ (case pc' of None \<Rightarrow> [] | Some pc \<Rightarrow> [pc]) @ drop (Suc i) ts @ spawned) s c }
      else None)"

definition voted1 :: "'c smvba_ctx_scheme \<Rightarrow> Digest set" where
  "voted1 c = sv_BlockHash ` set (votes1 c)"

lemma voted1_send [simp]:
  "sv_Phase v = SPB_ONE_PHASE \<Longrightarrow> voted1 (c_send to (SPBVoteMsg v) c) = insert (sv_BlockHash v) (voted1 c)"
  "sv_Phase v = SPB_ONE_PHASE \<Longrightarrow> voted1 (c_push (SPBVoteMsg v) c) = insert (sv_BlockHash v) (voted1 c)"
  by (auto simp: voted1_def votes1_def c_send_def c_push_def Transmitor_Send_def RecvChannel_push_def Let_def)

lemma send_vote_voted1:
  assumes "length (Prikey (ss_PriKey (c_SigService c))) = PrivateKeySize" "sp_Phase p = SPB_ONE_PHASE"
  obtains c' where "send_vote w p d s c = Some c'" "voted1 c' = insert d (voted1 c)" "c_SigService c' = c_SigService c"
proof -
  obtain v where v: "NewSPBVote w (c_Name c) (sp_Author p) d (s_Epoch s) (s_Round s) (sp_Phase p) (c_SigService c) = Some v"
      "sv_Phase v = SPB_ONE_PHASE" "sv_BlockHash v = d"
    using assms by (simp add: NewSPBVote_def RequestSignature_eq Let_def)
  have sig: "c_SigService (c_send to m c) = c_SigService c" "c_SigService (c_push m c) = c_SigService c" for to m
    by (simp_all add: c_send_def c_push_def)
  show ?thesis
    using that v sig by (cases "c_Name c = s_Proposer s") (auto simp: send_vote_def)
qed

text \<open>C28: The check that no hash is stored and the store of the hash are two atomic operations, not one. For
  any two blocks of the proposer there is an interleaving of two calls of \<^verbatim>\<open>processProposal\<close> in which
  the node votes in the first phase for both blocks.\<close>

theorem spb_race_two_votes:
  assumes "length (Prikey (ss_PriKey (c_SigService c))) = PrivateKeySize"
    and "sp_Phase p1 = SPB_ONE_PHASE" "sp_B p1 = Some b1" "b_Proposer b1 = n"
    and "sp_Phase p2 = SPB_ONE_PHASE" "sp_B p2 = Some b2" "b_Proposer b2 = n"
  shows "\<exists>ts s' c'. schedule w [0, 1, 0, 1, 0, 1] [PropEntry p1, PropEntry p2] (NewSPB e r n) c = Some (ts, s', c') \<and>
    {Block_Hash w b1, Block_Hash w b2} \<subseteq> voted1 c'"
proof -
  let ?s = "(NewSPB e r n)\<lparr>s_BlockHash := Some (Block_Hash w b2)\<rparr>"
  obtain c1 where c1: "send_vote w p1 (Block_Hash w b1) ?s c = Some c1" "voted1 c1 = insert (Block_Hash w b1) (voted1 c)"
      "c_SigService c1 = c_SigService c"
    using assms(1,2) by (rule send_vote_voted1)
  obtain c2 where c2: "send_vote w p2 (Block_Hash w b2) ?s c1 = Some c2" "voted1 c2 = insert (Block_Hash w b2) (voted1 c1)"
    using send_vote_voted1 [of c1 p2 w "Block_Hash w b2" ?s] assms(1,5) c1(3) by metis
  have "schedule w [0, 1, 0, 1, 0, 1] [PropEntry p1, PropEntry p2] (NewSPB e r n) c = Some ([PropFlush, PropFlush], ?s, c2)"
    using assms(2-7) c1(1) c2(1) by (simp add: NewSPB_def go_simps Let_def)
  then show ?thesis using c1(2) c2(2) by simp
qed

theorem spb_race_two_votes_witness:
  "\<exists>ts s' c' d d'. schedule toy_env [0, 1, 0, 1, 0, 1] [PropEntry (toy_prop 1), PropEntry (toy_prop 2)] (NewSPB 0 0 0) toy_core =
     Some (ts, s', c') \<and> {d, d'} \<subseteq> voted1 c' \<and> d \<noteq> d'"
proof -
  let ?b = "\<lambda>i. toy_block\<lparr>b_Batch := \<lparr>bt_ID = i, bt_Txs = None\<rparr>\<rparr>"
  have ne: "Block_Hash toy_env (?b 1) \<noteq> Block_Hash toy_env (?b 2)"
    by (simp add: Block_Hash_eq toy_block_def)
  have "\<exists>ts s' c'. schedule toy_env [0, 1, 0, 1, 0, 1] [PropEntry (toy_prop 1), PropEntry (toy_prop 2)] (NewSPB 0 0 0) toy_core =
      Some (ts, s', c') \<and> {Block_Hash toy_env (?b 1), Block_Hash toy_env (?b 2)} \<subseteq> voted1 c'"
    by (rule spb_race_two_votes)
       (simp_all add: toy_core_def NewCore_def toy_sig_def PrivateKeySize_def toy_prop_def toy_block_def)
  then show ?thesis using ne by blast
qed

text \<open>Calls of \<^verbatim>\<open>processVote\<close> one after the other.\<close>

fun vote_calls :: "'a crypto_scheme \<Rightarrow> SPBVote list \<Rightarrow> SPB \<Rightarrow> 'c smvba_ctx_scheme \<Rightarrow>
    (SPB \<times> 'c smvba_ctx_scheme) option" where
  "vote_calls w [] s c = Some (s, c)"
| "vote_calls w (v # vs) s c = do { (s, c) \<leftarrow> processVote w v s c; vote_calls w vs s c }"

definition phase2_proposals :: "'c smvba_ctx_scheme \<Rightarrow> nat" where
  "phase2_proposals c = length [p. SPBProposalMsg p \<leftarrow> map nm_Msg (tr_msgCh (c_Transimtor c)), sp_Phase p = SPB_TWO_PHASE]"

lemma processVote_phase1:
  assumes "s_BlockHash s \<noteq> None" "sv_Phase v = SPB_ONE_PHASE"
    and "length (Prikey (ss_PriKey (c_SigService c))) = PrivateKeySize"
  obtains s' c' where "processVote w v s c = Some (s', c')" "s_BlockHash s' = s_BlockHash s"
    "c_SigService c' = c_SigService c" "c_Committee c' = c_Committee c" "votes_of s' SPB_ONE_PHASE = votes_of s SPB_ONE_PHASE + 1"
    "phase2_proposals c' = phase2_proposals c +
       (if votes_of s SPB_ONE_PHASE + 1 = HightThreshold (c_Committee c) then 1 else 0)"
proof -
  obtain p where p: "NewSPBProposal w (c_Name c) None (s_Epoch s) (s_Round s) SPB_TWO_PHASE (c_SigService c) = Some p"
      "sp_Phase p = SPB_TWO_PHASE"
    using assms(3) by (simp add: NewSPBProposal_def RequestSignature_eq Let_def)
  have count: "phase2_proposals (c_push (SPBProposalMsg p) (c_send to (SPBProposalMsg p) c)) = phase2_proposals c + 1" for to
    using p(2) by (simp add: phase2_proposals_def c_push_def c_send_def)
  have fields: "c_SigService (c_push m (c_send to m c)) = c_SigService c" "c_Committee (c_push m (c_send to m c)) = c_Committee c" for to m
    by (simp_all add: c_send_def c_push_def)
  show ?thesis
    using that assms(1,2) p(1) count fields
    by (cases "votes_of s SPB_ONE_PHASE + 1 = HightThreshold (c_Committee c)")
       (auto simp: processVote_def votes_of_def Let_def)
qed

text \<open>A vote is counted without looking at its author: on an instance that holds a hash and has counted
  no vote of the first phase, one and the same vote, delivered \<^verbatim>\<open>HightThreshold\<close> times, makes the node
  send its proposal of the second phase.\<close>

theorem spb_votes_not_deduplicated:
  assumes "s_BlockHash s \<noteq> None" "votes_of s SPB_ONE_PHASE = 0" "sv_Phase v = SPB_ONE_PHASE"
    and "length (Prikey (ss_PriKey (c_SigService c))) = PrivateKeySize"
  shows "\<exists>s' c'. vote_calls w (replicate (nat (HightThreshold (c_Committee c))) v) s c = Some (s', c') \<and>
    phase2_proposals c' = phase2_proposals c + 1"
proof -
  have "\<exists>s' c'. vote_calls w (replicate n v) s c = Some (s', c') \<and> phase2_proposals c' = phase2_proposals c +
      (if votes_of s SPB_ONE_PHASE < HightThreshold (c_Committee c) \<and>
          HightThreshold (c_Committee c) \<le> votes_of s SPB_ONE_PHASE + int n then 1 else 0)"
    if "s_BlockHash s \<noteq> None" "length (Prikey (ss_PriKey (c_SigService c))) = PrivateKeySize" for n s and c :: "'c smvba_ctx_scheme"
    using that
  proof (induction n arbitrary: s c)
    case 0
    then show ?case by simp
  next
    case (Suc n)
    obtain s1 c1 where st: "processVote w v s c = Some (s1, c1)" "s_BlockHash s1 = s_BlockHash s"
      "c_SigService c1 = c_SigService c" "c_Committee c1 = c_Committee c" "votes_of s1 SPB_ONE_PHASE = votes_of s SPB_ONE_PHASE + 1"
      "phase2_proposals c1 = phase2_proposals c +
         (if votes_of s SPB_ONE_PHASE + 1 = HightThreshold (c_Committee c) then 1 else 0)"
      using processVote_phase1 [OF Suc.prems(1) assms(3) Suc.prems(2)] .
    obtain s' c' where "vote_calls w (replicate n v) s1 c1 = Some (s', c')" "phase2_proposals c' = phase2_proposals c1 +
        (if votes_of s1 SPB_ONE_PHASE < HightThreshold (c_Committee c1) \<and>
            HightThreshold (c_Committee c1) \<le> votes_of s1 SPB_ONE_PHASE + int n then 1 else 0)"
      using Suc.IH [of s1 c1] st Suc.prems by auto
    then show ?case using st by auto
  qed
  from this [OF assms(1,4), of "nat (HightThreshold (c_Committee c))"] show ?thesis
    using assms(2) thresholds_pos [of "c_Committee c"] by (simp add: less_imp_le)
qed

theorem spb_votes_not_deduplicated_witness:
  "\<exists>s' c'. vote_calls toy_env (replicate (nat (HightThreshold four)) (the (NewSPBVote toy_env 1 0 [] 0 0 SPB_ONE_PHASE toy_sig)))
     ((NewSPB 0 0 0)\<lparr>s_BlockHash := Some []\<rparr>) toy_core = Some (s', c') \<and> phase2_proposals c' = phase2_proposals toy_core + 1"
  using spb_votes_not_deduplicated [of "(NewSPB 0 0 0)\<lparr>s_BlockHash := Some []\<rparr>"
      "the (NewSPBVote toy_env 1 0 [] 0 0 SPB_ONE_PHASE toy_sig)" toy_core toy_env]
  by (simp add: NewSPB_def votes_of_def NewSPBVote_def RequestSignature_eq toy_core_def NewCore_def toy_sig_def PrivateKeySize_def Let_def)

section \<open>The committor\<close>

text \<open>C17: For any sequence of blocks with fewer than \<open>2 ^ 63\<close> elements, in any order of epochs and with
  repetitions, \<^verbatim>\<open>Commit\<close> never panics and its loop ends, and the blocks it has passed on are one
  submitted block for each epoch from 0 up to the first epoch that was not submitted.\<close>

theorem commitor_output:
  assumes "int (length bs) < 2 ^ 63"
  shows "\<exists>c. Commits bs NewCommittor = Some c \<and>
    length (cm_commitCh c) = (LEAST k. int k \<notin> b_Epoch ` set bs) \<and>
    (\<forall>k < length (cm_commitCh c). cm_commitCh c ! k \<in> set bs \<and> b_Epoch (cm_commitCh c ! k) = int k)"
proof -
  have v: "cm_view (fold cm_submit bs NewCommittor) = (cm_Index (fold cm_submit bs NewCommittor),
      cm_Blocks (fold cm_submit bs NewCommittor), cm_commitCh (fold cm_submit bs NewCommittor))"
    by (simp add: cm_view_def)
  show ?thesis
    using co.submits_output [OF New_view assms v] by (auto simp: Commits_fold)
qed

text \<open>Two nodes that never submit different blocks for the same epoch pass on sequences of blocks of
  which one is a prefix of the other, whatever order the blocks reach them in.\<close>

theorem commitor_prefix:
  assumes "int (length bs) < 2 ^ 63" "int (length bs') < 2 ^ 63"
    and "\<forall>b \<in> set bs. \<forall>b' \<in> set bs'. b_Epoch b = b_Epoch b' \<longrightarrow> b = b'"
    and "Commits bs NewCommittor = Some c" "Commits bs' NewCommittor = Some c'"
  shows "prefix (cm_commitCh c) (cm_commitCh c') \<or> prefix (cm_commitCh c') (cm_commitCh c)"
proof -
  have "cm_view (fold cm_submit bs NewCommittor) = (cm_Index c, cm_Blocks c, cm_commitCh c)"
    "cm_view (fold cm_submit bs' NewCommittor) = (cm_Index c', cm_Blocks c', cm_commitCh c')"
    using assms(4,5) by (simp_all add: Commits_fold cm_view_def)
  then show ?thesis
    using co.submits_prefix [OF New_view assms(1) _ New_view assms(2)] assms(3) by blast
qed

definition toy_blocks :: "Block list" where
  "toy_blocks = [toy_block\<lparr>b_Epoch := 1\<rparr>, toy_block, toy_block\<lparr>b_Epoch := 3\<rparr>]"

theorem commitor_output_witness:
  "\<exists>c. Commits toy_blocks NewCommittor = Some c \<and> length (cm_commitCh c) = 2"
proof -
  have "(LEAST k. int k \<notin> b_Epoch ` set toy_blocks) = 2"
  proof (rule Least_equality)
    show "int 2 \<notin> b_Epoch ` set toy_blocks" by (simp add: toy_blocks_def toy_block_def)
  next
    fix k
    assume "int k \<notin> b_Epoch ` set toy_blocks"
    then have "k \<noteq> 0" "k \<noteq> 1" by (auto simp: toy_blocks_def toy_block_def)
    then show "2 \<le> k" by simp
  qed
  then show ?thesis using commitor_output [of toy_blocks] by (auto simp: toy_blocks_def)
qed

theorem commitor_prefix_witness:
  "\<exists>c c'. Commits toy_blocks NewCommittor = Some c \<and> Commits (rev toy_blocks) NewCommittor = Some c' \<and>
     (prefix (cm_commitCh c) (cm_commitCh c') \<or> prefix (cm_commitCh c') (cm_commitCh c))"
proof -
  obtain c c' where c: "Commits toy_blocks NewCommittor = Some c" "Commits (rev toy_blocks) NewCommittor = Some c'"
    by (simp add: Commits_fold)
  have "prefix (cm_commitCh c) (cm_commitCh c') \<or> prefix (cm_commitCh c') (cm_commitCh c)"
    by (rule commitor_prefix [OF _ _ _ c]) (simp_all add: toy_blocks_def toy_block_def)
  then show ?thesis using c by blast
qed

section \<open>Aggregators\<close>

text \<open>Whatever final votes arrive, in whatever order and with whatever repetitions, the aggregator of final
  votes reaches a verdict (an accepted vote with another result than \<^verbatim>\<open>ACTION_NONE\<close>) exactly once if
  they have at least \<^verbatim>\<open>HightThreshold\<close> different authors, and never otherwise.\<close>

theorem finvote_verdict_once:
  "events (\<lambda>r. r \<noteq> ACTION_NONE) (fst (feed (FinVoteAggreator_Append c) vs NewFinVoteAggreator)) =
     (if nat (HightThreshold c) \<le> fcard (fset_of_list (map fv_Author vs)) then 1 else 0)"
  using va.events_feed [where e = c and a = NewFinVoteAggreator and vs = vs] thresholds_pos [of c]
  by (simp add: NewFinVoteAggreator_def [THEN arg_cong [where f = va_authors]] fcard_fempty)

text \<open>In a committee of more than three nodes the aggregator of \<^verbatim>\<open>Done\<close> messages reports the low threshold once
  and the high threshold once as the number of different authors reaches them, and neither of them
  before or again. (In a smaller committee both thresholds are 1 and the high one is never
  reported.)\<close>

theorem done_thresholds_once:
  "events (\<lambda>r. r = DONE_LOW_FLAG) (fst (feed (DoneAggreator_Append c) vs NewDoneAggreator)) =
     (if nat (LowThreshold c) \<le> fcard (fset_of_list (map dn_Author vs)) then 1 else 0) \<and>
   events (\<lambda>r. r = DONE_HIGH_FLAG) (fst (feed (DoneAggreator_Append c) vs NewDoneAggreator)) =
     (if 3 < length (Authorities c) \<and> nat (HightThreshold c) \<le> fcard (fset_of_list (map dn_Author vs)) then 1 else 0)"
proof
  show "events (\<lambda>r. r = DONE_LOW_FLAG) (fst (feed (DoneAggreator_Append c) vs NewDoneAggreator)) =
     (if nat (LowThreshold c) \<le> fcard (fset_of_list (map dn_Author vs)) then 1 else 0)"
    using dl.events_feed [where e = c and a = NewDoneAggreator and vs = vs] thresholds_pos [of c]
    by (simp add: NewDoneAggreator_def [THEN arg_cong [where f = da_Authors]] fcard_fempty)
  show "events (\<lambda>r. r = DONE_HIGH_FLAG) (fst (feed (DoneAggreator_Append c) vs NewDoneAggreator)) =
     (if 3 < length (Authorities c) \<and> nat (HightThreshold c) \<le> fcard (fset_of_list (map dn_Author vs)) then 1 else 0)"
  proof (cases "3 < length (Authorities c)")
    case True
    then show ?thesis
      using dh.events_feed [where e = c and a = NewDoneAggreator and vs = vs] thresholds_pos [of c]
      by (simp add: NewDoneAggreator_def [THEN arg_cong [where f = da_Authors]] fcard_fempty)
  next
    case False
    then have eq: "LowThreshold c = HightThreshold c" by (simp add: Low_eq_Hight_iff)
    have "events (\<lambda>r. r = DONE_HIGH_FLAG) (fst (feed (DoneAggreator_Append c) vs a)) = 0" for a
    proof (induction vs arbitrary: a)
      case Nil
      then show ?case by simp
    next
      case (Cons v vs)
      then show ?case
        by (auto simp: feed_Cons DoneAggreator_Append_def eq Let_def simp del: feed.simps(2))
    qed
    then show ?thesis using False by simp
  qed
qed

text \<open>The first \<^verbatim>\<open>Finish\<close> of a round that reaches an aggregator is reported as accepted but not recorded: the
  aggregator stored for the round has no author, so the same author is accepted a second time.\<close>

theorem first_finish_not_recorded:
  assumes "get2 (ag_finish a) (fi_Epoch f) (fi_Round f) = None"
  shows "snd (fst (AddFinishVote f a)) = None \<and>
    get2 (ag_finish (snd (AddFinishVote f a))) (fi_Epoch f) (fi_Round f) = Some NewFinishAggreator \<and>
    snd (fst (AddFinishVote f (snd (AddFinishVote f a)))) = None"
  using assms by (simp add: AddFinishVote_def Let_def split_beta FinishAggreator_Append_def NewFinishAggreator_def)

theorem first_finish_not_recorded_witness:
  "let f = \<lparr>fi_Author = 1, fi_BlockHash = [], fi_Epoch = 0, fi_Round = 0, fi_Signature = zero_Signature\<rparr>;
       a = snd (AddFinishVote f (NewAggreator four))
   in snd (fst (AddFinishVote f (NewAggreator four))) = None \<and> get2 (ag_finish a) 0 0 = Some NewFinishAggreator \<and>
      snd (fst (AddFinishVote f a)) = None"
  using first_finish_not_recorded [of "NewAggreator four"
      "\<lparr>fi_Author = 1, fi_BlockHash = [], fi_Epoch = 0, fi_Round = 0, fi_Signature = zero_Signature\<rparr>"]
  by (simp add: Let_def NewAggreator_def)

section \<open>The elector\<close>




definition toy_share :: "int \<Rightarrow> ElectShare" where
  "toy_share i = \<lparr>es_Author = i, es_Epoch = 0, es_Round = 0, es_SigShare = \<lparr>PartialSig = [1]\<rparr>\<rparr>"



section \<open>Blocks: hashes and the store\<close>

text \<open>A block that \<^verbatim>\<open>storeBlock\<close> has stored is what \<^verbatim>\<open>getBlock\<close> finds under its hash, over any database that
  reads back what was put, if gob decodes what it encoded.\<close>

theorem stored_block_found:
  assumes "storeBlock w (Some b) c = Some (None, c')" "db_laws (st_ops (c_Store c))"
    and "\<forall>bs. Block_Encode w b = Inr bs \<longrightarrow> Block_Decode w bs = Inr b"
  shows "fst (getBlock w (Block_Hash w b) c') = (Some b, None)"
proof -
  obtain val where val: "Block_Encode w b = Inr val"
    using assms(1) by (cases "Block_Encode w b") (auto simp: storeBlock_def go_simps)
  obtain st where st: "Store_Write (Block_Hash w b) val (c_Store c) = (None, st)" "c' = c\<lparr>c_Store := st\<rparr>"
    using assms(1) val by (auto simp: storeBlock_def go_simps split_beta prod_eq_iff)
  show ?thesis
    using Read_Write_same [OF assms(2) st(1)] assms(3) val by (simp add: getBlock_def st(2))
qed

theorem stored_block_found_witness:
  "\<exists>c'. storeBlock toy_env (Some toy_block) toy_core = Some (None, c') \<and>
     fst (getBlock toy_env (Block_Hash toy_env toy_block) c') = (Some toy_block, None)"
proof -
  have db: "db_laws (st_ops (c_Store toy_core))"
    by (simp add: toy_core_def NewCore_def toy_store_def NewStore_def map_DB_laws)
  obtain c' where c': "storeBlock toy_env (Some toy_block) toy_core = Some (None, c')"
    by (simp add: storeBlock_def go_simps Block_Encode_def Store_Write_eq toy_core_def NewCore_def toy_store_def
        NewStore_def map_DB_def)
  show ?thesis
    using stored_block_found [OF c' db] c' by (auto simp: Block_Decode_def)
qed


section \<open>The codec and the protocol's messages\<close>

text \<open>The type a message has on the wire.\<close>

fun msg_type :: "smvba_msg \<Rightarrow> smvba_type" where
  "msg_type (SPBProposalMsg _) = TSPBProposal"
| "msg_type (SPBVoteMsg _) = TSPBVote"
| "msg_type (FinishMsg _) = TFinish"
| "msg_type (DoneMsg _) = TDone"
| "msg_type (ElectShareMsg _) = TElectShare"
| "msg_type (PrevoteMsg _) = TPrevote"
| "msg_type (FinVoteMsg _) = TFinVote"
| "msg_type (HaltMsg _) = THalt"

lemma MsgType_registered: "DefaultMessageTypeMap (MsgType m) = Some (msg_type m)"
  by (cases m) (simp_all add: DefaultMessageTypeMap_def)

text \<open>C29: Every message type of the protocol is registered under its own number, so if gob writes messages without an
  error and reads a value back at its own type, a receiver passes on exactly the messages that were
  written on the connection, in order, and does not panic.\<close>

theorem messages_roundtrip:
  assumes "\<forall>m \<in> set ms. gob_err m = None" "\<forall>m \<in> set ms. gob_as (msg_type m) m = Inr m"
  shows "serveConn gob_as (NewCodec DefaultMessageTypeMap) (write_all MsgType gob_err ms) [] = Some ms"
  using serve_write_all [of ms gob_err "NewCodec DefaultMessageTypeMap" MsgType gob_as "[]"] assms
  by (simp add: NewCodec_def MsgType_registered)

theorem messages_roundtrip_witness:
  "serveConn (\<lambda>ty m. Inr m) (NewCodec DefaultMessageTypeMap)
     (write_all MsgType (\<lambda>m. None) [ElectShareMsg (Some (toy_share 0)), SPBProposalMsg (toy_prop 1)]) [] =
   Some [ElectShareMsg (Some (toy_share 0)), SPBProposalMsg (toy_prop 1)]"
  using messages_roundtrip [of "[ElectShareMsg (Some (toy_share 0)), SPBProposalMsg (toy_prop 1)]" "\<lambda>m. None" "\<lambda>ty m. Inr m"]
  by simp

section \<open>Handlers\<close>

text \<open>The epoch a message names.\<close>

fun msg_epoch :: "smvba_msg \<Rightarrow> int" where
  "msg_epoch (SPBProposalMsg p) = sp_Epoch p"
| "msg_epoch (SPBVoteMsg v) = sv_Epoch v"
| "msg_epoch (FinishMsg f) = fi_Epoch f"
| "msg_epoch (DoneMsg d) = dn_Epoch d"
| "msg_epoch (ElectShareMsg e) = (case e of None \<Rightarrow> 0 | Some s \<Rightarrow> es_Epoch s)"
| "msg_epoch (PrevoteMsg p) = pv_Epoch p"
| "msg_epoch (FinVoteMsg v) = fv_Epoch v"
| "msg_epoch (HaltMsg h) = ha_Epoch h"

text \<open>A message of an epoch that the node has left changes nothing and is no error, with one exception: a
  proposal of the first phase in a halted epoch may still hand a block to the committor.\<close>

theorem stale_message_ignored:
  assumes "msg_epoch m < c_Epoch c" "m \<noteq> ElectShareMsg None"
    and "\<forall>p. m = SPBProposalMsg p \<longrightarrow> sp_Phase p = SPB_ONE_PHASE \<longrightarrow> sp_Epoch p |\<notin>| c_HaltFlags c"
  shows "handle w m c = Some (None, c)"
proof (cases m)
  case (ElectShareMsg e)
  then show ?thesis
    using assms by (cases e) (auto simp: handleElectShare_def messgaeFilter_def go_simps)
qed (use assms in \<open>auto simp: handleSpbProposal_def handleSpbVote_def handleFinish_def handleDone_def handlePrevote_def
      handleFinvote_def handleHalt_def messgaeFilter_def\<close>)

theorem stale_message_ignored_witness:
  "handle toy_env (SPBProposalMsg (toy_prop 1)) (toy_core\<lparr>c_Epoch := 2\<rparr>) = Some (None, toy_core\<lparr>c_Epoch := 2\<rparr>)"
  by (rule stale_message_ignored) (simp_all add: toy_prop_def toy_core_def NewCore_def)

text \<open>A correctly signed proposal of the first phase that carries no block, for an epoch the node has not left,
  passes the signature check and panics the receiver: one faulty member can stop every other node.\<close>

theorem nil_block_panics:
  assumes "SPBProposal_Verify w (c_Committee c) p = Some True"
    and "sp_Phase p = SPB_ONE_PHASE" "sp_B p = None" "c_Epoch c \<le> sp_Epoch p"
  shows "dispatch w (SPBProposalMsg p) c = None"
proof -
  have "c_Epoch (snd (c_Leader e r c)) = c_Epoch c" for e r
    by (simp add: c_Leader_def split: prod.splits)
  then show ?thesis
    using assms
    by (simp add: dispatch_def handleSpbProposal_def messgaeFilter_def storeBlock_def Commit_def go_simps Let_def split_beta)
qed

theorem nil_block_panics_witness:
  "dispatch toy_env (SPBProposalMsg (the (NewSPBProposal toy_env 1 None 0 0 SPB_ONE_PHASE toy_sig))) toy_core = None"
proof (rule nil_block_panics)
  show "SPBProposal_Verify toy_env (c_Committee toy_core) (the (NewSPBProposal toy_env 1 None 0 0 SPB_ONE_PHASE toy_sig)) = Some True"
    by code_simp
qed (simp_all add: NewSPBProposal_def RequestSignature_eq toy_sig_def PrivateKeySize_def toy_core_def NewCore_def Let_def)



end
