(* ===== verification/Smvba_Properties.thy ===== *)
theory Smvba_Properties
  imports Smvba_Safety Smvba_Parts
begin

text \<open>
  The properties of the SMVBA protocol: of a running node in any interleaving, of the aggregators,
  the elector, the committor and the broadcast instances.
\<close>

section \<open>A concrete node\<close>

lemma toy_env_ok: "env_ok toy_env four toy_sig"
  using four_keys by (simp add: env_ok_def four_def [THEN arg_cong [where f = Authorities]] toy_sig_def PrivateKeySize_def RANDOM_LEN_def)

lemma toy_start: "Run_start toy_env toy_core = Some (the (Run_start toy_env toy_core))"
proof -
  have "safe_inv toy_env four toy_core"
    using toy_env_ok pool_wf_New [OF toy_pool_New]
    by (simp add: safe_inv_def toy_core_def NewCore_def NewElector_def NewTransmitor_def four_members)
  then have "pool_wf (c_TxPool toy_core)" "env_ok toy_env four (c_SigService toy_core)"
    by (simp_all add: safe_inv_def)
  then have "Run_start toy_env toy_core \<noteq> None"
    using New_total(1) by (simp add: Run_start_def Let_def bind_eq_None_conv split_beta generatorBlock_total del: not_None_eq)
  then show ?thesis by simp
qed

text \<open>
  A run of the node by a script: it handles its own proposal, runs the goroutine of its broadcast
  to the end, handles its own vote, and then gets a halt message of node 1 for its own block.
\<close>

datatype act = Deliver smvba_msg | Turn | Task nat

fun play :: "'a smvba_env_scheme \<Rightarrow> act list \<Rightarrow> 'db Core \<Rightarrow> 'db Core option" where
  "play w [] c = Some c"
| "play w (Deliver m # as) c = play w as (c_push m c)"
| "play w (Turn # as) c = do { (err, c) \<leftarrow> Run_turn w c; play w as c }"
| "play w (Task i # as) c =
     (if i < length (c_tasks c) then do { c \<leftarrow> task_step w i c; play w as c } else None)"

lemma play_reach:
  assumes "play w as c = Some c'" "smvba_reach w net c0 c" "\<forall>m. Deliver m \<in> set as \<longrightarrow> net m"
  shows "smvba_reach w net c0 c'"
  using assms
proof (induction as arbitrary: c)
  case Nil
  then show ?case by simp
next
  case (Cons a as)
  obtain c1 where c1: "smvba_step w net c c1" "play w as c1 = Some c'"
    using Cons.prems by (cases a) (auto simp: bind_eq_Some_conv split: if_splits intro: smvba_step.intros)
  show ?case
    by (rule Cons.IH [OF c1(2) smvba_reach.step [OF Cons.prems(2) c1(1)]]) (use Cons.prems(3) in simp)
qed

definition toy_halt :: smvba_msg where
  "toy_halt = HaltMsg (the (NewHalt toy_env 1 0 (Block_Hash toy_env toy_block) 0 0 toy_sig))"

definition toy_script :: "act list" where
  "toy_script = [Turn, Task 0, Task 0, Task 0, Task 0, Turn, Deliver toy_halt, Turn]"

definition toy_state :: "(bytes \<rightharpoonup> bytes) Core" where
  "toy_state = the (play toy_env toy_script (the (Run_start toy_env toy_core)))"

lemma toy_play: "play toy_env toy_script (the (Run_start toy_env toy_core)) \<noteq> None"
  by code_simp

lemma toy_msg_ok: "msg_ok four toy_halt"
  by (simp add: toy_halt_def NewHalt_def RequestSignature_eq toy_sig_def PrivateKeySize_def four_members)

lemma toy_reach: "smvba_reach toy_env (msg_ok four) toy_core toy_state"
proof (rule play_reach)
  show "play toy_env toy_script (the (Run_start toy_env toy_core)) = Some toy_state"
    using toy_play by (simp add: toy_state_def)
  show "smvba_reach toy_env (msg_ok four) toy_core (the (Run_start toy_env toy_core))"
    by (rule smvba_reach.start [OF toy_start])
  show "\<forall>m. Deliver m \<in> set toy_script \<longrightarrow> msg_ok four m"
    using toy_msg_ok by (simp add: toy_script_def)
qed

lemmas toy_reach_New = toy_reach [unfolded toy_core_def]

lemma toy_committed: "cm_commitCh (c_Commitor toy_state) = [toy_block]"
  by code_simp

lemma toy_instance:
  "case get3 (c_SPbInstances toy_state) 0 0 0 of None \<Rightarrow> False | Some s \<Rightarrow> s_BlockHash s = Some (Block_Hash toy_env toy_block)"
  by code_simp

lemma toy_epoch: "c_Epoch toy_state = 1" "c_HaltFlags toy_state = {|0|}"
  by code_simp+

section \<open>A running node\<close>

text \<open>C1: A node that starts with a fresh state and a pool made by \<^verbatim>\<open>NewPool\<close>, whose keys have the sizes
  ed25519 demands and whose threshold library signs and recovers at least three bytes, never panics,
  neither in its main loop nor in a goroutine, in any interleaving, as long as the network delivers
  messages whose authors are members, whose proposals of the first phase have a block and whose
  shares are not nil.\<close>

theorem smvba_no_panic:
  assumes "env_ok w cm sig" "name \<in> members cm" "NewPool ppar N i = Some pool"
    and "smvba_reach w (msg_ok cm) (NewCore name cm par sig st pool (NewTransmitor par cm)) c"
  shows "\<not> panics w c"
proof -
  let ?c0 = "NewCore name cm par sig st pool (NewTransmitor par cm)"
  have "inst_inv w ?c0" by (simp add: inst_inv_def NewCore_def)
  moreover have "safe_inv w cm ?c0"
    using assms(1,2) pool_wf_New [OF assms(3)]
    by (simp add: safe_inv_def NewCore_def NewElector_def NewTransmitor_def)
  ultimately have "live w cm c"
    using ins.reach [OF assms(4)] sf.reach [OF assms(4)] by (simp add: live_def)
  then show ?thesis by (rule live_no_panic)
qed

theorem smvba_no_panic_witness:
  "env_ok toy_env four toy_sig \<and> smvba_reach toy_env (msg_ok four) toy_core toy_state \<and> \<not> panics toy_env toy_state"
proof -
  have "\<not> panics toy_env toy_state"
    by (rule smvba_no_panic [OF toy_env_ok _ toy_pool_New toy_reach_New]) (simp add: four_members)
  then show ?thesis using toy_env_ok toy_reach by simp
qed

text \<open>C2: In every reachable state of a node, whatever was delivered to it, the blocks it has handed to
  the application have the epochs 0, 1, 2, ... in this order, with no gap and none twice (as 64-bit
  numbers).\<close>

theorem smvba_commit_order:
  assumes "smvba_reach w net (NewCore name cm par sig st pool tr) c"
  shows "map b_Epoch (cm_commitCh (c_Commitor c)) = map (\<lambda>k. i64 (int k)) [0..<length (cm_commitCh (c_Commitor c))]"
proof -
  have "commit_inv (NewCore name cm par sig st pool tr)"
    by (simp add: commit_inv_def NewCore_def in_order_def)
  then have "commit_inv c" by (rule cmt.reach [OF assms])
  then show ?thesis by (simp add: commit_inv_def in_order_def cm_view_def)
qed

theorem smvba_commit_order_witness:
  "smvba_reach toy_env (msg_ok four) toy_core toy_state \<and> length (cm_commitCh (c_Commitor toy_state)) = 1 \<and>
   map b_Epoch (cm_commitCh (c_Commitor toy_state)) = [0]"
  using smvba_commit_order [OF toy_reach_New] toy_reach toy_committed by simp

text \<open>C22: In every reachable state, an SPB instance is filed under its own epoch, round and proposer; any
  hash it holds is the hash of a block of that proposer; and a locked instance holds a hash, so the
  panic \<^verbatim>\<open>block hash is nil\<close> of \<^verbatim>\<open>processLeader\<close> cannot happen.\<close>

theorem smvba_instance_consistent:
  assumes "smvba_reach w net (NewCore name cm par sig st pool tr) c"
    and "get3 (c_SPbInstances c) e r n = Some s"
  shows "s_Epoch s = e \<and> s_Round s = r \<and> s_Proposer s = n \<and> (IsLock s \<longrightarrow> GetBlockHash s \<noteq> None) \<and>
    (\<forall>d. GetBlockHash s = Some d \<longrightarrow> (\<exists>b. d = Block_Hash w b \<and> b_Proposer b = n))"
proof -
  have "inst_inv w (NewCore name cm par sig st pool tr)" by (simp add: inst_inv_def NewCore_def)
  then have "inst_inv w c" by (rule ins.reach [OF assms(1)])
  then show ?thesis
    using assms(2) by (auto simp: inst_inv_def spb_ok_def IsLock_def GetBlockHash_def)
qed

theorem smvba_instance_consistent_witness:
  "case get3 (c_SPbInstances toy_state) 0 0 0 of None \<Rightarrow> False
   | Some s \<Rightarrow> s_Proposer s = 0 \<and> (\<exists>b. GetBlockHash s = Some (Block_Hash toy_env b) \<and> b_Proposer b = 0)"
proof -
  obtain s where s: "get3 (c_SPbInstances toy_state) 0 0 0 = Some s" "s_BlockHash s = Some (Block_Hash toy_env toy_block)"
    using toy_instance by (auto split: option.splits)
  show ?thesis
    using smvba_instance_consistent [OF toy_reach_New s(1)] s by (simp add: GetBlockHash_def)
qed

text \<open>C23: In every reachable state the node has sent exactly one \<^verbatim>\<open>Done\<close> for each epoch and round whose done
  flag is set, and none for any other.\<close>

theorem smvba_done_once:
  assumes "smvba_reach w net (NewCore name cm par sig st pool (NewTransmitor par' cm')) c"
  shows "dones e r (c_Transimtor c) = (if get2 (c_DoneFlags c) e r = None then 0 else 1)"
proof -
  have "done_inv (NewCore name cm par sig st pool (NewTransmitor par' cm'))"
    by (simp add: done_inv_def NewCore_def NewTransmitor_def dones_def)
  then have "done_inv c" by (rule dn.reach [OF assms])
  then show ?thesis by (simp add: done_inv_def)
qed

theorem smvba_done_once_witness:
  "smvba_reach toy_env (msg_ok four) toy_core toy_state \<and>
   dones 0 0 (c_Transimtor toy_state) = (if get2 (c_DoneFlags toy_state) 0 0 = None then 0 else 1)"
  using smvba_done_once [OF toy_reach_New] toy_reach by simp

text \<open>The epoch of a node never decreases, and in every reachable state it lies after every epoch that
  has halted (with Go's wrap-around at the largest epoch).\<close>

theorem smvba_epoch_monotone:
  assumes "smvba_reach w net (NewCore name cm par sig st pool tr) c" "(smvba_step w net)\<^sup>*\<^sup>* c c'"
  shows "c_Epoch c \<le> c_Epoch c' \<and> (\<forall>e. e |\<in>| c_HaltFlags c' \<longrightarrow> i64 (e + 1) \<le> c_Epoch c')"
proof -
  have "halt_inv (NewCore name cm par sig st pool tr)" by (simp add: halt_inv_def NewCore_def)
  then have "halt_inv c" by (rule ha.reach [OF assms(1)])
  then have "halt_inv c'" by (rule ha.steps [OF assms(2)])
  moreover have "epoch_inv (c_Epoch c) c'"
    by (rule ep.steps [OF assms(2)]) (simp add: epoch_inv_def)
  ultimately show ?thesis by (simp add: halt_inv_def epoch_inv_def)
qed

theorem smvba_epoch_monotone_witness:
  "c_Epoch toy_state \<le> c_Epoch (c_push toy_halt toy_state) \<and> 0 |\<in>| c_HaltFlags (c_push toy_halt toy_state) \<and>
   i64 1 \<le> c_Epoch (c_push toy_halt toy_state)"
proof -
  have "(smvba_step toy_env (msg_ok four))\<^sup>*\<^sup>* toy_state (c_push toy_halt toy_state)"
    by (rule r_into_rtranclp) (rule smvba_step.deliver, rule toy_msg_ok)
  moreover have "0 |\<in>| c_HaltFlags (c_push toy_halt toy_state)"
    by (simp add: c_push_def toy_epoch)
  ultimately show ?thesis
    using smvba_epoch_monotone [OF toy_reach_New, of "c_push toy_halt toy_state"] by (metis add_0)
qed

lemma own_Verify:
  assumes "own_msg w name sig m" "m \<noteq> ElectShareMsg None"
    and "length (Pubkey (Committee_Name cm name)) = PublicKeySize"
    and "\<And>d. ed25519_Verify w (Pubkey (Committee_Name cm name)) d (ed25519_Sign w (Prikey (ss_PriKey sig)) d)"
  shows "Verify w cm m = Some True"
proof (cases m)
  case (ElectShareMsg e)
  then show ?thesis using assms(2) by (auto simp: ElectShare_Verify_def SignatureShare_Verify_def go_simps)
qed (use assms in \<open>auto simp: smvba_verify_defs intro: Signature_accept\<close>)

text \<open>C21: Every message that a node ever sends passes the signature check of every node with the same
  committee, if the node's private key belongs to its public key in the committee and has the right
  size (a nil share, which the code sends when signing the share fails, is the exception).\<close>

theorem smvba_sent_accepted:
  assumes "smvba_reach w net (NewCore name cm par sig st pool (NewTransmitor par' cm')) c"
    and "nm \<in> set (tr_msgCh (c_Transimtor c))" "nm_Msg nm \<noteq> ElectShareMsg None"
    and "length (Pubkey (Committee_Name cm2 name)) = PublicKeySize"
    and "\<forall>d. ed25519_Verify w (Pubkey (Committee_Name cm2 name)) d (ed25519_Sign w (Prikey (ss_PriKey sig)) d)"
  shows "Verify w cm2 (nm_Msg nm) = Some True"
proof (rule own_Verify)
  let ?c0 = "NewCore name cm par sig st pool (NewTransmitor par' cm')"
  have "own_inv w ?c0" by (simp add: own_inv_def NewCore_def NewTransmitor_def)
  then have "own_inv w c" by (rule own.reach [OF assms(1)])
  moreover have "config_inv ?c0 c" by (rule cfg.reach [OF assms(1) config_New])
  ultimately show "own_msg w name sig (nm_Msg nm)"
    using assms(2) by (simp add: own_inv_def config_inv_def NewCore_def)
qed (use assms in auto)

lemma toy_sent: "length (tr_msgCh (c_Transimtor toy_state)) = 2"
  by code_simp

lemma toy_first: "nm_Msg (hd (tr_msgCh (c_Transimtor toy_state))) \<noteq> ElectShareMsg None"
  by code_simp

theorem smvba_sent_accepted_witness:
  "hd (tr_msgCh (c_Transimtor toy_state)) \<in> set (tr_msgCh (c_Transimtor toy_state)) \<and>
   Verify toy_env four (nm_Msg (hd (tr_msgCh (c_Transimtor toy_state)))) = Some True"
proof -
  have "length (Pubkey (Committee_Name four 0)) = PublicKeySize"
    using four_keys by (simp add: four_members)
  moreover have "hd (tr_msgCh (c_Transimtor toy_state)) \<in> set (tr_msgCh (c_Transimtor toy_state))"
    using toy_sent by (intro hd_in_set) auto
  ultimately show ?thesis
    using smvba_sent_accepted [OF toy_reach_New, where ?cm2.0 = four] toy_first by simp
qed

section \<open>Agreement on the final votes\<close>




end
