(* ===== verification/Vaba_Message.thy ===== *)
theory Vaba_Message
  imports Protocol_Base
begin

text \<open>
  \<^verbatim>\<open>core/vaba/consensus/message.go\<close>: the block and the eight messages of the VABA protocol. A vote or
  a share can be a nil pointer, since the sources send one when its making was skipped or failed;
  in a view change the block hash is a pointer that may be nil. A phase is an \<^verbatim>\<open>int8\<close> that arrives
  from the network with any value.
\<close>

section \<open>Blocks\<close>

record Block =
  b_Proposer :: NodeID
  b_Batch :: Batch
  b_Epoch :: int

definition NewBlock :: "NodeID \<Rightarrow> Batch \<Rightarrow> int \<Rightarrow> Block" where
  "NewBlock proposer batch epoch = \<lparr>b_Proposer = proposer, b_Batch = batch, b_Epoch = epoch\<rparr>"

record vaba_env = crypto +
  env_gob :: "Block gob"

definition Block_Encode :: "'a vaba_env_scheme \<Rightarrow> Block \<Rightarrow> error + bytes" where
  "Block_Encode w b = (case gob_Encode (env_gob w) b of Inl err \<Rightarrow> Inl err | Inr buf \<Rightarrow> Inr buf)"

definition Block_Decode :: "'a vaba_env_scheme \<Rightarrow> bytes \<Rightarrow> error + Block" where
  "Block_Decode w data = (case gob_Decode (env_gob w) data of Inl err \<Rightarrow> Inl err | Inr b \<Rightarrow> Inr b)"

definition Block_Hash :: "'a crypto_scheme \<Rightarrow> Block \<Rightarrow> Digest" where
  "Block_Hash w b =
     (let hasher = NewHasher;
          hasher = Hasher_Add hasher (AppendInt2 [] (b_Proposer b));
          hasher = Hasher_Add hasher (AppendInt2 [] (b_Epoch b));
          hasher = Hasher_Add hasher (AppendInt2 [] (bt_ID (b_Batch b)))
      in fst (Hasher_Sum256 w hasher []))"

section \<open>Phases\<close>

definition PHASE_ONE_FALG :: int where "PHASE_ONE_FALG = 0"
definition PHASE_TWO_FALG :: int where "PHASE_TWO_FALG = 1"
definition PHASE_THREE_FALG :: int where "PHASE_THREE_FALG = 2"
definition PHASE_FOUR_FALG :: int where "PHASE_FOUR_FALG = 3"

lemmas phase_defs = PHASE_ONE_FALG_def PHASE_TWO_FALG_def PHASE_THREE_FALG_def PHASE_FOUR_FALG_def

text \<open>\<^verbatim>\<open>strconv.AppendBool\<close> appends the text \<^verbatim>\<open>true\<close> or \<^verbatim>\<open>false\<close>.\<close>

definition AppendBool :: "bytes \<Rightarrow> bool \<Rightarrow> bytes" where
  "AppendBool dst b = dst @ (if b then [116, 114, 117, 101] else [102, 97, 108, 115, 101])"

section \<open>Proposal\<close>

record Proposal =
  pr_Author :: NodeID
  pr_Epoch :: int
  pr_Phase :: int
  pr_B :: "Block option"
  pr_Signature :: Signature

definition Proposal_Hash :: "'a crypto_scheme \<Rightarrow> Proposal \<Rightarrow> Digest" where
  "Proposal_Hash w p =
     (let hasher = NewHasher;
          hasher = Hasher_Add hasher (AppendInt2 [] (pr_Author p));
          hasher = Hasher_Add hasher (AppendInt2 [] (pr_Phase p));
          hasher = Hasher_Add hasher (AppendInt2 [] (pr_Epoch p));
          hasher = (case pr_B p of None \<Rightarrow> hasher | Some b \<Rightarrow> Hasher_Add hasher (Block_Hash w b))
      in fst (Hasher_Sum256 w hasher []))"

definition NewProposal ::
  "'a crypto_scheme \<Rightarrow> NodeID \<Rightarrow> int \<Rightarrow> int \<Rightarrow> Block option \<Rightarrow> SigService \<Rightarrow> Proposal option" where
  "NewProposal w author epoch phase b sigService =
     (let p = \<lparr>pr_Author = author, pr_Epoch = epoch, pr_Phase = phase, pr_B = b,
          pr_Signature = zero_Signature\<rparr>
      in do { sig \<leftarrow> RequestSignature w sigService (Proposal_Hash w p);
              Some (p\<lparr>pr_Signature := sig\<rparr>) })"

definition Proposal_Verify :: "'a crypto_scheme \<Rightarrow> Committee \<Rightarrow> Proposal \<Rightarrow> bool option" where
  "Proposal_Verify w committee p =
     (let pub = Committee_Name committee (pr_Author p)
      in Signature_Verify w (pr_Signature p) pub (Proposal_Hash w p))"

section \<open>Vote\<close>

record Vote =
  vo_Author :: NodeID
  vo_Proposer :: NodeID
  vo_BlockHash :: Digest
  vo_Epoch :: int
  vo_Phase :: int
  vo_Signature :: Signature

definition Vote_Hash :: "'a crypto_scheme \<Rightarrow> Vote \<Rightarrow> Digest" where
  "Vote_Hash w v =
     (let hasher = NewHasher;
          hasher = Hasher_Add hasher (AppendInt2 [] (vo_Author v));
          hasher = Hasher_Add hasher (AppendInt2 [] (vo_Phase v));
          hasher = Hasher_Add hasher (AppendInt2 [] (vo_Epoch v));
          hasher = Hasher_Add hasher (AppendInt2 [] (vo_Proposer v));
          hasher = Hasher_Add hasher (vo_BlockHash v)
      in fst (Hasher_Sum256 w hasher []))"

definition NewVote ::
  "'a crypto_scheme \<Rightarrow> NodeID \<Rightarrow> NodeID \<Rightarrow> Digest \<Rightarrow> int \<Rightarrow> int \<Rightarrow> SigService \<Rightarrow> Vote option" where
  "NewVote w author proposer blockHash epoch phase sigService =
     (let v = \<lparr>vo_Author = author, vo_Proposer = proposer, vo_BlockHash = blockHash, vo_Epoch = epoch, vo_Phase = phase,
          vo_Signature = zero_Signature\<rparr>
      in do { sig \<leftarrow> RequestSignature w sigService (Vote_Hash w v);
              Some (v\<lparr>vo_Signature := sig\<rparr>) })"

definition Vote_Verify :: "'a crypto_scheme \<Rightarrow> Committee \<Rightarrow> Vote \<Rightarrow> bool option" where
  "Vote_Verify w committee v =
     (let pub = Committee_Name committee (vo_Author v)
      in Signature_Verify w (vo_Signature v) pub (Vote_Hash w v))"

section \<open>Done\<close>

record Done =
  dn_Author :: NodeID
  dn_Epoch :: int
  dn_Signature :: Signature

definition Done_Hash :: "'a crypto_scheme \<Rightarrow> Done \<Rightarrow> Digest" where
  "Done_Hash w d =
     (let hasher = NewHasher;
          hasher = Hasher_Add hasher (AppendInt2 [] (dn_Author d));
          hasher = Hasher_Add hasher (AppendInt2 [] (dn_Epoch d))
      in fst (Hasher_Sum256 w hasher []))"

definition NewDone ::
  "'a crypto_scheme \<Rightarrow> NodeID \<Rightarrow> int \<Rightarrow> SigService \<Rightarrow> Done option" where
  "NewDone w author epoch sigService =
     (let d = \<lparr>dn_Author = author, dn_Epoch = epoch,
          dn_Signature = zero_Signature\<rparr>
      in do { sig \<leftarrow> RequestSignature w sigService (Done_Hash w d);
              Some (d\<lparr>dn_Signature := sig\<rparr>) })"

definition Done_Verify :: "'a crypto_scheme \<Rightarrow> Committee \<Rightarrow> Done \<Rightarrow> bool option" where
  "Done_Verify w committee d =
     (let pub = Committee_Name committee (dn_Author d)
      in Signature_Verify w (dn_Signature d) pub (Done_Hash w d))"

section \<open>SkipShare\<close>

record SkipShare =
  sh_Author :: NodeID
  sh_Epoch :: int
  sh_Signature :: Signature

definition SkipShare_Hash :: "'a crypto_scheme \<Rightarrow> SkipShare \<Rightarrow> Digest" where
  "SkipShare_Hash w s =
     (let hasher = NewHasher;
          hasher = Hasher_Add hasher (AppendInt2 [] (sh_Epoch s));
          hasher = Hasher_Add hasher (AppendInt2 [] (sh_Author s))
      in fst (Hasher_Sum256 w hasher []))"

definition NewSkipShare ::
  "'a crypto_scheme \<Rightarrow> NodeID \<Rightarrow> int \<Rightarrow> SigService \<Rightarrow> SkipShare option" where
  "NewSkipShare w author epoch sigService =
     (let s = \<lparr>sh_Author = author, sh_Epoch = epoch,
          sh_Signature = zero_Signature\<rparr>
      in do { sig \<leftarrow> RequestSignature w sigService (SkipShare_Hash w s);
              Some (s\<lparr>sh_Signature := sig\<rparr>) })"

definition SkipShare_Verify :: "'a crypto_scheme \<Rightarrow> Committee \<Rightarrow> SkipShare \<Rightarrow> bool option" where
  "SkipShare_Verify w committee s =
     (let pub = Committee_Name committee (sh_Author s)
      in Signature_Verify w (sh_Signature s) pub (SkipShare_Hash w s))"

section \<open>Skip\<close>

record Skip =
  ki_Author :: NodeID
  ki_Epoch :: int
  ki_Signature :: Signature

definition Skip_Hash :: "'a crypto_scheme \<Rightarrow> Skip \<Rightarrow> Digest" where
  "Skip_Hash w s =
     (let hasher = NewHasher;
          hasher = Hasher_Add hasher (AppendInt2 [] (ki_Epoch s));
          hasher = Hasher_Add hasher (AppendInt2 [] (ki_Author s))
      in fst (Hasher_Sum256 w hasher []))"

definition NewSkip ::
  "'a crypto_scheme \<Rightarrow> NodeID \<Rightarrow> int \<Rightarrow> SigService \<Rightarrow> Skip option" where
  "NewSkip w author epoch sigService =
     (let s = \<lparr>ki_Author = author, ki_Epoch = epoch,
          ki_Signature = zero_Signature\<rparr>
      in do { sig \<leftarrow> RequestSignature w sigService (Skip_Hash w s);
              Some (s\<lparr>ki_Signature := sig\<rparr>) })"

definition Skip_Verify :: "'a crypto_scheme \<Rightarrow> Committee \<Rightarrow> Skip \<Rightarrow> bool option" where
  "Skip_Verify w committee s =
     (let pub = Committee_Name committee (ki_Author s)
      in Signature_Verify w (ki_Signature s) pub (Skip_Hash w s))"

section \<open>ElectShare\<close>

record ElectShare =
  es_Author :: NodeID
  es_Epoch :: int
  es_SigShare :: SignatureShare

definition ElectShare_Hash :: "'a crypto_scheme \<Rightarrow> ElectShare \<Rightarrow> Digest" where
  "ElectShare_Hash w e =
     (let hasher = NewHasher;
          hasher = Hasher_Add hasher (AppendInt2 [] (es_Epoch e))
      in fst (Hasher_Sum256 w hasher []))"

text \<open>The result is nil with the error when signing the share fails.\<close>

definition NewElectShare ::
  "'a crypto_scheme \<Rightarrow> NodeID \<Rightarrow> int \<Rightarrow> SigService \<Rightarrow> (ElectShare option \<times> error option) option" where
  "NewElectShare w author epoch sigService =
     (let e = \<lparr>es_Author = author, es_Epoch = epoch, es_SigShare = \<lparr>PartialSig = []\<rparr>\<rparr>
      in do { (sig, err) \<leftarrow> RequestTsSugnature w sigService (ElectShare_Hash w e);
              Some (if err \<noteq> None then (None, err) else (Some (e\<lparr>es_SigShare := sig\<rparr>), None)) })"

definition ElectShare_Verify :: "'a crypto_scheme \<Rightarrow> Committee \<Rightarrow> ElectShare option \<Rightarrow> bool option" where
  "ElectShare_Verify w committee p = do {
     e \<leftarrow> nonnil p;
     Some (SignatureShare_Verify (es_SigShare e) (ElectShare_Hash w e)) }"

section \<open>ViewChange\<close>

record ViewChange =
  vc_Author :: NodeID
  vc_Leader :: NodeID
  vc_Epoch :: int
  vc_BlockHash :: "Digest option"
  vc_IsCommit :: bool
  vc_IsLock :: bool
  vc_IsKey :: bool
  vc_Signature :: Signature

definition ViewChange_Hash :: "'a crypto_scheme \<Rightarrow> ViewChange \<Rightarrow> Digest" where
  "ViewChange_Hash w v =
     (let hasher = NewHasher;
          hasher = Hasher_Add hasher (AppendInt2 [] (vc_Author v));
          hasher = Hasher_Add hasher (AppendBool [] (vc_IsCommit v));
          hasher = Hasher_Add hasher (AppendBool [] (vc_IsLock v));
          hasher = Hasher_Add hasher (AppendBool [] (vc_IsKey v))
      in fst (Hasher_Sum256 w hasher []))"

definition NewViewChange ::
  "'a crypto_scheme \<Rightarrow> NodeID \<Rightarrow> NodeID \<Rightarrow> int \<Rightarrow> Digest option \<Rightarrow> bool \<Rightarrow> bool \<Rightarrow> bool \<Rightarrow> SigService \<Rightarrow> ViewChange option" where
  "NewViewChange w author leader epoch blockHash commit lock key sigService =
     (let v = \<lparr>vc_Author = author, vc_Leader = leader, vc_Epoch = epoch, vc_BlockHash = blockHash, vc_IsCommit = commit, vc_IsLock = lock, vc_IsKey = key,
          vc_Signature = zero_Signature\<rparr>
      in do { sig \<leftarrow> RequestSignature w sigService (ViewChange_Hash w v);
              Some (v\<lparr>vc_Signature := sig\<rparr>) })"

definition ViewChange_Verify :: "'a crypto_scheme \<Rightarrow> Committee \<Rightarrow> ViewChange \<Rightarrow> bool option" where
  "ViewChange_Verify w committee v =
     (let pub = Committee_Name committee (vc_Author v)
      in Signature_Verify w (vc_Signature v) pub (ViewChange_Hash w v))"

section \<open>Halt\<close>

record Halt =
  ha_Author :: NodeID
  ha_Epoch :: int
  ha_Leader :: NodeID
  ha_BlockHash :: Digest
  ha_Signature :: Signature

definition Halt_Hash :: "'a crypto_scheme \<Rightarrow> Halt \<Rightarrow> Digest" where
  "Halt_Hash w h =
     (let hasher = NewHasher;
          hasher = Hasher_Add hasher (AppendInt2 [] (ha_Author h));
          hasher = Hasher_Add hasher (AppendInt2 [] (ha_Epoch h));
          hasher = Hasher_Add hasher (AppendInt2 [] (ha_Leader h));
          hasher = Hasher_Add hasher (ha_BlockHash h)
      in fst (Hasher_Sum256 w hasher []))"

definition NewHalt ::
  "'a crypto_scheme \<Rightarrow> NodeID \<Rightarrow> NodeID \<Rightarrow> Digest \<Rightarrow> int \<Rightarrow> SigService \<Rightarrow> Halt option" where
  "NewHalt w author leader blockHash epoch sigService =
     (let h = \<lparr>ha_Author = author, ha_Epoch = epoch, ha_Leader = leader, ha_BlockHash = blockHash,
          ha_Signature = zero_Signature\<rparr>
      in do { sig \<leftarrow> RequestSignature w sigService (Halt_Hash w h);
              Some (h\<lparr>ha_Signature := sig\<rparr>) })"

definition Halt_Verify :: "'a crypto_scheme \<Rightarrow> Committee \<Rightarrow> Halt \<Rightarrow> bool option" where
  "Halt_Verify w committee h =
     (let pub = Committee_Name committee (ha_Author h)
      in Signature_Verify w (ha_Signature h) pub (Halt_Hash w h))"

section \<open>All messages\<close>

datatype vaba_msg =
    ProposalMsg Proposal
  | VoteMsg "Vote option"
  | DoneMsg Done
  | SkipShareMsg SkipShare
  | SkipMsg Skip
  | ElectShareMsg "ElectShare option"
  | ViewChangeMsg ViewChange
  | HaltMsg Halt

fun MsgType :: "vaba_msg \<Rightarrow> int" where
  "MsgType (ProposalMsg _) = 0"
| "MsgType (VoteMsg _) = 1"
| "MsgType (DoneMsg _) = 2"
| "MsgType (SkipShareMsg _) = 3"
| "MsgType (SkipMsg _) = 4"
| "MsgType (ElectShareMsg _) = 5"
| "MsgType (ViewChangeMsg _) = 6"
| "MsgType (HaltMsg _) = 7"

datatype vaba_type = TProposal | TVote | TDone | TSkipShare | TSkip | TElectShare | TViewChange | THalt

definition DefaultMessageTypeMap :: "int \<rightharpoonup> vaba_type" where
  "DefaultMessageTypeMap = [0 \<mapsto> TProposal, 1 \<mapsto> TVote, 2 \<mapsto> TDone, 3 \<mapsto> TSkipShare, 4 \<mapsto> TSkip,
     5 \<mapsto> TElectShare, 6 \<mapsto> TViewChange, 7 \<mapsto> THalt]"

text \<open>The interface \<^verbatim>\<open>Validator\<close>. Reading a nil vote's author panics.\<close>

fun Verify :: "'a crypto_scheme \<Rightarrow> Committee \<Rightarrow> vaba_msg \<Rightarrow> bool option" where
  "Verify w c (ProposalMsg p) = Proposal_Verify w c p"
| "Verify w c (VoteMsg v) = do { v \<leftarrow> nonnil v; Vote_Verify w c v }"
| "Verify w c (DoneMsg d) = Done_Verify w c d"
| "Verify w c (SkipShareMsg s) = SkipShare_Verify w c s"
| "Verify w c (SkipMsg s) = Skip_Verify w c s"
| "Verify w c (ElectShareMsg e) = ElectShare_Verify w c e"
| "Verify w c (ViewChangeMsg v) = ViewChange_Verify w c v"
| "Verify w c (HaltMsg h) = Halt_Verify w c h"

lemmas vaba_new_defs = NewProposal_def NewVote_def NewDone_def NewSkipShare_def NewSkip_def
  NewElectShare_def NewViewChange_def NewHalt_def

lemmas vaba_verify_defs = Proposal_Verify_def Vote_Verify_def Done_Verify_def SkipShare_Verify_def
  Skip_Verify_def ElectShare_Verify_def ViewChange_Verify_def Halt_Verify_def

end
