(* ===== verification/Vaba_Promote.thy ===== *)
theory Vaba_Promote
  imports Vaba_Message
begin

text \<open>
  \<^verbatim>\<open>core/vaba/consensus/promote.go\<close>: one broadcast of a proposer in four phases. As for SMVBA the
  methods are given whole and in the atomic pieces in which their goroutines interleave. The part
  of the core an instance uses is the record \<open>vaba_ctx\<close>.
\<close>

section \<open>Instances\<close>

record vaba_ctx =
  c_Name :: NodeID
  c_Committee :: Committee
  c_Parameters :: Parameters
  c_SigService :: SigService
  c_Transimtor :: "vaba_msg Transmitor"
  c_SkipFlag :: "int fset"

definition c_send :: "NodeID \<Rightarrow> NodeID \<Rightarrow> vaba_msg \<Rightarrow> 'c vaba_ctx_scheme \<Rightarrow> 'c vaba_ctx_scheme" where
  "c_send from to msg c = c\<lparr>c_Transimtor := Transmitor_Send from to msg (c_Transimtor c)\<rparr>"

definition c_push :: "vaba_msg \<Rightarrow> 'c vaba_ctx_scheme \<Rightarrow> 'c vaba_ctx_scheme" where
  "c_push msg c = c\<lparr>c_Transimtor := RecvChannel_push msg (c_Transimtor c)\<rparr>"

definition setSkip :: "int \<Rightarrow> 'c vaba_ctx_scheme \<Rightarrow> 'c vaba_ctx_scheme" where
  "setSkip epoch c = c\<lparr>c_SkipFlag := finsert epoch (c_SkipFlag c)\<rparr>"

definition isSkip :: "int \<Rightarrow> 'c vaba_ctx_scheme \<Rightarrow> bool" where
  "isSkip epoch c \<longleftrightarrow> epoch |\<in>| c_SkipFlag c"

record Promote =
  p_Epoch :: int
  p_Proposer :: NodeID
  p_blockHash :: "Digest option"
  p_unhandleProposal :: "Proposal list"
  p_unhandleVote :: "Vote list"
  p_voteCnts :: "int \<rightharpoonup> int"
  p_keyFlag :: bool
  p_lockFlag :: bool
  p_commitFlag :: bool

definition NewPromote :: "int \<Rightarrow> NodeID \<Rightarrow> Promote" where
  "NewPromote epoch proposer = \<lparr>p_Epoch = epoch, p_Proposer = proposer, p_blockHash = None,
     p_unhandleProposal = [], p_unhandleVote = [], p_voteCnts = Map.empty,
     p_keyFlag = False, p_lockFlag = False, p_commitFlag = False\<rparr>"

definition BlockHash :: "Promote \<Rightarrow> Digest option" where
  "BlockHash p = p_blockHash p"

definition IsKey :: "Promote \<Rightarrow> bool" where
  "IsKey p = p_keyFlag p"

definition IsLock :: "Promote \<Rightarrow> bool" where
  "IsLock p = p_lockFlag p"

definition IsCommit :: "Promote \<Rightarrow> bool" where
  "IsCommit p = p_commitFlag p"

section \<open>Goroutines\<close>

datatype promote_pc =
    PropEntry Proposal
  | PropQueue Proposal
  | PropFlush Digest
  | PropFlag Proposal
  | PropRead int
  | PropVote int Digest
  | PropNil
  | VoteEntry Vote
  | VoteQueue Vote
  | VoteCount Vote
  | VoteAct Vote int
  | VoteDone
  | Push vaba_msg

text \<open>A vote goes to the proposer. It is nil when the proposal had none of the four phases.\<close>

definition send_vote :: "Vote option \<Rightarrow> Promote \<Rightarrow> 'c vaba_ctx_scheme \<Rightarrow> 'c vaba_ctx_scheme" where
  "send_vote vote p c =
     (if c_Name c \<noteq> p_Proposer p then c_send (c_Name c) (p_Proposer p) (VoteMsg vote) c
      else c_push (VoteMsg vote) c)"

text \<open>The flag that a proposal of a later phase sets.\<close>

definition set_flag :: "int \<Rightarrow> Promote \<Rightarrow> Promote" where
  "set_flag phase p =
     (if phase = PHASE_TWO_FALG then p\<lparr>p_keyFlag := True\<rparr>
      else if phase = PHASE_THREE_FALG then p\<lparr>p_lockFlag := True\<rparr>
      else if phase = PHASE_FOUR_FALG then p\<lparr>p_commitFlag := True\<rparr>
      else p)"

definition later_phase :: "int \<Rightarrow> bool" where
  "later_phase phase \<longleftrightarrow> phase = PHASE_TWO_FALG \<or> phase = PHASE_THREE_FALG \<or> phase = PHASE_FOUR_FALG"

lemma set_flag_fields [simp]:
  "p_blockHash (set_flag phase p) = p_blockHash p" "p_Proposer (set_flag phase p) = p_Proposer p"
  "p_Epoch (set_flag phase p) = p_Epoch p" "p_unhandleProposal (set_flag phase p) = p_unhandleProposal p"
  "p_unhandleVote (set_flag phase p) = p_unhandleVote p" "p_voteCnts (set_flag phase p) = p_voteCnts p"
  by (simp_all add: set_flag_def)

lemma set_flag_other: "\<not> later_phase phase \<Longrightarrow> set_flag phase p = p"
  by (simp add: set_flag_def later_phase_def)

definition votes_of :: "Promote \<Rightarrow> int \<Rightarrow> int" where
  "votes_of p phase = (case p_voteCnts p phase of None \<Rightarrow> 0 | Some n \<Rightarrow> n)"

text \<open>The waiting calls are started again, but the two lists are not emptied.\<close>

definition unhandled :: "Promote \<Rightarrow> promote_pc list" where
  "unhandled p = map PropEntry (p_unhandleProposal p) @ map VoteEntry (p_unhandleVote p)"

section \<open>The methods run without interruption\<close>

text \<open>
  The result has the goroutines that were started, the instance and the core. A proposal of the
  first phase always replaces the hash. Dereferencing a nil block or hash panics.
\<close>

definition processProposal ::
  "'a crypto_scheme \<Rightarrow> Proposal \<Rightarrow> Promote \<Rightarrow> 'c vaba_ctx_scheme \<Rightarrow>
     (promote_pc list \<times> Promote \<times> 'c vaba_ctx_scheme) option" where
  "processProposal w proposal p c =
     (if pr_Phase proposal \<noteq> PHASE_ONE_FALG \<and> p_blockHash p = None
      then Some ([], p\<lparr>p_unhandleProposal := p_unhandleProposal p @ [proposal]\<rparr>, c)
      else if pr_Phase proposal = PHASE_ONE_FALG then
        (if pr_Author proposal \<noteq> p_Proposer p then Some ([], p, c)
         else do {
           b \<leftarrow> nonnil (pr_B proposal);
           let d = Block_Hash w b;
           let p = p\<lparr>p_blockHash := Some d\<rparr>;
           let spawned = unhandled p;
           vote \<leftarrow> NewVote w (c_Name c) (p_Proposer p) d (p_Epoch p) PHASE_ONE_FALG (c_SigService c);
           Some (spawned, p, send_vote (Some vote) p c) })
      else if later_phase (pr_Phase proposal) then do {
        let p = set_flag (pr_Phase proposal) p;
        d \<leftarrow> nonnil (p_blockHash p);
        vote \<leftarrow> NewVote w (c_Name c) (p_Proposer p) d (p_Epoch p) (pr_Phase proposal) (c_SigService c);
        Some ([], p, send_vote (Some vote) p c) }
      else Some ([], p, send_vote None p c))"

text \<open>The next proposal and the done message are made in the name of the instance's proposer.\<close>

definition processVote ::
  "'a crypto_scheme \<Rightarrow> Vote \<Rightarrow> Promote \<Rightarrow> 'c vaba_ctx_scheme \<Rightarrow> (Promote \<times> 'c vaba_ctx_scheme) option" where
  "processVote w vote p c =
     (case p_blockHash p of
        None \<Rightarrow> Some (p\<lparr>p_unhandleVote := p_unhandleVote p @ [vote]\<rparr>, c)
      | Some d \<Rightarrow>
          if d \<noteq> vo_BlockHash vote then Some (p, c)
          else
            let p = p\<lparr>p_voteCnts := (p_voteCnts p)(vo_Phase vote \<mapsto> votes_of p (vo_Phase vote) + 1)\<rparr>;
                nums = votes_of p (vo_Phase vote) in
            if nums = HightThreshold (c_Committee c) then
              (if vo_Phase vote < PHASE_FOUR_FALG then do {
                 proposal \<leftarrow> NewProposal w (p_Proposer p) (p_Epoch p) (vo_Phase vote + 1) None (c_SigService c);
                 let c = c_send (p_Proposer p) NONE (ProposalMsg proposal) c;
                 Some (p, c_push (ProposalMsg proposal) c) }
               else if \<not> isSkip (p_Epoch p) c then do {
                 dn \<leftarrow> NewDone w (p_Proposer p) (p_Epoch p) (c_SigService c);
                 let c = c_send (p_Proposer p) NONE (DoneMsg dn) c;
                 Some (p, c_push (DoneMsg dn) c) }
               else Some (p, c))
            else Some (p, c))"

section \<open>The methods in atomic pieces\<close>

fun promote_step ::
  "'a crypto_scheme \<Rightarrow> promote_pc \<Rightarrow> Promote \<Rightarrow> 'c vaba_ctx_scheme \<Rightarrow>
     (promote_pc option \<times> promote_pc list \<times> Promote \<times> 'c vaba_ctx_scheme) option" where
  "promote_step w (PropEntry proposal) p c =
     (if pr_Phase proposal \<noteq> PHASE_ONE_FALG then
        (if p_blockHash p = None then Some (Some (PropQueue proposal), [], p, c)
         else Some (Some (PropFlag proposal), [], p, c))
      else if pr_Author proposal \<noteq> p_Proposer p then Some (None, [], p, c)
      else do {
        b \<leftarrow> nonnil (pr_B proposal);
        let d = Block_Hash w b;
        Some (Some (PropFlush d), [], p\<lparr>p_blockHash := Some d\<rparr>, c) })"
| "promote_step w (PropQueue proposal) p c =
     Some (None, [], p\<lparr>p_unhandleProposal := p_unhandleProposal p @ [proposal]\<rparr>, c)"
| "promote_step w (PropFlush d) p c = Some (Some (PropVote PHASE_ONE_FALG d), unhandled p, p, c)"
| "promote_step w (PropFlag proposal) p c =
     Some (Some (if later_phase (pr_Phase proposal) then PropRead (pr_Phase proposal) else PropNil), [],
           set_flag (pr_Phase proposal) p, c)"
| "promote_step w (PropRead phase) p c = do {
     d \<leftarrow> nonnil (p_blockHash p);
     Some (Some (PropVote phase d), [], p, c) }"
| "promote_step w (PropVote phase d) p c = do {
     vote \<leftarrow> NewVote w (c_Name c) (p_Proposer p) d (p_Epoch p) phase (c_SigService c);
     Some (None, [], p, send_vote (Some vote) p c) }"
| "promote_step w PropNil p c = Some (None, [], p, send_vote None p c)"
| "promote_step w (VoteEntry vote) p c =
     (case p_blockHash p of
        None \<Rightarrow> Some (Some (VoteQueue vote), [], p, c)
      | Some d \<Rightarrow> if d \<noteq> vo_BlockHash vote then Some (None, [], p, c) else Some (Some (VoteCount vote), [], p, c))"
| "promote_step w (VoteQueue vote) p c = Some (None, [], p\<lparr>p_unhandleVote := p_unhandleVote p @ [vote]\<rparr>, c)"
| "promote_step w (VoteCount vote) p c =
     (let p = p\<lparr>p_voteCnts := (p_voteCnts p)(vo_Phase vote \<mapsto> votes_of p (vo_Phase vote) + 1)\<rparr>
      in Some (Some (VoteAct vote (votes_of p (vo_Phase vote))), [], p, c))"
| "promote_step w (VoteAct vote nums) p c =
     (if nums = HightThreshold (c_Committee c) then
        (if vo_Phase vote < PHASE_FOUR_FALG then do {
           proposal \<leftarrow> NewProposal w (p_Proposer p) (p_Epoch p) (vo_Phase vote + 1) None (c_SigService c);
           Some (Some (Push (ProposalMsg proposal)), [], p, c_send (p_Proposer p) NONE (ProposalMsg proposal) c) }
         else if \<not> isSkip (p_Epoch p) c then Some (Some VoteDone, [], p, c)
         else Some (None, [], p, c))
      else Some (None, [], p, c))"
| "promote_step w VoteDone p c = do {
     dn \<leftarrow> NewDone w (p_Proposer p) (p_Epoch p) (c_SigService c);
     Some (Some (Push (DoneMsg dn)), [], p, c_send (p_Proposer p) NONE (DoneMsg dn) c) }"
| "promote_step w (Push msg) p c = Some (None, [], p, c_push msg c)"

fun solo ::
  "nat \<Rightarrow> 'a crypto_scheme \<Rightarrow> promote_pc \<Rightarrow> Promote \<Rightarrow> 'c vaba_ctx_scheme \<Rightarrow>
     (promote_pc list \<times> Promote \<times> 'c vaba_ctx_scheme) option" where
  "solo 0 w pc p c = None"
| "solo (Suc n) w pc p c = do {
     (pc', spawned, p, c) \<leftarrow> promote_step w pc p c;
     case pc' of
       None \<Rightarrow> Some (spawned, p, c)
     | Some pc' \<Rightarrow> do { (spawned', p, c) \<leftarrow> solo n w pc' p c; Some (spawned @ spawned', p, c) } }"

section \<open>Both readings agree\<close>

lemma vaba_solo_5: "solo 5 w pc p c = solo (Suc (Suc (Suc (Suc (Suc 0))))) w pc p c"
  by (simp add: numeral_eq_Suc)

lemma vaba_solo_PropEntry: "solo 5 w (PropEntry pr) p c = processProposal w pr p c"
  by (cases "p_blockHash p"; cases "pr_B pr")
     (simp_all add: vaba_solo_5 processProposal_def set_flag_other Let_def go_simps bind_assoc
       split: option.split bind_splits)

lemma vaba_solo_VoteEntry: "solo 5 w (VoteEntry v) p c = do { (p, c) \<leftarrow> processVote w v p c; Some ([], p, c) }"
  by (cases "p_blockHash p") (simp_all add: vaba_solo_5 processVote_def Let_def split: option.split bind_splits)

end
