(* ===== verification/Vaba_Aggreator.thy ===== *)
theory Vaba_Aggreator
  imports Vaba_Message
begin

text \<open>
  \<^verbatim>\<open>core/vaba/consensus/aggreator.go\<close> and \<^verbatim>\<open>core/vaba/consensus/elector.go\<close>: the counters of done and
  skip messages, the shares of the common coin and the leader of each epoch.
\<close>

section \<open>Done and skip messages\<close>

record normalAggreator =
  na_Authors :: "NodeID fset"

definition newNormalAggreator :: normalAggreator where
  "newNormalAggreator = \<lparr>na_Authors = {||}\<rparr>"

definition normalAggreator_Append ::
  "NodeID \<Rightarrow> Committee \<Rightarrow> int \<Rightarrow> int \<Rightarrow> normalAggreator \<Rightarrow> (bool \<times> error option) \<times> normalAggreator" where
  "normalAggreator_Append node committee mType epoch a =
     (if node |\<in>| na_Authors a then ((False, Some (ErrOneMoreMessage mType epoch 0 node)), a)
      else
        let a = a\<lparr>na_Authors := finsert node (na_Authors a)\<rparr> in
        if int (fcard (na_Authors a)) = HightThreshold committee then ((True, None), a)
        else ((False, None), a))"

record Aggreator =
  ag_committee :: Committee
  ag_doneAggreator :: "int \<rightharpoonup> normalAggreator"
  ag_skipAggreator :: "int \<rightharpoonup> normalAggreator"

definition NewAggreator :: "Committee \<Rightarrow> Aggreator" where
  "NewAggreator committee = \<lparr>ag_committee = committee, ag_doneAggreator = Map.empty, ag_skipAggreator = Map.empty\<rparr>"

definition addDoneVote :: "Done \<Rightarrow> Aggreator \<Rightarrow> (bool \<times> error option) \<times> Aggreator" where
  "addDoneVote dn a =
     (let item = (case ag_doneAggreator a (dn_Epoch dn) of Some item \<Rightarrow> item | None \<Rightarrow> newNormalAggreator);
          (res, item) = normalAggreator_Append (dn_Author dn) (ag_committee a) (MsgType (DoneMsg dn)) (dn_Epoch dn) item
      in (res, a\<lparr>ag_doneAggreator := (ag_doneAggreator a)(dn_Epoch dn \<mapsto> item)\<rparr>))"

definition addSkipVote :: "SkipShare \<Rightarrow> Aggreator \<Rightarrow> (bool \<times> error option) \<times> Aggreator" where
  "addSkipVote share a =
     (let item = (case ag_skipAggreator a (sh_Epoch share) of Some item \<Rightarrow> item | None \<Rightarrow> newNormalAggreator);
          (res, item) = normalAggreator_Append (sh_Author share) (ag_committee a) (MsgType (SkipShareMsg share))
             (sh_Epoch share) item
      in (res, a\<lparr>ag_skipAggreator := (ag_skipAggreator a)(sh_Epoch share \<mapsto> item)\<rparr>))"

interpretation na: quorum_counter na_Authors "\<lambda>(c, mType, epoch) node. normalAggreator_Append node c mType epoch"
    "\<lambda>n. n" "\<lambda>_. True" "\<lambda>_. True" "\<lambda>r. r" "\<lambda>(c, _, _). nat (HightThreshold c)"
  by unfold_locales
     (auto simp: normalAggreator_Append_def fcard_finsert_disjoint Let_def threshold_nat split: if_splits prod.splits)

lemma add_committee [simp]:
  "ag_committee (snd (addDoneVote d a)) = ag_committee a"
  "ag_committee (snd (addSkipVote s a)) = ag_committee a"
  by (simp_all add: addDoneVote_def addSkipVote_def Let_def split: prod.splits)

section \<open>Shares of the common coin\<close>

record ElectAggreator =
  ea_shares :: "SignatureShare list"
  ea_authors :: "NodeID fset"

definition NewElectAggreator :: ElectAggreator where
  "NewElectAggreator = \<lparr>ea_shares = [], ea_authors = {||}\<rparr>"

definition ElectAggreator_Append ::
  "'a crypto_scheme \<Rightarrow> Committee \<Rightarrow> SigService \<Rightarrow> ElectShare \<Rightarrow> ElectAggreator \<Rightarrow>
     ((NodeID \<times> error option) \<times> ElectAggreator) option" where
  "ElectAggreator_Append w committee sigService elect e =
     (if es_Author elect |\<in>| ea_authors e
      then Some ((NONE, Some (ErrOneMoreMessage (MsgType (ElectShareMsg (Some elect))) (es_Epoch elect) 0
                                (es_Author elect))), e)
      else
        let e = e\<lparr>ea_authors := finsert (es_Author elect) (ea_authors e)\<rparr>;
            e = e\<lparr>ea_shares := ea_shares e @ [es_SigShare elect]\<rparr> in
        if int (length (ea_shares e)) = HightThreshold committee then
          (case CombineIntactTSPartial w (ea_shares e) (ss_ShareKey sigService) (ElectShare_Hash w elect) of
             (coin, Some err) \<Rightarrow> Some ((NONE, Some err), e)
           | (coin, None) \<Rightarrow> do {
               rand \<leftarrow> coin_loop RANDOM_LEN 0 coin 0;
               if Committee_Size committee = 0 then None
               else Some ((rand smod Committee_Size committee, None), e) })
        else Some ((NONE, None), e))"

section \<open>Leaders\<close>

record Elector =
  el_leaders :: "int \<rightharpoonup> NodeID"
  el_electAggreators :: "int \<rightharpoonup> ElectAggreator"
  el_sigService :: SigService
  el_committee :: Committee

definition NewElector :: "SigService \<Rightarrow> Committee \<Rightarrow> Elector" where
  "NewElector sigService committee = \<lparr>el_leaders = Map.empty, el_electAggreators = Map.empty,
     el_sigService = sigService, el_committee = committee\<rparr>"

definition SetLeader :: "int \<Rightarrow> NodeID \<Rightarrow> Elector \<Rightarrow> Elector" where
  "SetLeader epoch leader e = e\<lparr>el_leaders := (el_leaders e)(epoch \<mapsto> leader)\<rparr>"

definition Leader :: "int \<Rightarrow> Elector \<Rightarrow> NodeID" where
  "Leader epoch e = (case el_leaders e epoch of None \<Rightarrow> NONE | Some leader \<Rightarrow> leader)"

text \<open>An error of the aggregator is not passed on.\<close>

definition AddShareVote ::
  "'a crypto_scheme \<Rightarrow> ElectShare \<Rightarrow> Elector \<Rightarrow> ((NodeID \<times> error option) \<times> Elector) option" where
  "AddShareVote w share e =
     (let item = (case el_electAggreators e (es_Epoch share) of Some item \<Rightarrow> item | None \<Rightarrow> NewElectAggreator)
      in do {
        ((node, err), item) \<leftarrow> ElectAggreator_Append w (el_committee e) (el_sigService e) share item;
        let e = e\<lparr>el_electAggreators := (el_electAggreators e)(es_Epoch share \<mapsto> item)\<rparr>;
        if err \<noteq> None then Some ((NONE, None), e)
        else Some ((node, None), if node \<noteq> NONE then SetLeader (es_Epoch share) node e else e) })"

lemma elector_const [simp]:
  "el_committee (SetLeader epoch leader e) = el_committee e"
  "el_sigService (SetLeader epoch leader e) = el_sigService e"
  by (simp_all add: SetLeader_def)

lemma vaba_AddShareVote_err: "AddShareVote w share e = Some ((node, err), e') \<Longrightarrow> err = None"
  by (auto simp: AddShareVote_def Let_def bind_eq_Some_conv split: if_splits)

lemma vaba_AddShareVote_const:
  "AddShareVote w share e = Some (res, e') \<Longrightarrow> el_committee e' = el_committee e \<and> el_sigService e' = el_sigService e"
  by (auto simp: AddShareVote_def Let_def bind_eq_Some_conv split: if_splits)

lemma vaba_Append_range:
  assumes "ElectAggreator_Append w c sig elect e = Some ((node, err), e')" "node \<noteq> NONE"
  shows "err = None \<and> 0 \<le> node \<and> node < Committee_Size c"
proof -
  have "0 \<le> Committee_Size c" by (simp add: Committee_Size_def)
  then show ?thesis
    using assms
    by (auto simp: ElectAggreator_Append_def Let_def bind_eq_Some_conv coin_nonneg smod_nonneg
        split: if_splits prod.splits option.splits dest!: coin_nonneg)
qed

lemma vaba_AddShareVote_total:
  assumes "env_ok w cm sig" "el_committee e = cm"
  shows "AddShareVote w share e \<noteq> None"
proof -
  have "ElectAggreator_Append w cm sig' share item \<noteq> None" for sig' item
    using assms(1) coin_total [OF assms(1)]
    by (auto simp: ElectAggreator_Append_def Let_def bind_eq_None_conv env_ok_def Committee_Size_def
        split: prod.split option.split simp del: not_None_eq)
  then show ?thesis
    using assms(2) by (auto simp: AddShareVote_def bind_eq_None_conv Let_def split_beta simp del: not_None_eq)
qed

end
