(* ===== verification/Vaba_Core.thy ===== *)
theory Vaba_Core
  imports Vaba_Promote Vaba_Aggreator Vaba_Commitor
begin

text \<open>
  \<^verbatim>\<open>core/vaba/consensus/core.go\<close>: the state of one VABA node, its handlers, the dispatch of a message
  and the main loop. A handler returns its \<^verbatim>\<open>error\<close> with the core it leaves, or \<open>None\<close> for a panic.
  \<open>c_tasks\<close> holds the goroutines of the broadcast instances that have not ended.
\<close>

section \<open>State\<close>

record 'db Core = vaba_ctx +
  c_Store :: "'db Store"
  c_TxPool :: Pool
  c_Commitor :: Committor
  c_Aggreator :: Aggreator
  c_Elector :: Elector
  c_Epoch :: int
  c_Lock :: int
  c_PBInstances :: "int \<rightharpoonup> NodeID \<rightharpoonup> Promote"
  c_electFlag :: "int fset"
  c_viewChangeFlag :: "int fset"
  c_viewChangeCnts :: "int \<rightharpoonup> int"
  c_commitFlag :: "int fset"
  c_tasks :: "((int \<times> NodeID) \<times> promote_pc) list"

definition NewCore ::
  "NodeID \<Rightarrow> Committee \<Rightarrow> Parameters \<Rightarrow> SigService \<Rightarrow> 'db Store \<Rightarrow> Pool \<Rightarrow> vaba_msg Transmitor \<Rightarrow> 'db Core" where
  "NewCore Name committee parameters sigService store txPool transimtor =
     \<lparr>c_Name = Name, c_Committee = committee, c_Parameters = parameters, c_SigService = sigService,
      c_Transimtor = transimtor, c_SkipFlag = {||}, c_Store = store, c_TxPool = txPool,
      c_Commitor = NewCommittor, c_Aggreator = NewAggreator committee,
      c_Elector = NewElector sigService committee, c_Epoch = 0, c_Lock = 0, c_PBInstances = Map.empty,
      c_electFlag = {||}, c_viewChangeFlag = {||}, c_viewChangeCnts = Map.empty, c_commitFlag = {||},
      c_tasks = []\<rparr>"

section \<open>Helpers\<close>

definition StoreBlock ::
  "'a vaba_env_scheme \<Rightarrow> Block option \<Rightarrow> 'db Core \<Rightarrow> (error option \<times> 'db Core) option" where
  "StoreBlock w block c = do {
     b \<leftarrow> nonnil block;
     let key = Block_Hash w b;
     case Block_Encode w b of
       Inl err \<Rightarrow> Some (Some err, c)
     | Inr val \<Rightarrow>
         let (err, store) = Store_Write key val (c_Store c)
         in Some (err, c\<lparr>c_Store := store\<rparr>) }"

definition GetBlock ::
  "'a vaba_env_scheme \<Rightarrow> Digest \<Rightarrow> 'db Core \<Rightarrow> (Block option \<times> error option) \<times> 'db Core" where
  "GetBlock w hash c =
     (let ((data, err), store) = Store_Read hash (c_Store c);
          c = c\<lparr>c_Store := store\<rparr> in
      if err = Some ErrNotFoundKey then ((None, None), c)
      else if err \<noteq> None then ((None, err), c)
      else case Block_Decode w data of
             Inl err \<Rightarrow> ((None, Some err), c)
           | Inr block \<Rightarrow> ((Some block, None), c))"

definition GetPBInstance :: "int \<Rightarrow> NodeID \<Rightarrow> 'db Core \<Rightarrow> Promote \<times> 'db Core" where
  "GetPBInstance epoch node c =
     (case get2 (c_PBInstances c) epoch node of
        Some item \<Rightarrow> (item, c)
      | None \<Rightarrow>
          let item = NewPromote epoch node
          in (item, c\<lparr>c_PBInstances := put2 (c_PBInstances c) epoch node item\<rparr>))"

definition messageFilter :: "int \<Rightarrow> 'db Core \<Rightarrow> bool" where
  "messageFilter epoch c \<longleftrightarrow> epoch < c_Epoch c"

definition generatorBlock :: "int \<Rightarrow> 'db Core \<Rightarrow> (Block \<times> 'db Core) option" where
  "generatorBlock epoch c = do {
     (batch, txPool) \<leftarrow> GetBatch (c_TxPool c);
     Some (NewBlock (c_Name c) batch epoch, c\<lparr>c_TxPool := txPool\<rparr>) }"

text \<open>\<^verbatim>\<open>go c.GetPBInstance(e, n).processProposal(p)\<close>: the instance is looked up before the goroutine starts.\<close>

definition c_go :: "int \<times> NodeID \<Rightarrow> promote_pc \<Rightarrow> 'db Core \<Rightarrow> 'db Core" where
  "c_go key pc c = (let (_, c) = GetPBInstance (fst key) (snd key) c in c\<lparr>c_tasks := c_tasks c @ [(key, pc)]\<rparr>)"

section \<open>Broadcasts\<close>

definition handleProposal ::
  "'a vaba_env_scheme \<Rightarrow> Proposal \<Rightarrow> 'db Core \<Rightarrow> (error option \<times> 'db Core) option" where
  "handleProposal w p c = do {
     c \<leftarrow> (if pr_Phase p = PHASE_ONE_FALG \<and> pr_Epoch p |\<in>| c_commitFlag c \<and>
               Leader (pr_Epoch p) (c_Elector c) = pr_Author p
           then do { cm \<leftarrow> Commit (pr_B p) (c_Commitor c); Some (c\<lparr>c_Commitor := cm\<rparr>) }
           else Some c);
     if messageFilter (pr_Epoch p) c then Some (None, c)
     else do {
       (err, c) \<leftarrow> (if pr_Phase p = PHASE_ONE_FALG then StoreBlock w (pr_B p) c else Some (None, c));
       if err \<noteq> None then Some (err, c)
       else if pr_Phase p = PHASE_ONE_FALG \<and> pr_Epoch p < c_Lock c then Some (None, c)
       else Some (None, c_go (pr_Epoch p, pr_Author p) (PropEntry p) c) } }"

definition handleVote :: "Vote \<Rightarrow> 'db Core \<Rightarrow> (error option \<times> 'db Core) option" where
  "handleVote v c =
     (if messageFilter (vo_Epoch v) c then Some (None, c)
      else Some (None, c_go (vo_Epoch v, vo_Proposer v) (VoteEntry v) c))"

section \<open>Done, skip and election\<close>

definition handleDone ::
  "'a vaba_env_scheme \<Rightarrow> Done \<Rightarrow> 'db Core \<Rightarrow> (error option \<times> 'db Core) option" where
  "handleDone w d c =
     (if messageFilter (dn_Epoch d) c then Some (None, c)
      else
        let ((ok, err), ag) = addDoneVote d (c_Aggreator c);
            c = c\<lparr>c_Aggreator := ag\<rparr> in
        if err \<noteq> None then Some (err, c)
        else if ok then do {
          share \<leftarrow> NewSkipShare w (c_Name c) (dn_Epoch d) (c_SigService c);
          let c = c_send (c_Name c) NONE (SkipShareMsg share) c;
          Some (None, c_push (SkipShareMsg share) c) }
        else Some (None, c))"

definition invokeElect ::
  "'a vaba_env_scheme \<Rightarrow> int \<Rightarrow> 'db Core \<Rightarrow> (error option \<times> 'db Core) option" where
  "invokeElect w epoch c =
     (if epoch |\<notin>| c_electFlag c then do {
        let c = c\<lparr>c_electFlag := finsert epoch (c_electFlag c)\<rparr>;
        (elect, _) \<leftarrow> NewElectShare w (c_Name c) epoch (c_SigService c);
        let c = c_send (c_Name c) NONE (ElectShareMsg elect) c;
        Some (None, c_push (ElectShareMsg elect) c) }
      else Some (None, c))"

definition handleSkipShare ::
  "'a vaba_env_scheme \<Rightarrow> SkipShare \<Rightarrow> 'db Core \<Rightarrow> (error option \<times> 'db Core) option" where
  "handleSkipShare w s c =
     (if messageFilter (sh_Epoch s) c then Some (None, c)
      else
        let ((ok, err), ag) = addSkipVote s (c_Aggreator c);
            c = c\<lparr>c_Aggreator := ag\<rparr> in
        if err \<noteq> None then Some (err, c)
        else if ok then do {
          let c = setSkip (sh_Epoch s) c;
          skip \<leftarrow> NewSkip w (c_Name c) (sh_Epoch s) (c_SigService c);
          invokeElect w (sh_Epoch s) (c_send (c_Name c) NONE (SkipMsg skip) c) }
        else Some (None, c))"

definition handleSkip ::
  "'a vaba_env_scheme \<Rightarrow> Skip \<Rightarrow> 'db Core \<Rightarrow> (error option \<times> 'db Core) option" where
  "handleSkip w s c =
     (if messageFilter (ki_Epoch s) c then Some (None, c)
      else if \<not> isSkip (ki_Epoch s) c then do {
        let c = setSkip (ki_Epoch s) c;
        temp \<leftarrow> NewSkip w (c_Name c) (ki_Epoch s) (c_SigService c);
        invokeElect w (ki_Epoch s) (c_send (c_Name c) NONE (SkipMsg temp) c) }
      else Some (None, c))"

definition invokeViewChange ::
  "'a vaba_env_scheme \<Rightarrow> int \<Rightarrow> NodeID \<Rightarrow> 'db Core \<Rightarrow> (error option \<times> 'db Core) option" where
  "invokeViewChange w epoch leader c =
     (if epoch |\<notin>| c_viewChangeFlag c then do {
        let c = c\<lparr>c_viewChangeFlag := finsert epoch (c_viewChangeFlag c)\<rparr>;
        let c = (if Leader epoch (c_Elector c) = NONE
                 then c\<lparr>c_Elector := SetLeader epoch leader (c_Elector c)\<rparr> else c);
        let (pb, c) = GetPBInstance epoch leader c;
        viewChange \<leftarrow> NewViewChange w (c_Name c) leader epoch (BlockHash pb) (IsCommit pb) (IsLock pb) (IsKey pb)
                       (c_SigService c);
        let c = c_send (c_Name c) NONE (ViewChangeMsg viewChange) c;
        Some (None, c_push (ViewChangeMsg viewChange) c) }
      else Some (None, c))"

definition handleElectShare ::
  "'a vaba_env_scheme \<Rightarrow> ElectShare \<Rightarrow> 'db Core \<Rightarrow> (error option \<times> 'db Core) option" where
  "handleElectShare w e c =
     (if messageFilter (es_Epoch e) c then Some (None, c)
      else do {
        ((leader, err), el) \<leftarrow> AddShareVote w e (c_Elector c);
        let c = c\<lparr>c_Elector := el\<rparr>;
        if err \<noteq> None then Some (err, c)
        else if leader \<noteq> NONE then invokeViewChange w (es_Epoch e) leader c
        else Some (None, c) })"

section \<open>View changes and halts\<close>

definition advanceNextEpoch ::
  "'a vaba_env_scheme \<Rightarrow> int \<Rightarrow> Digest option \<Rightarrow> 'db Core \<Rightarrow> (error option \<times> 'db Core) option" where
  "advanceNextEpoch w epoch blockHash c =
     (if epoch \<le> c_Epoch c then Some (None, c)
      else
        let c = c\<lparr>c_Epoch := epoch\<rparr>;
            ((block, err), c) =
              (case blockHash of None \<Rightarrow> ((None, None), c) | Some d \<Rightarrow> GetBlock w d c) in
        if err \<noteq> None then Some (err, c)
        else do {
          (block, c) \<leftarrow> (case block of Some b \<Rightarrow> Some (b, c) | None \<Rightarrow> generatorBlock epoch c);
          proposal \<leftarrow> NewProposal w (c_Name c) epoch PHASE_ONE_FALG (Some block) (c_SigService c);
          let c = c_send (c_Name c) NONE (ProposalMsg proposal) c;
          Some (None, c_push (ProposalMsg proposal) c) })"

text \<open>
  The block of a commit, when it is found: it is committed under the epoch of the message, and
  the node's own batch of that epoch goes back to the pool if another node's block was chosen.
\<close>

definition commitBlock ::
  "'a vaba_env_scheme \<Rightarrow> int \<Rightarrow> Digest \<Rightarrow> 'db Core \<Rightarrow> 'db Core option" where
  "commitBlock w epoch hash c =
     (case GetBlock w hash c of
        ((Some block, None), c) \<Rightarrow> do {
          let block = block\<lparr>b_Epoch := epoch\<rparr>;
          cm \<leftarrow> Commit (Some block) (c_Commitor c);
          let c = c\<lparr>c_Commitor := cm\<rparr>;
          if b_Proposer block \<noteq> c_Name c then
            let (pb, c) = GetPBInstance epoch (c_Name c) c in
            (case BlockHash pb of
               None \<Rightarrow> Some c
             | Some temp \<Rightarrow>
                 (case GetBlock w temp c of
                    ((Some block, None), c) \<Rightarrow> Some (c\<lparr>c_TxPool := PutBatch (b_Batch block) (c_TxPool c)\<rparr>)
                  | (_, c) \<Rightarrow> Some c))
          else Some c }
      | (_, c) \<Rightarrow> Some c)"

definition cnts_of :: "'db Core \<Rightarrow> int \<Rightarrow> int" where
  "cnts_of c epoch = (case c_viewChangeCnts c epoch of None \<Rightarrow> 0 | Some n \<Rightarrow> n)"

text \<open>The part of \<^verbatim>\<open>handleViewChange\<close> for a view change with the commit flag.\<close>

definition commit_part :: "'a vaba_env_scheme \<Rightarrow> ViewChange \<Rightarrow> 'db Core \<Rightarrow> 'db Core option" where
  "commit_part w v c =
     (if vc_IsCommit v then do {
        hash \<leftarrow> nonnil (vc_BlockHash v);
        c \<leftarrow> commitBlock w (vc_Epoch v) hash c;
        let c = c\<lparr>c_commitFlag := finsert (vc_Epoch v) (c_commitFlag c)\<rparr>;
        halt \<leftarrow> NewHalt w (c_Name c) (vc_Leader v) hash (vc_Epoch v) (c_SigService c);
        let c = c_send (c_Name c) NONE (HaltMsg halt) c;
        (_, c) \<leftarrow> advanceNextEpoch w (i64 (vc_Epoch v + 1)) None c;
        Some c }
      else Some c)"

text \<open>Its end: with \<open>2 f + 1\<close> view changes and no commit, an empty block closes the epoch.\<close>

definition count_part :: "'a vaba_env_scheme \<Rightarrow> ViewChange \<Rightarrow> 'db Core \<Rightarrow> 'db Core option" where
  "count_part w v c =
     (if vc_Epoch v |\<notin>| c_commitFlag c \<and> cnts_of c (vc_Epoch v) = HightThreshold (c_Committee c) then do {
        let c = c\<lparr>c_commitFlag := finsert (vc_Epoch v) (c_commitFlag c)\<rparr>;
        cm \<leftarrow> Commit (Some \<lparr>b_Proposer = 0, b_Batch = zero_Batch, b_Epoch = vc_Epoch v\<rparr>) (c_Commitor c);
        (_, c) \<leftarrow> advanceNextEpoch w (i64 (vc_Epoch v + 1)) (vc_BlockHash v) (c\<lparr>c_Commitor := cm\<rparr>);
        Some c }
      else Some c)"

definition handleViewChange ::
  "'a vaba_env_scheme \<Rightarrow> ViewChange \<Rightarrow> 'db Core \<Rightarrow> (error option \<times> 'db Core) option" where
  "handleViewChange w v c =
     (if messageFilter (vc_Epoch v) c then Some (None, c)
      else if vc_Epoch v |\<in>| c_commitFlag c then Some (None, c)
      else do {
        let c = c\<lparr>c_viewChangeCnts := (c_viewChangeCnts c)(vc_Epoch v \<mapsto> cnts_of c (vc_Epoch v) + 1)\<rparr>;
        c \<leftarrow> commit_part w v c;
        let c = (if vc_IsLock v \<and> c_Lock c \<le> vc_Epoch v then c\<lparr>c_Lock := vc_Epoch v\<rparr> else c);
        c \<leftarrow> count_part w v c;
        Some (None, c) })"

definition handleHalt ::
  "'a vaba_env_scheme \<Rightarrow> Halt \<Rightarrow> 'db Core \<Rightarrow> (error option \<times> 'db Core) option" where
  "handleHalt w h c =
     (if messageFilter (ha_Epoch h) c then Some (None, c)
      else if ha_Epoch h |\<in>| c_commitFlag c then Some (None, c)
      else do {
        c \<leftarrow> commitBlock w (ha_Epoch h) (ha_BlockHash h) c;
        let c = c\<lparr>c_commitFlag := finsert (ha_Epoch h) (c_commitFlag c)\<rparr>;
        temp \<leftarrow> NewHalt w (c_Name c) (ha_Leader h) (ha_BlockHash h) (ha_Epoch h) (c_SigService c);
        let c = c_send (c_Name c) NONE (HaltMsg temp) c;
        (_, c) \<leftarrow> advanceNextEpoch w (i64 (ha_Epoch h + 1)) None c;
        Some (None, c) })"

section \<open>The main loop\<close>

fun handle ::
  "'a vaba_env_scheme \<Rightarrow> vaba_msg \<Rightarrow> 'db Core \<Rightarrow> (error option \<times> 'db Core) option" where
  "handle w (ProposalMsg p) c = handleProposal w p c"
| "handle w (VoteMsg v) c = do { v \<leftarrow> nonnil v; handleVote v c }"
| "handle w (DoneMsg d) c = handleDone w d c"
| "handle w (SkipShareMsg s) c = handleSkipShare w s c"
| "handle w (SkipMsg s) c = handleSkip w s c"
| "handle w (ElectShareMsg e) c = do { e \<leftarrow> nonnil e; handleElectShare w e c }"
| "handle w (ViewChangeMsg v) c = handleViewChange w v c"
| "handle w (HaltMsg h) c = handleHalt w h c"

definition dispatch ::
  "'a vaba_env_scheme \<Rightarrow> vaba_msg \<Rightarrow> 'db Core \<Rightarrow> (error option \<times> 'db Core) option" where
  "dispatch w msg c = do {
     valid \<leftarrow> Verify w (c_Committee c) msg;
     if \<not> valid then Some (Some (ErrSignature (MsgType msg)), c)
     else handle w msg c }"

definition Run_start :: "'a vaba_env_scheme \<Rightarrow> 'db Core \<Rightarrow> 'db Core option" where
  "Run_start w c = do {
     (block, c) \<leftarrow> generatorBlock (c_Epoch c) c;
     proposal \<leftarrow> NewProposal w (c_Name c) (c_Epoch c) PHASE_ONE_FALG (Some block) (c_SigService c);
     let c = c_send (c_Name c) NONE (ProposalMsg proposal) c;
     Some (c_push (ProposalMsg proposal) c) }"

definition Run_turn :: "'a vaba_env_scheme \<Rightarrow> 'db Core \<Rightarrow> (error option \<times> 'db Core) option" where
  "Run_turn w c =
     (case Transmitor_Recv (c_Transimtor c) of
        None \<Rightarrow> Some (None, c)
      | Some (msg, tr) \<Rightarrow> dispatch w msg (c\<lparr>c_Transimtor := tr\<rparr>))"

end
