(* ===== verification/Vaba_Effects.thy ===== *)
theory Vaba_Effects
  imports Vaba_Core
begin

text \<open>
  What the handlers of a VABA node can do to its state: \<open>vaba_upd w m\<close> lists the single updates that
  can happen while message \<open>m\<close> is handled (\<open>None\<close> for the start of \<^verbatim>\<open>Run\<close>). Every handler is a
  sequence of such updates, so an invariant needs one case for each update.
\<close>

section \<open>Single updates\<close>

text \<open>The messages the core makes and puts into its own queue.\<close>

fun made :: "'a vaba_env_scheme \<Rightarrow> 'db Core \<Rightarrow> vaba_msg \<Rightarrow> bool" where
  "made w c (ProposalMsg p) \<longleftrightarrow> pr_Author p = c_Name c \<and> pr_Phase p = PHASE_ONE_FALG \<and> pr_B p \<noteq> None"
| "made w c (SkipShareMsg s) \<longleftrightarrow> sh_Author s = c_Name c"
| "made w c (ElectShareMsg e) \<longleftrightarrow>
     (e = None \<longrightarrow> (\<exists>d share err. RequestTsSugnature w (c_SigService c) d = Some (share, Some err)))"
| "made w c (ViewChangeMsg v) \<longleftrightarrow> vc_Author v = c_Name c \<and>
     (\<exists>pb. get2 (c_PBInstances c) (vc_Epoch v) (vc_Leader v) = Some pb \<and>
       vc_BlockHash v = BlockHash pb \<and> vc_IsCommit v = IsCommit pb)"
| "made w c _ \<longleftrightarrow> False"

text \<open>The messages that a node sends at most once for an epoch.\<close>

fun guarded :: "vaba_msg \<Rightarrow> bool" where
  "guarded (ElectShareMsg _) \<longleftrightarrow> True"
| "guarded (ViewChangeMsg _) \<longleftrightarrow> True"
| "guarded (HaltMsg _) \<longleftrightarrow> True"
| "guarded _ \<longleftrightarrow> False"

inductive vaba_upd :: "'a vaba_env_scheme \<Rightarrow> vaba_msg option \<Rightarrow> 'db Core \<Rightarrow> 'db Core \<Rightarrow> bool" for w m where
  send: "\<not> guarded msg \<Longrightarrow> vaba_upd w m c (c_send from to msg c)"
| push: "made w c msg \<Longrightarrow> vaba_upd w m c (c_push msg c)"
| inst: "get2 (c_PBInstances c) e n = None \<Longrightarrow>
    vaba_upd w m c (c\<lparr>c_PBInstances := put2 (c_PBInstances c) e n (NewPromote e n)\<rparr>)"
| go_proposal: "m = Some (ProposalMsg p) \<Longrightarrow> get2 (c_PBInstances c) (pr_Epoch p) (pr_Author p) \<noteq> None \<Longrightarrow>
    vaba_upd w m c (c\<lparr>c_tasks := c_tasks c @ [((pr_Epoch p, pr_Author p), PropEntry p)]\<rparr>)"
| go_vote: "m = Some (VoteMsg (Some v)) \<Longrightarrow> get2 (c_PBInstances c) (vo_Epoch v) (vo_Proposer v) \<noteq> None \<Longrightarrow>
    vaba_upd w m c (c\<lparr>c_tasks := c_tasks c @ [((vo_Epoch v, vo_Proposer v), VoteEntry v)]\<rparr>)"
| store: "vaba_upd w m c (c\<lparr>c_Store := store\<rparr>)"
| get_batch: "GetBatch (c_TxPool c) = Some (batch, txPool) \<Longrightarrow> vaba_upd w m c (c\<lparr>c_TxPool := txPool\<rparr>)"
| put_batch: "vaba_upd w m c (c\<lparr>c_TxPool := PutBatch batch (c_TxPool c)\<rparr>)"
| done_vote: "addDoneVote d (c_Aggreator c) = (res, ag) \<Longrightarrow> vaba_upd w m c (c\<lparr>c_Aggreator := ag\<rparr>)"
| skip_vote: "addSkipVote s (c_Aggreator c) = (res, ag) \<Longrightarrow> vaba_upd w m c (c\<lparr>c_Aggreator := ag\<rparr>)"
| share_vote: "AddShareVote w share (c_Elector c) = Some (res', el) \<Longrightarrow> vaba_upd w m c (c\<lparr>c_Elector := el\<rparr>)"
| set_leader: "vaba_upd w m c (c\<lparr>c_Elector := SetLeader e leader (c_Elector c)\<rparr>)"
| commit: "Commit (Some b) (c_Commitor c) = Some cm \<Longrightarrow> vaba_upd w m c (c\<lparr>c_Commitor := cm\<rparr>)"
| skip_flag: "vaba_upd w m c (setSkip e c)"
| elect: "e |\<notin>| c_electFlag c \<Longrightarrow> NewElectShare w (c_Name c) e (c_SigService c) = Some (share, serr) \<Longrightarrow>
    vaba_upd w m c (c_send from to (ElectShareMsg share) (c\<lparr>c_electFlag := finsert e (c_electFlag c)\<rparr>))"
| view: "vc_Epoch v |\<notin>| c_viewChangeFlag c \<Longrightarrow>
    vaba_upd w m c (c_send from to (ViewChangeMsg v) (c\<lparr>c_viewChangeFlag := finsert (vc_Epoch v) (c_viewChangeFlag c)\<rparr>))"
| cnt: "vaba_upd w m c (c\<lparr>c_viewChangeCnts := cnts\<rparr>)"
| halt: "ha_Epoch h |\<notin>| c_commitFlag c \<Longrightarrow>
    vaba_upd w m c (c_send from to (HaltMsg h) (c\<lparr>c_commitFlag := finsert (ha_Epoch h) (c_commitFlag c)\<rparr>))"
| empty: "e |\<notin>| c_commitFlag c \<Longrightarrow> vaba_upd w m c (c\<lparr>c_commitFlag := finsert e (c_commitFlag c)\<rparr>)"
| lock: "vaba_upd w m c (c\<lparr>c_Lock := e\<rparr>)"
| epoch: "e = (if e' \<le> c_Epoch c then c_Epoch c else e') \<Longrightarrow> vaba_upd w m c (c\<lparr>c_Epoch := e\<rparr>)"

abbreviation vaba_upds :: "'a vaba_env_scheme \<Rightarrow> vaba_msg option \<Rightarrow> 'db Core \<Rightarrow> 'db Core \<Rightarrow> bool" where
  "vaba_upds w m \<equiv> (vaba_upd w m)\<^sup>*\<^sup>*"

lemma vaba_upds_snoc: "vaba_upd w m c1 c2 \<Longrightarrow> vaba_upds w m c c1 \<Longrightarrow> vaba_upds w m c c2"
  by (rule rtranclp.rtrancl_into_rtrancl)

lemmas vaba_upds_intros = vaba_upd.intros [THEN vaba_upds_snoc]

section \<open>The helpers\<close>

lemma GetBlock_snd [simp]: "snd (GetBlock w d c) = c"
  by (simp add: GetBlock_def Store_Read_eq split: prod.split sum.split)

lemma GetPBInstance_upds:
  "vaba_upds w m c0 c \<Longrightarrow> vaba_upds w m c0 (snd (GetPBInstance e n c))"
  by (auto simp: GetPBInstance_def Let_def split: option.splits intro: vaba_upds_intros(3))

lemma GetPBInstance_get [simp]:
  "get2 (c_PBInstances (snd (GetPBInstance e n c))) e n = Some (fst (GetPBInstance e n c))"
  by (simp add: GetPBInstance_def Let_def split: option.splits)

lemma vaba_helper_ctx [simp]:
  "c_Name (snd (GetPBInstance e n c)) = c_Name c" "c_SigService (snd (GetPBInstance e n c)) = c_SigService c"
  "c_commitFlag (snd (GetPBInstance e n c)) = c_commitFlag c"
  "c_electFlag (snd (GetPBInstance e n c)) = c_electFlag c"
  "c_viewChangeFlag (snd (GetPBInstance e n c)) = c_viewChangeFlag c"
  "c_Epoch (snd (GetPBInstance e n c)) = c_Epoch c"
  "c_Name (c_send from to msg c) = c_Name c" "c_SigService (c_send from to msg c) = c_SigService c"
  "c_Name (c_push msg c) = c_Name c" "c_SigService (c_push msg c) = c_SigService c"
  "c_Name (setSkip e c) = c_Name c" "c_SigService (setSkip e c) = c_SigService c"
  by (simp_all add: GetPBInstance_def c_send_def c_push_def setSkip_def Let_def split: option.splits)

lemma GetPBInstance_pool [simp]: "c_TxPool (snd (GetPBInstance e n c)) = c_TxPool c"
  by (simp add: GetPBInstance_def Let_def split: option.splits)

lemma vaba_send_fields [simp]:
  "c_Epoch (c_send from to msg c) = c_Epoch c" "c_TxPool (c_send from to msg c) = c_TxPool c"
  "c_PBInstances (c_send from to msg c) = c_PBInstances c" "c_commitFlag (c_send from to msg c) = c_commitFlag c"
  "c_electFlag (c_send from to msg c) = c_electFlag c" "c_electFlag (setSkip e c) = c_electFlag c"
  by (simp_all add: c_send_def setSkip_def)

lemma vaba_generatorBlock_upds:
  assumes "generatorBlock e c = Some (b, c')" "vaba_upds w m c0 c"
  shows "vaba_upds w m c0 c' \<and> c_Name c' = c_Name c \<and> c_SigService c' = c_SigService c"
  using assms by (auto simp: generatorBlock_def bind_eq_Some_conv intro: vaba_upds_intros(7))

lemma StoreBlock_upds:
  assumes "StoreBlock w p c = Some (err, c')" "vaba_upds w m c0 c"
  shows "vaba_upds w m c0 c'"
  using assms
  by (cases p) (auto simp: StoreBlock_def go_simps Let_def split: sum.splits prod.splits intro: vaba_upds_intros(6))

lemma propose_upds:
  assumes "NewProposal w (c_Name c) e PHASE_ONE_FALG (Some b) sig = Some p" "vaba_upds w m c0 c"
  shows "vaba_upds w m c0 (c_push (ProposalMsg p) (c_send from to (ProposalMsg p) c))"
  using assms
  by (auto simp: NewProposal_def bind_eq_Some_conv intro!: vaba_upds_intros(1,2))

lemma c_go_upds:
  assumes "vaba_upds w m c0 c" "key = (pr_Epoch p, pr_Author p) \<and> pc = PropEntry p \<and> m = Some (ProposalMsg p) \<or>
    key = (vo_Epoch v, vo_Proposer v) \<and> pc = VoteEntry v \<and> m = Some (VoteMsg (Some v))"
  shows "vaba_upds w m c0 (c_go key pc c)"
  using assms(2)
proof (elim disjE conjE)
  assume k: "key = (pr_Epoch p, pr_Author p)" "pc = PropEntry p" "m = Some (ProposalMsg p)"
  show ?thesis
    unfolding k c_go_def Let_def split_beta fst_conv snd_conv
    by (rule vaba_upds_intros(4)) (use assms(1) in \<open>simp_all add: GetPBInstance_upds k(3)\<close>)
next
  assume k: "key = (vo_Epoch v, vo_Proposer v)" "pc = VoteEntry v" "m = Some (VoteMsg (Some v))"
  show ?thesis
    unfolding k c_go_def Let_def split_beta fst_conv snd_conv
    by (rule vaba_upds_intros(5)) (use assms(1) in \<open>simp_all add: GetPBInstance_upds k(3)\<close>)
qed

section \<open>The handlers\<close>

lemma handleProposal_upds:
  assumes "handleProposal w p c = Some (err, c')"
  shows "vaba_upds w (Some (ProposalMsg p)) c c'"
proof -
  let ?m = "Some (ProposalMsg p)"
  let ?pre = "if pr_Phase p = PHASE_ONE_FALG \<and> pr_Epoch p |\<in>| c_commitFlag c \<and>
               Leader (pr_Epoch p) (c_Elector c) = pr_Author p
           then do { cm \<leftarrow> Commit (pr_B p) (c_Commitor c); Some (c\<lparr>c_Commitor := cm\<rparr>) }
           else Some c"
  obtain c1 where c1: "?pre = Some c1" using assms by (auto simp: handleProposal_def elim!: bind_SomeE)
  have "vaba_upds w ?m c c1"
    using c1 by (cases "pr_B p") (auto simp: bind_eq_Some_conv Commit_def go_simps split: if_splits
        intro!: vaba_upds_intros(13))
  then show ?thesis
    using assms unfolding handleProposal_def c1
    by (auto simp: bind_eq_Some_conv split: if_splits intro!: c_go_upds dest!: StoreBlock_upds [where ?c0.0 = c])
qed

lemma handleVote_upds: "handleVote v c = Some (err, c') \<Longrightarrow> vaba_upds w (Some (VoteMsg (Some v))) c c'"
  by (auto simp: handleVote_def split: if_splits intro!: c_go_upds)

lemma vaba_handleDone_upds: "handleDone w d c = Some (err, c') \<Longrightarrow> vaba_upds w m c c'"
  by (auto simp: handleDone_def NewSkipShare_def Let_def bind_eq_Some_conv split: if_splits prod.splits
      intro!: vaba_upds_intros(1,2) vaba_upds_intros(9))

lemma invokeElect_upds:
  assumes "invokeElect w e c = Some (err, c')" "vaba_upds w m c0 c"
  shows "vaba_upds w m c0 c'"
proof (cases "e |\<in>| c_electFlag c")
  case True
  then show ?thesis using assms by (simp add: invokeElect_def)
next
  case False
  then obtain share serr where sh: "NewElectShare w (c_Name c) e (c_SigService c) = Some (share, serr)"
    and c': "c' = c_push (ElectShareMsg share) (c_send (c_Name c) NONE (ElectShareMsg share)
        (c\<lparr>c_electFlag := finsert e (c_electFlag c)\<rparr>))"
    using assms(1) by (auto simp: invokeElect_def Let_def bind_eq_Some_conv)
  have "vaba_upds w m c0 (c_send (c_Name c) NONE (ElectShareMsg share) (c\<lparr>c_electFlag := finsert e (c_electFlag c)\<rparr>))"
    by (rule vaba_upds_intros(15) [OF False sh assms(2)])
  moreover have "made w (c_send (c_Name c) NONE (ElectShareMsg share) (c\<lparr>c_electFlag := finsert e (c_electFlag c)\<rparr>))
      (ElectShareMsg share)"
    using sh by (fastforce simp: NewElectShare_def Let_def bind_eq_Some_conv split: if_splits)
  ultimately show ?thesis unfolding c' by (intro vaba_upds_intros(2))
qed

lemma handleSkipShare_upds: "handleSkipShare w s c = Some (err, c') \<Longrightarrow> vaba_upds w m c c'"
  by (auto simp: handleSkipShare_def Let_def bind_eq_Some_conv split: if_splits prod.splits
      intro!: vaba_upds_intros(1,10,14) elim!: invokeElect_upds)

lemma handleSkip_upds: "handleSkip w s c = Some (err, c') \<Longrightarrow> vaba_upds w m c c'"
  by (auto simp: handleSkip_def Let_def bind_eq_Some_conv split: if_splits
      intro!: vaba_upds_intros(1,14) elim!: invokeElect_upds)

lemma GetPBInstance_flag:
  "GetPBInstance e n (c\<lparr>c_viewChangeFlag := f\<rparr>) =
     (fst (GetPBInstance e n c), (snd (GetPBInstance e n c))\<lparr>c_viewChangeFlag := f\<rparr>)"
  by (simp add: GetPBInstance_def Let_def split: option.split)

lemma invokeViewChange_upds:
  assumes "invokeViewChange w e leader c = Some (err, c')" "vaba_upds w m c0 c"
  shows "vaba_upds w m c0 c'"
proof (cases "e |\<in>| c_viewChangeFlag c")
  case True
  then show ?thesis using assms by (simp add: invokeViewChange_def)
next
  case False
  define c1 where "c1 = (if Leader e (c_Elector c) = NONE
     then c\<lparr>c_Elector := SetLeader e leader (c_Elector c)\<rparr> else c)"
  let ?f = "finsert e (c_viewChangeFlag c)"
  let ?pb = "fst (GetPBInstance e leader c1)" and ?c2 = "snd (GetPBInstance e leader c1)"
  have pre: "(if Leader e (c_Elector (c\<lparr>c_viewChangeFlag := ?f\<rparr>)) = NONE
      then (c\<lparr>c_viewChangeFlag := ?f\<rparr>)\<lparr>c_Elector := SetLeader e leader (c_Elector (c\<lparr>c_viewChangeFlag := ?f\<rparr>))\<rparr>
      else c\<lparr>c_viewChangeFlag := ?f\<rparr>) = c1\<lparr>c_viewChangeFlag := ?f\<rparr>"
    by (simp add: c1_def)
  obtain v where v: "NewViewChange w (c_Name c1) leader e (BlockHash ?pb) (IsCommit ?pb) (IsLock ?pb) (IsKey ?pb)
      (c_SigService c1) = Some v"
    and c': "c' = c_push (ViewChangeMsg v) (c_send (c_Name c1) NONE (ViewChangeMsg v) (?c2\<lparr>c_viewChangeFlag := ?f\<rparr>))"
    using assms(1) False unfolding invokeViewChange_def Let_def pre GetPBInstance_flag
    by (auto simp: bind_eq_Some_conv)
  have vf: "vc_Epoch v = e" "vc_Leader v = leader" "vc_Author v = c_Name c1" "vc_BlockHash v = BlockHash ?pb"
    "vc_IsCommit v = IsCommit ?pb"
    using v by (auto simp: NewViewChange_def bind_eq_Some_conv)
  have flag: "c_viewChangeFlag ?c2 = c_viewChangeFlag c" by (simp add: c1_def)
  have "vaba_upds w m c0 ?c2"
    using assms(2) by (auto simp: c1_def intro!: GetPBInstance_upds vaba_upds_intros(12))
  then have sent: "vaba_upds w m c0 (c_send (c_Name c1) NONE (ViewChangeMsg v) (?c2\<lparr>c_viewChangeFlag := ?f\<rparr>))"
    using vaba_upds_intros(16) [of v ?c2 w m c0 "c_Name c1" NONE] False flag vf(1) by simp
  show ?thesis
    unfolding c' by (rule vaba_upds_intros(2) [OF _ sent]) (simp add: vf)
qed

lemma vaba_handleElectShare_upds: "handleElectShare w e c = Some (err, c') \<Longrightarrow> vaba_upds w m c c'"
  by (auto simp: handleElectShare_def Let_def bind_eq_Some_conv split: if_splits
      intro!: vaba_upds_intros(11) elim!: invokeViewChange_upds dest: vaba_AddShareVote_err)

lemma vaba_advance_upds:
  assumes "advanceNextEpoch w e d c = Some (err, c')" "vaba_upds w m c0 c"
  shows "vaba_upds w m c0 c'"
proof (cases "e \<le> c_Epoch c")
  case True
  then show ?thesis using assms by (simp add: advanceNextEpoch_def)
next
  case False
  have ep: "vaba_upds w m c0 (c\<lparr>c_Epoch := e\<rparr>)"
    by (rule vaba_upds_intros(21) [where e' = e, OF _ assms(2)]) (simp add: False)
  let ?r = "case d of None \<Rightarrow> ((None, None), c\<lparr>c_Epoch := e\<rparr>) | Some d \<Rightarrow> GetBlock w d (c\<lparr>c_Epoch := e\<rparr>)"
  have r: "snd ?r = c\<lparr>c_Epoch := e\<rparr>" by (simp split: option.split)
  obtain block berr where rr: "?r = ((block, berr), c\<lparr>c_Epoch := e\<rparr>)"
    using r by (metis prod.exhaust snd_conv)
  show ?thesis
    using assms(1) False ep unfolding advanceNextEpoch_def Let_def rr
    by (auto simp: bind_eq_Some_conv split: if_splits option.splits intro!: propose_upds
        dest!: vaba_generatorBlock_upds [where ?c0.0 = c0 and w = w and m = m])
qed

lemma commitBlock_upds:
  assumes "commitBlock w e d c = Some c'" "vaba_upds w m c0 c"
  shows "vaba_upds w m c0 c' \<and> c_commitFlag c' = c_commitFlag c \<and> c_Name c' = c_Name c \<and> c_SigService c' = c_SigService c"
proof -
  obtain block err where blk: "GetBlock w d c = ((block, err), c)" by (metis GetBlock_snd prod.exhaust snd_conv)
  show ?thesis
  proof (cases "err = None \<and> block \<noteq> None")
    case False
    then show ?thesis using assms blk by (auto simp: commitBlock_def split: option.splits)
  next
    case True
    then obtain b where b: "GetBlock w d c = ((Some b, None), c)" using blk by auto
    obtain cm where cm: "Commit (Some (b\<lparr>b_Epoch := e\<rparr>)) (c_Commitor c) = Some cm"
      using assms(1) b by (auto simp: commitBlock_def Let_def bind_eq_Some_conv)
    let ?c1 = "c\<lparr>c_Commitor := cm\<rparr>"
    let ?c2 = "snd (GetPBInstance e (c_Name c) ?c1)"
    have u1: "vaba_upds w m c0 ?c1" by (rule vaba_upds_intros(13) [OF cm assms(2)])
    then have u2: "vaba_upds w m c0 ?c2" by (rule GetPBInstance_upds)
    have put: "vaba_upds w m c0 c3 \<and> c_commitFlag c3 = c_commitFlag c \<and> c_Name c3 = c_Name c \<and> c_SigService c3 = c_SigService c"
      if "(case GetBlock w h ?c2 of
            ((Some block, None), c) \<Rightarrow> Some (c\<lparr>c_TxPool := PutBatch (b_Batch block) (c_TxPool c)\<rparr>)
          | (_, c) \<Rightarrow> Some c) = Some c3" for h c3
      using that u2 GetBlock_snd [of w h ?c2]
      by (cases "GetBlock w h ?c2") (auto split: option.splits simp del: GetBlock_snd GetPBInstance_pool intro!: vaba_upds_intros(8))
    show ?thesis
    proof (cases "BlockHash (fst (GetPBInstance e (c_Name c) ?c1))")
      case None
      then show ?thesis
        using assms(1) b cm u1 u2 by (auto simp: commitBlock_def Let_def split_beta split: if_splits)
    next
      case (Some h)
      then show ?thesis
        using assms(1) b cm u1 put [of h c'] by (auto simp: commitBlock_def Let_def split_beta split: if_splits)
    qed
  qed
qed

lemma halt_upds:
  assumes "NewHalt w name leader d e sig = Some h" "e |\<notin>| c_commitFlag c" "vaba_upds w m c0 c"
  shows "vaba_upds w m c0 (c_send from to (HaltMsg h) (c\<lparr>c_commitFlag := finsert e (c_commitFlag c)\<rparr>))"
proof -
  have "ha_Epoch h = e" using assms(1) by (auto simp: NewHalt_def bind_eq_Some_conv)
  then show ?thesis using vaba_upds_intros(18) [of h c w m c0 "from" to] assms(2,3) by simp
qed

lemma vaba_handleHalt_upds:
  assumes "handleHalt w h c = Some (err, c')"
  shows "vaba_upds w m c c'"
proof (cases "messageFilter (ha_Epoch h) c \<or> ha_Epoch h |\<in>| c_commitFlag c")
  case True
  then show ?thesis using assms by (auto simp: handleHalt_def split: if_splits)
next
  case False
  then obtain c1 temp aerr where c1: "commitBlock w (ha_Epoch h) (ha_BlockHash h) c = Some c1"
    and temp: "NewHalt w (c_Name c1) (ha_Leader h) (ha_BlockHash h) (ha_Epoch h) (c_SigService c1) = Some temp"
    and adv: "advanceNextEpoch w (i64 (ha_Epoch h + 1)) None (c_send (c_Name c1) NONE (HaltMsg temp)
        (c1\<lparr>c_commitFlag := finsert (ha_Epoch h) (c_commitFlag c1)\<rparr>)) = Some (aerr, c')"
    using assms by (auto simp: handleHalt_def Let_def bind_eq_Some_conv)
  have u: "vaba_upds w m c c1" "c_commitFlag c1 = c_commitFlag c"
    using commitBlock_upds [OF c1, where m = m and ?c0.0 = c] by simp_all
  show ?thesis
    by (rule vaba_advance_upds [OF adv halt_upds [OF temp _ u(1)]]) (use False u(2) in simp)
qed

lemma lock_upds: "vaba_upds w m c0 c \<Longrightarrow> vaba_upds w m c0 (if b then c\<lparr>c_Lock := e\<rparr> else c)"
  by (simp add: vaba_upds_intros(20))

lemma commit_part_upds:
  assumes "commit_part w v c = Some c'" "vaba_upds w m c0 c" "vc_Epoch v |\<notin>| c_commitFlag c"
  shows "vaba_upds w m c0 c'"
proof (cases "vc_IsCommit v")
  case False
  then show ?thesis using assms by (simp add: commit_part_def)
next
  case True
  then obtain hash c1 halt aerr where c1: "commitBlock w (vc_Epoch v) hash c = Some c1"
    and halt: "NewHalt w (c_Name c1) (vc_Leader v) hash (vc_Epoch v) (c_SigService c1) = Some halt"
    and adv: "advanceNextEpoch w (i64 (vc_Epoch v + 1)) None (c_send (c_Name c1) NONE (HaltMsg halt)
        (c1\<lparr>c_commitFlag := finsert (vc_Epoch v) (c_commitFlag c1)\<rparr>)) = Some (aerr, c')"
    using assms(1) by (auto simp: commit_part_def Let_def bind_eq_Some_conv go_simps)
  have u: "vaba_upds w m c0 c1" "c_commitFlag c1 = c_commitFlag c"
    using commitBlock_upds [OF c1 assms(2)] by simp_all
  show ?thesis
    by (rule vaba_advance_upds [OF adv halt_upds [OF halt _ u(1)]]) (use assms(3) u(2) in simp)
qed

lemma count_part_upds: "count_part w v c = Some c' \<Longrightarrow> vaba_upds w m c0 c \<Longrightarrow> vaba_upds w m c0 c'"
  by (auto simp: count_part_def Let_def bind_eq_Some_conv split: if_splits
      intro!: vaba_upds_intros(13,19) elim!: vaba_advance_upds)

lemma handleViewChange_upds:
  assumes "handleViewChange w v c = Some (err, c')"
  shows "vaba_upds w m c c'"
proof (cases "messageFilter (vc_Epoch v) c \<or> vc_Epoch v |\<in>| c_commitFlag c")
  case True
  then show ?thesis using assms by (auto simp: handleViewChange_def split: if_splits)
next
  case False
  let ?c = "c\<lparr>c_viewChangeCnts := (c_viewChangeCnts c)(vc_Epoch v \<mapsto> cnts_of c (vc_Epoch v) + 1)\<rparr>"
  obtain c1 where c1: "commit_part w v ?c = Some c1"
    and c': "count_part w v (if vc_IsLock v \<and> c_Lock c1 \<le> vc_Epoch v then c1\<lparr>c_Lock := vc_Epoch v\<rparr> else c1) = Some c'"
    using assms False unfolding handleViewChange_def Let_def by (auto simp: bind_eq_Some_conv)
  have "vaba_upds w m c c1"
    by (rule commit_part_upds [OF c1 vaba_upds_intros(17)]) (use False in simp_all)
  then show ?thesis by (intro count_part_upds [OF c'] lock_upds)
qed

lemma vaba_handle_effects: "handle w msg c = Some (err, c') \<Longrightarrow> vaba_upds w (Some msg) c c'"
  by (cases msg)
     (auto simp: go_simps bind_eq_Some_conv intro: handleProposal_upds handleVote_upds vaba_handleDone_upds
       handleSkipShare_upds handleSkip_upds vaba_handleElectShare_upds handleViewChange_upds vaba_handleHalt_upds)

lemma vaba_dispatch_effects: "dispatch w msg c = Some (err, c') \<Longrightarrow> vaba_upds w (Some msg) c c'"
  by (auto simp: dispatch_def bind_eq_Some_conv split: if_splits intro: vaba_handle_effects)

lemma vaba_Run_start_effects: "Run_start w c = Some c' \<Longrightarrow> vaba_upds w None c c'"
  by (auto simp: Run_start_def Let_def bind_eq_Some_conv intro!: propose_upds
      dest!: vaba_generatorBlock_upds [where w = w and ?c0.0 = c and m = None])

end
