(* ===== verification/Vaba_Node.thy ===== *)
theory Vaba_Node
  imports Vaba_Effects
begin

text \<open>
  A running VABA node: the main loop, the receiver and the goroutines of the broadcast instances,
  interleaved in any order, and the invariants of every reachable state.
\<close>

section \<open>Steps\<close>

definition task_step :: "'a vaba_env_scheme \<Rightarrow> nat \<Rightarrow> 'db Core \<Rightarrow> 'db Core option" where
  "task_step w i c =
     (case c_tasks c ! i of ((e, n), pc) \<Rightarrow> do {
        p \<leftarrow> get2 (c_PBInstances c) e n;
        (pc', spawned, p, c) \<leftarrow> promote_step w pc p c;
        let c = c\<lparr>c_PBInstances := put2 (c_PBInstances c) e n p\<rparr>;
        Some (c\<lparr>c_tasks := task_update i (e, n) pc' spawned (c_tasks c)\<rparr>) })"

inductive vaba_step ::
  "'a vaba_env_scheme \<Rightarrow> (vaba_msg \<Rightarrow> bool) \<Rightarrow> 'db Core \<Rightarrow> 'db Core \<Rightarrow> bool" for w net where
  deliver: "net msg \<Longrightarrow> vaba_step w net c (c_push msg c)"
| turn: "Run_turn w c = Some (err, c') \<Longrightarrow> vaba_step w net c c'"
| task: "i < length (c_tasks c) \<Longrightarrow> task_step w i c = Some c' \<Longrightarrow> vaba_step w net c c'"

inductive vaba_reach ::
  "'a vaba_env_scheme \<Rightarrow> (vaba_msg \<Rightarrow> bool) \<Rightarrow> 'db Core \<Rightarrow> 'db Core \<Rightarrow> bool" for w net c0 where
  start: "Run_start w c0 = Some c \<Longrightarrow> vaba_reach w net c0 c"
| step: "vaba_reach w net c0 c \<Longrightarrow> vaba_step w net c c' \<Longrightarrow> vaba_reach w net c0 c'"

definition panics :: "'a vaba_env_scheme \<Rightarrow> 'db Core \<Rightarrow> bool" where
  "panics w c \<longleftrightarrow> Run_turn w c = None \<or> (\<exists>i < length (c_tasks c). task_step w i c = None)"

section \<open>What a goroutine does to the core\<close>

lemma promote_step_ctx:
  assumes "promote_step w pc p c = Some (pc', spawned, p', c')"
  shows "c' = c \<or> (\<exists>from to m. c' = c_send from to m c \<and> \<not> guarded m) \<or> (\<exists>m. c' = c_push m c)"
  using assms
  by (cases pc) (auto simp: bind_eq_Some_conv Let_def send_vote_def split: if_splits option.splits, (metis guarded.simps)+)

lemma vaba_task_cases:
  assumes "task_step w i c = Some c'" "i < length (c_tasks c)"
  obtains e n pc p pc' spawned p' c1 where
    "c_tasks c ! i = ((e, n), pc)" "((e, n), pc) \<in> set (c_tasks c)" "get2 (c_PBInstances c) e n = Some p"
    "promote_step w pc p c = Some (pc', spawned, p', c1)"
    "c1 = c \<or> (\<exists>from to m. c1 = c_send from to m c \<and> \<not> guarded m) \<or> (\<exists>m. c1 = c_push m c)"
    "c' = c1\<lparr>c_PBInstances := put2 (c_PBInstances c) e n p', c_tasks := task_update i (e, n) pc' spawned (c_tasks c)\<rparr>"
proof -
  obtain e n pc where key: "c_tasks c ! i = ((e, n), pc)" by (metis prod.exhaust)
  then have mem: "((e, n), pc) \<in> set (c_tasks c)" using assms(2) by (metis nth_mem)
  obtain p pc' spawned p' c1 where st: "get2 (c_PBInstances c) e n = Some p"
    "promote_step w pc p c = Some (pc', spawned, p', c1)"
    and c': "c' = c1\<lparr>c_PBInstances := put2 (c_PBInstances c1) e n p', c_tasks := task_update i (e, n) pc' spawned (c_tasks c1)\<rparr>"
    using assms(1) key by (auto simp: task_step_def bind_eq_Some_conv Let_def)
  note ctx = promote_step_ctx [OF st(2)]
  moreover have "c_PBInstances c1 = c_PBInstances c" "c_tasks c1 = c_tasks c"
    using ctx by (auto simp: c_send_def c_push_def)
  ultimately show thesis using that [OF key mem st] c' by simp
qed

section \<open>Invariants of a node\<close>

text \<open>
  \<open>good\<close> is what the invariant knows of every message in the node's queue, and so of the message
  that is being handled.
\<close>

locale vaba_invariant =
  fixes I :: "'db Core \<Rightarrow> bool"
    and w :: "'a vaba_env_scheme"
    and net :: "vaba_msg \<Rightarrow> bool"
    and good :: "vaba_msg \<Rightarrow> bool"
  assumes vupd: "I c \<Longrightarrow> pred_option good m \<Longrightarrow> vaba_upd w m c c' \<Longrightarrow> I c'"
    and vdeliver: "I c \<Longrightarrow> net m' \<Longrightarrow> I (c_push m' c)"
    and vrecv: "I c \<Longrightarrow> tr_recvCh (c_Transimtor c) = m' # ms \<Longrightarrow>
      good m' \<and> I (c\<lparr>c_Transimtor := (c_Transimtor c)\<lparr>tr_recvCh := ms\<rparr>\<rparr>)"
    and vtask: "I c \<Longrightarrow> i < length (c_tasks c) \<Longrightarrow> task_step w i c = Some c' \<Longrightarrow> I c'"
begin

lemma vaba_upds_keep: "vaba_upds w m c c' \<Longrightarrow> I c \<Longrightarrow> pred_option good m \<Longrightarrow> I c'"
  by (induction rule: rtranclp_induct) (auto intro: vupd)

lemma vaba_turn_keep:
  assumes "Run_turn w c = Some (err, c')" "I c"
  shows "I c'"
proof (cases "tr_recvCh (c_Transimtor c)")
  case Nil
  then show ?thesis using assms by (simp add: Run_turn_def Transmitor_Recv_def)
next
  case (Cons m ms)
  then have "vaba_upds w (Some m) (c\<lparr>c_Transimtor := (c_Transimtor c)\<lparr>tr_recvCh := ms\<rparr>\<rparr>) c'"
    using assms(1) by (simp add: Run_turn_def Transmitor_Recv_def vaba_dispatch_effects)
  then show ?thesis by (rule vaba_upds_keep) (use vrecv [OF assms(2) Cons] in simp_all)
qed

lemma vaba_step_keep: "vaba_step w net c c' \<Longrightarrow> I c \<Longrightarrow> I c'"
  by (erule vaba_step.cases) (auto intro: vdeliver vaba_turn_keep vtask)

lemma vaba_steps_keep: "(vaba_step w net)\<^sup>*\<^sup>* c c' \<Longrightarrow> I c \<Longrightarrow> I c'"
  by (induction rule: rtranclp_induct) (auto intro: vaba_step_keep)

lemma vaba_reach_keep: "vaba_reach w net c0 c \<Longrightarrow> I c0 \<Longrightarrow> I c"
  by (induction rule: vaba_reach.induct) (auto intro: vaba_step_keep vaba_upds_keep vaba_Run_start_effects)

end

subsection \<open>Blocks are committed in the order of their epochs\<close>

definition vaba_commit_inv :: "'db Core \<Rightarrow> bool" where
  "vaba_commit_inv c \<longleftrightarrow> in_order b_Epoch (cm_view (c_Commitor c))"

interpretation vcm: vaba_invariant vaba_commit_inv w net "\<lambda>_. True" for w net
proof unfold_locales
  show "vaba_commit_inv c \<Longrightarrow> pred_option (\<lambda>_. True) m \<Longrightarrow> vaba_upd w m c c' \<Longrightarrow> vaba_commit_inv c'" for m c c'
    by (rotate_tac 2, induction rule: vaba_upd.induct)
       (auto simp: vaba_commit_inv_def c_send_def c_push_def setSkip_def intro: vaba_Commit_in_order)
qed (auto simp: vaba_commit_inv_def c_send_def c_push_def elim!: vaba_task_cases)

subsection \<open>No block is taken back\<close>

definition vaba_log_inv :: "Block list \<Rightarrow> 'db Core \<Rightarrow> bool" where
  "vaba_log_inv l c \<longleftrightarrow> prefix l (cm_commitCh (c_Commitor c))"

lemma vaba_log_Commit:
  "Commit b (c_Commitor c) = Some cm \<Longrightarrow> prefix l (cm_commitCh (c_Commitor c)) \<Longrightarrow> prefix l (cm_commitCh cm)"
  using vaba_Commit_total [of b "c_Commitor c"] vaba_Commit_grows prefix_order.trans by (cases b) (simp, blast)

interpretation vlg: vaba_invariant "vaba_log_inv l" w net "\<lambda>_. True" for l w net
proof unfold_locales
  show "vaba_log_inv l c \<Longrightarrow> pred_option (\<lambda>_. True) m \<Longrightarrow> vaba_upd w m c c' \<Longrightarrow> vaba_log_inv l c'" for m c c'
    by (rotate_tac 2, induction rule: vaba_upd.induct)
       (auto simp: vaba_log_inv_def c_send_def c_push_def setSkip_def intro: vaba_log_Commit)
qed (auto simp: vaba_log_inv_def c_send_def c_push_def elim!: vaba_task_cases)

subsection \<open>Epochs\<close>

definition vaba_epoch_inv :: "int \<Rightarrow> 'db Core \<Rightarrow> bool" where
  "vaba_epoch_inv k c \<longleftrightarrow> k \<le> c_Epoch c"

interpretation vep: vaba_invariant "vaba_epoch_inv k" w net "\<lambda>_. True" for k w net
proof unfold_locales
  show "vaba_epoch_inv k c \<Longrightarrow> pred_option (\<lambda>_. True) m \<Longrightarrow> vaba_upd w m c c' \<Longrightarrow> vaba_epoch_inv k c'" for m c c'
    by (rotate_tac 2, induction rule: vaba_upd.induct)
       (auto simp: vaba_epoch_inv_def c_send_def c_push_def setSkip_def)
qed (auto simp: vaba_epoch_inv_def c_send_def c_push_def elim!: vaba_task_cases)

subsection \<open>One share, one view change and one halt for each epoch\<close>

fun is_share :: "int \<Rightarrow> vaba_msg \<Rightarrow> bool" where
  "is_share e (ElectShareMsg (Some s)) \<longleftrightarrow> es_Epoch s = e"
| "is_share e _ \<longleftrightarrow> False"

fun is_view :: "int \<Rightarrow> vaba_msg \<Rightarrow> bool" where
  "is_view e (ViewChangeMsg v) \<longleftrightarrow> vc_Epoch v = e"
| "is_view e _ \<longleftrightarrow> False"

fun is_halt :: "int \<Rightarrow> vaba_msg \<Rightarrow> bool" where
  "is_halt e (HaltMsg h) \<longleftrightarrow> ha_Epoch h = e"
| "is_halt e _ \<longleftrightarrow> False"

definition sent :: "(vaba_msg \<Rightarrow> bool) \<Rightarrow> vaba_msg Transmitor \<Rightarrow> nat" where
  "sent P tr = length (filter P (map nm_Msg (tr_msgCh tr)))"

lemma sent_simps [simp]:
  "sent P (Transmitor_Send from to m tr) = (if P m then Suc (sent P tr) else sent P tr)"
  "sent P (RecvChannel_push m tr) = sent P tr"
  "sent P (tr\<lparr>tr_recvCh := ms\<rparr>) = sent P tr"
  by (simp_all add: sent_def)

lemma not_guarded [simp]: "\<not> guarded m \<Longrightarrow> \<not> is_share e m" "\<not> guarded m \<Longrightarrow> \<not> is_view e m" "\<not> guarded m \<Longrightarrow> \<not> is_halt e m"
  by (cases m; simp)+

definition once_inv :: "'db Core \<Rightarrow> bool" where
  "once_inv c \<longleftrightarrow>
     (\<forall>e. sent (is_share e) (c_Transimtor c) \<le> 1 \<and> (e |\<notin>| c_electFlag c \<longrightarrow> sent (is_share e) (c_Transimtor c) = 0)) \<and>
     (\<forall>e. sent (is_view e) (c_Transimtor c) = (if e |\<in>| c_viewChangeFlag c then 1 else 0)) \<and>
     (\<forall>e. sent (is_halt e) (c_Transimtor c) \<le> 1 \<and> (e |\<notin>| c_commitFlag c \<longrightarrow> sent (is_halt e) (c_Transimtor c) = 0))"

lemma is_share_New: "NewElectShare w name e sig = Some (share, serr) \<Longrightarrow> is_share e' (ElectShareMsg share) \<Longrightarrow> e' = e"
  by (auto simp: NewElectShare_def Let_def bind_eq_Some_conv split: if_splits)

interpretation von: vaba_invariant once_inv w net "\<lambda>_. True" for w net
proof unfold_locales
  show "once_inv c \<Longrightarrow> pred_option (\<lambda>_. True) m \<Longrightarrow> vaba_upd w m c c' \<Longrightarrow> once_inv c'" for m c c'
    by (rotate_tac 2, induction rule: vaba_upd.induct)
       (auto simp: once_inv_def c_send_def c_push_def setSkip_def dest: is_share_New)
qed (auto simp: once_inv_def c_send_def c_push_def elim!: vaba_task_cases)

end
