(* ===== verification/Vaba_Safety.thy ===== *)
theory Vaba_Safety
  imports Vaba_Node
begin

text \<open>
  When a VABA node can panic: never, in any interleaving, if the network delivers only messages of
  members, proposals with one of the four phases and a block in the first of them, votes with no
  negative phase, and view changes whose commit flag comes with a block hash.
\<close>

section \<open>Messages and goroutines that are safe\<close>

definition prop_ok :: "Committee \<Rightarrow> Proposal \<Rightarrow> bool" where
  "prop_ok cm p \<longleftrightarrow> pr_Author p \<in> members cm \<and> PHASE_ONE_FALG \<le> pr_Phase p \<and> pr_Phase p \<le> PHASE_FOUR_FALG \<and>
     (pr_Phase p = PHASE_ONE_FALG \<longrightarrow> pr_B p \<noteq> None)"

definition vote_ok :: "Vote \<Rightarrow> bool" where
  "vote_ok v \<longleftrightarrow> PHASE_ONE_FALG \<le> vo_Phase v"

fun msg_ok :: "Committee \<Rightarrow> vaba_msg \<Rightarrow> bool" where
  "msg_ok cm (ProposalMsg p) \<longleftrightarrow> prop_ok cm p"
| "msg_ok cm (VoteMsg v) \<longleftrightarrow> (case v of None \<Rightarrow> False | Some v \<Rightarrow> vo_Author v \<in> members cm \<and> vote_ok v)"
| "msg_ok cm (DoneMsg d) \<longleftrightarrow> dn_Author d \<in> members cm"
| "msg_ok cm (SkipShareMsg s) \<longleftrightarrow> sh_Author s \<in> members cm"
| "msg_ok cm (SkipMsg s) \<longleftrightarrow> ki_Author s \<in> members cm"
| "msg_ok cm (ElectShareMsg e) \<longleftrightarrow> e \<noteq> None"
| "msg_ok cm (ViewChangeMsg v) \<longleftrightarrow> vc_Author v \<in> members cm \<and> (vc_IsCommit v \<longrightarrow> vc_BlockHash v \<noteq> None)"
| "msg_ok cm (HaltMsg h) \<longleftrightarrow> ha_Author h \<in> members cm"

text \<open>The waiting calls and the flags of an instance of proposer \<open>n\<close>.\<close>

definition pb_ok :: "Committee \<Rightarrow> int \<Rightarrow> NodeID \<Rightarrow> Promote \<Rightarrow> bool" where
  "pb_ok cm e n p \<longleftrightarrow> p_Epoch p = e \<and> p_Proposer p = n \<and>
     (\<forall>pr \<in> set (p_unhandleProposal p). prop_ok cm pr) \<and> (\<forall>v \<in> set (p_unhandleVote p). vote_ok v) \<and>
     (p_blockHash p \<noteq> None \<longrightarrow> n \<in> members cm) \<and>
     (p_blockHash p = None \<longrightarrow> \<not> p_keyFlag p \<and> \<not> p_lockFlag p \<and> \<not> p_commitFlag p)"

fun pc_ok :: "Committee \<Rightarrow> Promote \<Rightarrow> promote_pc \<Rightarrow> bool" where
  "pc_ok cm p (PropEntry pr) \<longleftrightarrow> prop_ok cm pr"
| "pc_ok cm p (PropQueue pr) \<longleftrightarrow> prop_ok cm pr"
| "pc_ok cm p (PropFlush d) \<longleftrightarrow> p_blockHash p \<noteq> None"
| "pc_ok cm p (PropFlag pr) \<longleftrightarrow> p_blockHash p \<noteq> None \<and> later_phase (pr_Phase pr)"
| "pc_ok cm p (PropRead phase) \<longleftrightarrow> p_blockHash p \<noteq> None \<and> PHASE_ONE_FALG \<le> phase"
| "pc_ok cm p (PropVote phase d) \<longleftrightarrow> PHASE_ONE_FALG \<le> phase"
| "pc_ok cm p PropNil \<longleftrightarrow> False"
| "pc_ok cm p (VoteEntry v) \<longleftrightarrow> vote_ok v"
| "pc_ok cm p (VoteQueue v) \<longleftrightarrow> vote_ok v"
| "pc_ok cm p (VoteCount v) \<longleftrightarrow> vote_ok v \<and> p_blockHash p \<noteq> None"
| "pc_ok cm p (VoteAct v k) \<longleftrightarrow> vote_ok v \<and> p_blockHash p \<noteq> None"
| "pc_ok cm p VoteDone \<longleftrightarrow> p_blockHash p \<noteq> None"
| "pc_ok cm p (Push m) \<longleftrightarrow> msg_ok cm m"

definition vlive :: "'a vaba_env_scheme \<Rightarrow> Committee \<Rightarrow> 'db Core \<Rightarrow> bool" where
  "vlive w cm c \<longleftrightarrow>
     c_Committee c = cm \<and> env_ok w cm (c_SigService c) \<and> c_Name c \<in> members cm \<and> pool_wf (c_TxPool c) \<and>
     el_committee (c_Elector c) = cm \<and>
     (\<forall>m \<in> set (tr_recvCh (c_Transimtor c)). msg_ok cm m) \<and>
     (\<forall>e n p. get2 (c_PBInstances c) e n = Some p \<longrightarrow> pb_ok cm e n p) \<and>
     (\<forall>e n pc. ((e, n), pc) \<in> set (c_tasks c) \<longrightarrow>
        (\<exists>p. get2 (c_PBInstances c) e n = Some p \<and> pc_ok cm p pc))"

lemma vlive_parts:
  assumes "vlive w cm c"
  shows "env_ok w cm (c_SigService c)" "pool_wf (c_TxPool c)" "c_Committee c = cm" "c_Name c \<in> members cm"
    "el_committee (c_Elector c) = cm"
  using assms by (auto simp: vlive_def)

lemma vlive_pc: "vlive w cm c \<Longrightarrow> ((e, n), pc) \<in> set (c_tasks c) \<Longrightarrow> \<exists>p. get2 (c_PBInstances c) e n = Some p \<and> pc_ok cm p pc"
  unfolding vlive_def by blast

lemma vlive_pb: "vlive w cm c \<Longrightarrow> get2 (c_PBInstances c) e n = Some p \<Longrightarrow> pb_ok cm e n p"
  unfolding vlive_def by blast

section \<open>A piece of a goroutine\<close>

lemma later_phase_iff: "later_phase ph \<longleftrightarrow> PHASE_ONE_FALG < ph \<and> ph \<le> PHASE_FOUR_FALG"
  by (auto simp: later_phase_def phase_defs)

lemma prop_later: "prop_ok cm pr \<Longrightarrow> pr_Phase pr \<noteq> PHASE_ONE_FALG \<Longrightarrow> later_phase (pr_Phase pr)"
  by (auto simp: prop_ok_def later_phase_iff)

lemma pc_ok_mono:
  "pc_ok cm p pc \<Longrightarrow> (p_blockHash p \<noteq> None \<Longrightarrow> p_blockHash p' \<noteq> None) \<Longrightarrow> pc_ok cm p' pc"
  by (cases pc) auto

lemma promote_step_hash:
  "promote_step w pc p c = Some (pc', spawned, p', c') \<Longrightarrow> p_blockHash p \<noteq> None \<Longrightarrow> p_blockHash p' \<noteq> None"
  by (cases pc) (auto simp: bind_eq_Some_conv Let_def split: if_splits option.splits)

lemma promote_step_pb:
  assumes "promote_step w pc p c = Some (pc', spawned, p', c')" "pb_ok cm e n p" "pc_ok cm p pc"
  shows "pb_ok cm e n p'"
proof (cases pc)
  case (PropEntry pr)
  then show ?thesis
    using assms by (auto simp: bind_eq_Some_conv Let_def pb_ok_def prop_ok_def go_simps split: if_splits)
next
  case (PropFlag pr)
  then show ?thesis using assms by (auto simp: pb_ok_def)
qed (use assms in \<open>auto simp: bind_eq_Some_conv Let_def pb_ok_def split: if_splits option.splits\<close>)

lemma promote_step_pcs:
  assumes "promote_step w pc p c = Some (pc', spawned, p', c')" "pb_ok cm e n p" "pc_ok cm p pc"
  shows "\<forall>q. pc' = Some q \<longrightarrow> pc_ok cm p' q" "\<forall>q \<in> set spawned. pc_ok cm p' q"
proof -
  show "\<forall>q \<in> set spawned. pc_ok cm p' q"
    using assms by (cases pc) (auto simp: bind_eq_Some_conv Let_def unhandled_def pb_ok_def split: if_splits option.splits)
  show "\<forall>q. pc' = Some q \<longrightarrow> pc_ok cm p' q"
  proof (cases pc)
    case (VoteAct v k)
    then show ?thesis
      using assms
      by (auto simp: bind_eq_Some_conv NewProposal_def prop_ok_def pb_ok_def vote_ok_def phase_defs split: if_splits)
  next
    case VoteDone
    then show ?thesis using assms by (auto simp: bind_eq_Some_conv NewDone_def pb_ok_def)
  next
    case (PropFlag pr)
    then show ?thesis using assms by (auto simp: later_phase_iff)
  next
    case (PropEntry pr)
    then show ?thesis
      using assms prop_later by (auto simp: bind_eq_Some_conv Let_def split: if_splits)
  qed (use assms in \<open>auto simp: bind_eq_Some_conv Let_def split: if_splits option.splits\<close>)
qed

lemma send_vote_recv:
  "tr_recvCh (c_Transimtor (send_vote v p c)) =
     (if c_Name c \<noteq> p_Proposer p then tr_recvCh (c_Transimtor c) else tr_recvCh (c_Transimtor c) @ [VoteMsg v])"
  by (simp add: send_vote_def c_send_def c_push_def)

lemma NewVote_fields: "NewVote w nm n d e ph sig = Some v \<Longrightarrow> vo_Author v = nm \<and> vo_Phase v = ph"
  by (auto simp: NewVote_def bind_eq_Some_conv)

lemma promote_step_recv:
  assumes "promote_step w pc p c = Some (pc', spawned, p', c')" "pb_ok cm e n p" "pc_ok cm p pc"
    "c_Name c \<in> members cm" "\<forall>m \<in> set (tr_recvCh (c_Transimtor c)). msg_ok cm m"
  shows "\<forall>m \<in> set (tr_recvCh (c_Transimtor c')). msg_ok cm m"
proof (cases pc)
  case (PropVote ph d)
  then show ?thesis
    using assms by (auto simp: bind_eq_Some_conv send_vote_recv vote_ok_def dest!: NewVote_fields split: if_splits)
qed (use assms in \<open>auto simp: bind_eq_Some_conv Let_def c_send_def c_push_def split: if_splits option.splits\<close>)

lemma vaba_New_total:
  assumes "env_ok w cm sig"
  shows "NewProposal w nm e ph b sig \<noteq> None" "NewVote w nm n d e ph sig \<noteq> None" "NewDone w nm e sig \<noteq> None"
    "NewSkipShare w nm e sig \<noteq> None" "NewSkip w nm e sig \<noteq> None" "NewElectShare w nm e sig \<noteq> None"
    "NewViewChange w nm l e h x y z sig \<noteq> None" "NewHalt w nm l d e sig \<noteq> None"
  using assms
  by (simp_all add: vaba_new_defs env_ok_def RequestSignature_eq RequestTsSugnature_eq split_beta Let_def)

lemma promote_step_total:
  assumes "env_ok w cm (c_SigService c)" "pc_ok cm p pc"
  shows "promote_step w pc p c \<noteq> None"
proof (cases pc)
  case (VoteAct v k)
  then show ?thesis
    using vaba_New_total(1) [OF assms(1)] by (simp add: bind_eq_None_conv del: not_None_eq)
next
  case (PropEntry pr)
  then show ?thesis using assms(2) by (auto simp: prop_ok_def go_simps Let_def)
qed (use assms(2) vaba_New_total(2,3) [OF assms(1)] in
    \<open>auto simp: bind_eq_None_conv Let_def go_simps split: option.split\<close>)

section \<open>It stays so\<close>

lemma vlive_task:
  assumes "vlive w cm c" "i < length (c_tasks c)" "task_step w i c = Some c'"
  shows "vlive w cm c'"
  using assms(3,2)
proof (rule vaba_task_cases)
  fix e n pc p pc' spawned p' c1
  assume mem: "((e, n), pc) \<in> set (c_tasks c)" and p: "get2 (c_PBInstances c) e n = Some p"
    and st: "promote_step w pc p c = Some (pc', spawned, p', c1)"
    and ctx: "c1 = c \<or> (\<exists>from to m. c1 = c_send from to m c \<and> \<not> guarded m) \<or> (\<exists>m. c1 = c_push m c)"
    and c': "c' = c1\<lparr>c_PBInstances := put2 (c_PBInstances c) e n p', c_tasks := task_update i (e, n) pc' spawned (c_tasks c)\<rparr>"
  have ok: "pb_ok cm e n p" "pc_ok cm p pc"
    using vlive_pb [OF assms(1) p] vlive_pc [OF assms(1) mem] p by simp_all
  note pcs = promote_step_pcs [OF st ok]
  have old: "\<exists>p2. get2 (put2 (c_PBInstances c) e n p') e2 n2 = Some p2 \<and> pc_ok cm p2 pc2"
    if t: "((e2, n2), pc2) \<in> set (c_tasks c)" for e2 n2 pc2
  proof -
    obtain p2 where p2: "get2 (c_PBInstances c) e2 n2 = Some p2" "pc_ok cm p2 pc2"
      using vlive_pc [OF assms(1) t] by blast
    show ?thesis
      using p2 p pc_ok_mono [of cm p pc2 p'] promote_step_hash [OF st] by auto
  qed
  have "\<exists>p2. get2 (c_PBInstances c') e2 n2 = Some p2 \<and> pc_ok cm p2 pc2"
    if "((e2, n2), pc2) \<in> set (c_tasks c')" for e2 n2 pc2
  proof (cases "((e2, n2), pc2) \<in> set (c_tasks c)")
    case True
    then show ?thesis using old by (simp add: c')
  next
    case False
    then have "(e2, n2) = (e, n)" "pc' = Some pc2 \<or> pc2 \<in> set spawned"
      using that set_task_update [of i "(e, n)" pc' spawned "c_tasks c"] by (auto simp: c')
    then show ?thesis using pcs by (auto simp: c')
  qed
  moreover have "pb_ok cm e2 n2 p2" if "get2 (c_PBInstances c') e2 n2 = Some p2" for e2 n2 p2
    using assms(1) promote_step_pb [OF st ok] that by (auto simp: vlive_def c' split: if_splits)
  moreover have "\<forall>m \<in> set (tr_recvCh (c_Transimtor c1)). msg_ok cm m"
    by (rule promote_step_recv [OF st ok]) (use assms(1) in \<open>simp_all add: vlive_def\<close>)
  moreover have "c_Committee c1 = c_Committee c" "c_SigService c1 = c_SigService c" "c_Name c1 = c_Name c"
    "c_TxPool c1 = c_TxPool c" "c_Elector c1 = c_Elector c"
    using ctx by (auto simp: c_send_def c_push_def)
  ultimately show "vlive w cm c'"
    using assms(1) by (auto simp: vlive_def c')
qed

lemma made_ok:
  assumes "vlive w cm c" "made w c m"
  shows "msg_ok cm m"
proof (cases m)
  case (ElectShareMsg e)
  then show ?thesis using assms env_share [OF vlive_parts(1) [OF assms(1)]] by auto
next
  case (ViewChangeMsg v)
  then obtain pb where pb: "get2 (c_PBInstances c) (vc_Epoch v) (vc_Leader v) = Some pb" "vc_BlockHash v = BlockHash pb"
    "vc_IsCommit v = IsCommit pb" "vc_Author v = c_Name c"
    using assms(2) by auto
  then show ?thesis
    using vlive_pb [OF assms(1) pb(1)] vlive_parts(4) [OF assms(1)] pb(2-4) ViewChangeMsg
    by (auto simp: pb_ok_def BlockHash_def IsCommit_def)
qed (use assms in \<open>auto simp: vlive_def prop_ok_def phase_defs\<close>)

lemma vlive_upd:
  assumes "vaba_upd w m c c'" "vlive w cm c" "pred_option (msg_ok cm) m"
  shows "vlive w cm c'"
  using assms
proof (induction rule: vaba_upd.induct)
  case (push c msg)
  then show ?case using made_ok [OF push.prems(1) push.hyps] by (auto simp: vlive_def c_push_def)
next
  case (inst c e n)
  then show ?case by (auto simp: vlive_def pb_ok_def NewPromote_def) fastforce
next
  case (go_proposal p c)
  then show ?case by (auto simp: vlive_def)
next
  case (go_vote v c)
  then show ?case by (auto simp: vlive_def)
next
  case (share_vote share c res' el)
  then show ?case using vaba_AddShareVote_const [OF share_vote.hyps] by (simp add: vlive_def)
qed (auto simp: vlive_def c_send_def setSkip_def intro: GetBatch_wf PutBatch_wf)

interpretation vsf: vaba_invariant "vlive w cm" w "msg_ok cm" "msg_ok cm" for w :: "'a vaba_env_scheme" and cm
proof unfold_locales
  fix c c' :: "'b Core" and m m' ms i
  show "vlive w cm c \<Longrightarrow> pred_option (msg_ok cm) m \<Longrightarrow> vaba_upd w m c c' \<Longrightarrow> vlive w cm c'"
    by (rule vlive_upd)
  show "vlive w cm c \<Longrightarrow> msg_ok cm m' \<Longrightarrow> vlive w cm (c_push m' c)"
    by (auto simp: vlive_def c_push_def)
  show "vlive w cm c \<Longrightarrow> tr_recvCh (c_Transimtor c) = m' # ms \<Longrightarrow>
      msg_ok cm m' \<and> vlive w cm (c\<lparr>c_Transimtor := (c_Transimtor c)\<lparr>tr_recvCh := ms\<rparr>\<rparr>)"
    by (auto simp: vlive_def)
  show "vlive w cm c \<Longrightarrow> i < length (c_tasks c) \<Longrightarrow> task_step w i c = Some c' \<Longrightarrow> vlive w cm c'"
    by (rule vlive_task)
qed

section \<open>No handler panics\<close>

lemma vlive_upds: "vaba_upds w m c c' \<Longrightarrow> vlive w cm c \<Longrightarrow> pred_option (msg_ok cm) m \<Longrightarrow> vlive w cm c'"
  by (rule vsf.vaba_upds_keep)

lemma vaba_generatorBlock_total:
  assumes "pool_wf (c_TxPool c)"
  shows "generatorBlock e c \<noteq> None" "c_SigService (snd (the (generatorBlock e c))) = c_SigService c"
  using GetBatch_total [OF assms] by (auto simp: generatorBlock_def)

lemma handleProposal_total: "prop_ok cm p \<Longrightarrow> handleProposal w p c \<noteq> None"
  by (auto simp: handleProposal_def StoreBlock_def prop_ok_def go_simps bind_eq_None_conv Let_def split_beta
      vaba_Commit_total simp del: not_None_eq split: option.splits sum.splits)

lemma invokeElect_total: "env_ok w cm (c_SigService c) \<Longrightarrow> invokeElect w e c \<noteq> None"
  using vaba_New_total(6) [of w cm "c_SigService c"]
  by (simp add: invokeElect_def Let_def bind_eq_None_conv split_beta del: not_None_eq)

lemma skip_total:
  assumes "vlive w cm c"
  shows "handleDone w d c \<noteq> None" "handleSkipShare w s c \<noteq> None" "handleSkip w k c \<noteq> None"
  using vaba_New_total(4,5) [OF vlive_parts(1) [OF assms]] vlive_parts(1) [OF assms]
  by (simp_all add: handleDone_def handleSkipShare_def handleSkip_def Let_def bind_eq_None_conv split_beta
      invokeElect_total [where cm = cm] del: not_None_eq)

lemma invokeViewChange_total: "env_ok w cm (c_SigService c) \<Longrightarrow> invokeViewChange w e l c \<noteq> None"
  using vaba_New_total(7) [of w cm "c_SigService c"]
  by (simp add: invokeViewChange_def Let_def bind_eq_None_conv split_beta del: not_None_eq)

lemma vaba_handleElectShare_total:
  assumes "vlive w cm c"
  shows "handleElectShare w s c \<noteq> None"
  using vaba_AddShareVote_total [OF vlive_parts(1,5) [OF assms]] vlive_parts(1) [OF assms]
  by (simp add: handleElectShare_def Let_def bind_eq_None_conv split_beta invokeViewChange_total [where cm = cm]
      del: not_None_eq)

lemma vaba_advance_total:
  assumes "env_ok w cm (c_SigService c)" "pool_wf (c_TxPool c)"
  shows "advanceNextEpoch w e d c \<noteq> None"
proof -
  let ?c = "c\<lparr>c_Epoch := e\<rparr>"
  obtain block err where r: "(case d of None \<Rightarrow> ((None, None), ?c) | Some d \<Rightarrow> GetBlock w d ?c) = ((block, err), ?c)"
    by (cases d) (auto simp: prod_eq_iff)
  show ?thesis
    using vaba_New_total(1) [OF assms(1)] vaba_generatorBlock_total [of ?c e] assms(2)
    unfolding advanceNextEpoch_def Let_def r
    by (simp add: bind_eq_None_conv split_beta split: option.split del: not_None_eq)
qed

lemma commitBlock_total: "commitBlock w e d c \<noteq> None"
  by (auto simp: commitBlock_def Let_def bind_eq_None_conv vaba_Commit_total split: prod.split option.split
      simp del: not_None_eq)

lemma halt_phase_total:
  assumes "vlive w cm c" "commitBlock w e d c = Some c1" "NewHalt w nm l d' e' (c_SigService c1) = Some h"
  shows "advanceNextEpoch w k None (c_send nm' to (HaltMsg h) (c1\<lparr>c_commitFlag := f\<rparr>)) \<noteq> None"
proof -
  have "vaba_upds w None c c1" using commitBlock_upds [OF assms(2), where m = None and ?c0.0 = c] by simp
  then have "vlive w cm c1" by (rule vlive_upds) (use assms(1) in simp_all)
  then show ?thesis by (intro vaba_advance_total) (use vlive_parts in auto)
qed

lemma vaba_handleHalt_total:
  assumes "vlive w cm c"
  shows "handleHalt w h c \<noteq> None"
proof -
  obtain c1 where c1: "commitBlock w (ha_Epoch h) (ha_BlockHash h) c = Some c1"
    using commitBlock_total by blast
  have "c_SigService c1 = c_SigService c"
    using commitBlock_upds [OF c1, where m = None and ?c0.0 = c] by simp
  then obtain temp where "NewHalt w (c_Name c1) (ha_Leader h) (ha_BlockHash h) (ha_Epoch h) (c_SigService c1) = Some temp"
    using vaba_New_total(8) [OF vlive_parts(1) [OF assms]] by fastforce
  then show ?thesis
    using halt_phase_total [OF assms c1] c1
    by (simp add: handleHalt_def Let_def bind_eq_None_conv split_beta del: not_None_eq)
qed

lemma commit_part_total:
  assumes "vlive w cm c" "vc_IsCommit v \<longrightarrow> vc_BlockHash v \<noteq> None"
  shows "commit_part w v c \<noteq> None"
proof (cases "vc_IsCommit v")
  case True
  then obtain d where d: "vc_BlockHash v = Some d" using assms(2) by auto
  obtain c1 where c1: "commitBlock w (vc_Epoch v) d c = Some c1" using commitBlock_total by blast
  have "c_SigService c1 = c_SigService c"
    using commitBlock_upds [OF c1, where m = None and ?c0.0 = c] by simp
  then obtain halt where "NewHalt w (c_Name c1) (vc_Leader v) d (vc_Epoch v) (c_SigService c1) = Some halt"
    using vaba_New_total(8) [OF vlive_parts(1) [OF assms(1)]] by fastforce
  then show ?thesis
    using True d c1 halt_phase_total [OF assms(1) c1]
    by (simp add: commit_part_def go_simps Let_def bind_eq_None_conv split_beta del: not_None_eq)
qed (simp add: commit_part_def)

lemma count_part_total: "vlive w cm c \<Longrightarrow> count_part w v c \<noteq> None"
  using vlive_parts [of w cm c]
  by (simp add: count_part_def Let_def bind_eq_None_conv split_beta vaba_Commit_total
      vaba_advance_total [where cm = cm] del: not_None_eq)

lemma handleViewChange_total:
  assumes "vlive w cm c" "vc_IsCommit v \<longrightarrow> vc_BlockHash v \<noteq> None"
  shows "handleViewChange w v c \<noteq> None"
proof (cases "messageFilter (vc_Epoch v) c \<or> vc_Epoch v |\<in>| c_commitFlag c")
  case True
  then show ?thesis by (auto simp: handleViewChange_def)
next
  case False
  let ?c = "c\<lparr>c_viewChangeCnts := (c_viewChangeCnts c)(vc_Epoch v \<mapsto> cnts_of c (vc_Epoch v) + 1)\<rparr>"
  have u0: "vaba_upds w None c ?c" by (rule vaba_upds_intros(17)) simp
  have "vlive w cm ?c" by (rule vlive_upds [OF u0 assms(1)]) simp
  then obtain c1 where c1: "commit_part w v ?c = Some c1"
    using commit_part_total [of w cm ?c v] assms(2) by blast
  have "vaba_upds w None c c1" by (rule commit_part_upds [OF c1 u0]) (use False in simp)
  then have "vaba_upds w None c (if vc_IsLock v \<and> c_Lock c1 \<le> vc_Epoch v then c1\<lparr>c_Lock := vc_Epoch v\<rparr> else c1)"
    by (rule lock_upds)
  then have "vlive w cm (if vc_IsLock v \<and> c_Lock c1 \<le> vc_Epoch v then c1\<lparr>c_Lock := vc_Epoch v\<rparr> else c1)"
    by (rule vlive_upds) (use assms(1) in simp_all)
  then have "count_part w v (if vc_IsLock v \<and> c_Lock c1 \<le> vc_Epoch v then c1\<lparr>c_Lock := vc_Epoch v\<rparr> else c1) \<noteq> None"
    by (rule count_part_total)
  then show ?thesis
    using False c1 by (auto simp: handleViewChange_def Let_def bind_eq_None_conv simp del: not_None_eq)
qed

lemma vaba_handle_total:
  assumes "vlive w cm c" "msg_ok cm m"
  shows "handle w m c \<noteq> None"
proof (cases m)
  case (ProposalMsg p)
  then show ?thesis using assms(2) handleProposal_total [of cm p w c] by simp
next
  case (VoteMsg v)
  then show ?thesis using assms(2) by (auto simp: handleVote_def go_simps split: option.splits)
next
  case (ElectShareMsg e)
  then show ?thesis using assms(2) vaba_handleElectShare_total [OF assms(1)] by (auto simp: go_simps)
next
  case (ViewChangeMsg v)
  then show ?thesis using assms(2) handleViewChange_total [OF assms(1), of v] by simp
qed (simp_all add: skip_total [OF assms(1)] vaba_handleHalt_total [OF assms(1)] del: not_None_eq)

lemma vaba_Verify_total: "env_ok w cm sig \<Longrightarrow> msg_ok cm m \<Longrightarrow> Verify w cm m \<noteq> None"
  by (cases m) (auto simp: vaba_verify_defs go_simps prop_ok_def Signature_Verify_total split: option.splits simp del: not_None_eq)

lemma vlive_no_panic:
  assumes "vlive w cm c"
  shows "\<not> panics w c"
proof -
  have "Run_turn w c \<noteq> None"
  proof (cases "tr_recvCh (c_Transimtor c)")
    case Nil
    then show ?thesis by (simp add: Run_turn_def Transmitor_Recv_def)
  next
    case (Cons m ms)
    let ?c = "c\<lparr>c_Transimtor := (c_Transimtor c)\<lparr>tr_recvCh := ms\<rparr>\<rparr>"
    have ok: "msg_ok cm m" and live: "vlive w cm ?c" using vsf.vrecv [OF assms Cons] by simp_all
    show ?thesis
      using vaba_Verify_total [OF vlive_parts(1) [OF assms] ok] vaba_handle_total [OF live ok] vlive_parts(3) [OF assms]
      by (simp add: Run_turn_def Transmitor_Recv_def Cons dispatch_def bind_eq_None_conv del: not_None_eq)
  qed
  moreover have "task_step w i c \<noteq> None" if i: "i < length (c_tasks c)" for i
  proof -
    obtain e n pc where key: "c_tasks c ! i = ((e, n), pc)" by (metis prod.exhaust)
    then have "((e, n), pc) \<in> set (c_tasks c)" using i by (metis nth_mem)
    then obtain p where p: "get2 (c_PBInstances c) e n = Some p" "pc_ok cm p pc"
      using vlive_pc [OF assms] by blast
    then show ?thesis
      using promote_step_total [OF vlive_parts(1) [OF assms], of p pc] key by (auto simp: task_step_def Let_def)
  qed
  ultimately show ?thesis by (auto simp: panics_def simp del: not_None_eq)
qed

end
