(* ===== verification/Vaba_Samples.thy ===== *)
theory Vaba_Samples
  imports Vaba_Safety Samples
begin

text \<open>
  A concrete VABA node and a short run of it, on which the properties of the protocol are applied.
\<close>

section \<open>A concrete node\<close>

definition vtoy_block :: Block where
  "vtoy_block = \<lparr>b_Proposer = 0, b_Batch = \<lparr>bt_ID = 0, bt_Txs = Some [[]]\<rparr>, b_Epoch = 0\<rparr>"

definition vtoy_env :: vaba_env where
  "vtoy_env = crypto.extend toy_crypto
     \<lparr>env_gob = \<lparr>gob_Encode = (\<lambda>b. Inr []), gob_Decode = (\<lambda>bs. Inr vtoy_block)\<rparr>\<rparr>"

definition vtoy_core :: "(bytes \<rightharpoonup> bytes) Core" where
  "vtoy_core = NewCore 0 four DefaultParameters toy_sig toy_store toy_pool (NewTransmitor DefaultParameters four)"

lemma vtoy_env_simps [simp]:
  "sha256_Sum256 vtoy_env = sha256_Sum256 toy_crypto" "ed25519_Sign vtoy_env = ed25519_Sign toy_crypto"
  "ed25519_Verify vtoy_env = ed25519_Verify toy_crypto" "tbls_Sign vtoy_env = tbls_Sign toy_crypto"
  "tbls_Recover vtoy_env = tbls_Recover toy_crypto"
  "env_gob vtoy_env = \<lparr>gob_Encode = (\<lambda>b. Inr []), gob_Decode = (\<lambda>bs. Inr vtoy_block)\<rparr>"
  by (simp_all add: vtoy_env_def crypto.defs toy_crypto_def)

lemma vtoy_env_ok: "env_ok vtoy_env four toy_sig"
  using four_keys
  by (simp add: env_ok_def four_def [THEN arg_cong [where f = Authorities]] toy_sig_def PrivateKeySize_def RANDOM_LEN_def toy_crypto_def)

datatype vact = Deliver vaba_msg | Turn | Task nat

fun vplay :: "'a vaba_env_scheme \<Rightarrow> vact list \<Rightarrow> 'db Core \<Rightarrow> 'db Core option" where
  "vplay w [] c = Some c"
| "vplay w (Deliver m # as) c = vplay w as (c_push m c)"
| "vplay w (Turn # as) c = do { (err, c) \<leftarrow> Run_turn w c; vplay w as c }"
| "vplay w (Task i # as) c =
     (if i < length (c_tasks c) then do { c \<leftarrow> task_step w i c; vplay w as c } else None)"

lemma vplay_reach:
  assumes "vplay w as c = Some c'" "vaba_reach w net c0 c" "\<forall>m. Deliver m \<in> set as \<longrightarrow> net m"
  shows "vaba_reach w net c0 c'"
  using assms
proof (induction as arbitrary: c)
  case Nil
  then show ?case by simp
next
  case (Cons a as)
  obtain c1 where c1: "vaba_step w net c c1" "vplay w as c1 = Some c'"
    using Cons.prems by (cases a) (auto simp: bind_eq_Some_conv split: if_splits intro: vaba_step.intros)
  show ?case
    by (rule Cons.IH [OF c1(2) vaba_reach.step [OF Cons.prems(2) c1(1)]]) (use Cons.prems(3) in simp)
qed

text \<open>
  The node handles its own proposal, votes for it and counts its vote, then gets a view change of
  node 1 that says its block is committed.
\<close>

definition vtoy_view :: ViewChange where
  "vtoy_view = the (NewViewChange vtoy_env 1 0 0 (Some (Block_Hash vtoy_env vtoy_block)) True True True toy_sig)"

definition vtoy_script :: "vact list" where
  "vtoy_script = [Turn, Task 0, Task 0, Task 0, Turn, Task 0, Task 0, Task 0, Deliver (ViewChangeMsg vtoy_view), Turn]"

definition vtoy_start :: "(bytes \<rightharpoonup> bytes) Core" where
  "vtoy_start = the (Run_start vtoy_env vtoy_core)"

definition vtoy_state :: "(bytes \<rightharpoonup> bytes) Core" where
  "vtoy_state = the (vplay vtoy_env vtoy_script vtoy_start)"

definition vtoy_mid :: "(bytes \<rightharpoonup> bytes) Core" where
  "vtoy_mid = the (vplay vtoy_env [Turn] vtoy_start)"

lemma vtoy_run:
  "case Run_start vtoy_env vtoy_core of None \<Rightarrow> False
   | Some c \<Rightarrow> (case vplay vtoy_env [Turn] c of None \<Rightarrow> False
      | Some c \<Rightarrow> fst (GetBlock vtoy_env (Block_Hash vtoy_env vtoy_block) c) = (Some vtoy_block, None) \<and>
         c_Epoch c = 0 \<and> 0 |\<notin>| c_commitFlag c \<and> cm_Index (c_Commitor c) = 0) \<and>
     (case vplay vtoy_env vtoy_script c of None \<Rightarrow> False
      | Some c \<Rightarrow> cm_commitCh (c_Commitor c) = [vtoy_block] \<and> 0 |\<in>| c_commitFlag c \<and> 0 |\<notin>| c_viewChangeFlag c)"
  by code_simp

lemma vtoy_started: "Run_start vtoy_env vtoy_core = Some vtoy_start"
  using vtoy_run by (auto simp: vtoy_start_def split: option.splits)

lemma vtoy_played: "vplay vtoy_env vtoy_script vtoy_start = Some vtoy_state"
  using vtoy_run by (auto simp: vtoy_started vtoy_state_def split: option.splits)

lemma vtoy_turned: "vplay vtoy_env [Turn] vtoy_start = Some vtoy_mid"
  using vtoy_run by (auto simp: vtoy_started vtoy_mid_def split: option.splits)

lemma vtoy_view_fields [simp]:
  "vc_Author vtoy_view = 1" "vc_Epoch vtoy_view = 0" "vc_IsCommit vtoy_view"
  "vc_BlockHash vtoy_view = Some (Block_Hash vtoy_env vtoy_block)"
  by (simp_all add: vtoy_view_def NewViewChange_def RequestSignature_eq toy_sig_def PrivateKeySize_def Let_def)

lemma vtoy_reach: "vaba_reach vtoy_env (msg_ok four) vtoy_core vtoy_state"
proof (rule vplay_reach [OF vtoy_played vaba_reach.start [OF vtoy_started]])
  show "\<forall>m. Deliver m \<in> set vtoy_script \<longrightarrow> msg_ok four m"
    by (simp add: vtoy_script_def four_members)
qed

lemma vtoy_mid_reach: "vaba_reach vtoy_env (msg_ok four) vtoy_core vtoy_mid"
  by (rule vplay_reach [OF vtoy_turned vaba_reach.start [OF vtoy_started]]) simp

lemmas vtoy_reach_New = vtoy_reach [unfolded vtoy_core_def]

lemmas vtoy_mid_reach_New = vtoy_mid_reach [unfolded vtoy_core_def]

lemma vtoy_facts:
  "cm_commitCh (c_Commitor vtoy_state) = [vtoy_block]" "0 |\<in>| c_commitFlag vtoy_state"
  "0 |\<notin>| c_viewChangeFlag vtoy_state"
  using vtoy_run by (simp_all add: vtoy_started vtoy_played)

lemma vtoy_mid_facts:
  "fst (GetBlock vtoy_env (Block_Hash vtoy_env vtoy_block) vtoy_mid) = (Some vtoy_block, None)"
  "c_Epoch vtoy_mid = 0" "0 |\<notin>| c_commitFlag vtoy_mid" "cm_Index (c_Commitor vtoy_mid) = 0"
  using vtoy_run unfolding vtoy_started option.case vtoy_turned by blast+

end
