(* ===== verification/Vaba_Properties.thy ===== *)
theory Vaba_Properties
  imports Vaba_Samples
begin

text \<open>
  The properties of the VABA protocol: of a running node in any interleaving, of the broadcast
  instance, and of the handlers of view changes.
\<close>

section \<open>A running node\<close>




text \<open>C4: In every reachable state of a VABA node, whatever was delivered to it, the blocks it has handed to the
  application have the epochs 0, 1, 2, ... in this order, with no gap and none twice, although a block
  may be proposed again in a later epoch; nothing it has handed over is ever taken back or changed;
  and the node's own epoch never decreases.\<close>

theorem vaba_commit_order:
  assumes "vaba_reach w net (NewCore name cm par sig st pool tr) c" "(vaba_step w net)\<^sup>*\<^sup>* c c'"
  shows "map b_Epoch (cm_commitCh (c_Commitor c')) =
      map (\<lambda>k. i64 (int k)) [0..<length (cm_commitCh (c_Commitor c'))] \<and>
    prefix (cm_commitCh (c_Commitor c)) (cm_commitCh (c_Commitor c')) \<and> c_Epoch c \<le> c_Epoch c'"
proof -
  have "vaba_commit_inv (NewCore name cm par sig st pool tr)"
    by (simp add: vaba_commit_inv_def NewCore_def in_order_def)
  then have "vaba_commit_inv c'" by (rule vcm.vaba_steps_keep [OF assms(2) vcm.vaba_reach_keep [OF assms(1)]])
  moreover have "vaba_epoch_inv (c_Epoch c) c'"
    by (rule vep.vaba_steps_keep [OF assms(2)]) (simp add: vaba_epoch_inv_def)
  moreover have "vaba_log_inv (cm_commitCh (c_Commitor c)) c'"
    by (rule vlg.vaba_steps_keep [OF assms(2)]) (simp add: vaba_log_inv_def)
  ultimately show ?thesis by (simp add: vaba_commit_inv_def in_order_def cm_view_def vaba_epoch_inv_def vaba_log_inv_def)
qed

theorem vaba_commit_order_witness:
  "vaba_reach vtoy_env (msg_ok four) vtoy_core vtoy_state \<and> map b_Epoch (cm_commitCh (c_Commitor vtoy_state)) = [0]"
  using vaba_commit_order [OF vtoy_reach_New rtranclp.rtrancl_refl] vtoy_reach vtoy_facts by simp

text \<open>C20: In every reachable state a VABA node has sent, for each epoch, at most one share of the coin and only with
  its elect flag set, exactly one view change if its view-change flag is set and none otherwise, and at
  most one halt and only with its commit flag set.\<close>

theorem vaba_messages_once:
  assumes "vaba_reach w net (NewCore name cm par sig st pool (NewTransmitor par' cm')) c"
  shows "sent (is_share e) (c_Transimtor c) \<le> (if e |\<in>| c_electFlag c then 1 else 0) \<and>
    sent (is_view e) (c_Transimtor c) = (if e |\<in>| c_viewChangeFlag c then 1 else 0) \<and>
    sent (is_halt e) (c_Transimtor c) \<le> (if e |\<in>| c_commitFlag c then 1 else 0)"
proof -
  have "once_inv (NewCore name cm par sig st pool (NewTransmitor par' cm'))"
    by (simp add: once_inv_def NewCore_def NewTransmitor_def sent_def)
  then have "once_inv c" by (rule von.vaba_reach_keep [OF assms])
  then show ?thesis by (simp add: once_inv_def)
qed

theorem vaba_messages_once_witness:
  "sent (is_view 0) (c_Transimtor vtoy_state) = 0 \<and> sent (is_halt 0) (c_Transimtor vtoy_state) \<le> 1"
  using vaba_messages_once [OF vtoy_reach_New, of 0] vtoy_facts by simp

section \<open>The broadcast instance\<close>


text \<open>The votes of the first phase that a node has sent to others or queued for itself.\<close>

definition first_votes :: "'c vaba_ctx_scheme \<Rightarrow> Digest set" where
  "first_votes c = {vo_BlockHash v | v. VoteMsg (Some v) \<in> set (map nm_Msg (tr_msgCh (c_Transimtor c)) @ tr_recvCh (c_Transimtor c)) \<and>
     vo_Phase v = PHASE_ONE_FALG}"

lemma first_votes_send:
  assumes "vo_Phase v = PHASE_ONE_FALG"
  shows "first_votes (send_vote (Some v) p c) = insert (vo_BlockHash v) (first_votes c)"
  using assms by (auto simp: first_votes_def send_vote_def c_send_def c_push_def Transmitor_Send_def Let_def)

lemma first_vote_call:
  assumes "length (Prikey (ss_PriKey (c_SigService c))) = PrivateKeySize"
    and "pr_Phase pr = PHASE_ONE_FALG" "pr_B pr = Some b" "pr_Author pr = p_Proposer p"
  obtains sp c' where "processProposal w pr p c = Some (sp, p\<lparr>p_blockHash := Some (Block_Hash w b)\<rparr>, c')"
    "first_votes c' = insert (Block_Hash w b) (first_votes c)" "c_SigService c' = c_SigService c"
proof -
  obtain v where v: "NewVote w (c_Name c) (p_Proposer p) (Block_Hash w b) (p_Epoch p) PHASE_ONE_FALG (c_SigService c) = Some v"
    using assms(1) by (auto simp: NewVote_def RequestSignature_eq Let_def)
  have "vo_Phase v = PHASE_ONE_FALG" "vo_BlockHash v = Block_Hash w b"
    using v by (auto simp: NewVote_def bind_eq_Some_conv)
  then show thesis
    using that v assms(2-4) first_votes_send [of v "p\<lparr>p_blockHash := Some (Block_Hash w b)\<rparr>" c]
    by (simp add: processProposal_def go_simps Let_def send_vote_def c_send_def c_push_def)
qed

text \<open>A promote instance has no guard against a second proposal. When a proposer sends two blocks for one epoch,
  even one after the other, the node votes in the first phase for both, and the hash of the second
  replaces that of the first.\<close>

theorem promote_votes_twice:
  assumes "length (Prikey (ss_PriKey (c_SigService c))) = PrivateKeySize"
    and "pr_Phase pr1 = PHASE_ONE_FALG" "pr_B pr1 = Some b1" "pr_Author pr1 = p_Proposer p"
    and "pr_Phase pr2 = PHASE_ONE_FALG" "pr_B pr2 = Some b2" "pr_Author pr2 = p_Proposer p"
  shows "\<exists>sp1 p1 c1 sp2 p2 c2. processProposal w pr1 p c = Some (sp1, p1, c1) \<and>
    processProposal w pr2 p1 c1 = Some (sp2, p2, c2) \<and>
    {Block_Hash w b1, Block_Hash w b2} \<subseteq> first_votes c2 \<and> p_blockHash p2 = Some (Block_Hash w b2)"
proof -
  let ?p1 = "p\<lparr>p_blockHash := Some (Block_Hash w b1)\<rparr>"
  obtain sp1 c1 where 1: "processProposal w pr1 p c = Some (sp1, ?p1, c1)"
      "first_votes c1 = insert (Block_Hash w b1) (first_votes c)" "c_SigService c1 = c_SigService c"
    using assms(1-4) by (rule first_vote_call)
  obtain sp2 c2 where 2: "processProposal w pr2 ?p1 c1 = Some (sp2, ?p1\<lparr>p_blockHash := Some (Block_Hash w b2)\<rparr>, c2)"
      "first_votes c2 = insert (Block_Hash w b2) (first_votes c1)"
    by (rule first_vote_call [of c1 pr2 b2 ?p1 w]) (use assms 1 in simp_all)
  show ?thesis using 1 2 by auto
qed

definition vtoy_prop :: "int \<Rightarrow> Proposal" where
  "vtoy_prop i = \<lparr>pr_Author = 0, pr_Epoch = 0, pr_Phase = PHASE_ONE_FALG,
     pr_B = Some (vtoy_block\<lparr>b_Batch := \<lparr>bt_ID = i, bt_Txs = None\<rparr>\<rparr>), pr_Signature = zero_Signature\<rparr>"

theorem promote_votes_twice_witness:
  "\<exists>sp1 p1 c1 sp2 p2 c2. processProposal vtoy_env (vtoy_prop 1) (NewPromote 0 0) vtoy_core = Some (sp1, p1, c1) \<and>
    processProposal vtoy_env (vtoy_prop 2) p1 c1 = Some (sp2, p2, c2) \<and> (\<exists>d d'. d \<noteq> d' \<and> {d, d'} \<subseteq> first_votes c2)"
proof -
  let ?b = "\<lambda>i. vtoy_block\<lparr>b_Batch := \<lparr>bt_ID = i, bt_Txs = None\<rparr>\<rparr>"
  have ne: "Block_Hash vtoy_env (?b 1) \<noteq> Block_Hash vtoy_env (?b 2)" by code_simp
  have "\<exists>sp1 p1 c1 sp2 p2 c2. processProposal vtoy_env (vtoy_prop 1) (NewPromote 0 0) vtoy_core = Some (sp1, p1, c1) \<and>
    processProposal vtoy_env (vtoy_prop 2) p1 c1 = Some (sp2, p2, c2) \<and>
    {Block_Hash vtoy_env (?b 1), Block_Hash vtoy_env (?b 2)} \<subseteq> first_votes c2 \<and> p_blockHash p2 = Some (Block_Hash vtoy_env (?b 2))"
    by (rule promote_votes_twice)
       (simp_all add: vtoy_core_def NewCore_def toy_sig_def PrivateKeySize_def vtoy_prop_def NewPromote_def)
  then obtain sp1 p1 c1 sp2 p2 c2 where r: "processProposal vtoy_env (vtoy_prop 1) (NewPromote 0 0) vtoy_core = Some (sp1, p1, c1)"
    "processProposal vtoy_env (vtoy_prop 2) p1 c1 = Some (sp2, p2, c2)"
    "{Block_Hash vtoy_env (?b 1), Block_Hash vtoy_env (?b 2)} \<subseteq> first_votes c2"
    by (elim exE conjE)
  show ?thesis by (intro exI conjI) (rule r(1), rule r(2), rule ne, rule r(3))
qed

text \<open>A sequence of votes that an instance handles one after the other.\<close>

fun vote_calls ::
  "'a crypto_scheme \<Rightarrow> Vote list \<Rightarrow> Promote \<Rightarrow> 'c vaba_ctx_scheme \<Rightarrow> (Promote \<times> 'c vaba_ctx_scheme) option" where
  "vote_calls w [] p c = Some (p, c)"
| "vote_calls w (v # vs) p c = do { (p, c) \<leftarrow> processVote w v p c; vote_calls w vs p c }"

lemma vote_calls_append: "vote_calls w (vs @ vs') p c = do { (p, c) \<leftarrow> vote_calls w vs p c; vote_calls w vs' p c }"
  by (induction vs arbitrary: p c) (auto split: bind_splits)

lemma vote_calls_below:
  assumes "p_blockHash p = Some (vo_BlockHash v)" "votes_of p (vo_Phase v) + int n < HightThreshold (c_Committee c)"
  shows "\<exists>p'. vote_calls w (replicate n v) p c = Some (p', c) \<and> votes_of p' (vo_Phase v) = votes_of p (vo_Phase v) + int n \<and>
    p_blockHash p' = p_blockHash p \<and> p_Epoch p' = p_Epoch p \<and> p_Proposer p' = p_Proposer p"
  using assms
proof (induction n arbitrary: p)
  case (Suc n)
  let ?p = "p\<lparr>p_voteCnts := (p_voteCnts p)(vo_Phase v \<mapsto> votes_of p (vo_Phase v) + 1)\<rparr>"
  have v: "votes_of ?p (vo_Phase v) = votes_of p (vo_Phase v) + 1" by (simp add: votes_of_def)
  have "processVote w v p c = Some (?p, c)"
    using Suc.prems v by (simp add: processVote_def Let_def)
  then show ?case using Suc.IH [of ?p] Suc.prems v by (simp add: add.assoc)
qed simp

text \<open>C38: A promote instance counts votes and not voters, and it accepts votes of every phase. So one node that sends
  \<open>2 f + 1\<close> times a vote with the phase before the first one makes the proposer broadcast a proposal of the
  first phase that has no block; and every node that gets this proposal while it is valid and not
  of a past epoch panics.\<close>

theorem negative_phase_panics:
  assumes "length (Prikey (ss_PriKey (c_SigService c))) = PrivateKeySize" "p_blockHash p = Some (vo_BlockHash v)"
    and "vo_Phase v = -1" "votes_of p (-1) = 0" "0 < HightThreshold (c_Committee c)"
  shows "\<exists>p' c' pr. vote_calls w (replicate (nat (HightThreshold (c_Committee c))) v) p c = Some (p', c') \<and>
    map nm_Msg (tr_msgCh (c_Transimtor c')) = map nm_Msg (tr_msgCh (c_Transimtor c)) @ [ProposalMsg pr] \<and>
    pr_Epoch pr = p_Epoch p \<and> pr_B pr = None \<and>
    (\<forall>c2. c_Epoch c2 \<le> p_Epoch p \<longrightarrow> handle w (ProposalMsg pr) c2 = None)"
proof -
  let ?th = "HightThreshold (c_Committee c)"
  obtain p1 where p1: "vote_calls w (replicate (nat ?th - 1) v) p c = Some (p1, c)" "votes_of p1 (-1) = ?th - 1"
      "p_blockHash p1 = Some (vo_BlockHash v)" "p_Epoch p1 = p_Epoch p" "p_Proposer p1 = p_Proposer p"
    using vote_calls_below [of p v "nat ?th - 1" c w] assms by auto
  obtain pr where pr: "NewProposal w (p_Proposer p) (p_Epoch p) 0 None (c_SigService c) = Some pr"
    using assms(1) by (auto simp: NewProposal_def RequestSignature_eq Let_def)
  have f: "pr_Epoch pr = p_Epoch p" "pr_B pr = None" "pr_Phase pr = PHASE_ONE_FALG"
    using pr by (auto simp: NewProposal_def bind_eq_Some_conv phase_defs)
  let ?p2 = "p1\<lparr>p_voteCnts := (p_voteCnts p1)(-1 \<mapsto> ?th)\<rparr>"
  have "processVote w v p1 c =
      Some (?p2, c_push (ProposalMsg pr) (c_send (p_Proposer p) NONE (ProposalMsg pr) c))"
    using p1 assms(3) pr by (simp add: processVote_def Let_def votes_of_def phase_defs)
  moreover have "replicate (nat ?th) v = replicate (nat ?th - 1) v @ [v]"
    using assms(5) by (metis Suc_diff_1 replicate_Suc replicate_append_same zero_less_nat_eq)
  ultimately have calls: "vote_calls w (replicate (nat ?th) v) p c =
      Some (?p2, c_push (ProposalMsg pr) (c_send (p_Proposer p) NONE (ProposalMsg pr) c))"
    using p1(1) by (simp add: vote_calls_append)
  have "handle w (ProposalMsg pr) c2 = None" if "c_Epoch c2 \<le> p_Epoch p" for c2
    using that f by (simp add: handleProposal_def messageFilter_def StoreBlock_def Commit_def go_simps)
  then show ?thesis using calls f by (auto simp: c_send_def c_push_def Transmitor_Send_def)
qed

definition vtoy_vote :: Vote where
  "vtoy_vote = \<lparr>vo_Author = 1, vo_Proposer = 0, vo_BlockHash = Block_Hash vtoy_env vtoy_block, vo_Epoch = 0, vo_Phase = -1,
     vo_Signature = zero_Signature\<rparr>"

theorem negative_phase_panics_witness:
  "\<exists>p' c' pr. vote_calls vtoy_env (replicate 3 vtoy_vote)
      ((NewPromote 0 0)\<lparr>p_blockHash := Some (Block_Hash vtoy_env vtoy_block)\<rparr>) vtoy_core = Some (p', c') \<and>
    pr_B pr = None \<and> handle vtoy_env (ProposalMsg pr) vtoy_core = None"
proof -
  let ?p = "(NewPromote 0 0)\<lparr>p_blockHash := Some (Block_Hash vtoy_env vtoy_block)\<rparr>"
  have core: "c_Epoch vtoy_core = 0" "HightThreshold (c_Committee vtoy_core) = 3" by code_simp+
  have "\<exists>p' c' pr. vote_calls vtoy_env (replicate (nat (HightThreshold (c_Committee vtoy_core))) vtoy_vote) ?p vtoy_core = Some (p', c') \<and>
    map nm_Msg (tr_msgCh (c_Transimtor c')) = map nm_Msg (tr_msgCh (c_Transimtor vtoy_core)) @ [ProposalMsg pr] \<and>
    pr_Epoch pr = p_Epoch ?p \<and> pr_B pr = None \<and>
    (\<forall>c2 :: (bytes \<rightharpoonup> bytes) Core. c_Epoch c2 \<le> p_Epoch ?p \<longrightarrow> handle vtoy_env (ProposalMsg pr) c2 = None)"
    by (rule negative_phase_panics)
       (simp_all add: vtoy_core_def NewCore_def toy_sig_def PrivateKeySize_def vtoy_vote_def votes_of_def NewPromote_def
         core(2) [unfolded vtoy_core_def NewCore_def, simplified])
  then show ?thesis unfolding core(2) using core(1) by (fastforce simp: NewPromote_def)
qed

section \<open>View changes\<close>







end
