(* ===== verification/Mvba_Message.thy ===== *)
theory Mvba_Message
  imports Protocol_Base
begin

text \<open>
  \<^verbatim>\<open>core/mvba/consensus/message.go\<close>: the block and the ten messages of the MVBA protocol. The flags and
  tags are of type \<^verbatim>\<open>uint8\<close>. A share can be a nil pointer, since the sources send one when signing
  failed.

  The field \<^verbatim>\<open>C\<close> of a commitment is a slice. A node's own commitment shares its array with the node's
  table \<^verbatim>\<open>cbcFinalIndexs\<close>, which goes on changing; \<open>Alias e\<close> is a slice over the array of epoch \<open>e\<close> in
  that table, and \<open>Bits\<close> a slice with an array of its own, as every decoded message has.
\<close>

section \<open>Blocks\<close>

record Block =
  b_Proposer :: NodeID
  b_Batch :: Batch
  b_Epoch :: int

definition NewBlock :: "NodeID \<Rightarrow> Batch \<Rightarrow> int \<Rightarrow> Block" where
  "NewBlock proposer batch epoch = \<lparr>b_Proposer = proposer, b_Batch = batch, b_Epoch = epoch\<rparr>"

text \<open>
  What the protocol uses of libraries: the cryptography, gob for blocks, and \<^verbatim>\<open>math/rand\<close>.
  \<open>env_draw seed i\<close> is the number that \<^verbatim>\<open>Shuffle\<close> draws for position \<open>i\<close> from a generator
  with that seed.
\<close>

record mvba_env = crypto +
  env_gob :: "Block gob"
  env_draw :: "int \<Rightarrow> nat \<Rightarrow> nat"

definition Block_Encode :: "'a mvba_env_scheme \<Rightarrow> Block \<Rightarrow> error + bytes" where
  "Block_Encode w b = (case gob_Encode (env_gob w) b of Inl err \<Rightarrow> Inl err | Inr buf \<Rightarrow> Inr buf)"

definition Block_Decode :: "'a mvba_env_scheme \<Rightarrow> bytes \<Rightarrow> error + Block" where
  "Block_Decode w data = (case gob_Decode (env_gob w) data of Inl err \<Rightarrow> Inl err | Inr b \<Rightarrow> Inr b)"

definition Block_Hash :: "'a crypto_scheme \<Rightarrow> Block \<Rightarrow> Digest" where
  "Block_Hash w b =
     (let hasher = NewHasher;
          hasher = Hasher_Add hasher (AppendInt2 [] (b_Proposer b));
          hasher = Hasher_Add hasher (AppendInt2 [] (b_Epoch b));
          hasher = Hasher_Add hasher (AppendInt2 [] (bt_ID (b_Batch b)))
      in fst (Hasher_Sum256 w hasher []))"

section \<open>Flags, tags and slices\<close>

definition FLAG_YES :: byte where "FLAG_YES = 0"
definition FLAG_NO :: byte where "FLAG_NO = 1"
definition DATA_CBC :: byte where "DATA_CBC = 0"
definition COMMIT_CBC :: byte where "COMMIT_CBC = 1"

lemmas flag_defs = FLAG_YES_def FLAG_NO_def DATA_CBC_def COMMIT_CBC_def

lemma flags_distinct [simp]:
  "FLAG_YES \<noteq> FLAG_NO" "FLAG_NO \<noteq> FLAG_YES" "DATA_CBC \<noteq> COMMIT_CBC" "COMMIT_CBC \<noteq> DATA_CBC"
  by (simp_all add: flag_defs)

datatype slice = Alias int | Bits "bool list"

section \<open>Proposal\<close>

record Proposal =
  pr_Author :: NodeID
  pr_B :: "Block option"
  pr_Epoch :: int
  pr_Signature :: Signature

text \<open>The hash of a proposal dereferences its block.\<close>

definition Proposal_Hash :: "'a crypto_scheme \<Rightarrow> Proposal \<Rightarrow> Digest option" where
  "Proposal_Hash w p =
     (let hasher = NewHasher;
          hasher = Hasher_Add hasher (LittleEndian_AppendUint64 [] (pr_Author p));
          hasher = Hasher_Add hasher (LittleEndian_AppendUint64 [] (pr_Epoch p))
      in do {
        b \<leftarrow> nonnil (pr_B p);
        let d = Block_Hash w b;
        let hasher = Hasher_Add hasher d;
        Some (fst (Hasher_Sum256 w hasher [])) })"

definition NewProposal ::
  "'a crypto_scheme \<Rightarrow> NodeID \<Rightarrow> Block option \<Rightarrow> int \<Rightarrow> SigService \<Rightarrow> Proposal option" where
  "NewProposal w author b epoch sigService =
     (let p = \<lparr>pr_Author = author, pr_B = b, pr_Epoch = epoch, pr_Signature = zero_Signature\<rparr>
      in do { d \<leftarrow> Proposal_Hash w p;
              sig \<leftarrow> RequestSignature w sigService d;
              Some (p\<lparr>pr_Signature := sig\<rparr>) })"

definition Proposal_Verify :: "'a crypto_scheme \<Rightarrow> Committee \<Rightarrow> Proposal \<Rightarrow> bool option" where
  "Proposal_Verify w committee p =
     (let pub = Committee_Name committee (pr_Author p)
      in do { d \<leftarrow> Proposal_Hash w p; Signature_Verify w (pr_Signature p) pub d })"

section \<open>Commitment\<close>

record Commitment =
  co_Author :: NodeID
  co_C :: "slice option"
  co_Epoch :: int
  co_Signature :: Signature

definition Commitment_Hash :: "'a crypto_scheme \<Rightarrow> Commitment \<Rightarrow> Digest" where
  "Commitment_Hash w c =
     (let hasher = NewHasher;
          hasher = Hasher_Add hasher (LittleEndian_AppendUint64 [] (co_Author c));
          hasher = Hasher_Add hasher (LittleEndian_AppendUint64 [] (co_Epoch c))
      in fst (Hasher_Sum256 w hasher []))"

definition NewCommitment ::
  "'a crypto_scheme \<Rightarrow> NodeID \<Rightarrow> slice option \<Rightarrow> int \<Rightarrow> SigService \<Rightarrow> Commitment option" where
  "NewCommitment w author bits epoch sigService =
     (let c = \<lparr>co_Author = author, co_C = bits, co_Epoch = epoch,
          co_Signature = zero_Signature\<rparr>
      in do { sig \<leftarrow> RequestSignature w sigService (Commitment_Hash w c);
              Some (c\<lparr>co_Signature := sig\<rparr>) })"

definition Commitment_Verify :: "'a crypto_scheme \<Rightarrow> Committee \<Rightarrow> Commitment \<Rightarrow> bool option" where
  "Commitment_Verify w committee c =
     (let pub = Committee_Name committee (co_Author c)
      in Signature_Verify w (co_Signature c) pub (Commitment_Hash w c))"

section \<open>Ready\<close>

record Ready =
  re_Author :: NodeID
  re_Proposer :: NodeID
  re_Epoch :: int
  re_Tag :: byte
  re_Signature :: Signature

definition Ready_Hash :: "'a crypto_scheme \<Rightarrow> Ready \<Rightarrow> Digest" where
  "Ready_Hash w r =
     (let hasher = NewHasher;
          hasher = Hasher_Add hasher (LittleEndian_AppendUint64 [] (re_Author r));
          hasher = Hasher_Add hasher (LittleEndian_AppendUint64 [] (re_Proposer r));
          hasher = Hasher_Add hasher (LittleEndian_AppendUint64 [] (re_Epoch r));
          hasher = Hasher_Add hasher [re_Tag r]
      in fst (Hasher_Sum256 w hasher []))"

definition NewReady ::
  "'a crypto_scheme \<Rightarrow> NodeID \<Rightarrow> NodeID \<Rightarrow> int \<Rightarrow> byte \<Rightarrow> SigService \<Rightarrow> Ready option" where
  "NewReady w author proposer epoch tag sigService =
     (let r = \<lparr>re_Author = author, re_Proposer = proposer, re_Epoch = epoch, re_Tag = tag,
          re_Signature = zero_Signature\<rparr>
      in do { sig \<leftarrow> RequestSignature w sigService (Ready_Hash w r);
              Some (r\<lparr>re_Signature := sig\<rparr>) })"

definition Ready_Verify :: "'a crypto_scheme \<Rightarrow> Committee \<Rightarrow> Ready \<Rightarrow> bool option" where
  "Ready_Verify w committee r =
     (let pub = Committee_Name committee (re_Author r)
      in Signature_Verify w (re_Signature r) pub (Ready_Hash w r))"

section \<open>Final\<close>

record Final =
  fi_Author :: NodeID
  fi_Epoch :: int
  fi_Tag :: byte
  fi_Signature :: Signature

definition Final_Hash :: "'a crypto_scheme \<Rightarrow> Final \<Rightarrow> Digest" where
  "Final_Hash w f =
     (let hasher = NewHasher;
          hasher = Hasher_Add hasher (LittleEndian_AppendUint64 [] (fi_Author f));
          hasher = Hasher_Add hasher (LittleEndian_AppendUint64 [] (fi_Epoch f));
          hasher = Hasher_Add hasher [fi_Tag f]
      in fst (Hasher_Sum256 w hasher []))"

definition NewFinal ::
  "'a crypto_scheme \<Rightarrow> NodeID \<Rightarrow> int \<Rightarrow> byte \<Rightarrow> SigService \<Rightarrow> Final option" where
  "NewFinal w author epoch tag sigService =
     (let f = \<lparr>fi_Author = author, fi_Epoch = epoch, fi_Tag = tag,
          fi_Signature = zero_Signature\<rparr>
      in do { sig \<leftarrow> RequestSignature w sigService (Final_Hash w f);
              Some (f\<lparr>fi_Signature := sig\<rparr>) })"

definition Final_Verify :: "'a crypto_scheme \<Rightarrow> Committee \<Rightarrow> Final \<Rightarrow> bool option" where
  "Final_Verify w committee f =
     (let pub = Committee_Name committee (fi_Author f)
      in Signature_Verify w (fi_Signature f) pub (Final_Hash w f))"

section \<open>ElectShare\<close>

record ElectShare =
  es_Author :: NodeID
  es_Epoch :: int
  es_Share :: SignatureShare

definition ElectShare_Hash :: "'a crypto_scheme \<Rightarrow> ElectShare \<Rightarrow> Digest" where
  "ElectShare_Hash w e =
     (let hasher = NewHasher;
          hasher = Hasher_Add hasher (LittleEndian_AppendUint64 [] (es_Epoch e))
      in fst (Hasher_Sum256 w hasher []))"

definition NewElectShare ::
  "'a crypto_scheme \<Rightarrow> NodeID \<Rightarrow> int \<Rightarrow> SigService \<Rightarrow> (ElectShare option \<times> error option) option" where
  "NewElectShare w author epoch sigService =
     (let e = \<lparr>es_Author = author, es_Epoch = epoch, es_Share = \<lparr>PartialSig = []\<rparr>\<rparr>
      in do { (sig, err) \<leftarrow> RequestTsSugnature w sigService (ElectShare_Hash w e);
              Some (if err \<noteq> None then (None, err) else (Some (e\<lparr>es_Share := sig\<rparr>), None)) })"

definition ElectShare_Verify :: "'a crypto_scheme \<Rightarrow> Committee \<Rightarrow> ElectShare option \<Rightarrow> bool option" where
  "ElectShare_Verify w committee p = do {
     e \<leftarrow> nonnil p;
     Some (SignatureShare_Verify (es_Share e) (ElectShare_Hash w e)) }"

section \<open>Vote\<close>

record Vote =
  vo_Author :: NodeID
  vo_Leader :: NodeID
  vo_Epoch :: int
  vo_Round :: int
  vo_Flag :: byte
  vo_Signature :: Signature

definition Vote_Hash :: "'a crypto_scheme \<Rightarrow> Vote \<Rightarrow> Digest" where
  "Vote_Hash w v =
     (let hasher = NewHasher;
          hasher = Hasher_Add hasher (BigEndian_AppendUint64 [] (vo_Author v));
          hasher = Hasher_Add hasher (BigEndian_AppendUint64 [] (vo_Leader v));
          hasher = Hasher_Add hasher (BigEndian_AppendUint64 [] (vo_Epoch v));
          hasher = Hasher_Add hasher [vo_Flag v]
      in fst (Hasher_Sum256 w hasher []))"

definition NewVote ::
  "'a crypto_scheme \<Rightarrow> NodeID \<Rightarrow> NodeID \<Rightarrow> int \<Rightarrow> int \<Rightarrow> byte \<Rightarrow> SigService \<Rightarrow> Vote option" where
  "NewVote w author leader epoch rnd flag sigService =
     (let v = \<lparr>vo_Author = author, vo_Leader = leader, vo_Epoch = epoch, vo_Round = rnd, vo_Flag = flag,
          vo_Signature = zero_Signature\<rparr>
      in do { sig \<leftarrow> RequestSignature w sigService (Vote_Hash w v);
              Some (v\<lparr>vo_Signature := sig\<rparr>) })"

definition Vote_Verify :: "'a crypto_scheme \<Rightarrow> Committee \<Rightarrow> Vote \<Rightarrow> bool option" where
  "Vote_Verify w committee v =
     (let pub = Committee_Name committee (vo_Author v)
      in Signature_Verify w (vo_Signature v) pub (Vote_Hash w v))"

section \<open>ABAVal\<close>

record ABAVal =
  av_Author :: NodeID
  av_Leader :: NodeID
  av_Epoch :: int
  av_Round :: int
  av_InRound :: int
  av_Flag :: byte
  av_Signature :: Signature

definition ABAVal_Hash :: "'a crypto_scheme \<Rightarrow> ABAVal \<Rightarrow> Digest" where
  "ABAVal_Hash w v =
     (let hasher = NewHasher;
          hasher = Hasher_Add hasher (BigEndian_AppendUint64 [] (av_Author v));
          hasher = Hasher_Add hasher (BigEndian_AppendUint64 [] (av_Leader v));
          hasher = Hasher_Add hasher (BigEndian_AppendUint64 [] (av_Epoch v));
          hasher = Hasher_Add hasher [av_Flag v]
      in fst (Hasher_Sum256 w hasher []))"

definition NewABAVal ::
  "'a crypto_scheme \<Rightarrow> NodeID \<Rightarrow> NodeID \<Rightarrow> int \<Rightarrow> int \<Rightarrow> int \<Rightarrow> byte \<Rightarrow> SigService \<Rightarrow> ABAVal option" where
  "NewABAVal w author leader epoch rnd inRound flag sigService =
     (let v = \<lparr>av_Author = author, av_Leader = leader, av_Epoch = epoch, av_Round = rnd, av_InRound = inRound, av_Flag = flag,
          av_Signature = zero_Signature\<rparr>
      in do { sig \<leftarrow> RequestSignature w sigService (ABAVal_Hash w v);
              Some (v\<lparr>av_Signature := sig\<rparr>) })"

definition ABAVal_Verify :: "'a crypto_scheme \<Rightarrow> Committee \<Rightarrow> ABAVal \<Rightarrow> bool option" where
  "ABAVal_Verify w committee v =
     (let pub = Committee_Name committee (av_Author v)
      in Signature_Verify w (av_Signature v) pub (ABAVal_Hash w v))"

section \<open>ABAMux\<close>

record ABAMux =
  mx_Author :: NodeID
  mx_Leader :: NodeID
  mx_Epoch :: int
  mx_Round :: int
  mx_InRound :: int
  mx_Flag :: byte
  mx_Signature :: Signature

definition ABAMux_Hash :: "'a crypto_scheme \<Rightarrow> ABAMux \<Rightarrow> Digest" where
  "ABAMux_Hash w v =
     (let hasher = NewHasher;
          hasher = Hasher_Add hasher (BigEndian_AppendUint64 [] (mx_Author v));
          hasher = Hasher_Add hasher (BigEndian_AppendUint64 [] (mx_Leader v));
          hasher = Hasher_Add hasher (BigEndian_AppendUint64 [] (mx_Epoch v));
          hasher = Hasher_Add hasher [mx_Flag v]
      in fst (Hasher_Sum256 w hasher []))"

definition NewABAMux ::
  "'a crypto_scheme \<Rightarrow> NodeID \<Rightarrow> NodeID \<Rightarrow> int \<Rightarrow> int \<Rightarrow> int \<Rightarrow> byte \<Rightarrow> SigService \<Rightarrow> ABAMux option" where
  "NewABAMux w author leader epoch rnd inRound flag sigService =
     (let v = \<lparr>mx_Author = author, mx_Leader = leader, mx_Epoch = epoch, mx_Round = rnd, mx_InRound = inRound, mx_Flag = flag,
          mx_Signature = zero_Signature\<rparr>
      in do { sig \<leftarrow> RequestSignature w sigService (ABAMux_Hash w v);
              Some (v\<lparr>mx_Signature := sig\<rparr>) })"

definition ABAMux_Verify :: "'a crypto_scheme \<Rightarrow> Committee \<Rightarrow> ABAMux \<Rightarrow> bool option" where
  "ABAMux_Verify w committee v =
     (let pub = Committee_Name committee (mx_Author v)
      in Signature_Verify w (mx_Signature v) pub (ABAMux_Hash w v))"

section \<open>CoinShare\<close>

record CoinShare =
  cs_Author :: NodeID
  cs_Leader :: NodeID
  cs_Epoch :: int
  cs_Round :: int
  cs_InRound :: int
  cs_Share :: SignatureShare

definition CoinShare_Hash :: "'a crypto_scheme \<Rightarrow> CoinShare \<Rightarrow> Digest" where
  "CoinShare_Hash w c =
     (let hasher = NewHasher;
          hasher = Hasher_Add hasher (BigEndian_AppendUint64 [] (cs_Leader c));
          hasher = Hasher_Add hasher (BigEndian_AppendUint64 [] (cs_Epoch c));
          hasher = Hasher_Add hasher (BigEndian_AppendUint64 [] (cs_InRound c))
      in fst (Hasher_Sum256 w hasher []))"

definition NewCoinShare ::
  "'a crypto_scheme \<Rightarrow> NodeID \<Rightarrow> NodeID \<Rightarrow> int \<Rightarrow> int \<Rightarrow> int \<Rightarrow> SigService \<Rightarrow> (CoinShare option \<times> error option) option" where
  "NewCoinShare w author leader epoch rnd inRound sigService =
     (let c = \<lparr>cs_Author = author, cs_Leader = leader, cs_Epoch = epoch, cs_Round = rnd, cs_InRound = inRound, cs_Share = \<lparr>PartialSig = []\<rparr>\<rparr>
      in do { (sig, err) \<leftarrow> RequestTsSugnature w sigService (CoinShare_Hash w c);
              Some (if err \<noteq> None then (None, err) else (Some (c\<lparr>cs_Share := sig\<rparr>), None)) })"

definition CoinShare_Verify :: "'a crypto_scheme \<Rightarrow> Committee \<Rightarrow> CoinShare option \<Rightarrow> bool option" where
  "CoinShare_Verify w committee p = do {
     c \<leftarrow> nonnil p;
     Some (SignatureShare_Verify (cs_Share c) (CoinShare_Hash w c)) }"

section \<open>ABAHalt\<close>

record ABAHalt =
  ah_Author :: NodeID
  ah_Leader :: NodeID
  ah_Epoch :: int
  ah_Round :: int
  ah_InRound :: int
  ah_Flag :: byte
  ah_Signature :: Signature

definition ABAHalt_Hash :: "'a crypto_scheme \<Rightarrow> ABAHalt \<Rightarrow> Digest" where
  "ABAHalt_Hash w h =
     (let hasher = NewHasher;
          hasher = Hasher_Add hasher (BigEndian_AppendUint64 [] (ah_Author h));
          hasher = Hasher_Add hasher (BigEndian_AppendUint64 [] (ah_Leader h));
          hasher = Hasher_Add hasher (BigEndian_AppendUint64 [] (ah_Epoch h));
          hasher = Hasher_Add hasher [ah_Flag h]
      in fst (Hasher_Sum256 w hasher []))"

definition NewABAHalt ::
  "'a crypto_scheme \<Rightarrow> NodeID \<Rightarrow> NodeID \<Rightarrow> int \<Rightarrow> int \<Rightarrow> int \<Rightarrow> byte \<Rightarrow> SigService \<Rightarrow> ABAHalt option" where
  "NewABAHalt w author leader epoch rnd inRound flag sigService =
     (let h = \<lparr>ah_Author = author, ah_Leader = leader, ah_Epoch = epoch, ah_Round = rnd, ah_InRound = inRound, ah_Flag = flag,
          ah_Signature = zero_Signature\<rparr>
      in do { sig \<leftarrow> RequestSignature w sigService (ABAHalt_Hash w h);
              Some (h\<lparr>ah_Signature := sig\<rparr>) })"

definition ABAHalt_Verify :: "'a crypto_scheme \<Rightarrow> Committee \<Rightarrow> ABAHalt \<Rightarrow> bool option" where
  "ABAHalt_Verify w committee h =
     (let pub = Committee_Name committee (ah_Author h)
      in Signature_Verify w (ah_Signature h) pub (ABAHalt_Hash w h))"

section \<open>All messages\<close>

datatype mvba_msg =
    ProposalMsg Proposal
  | CommitmentMsg Commitment
  | ReadyMsg Ready
  | FinalMsg Final
  | ElectShareMsg "ElectShare option"
  | VoteMsg Vote
  | ABAValMsg ABAVal
  | ABAMuxMsg ABAMux
  | CoinShareMsg "CoinShare option"
  | ABAHaltMsg ABAHalt

fun MsgType :: "mvba_msg \<Rightarrow> int" where
  "MsgType (ProposalMsg _) = 0"
| "MsgType (CommitmentMsg _) = 1"
| "MsgType (ReadyMsg _) = 2"
| "MsgType (FinalMsg _) = 3"
| "MsgType (ElectShareMsg _) = 4"
| "MsgType (VoteMsg _) = 5"
| "MsgType (ABAValMsg _) = 6"
| "MsgType (ABAMuxMsg _) = 7"
| "MsgType (CoinShareMsg _) = 8"
| "MsgType (ABAHaltMsg _) = 9"

datatype mvba_type = TProposal | TCommitment | TReady | TFinal | TElectShare | TVote | TABAVal | TABAMux | TCoinShare | TABAHalt

definition DefaultMessageTypeMap :: "int \<rightharpoonup> mvba_type" where
  "DefaultMessageTypeMap = [0 \<mapsto> TProposal, 1 \<mapsto> TCommitment, 2 \<mapsto> TReady, 3 \<mapsto> TFinal, 4 \<mapsto> TElectShare,
     5 \<mapsto> TVote, 6 \<mapsto> TABAVal, 7 \<mapsto> TABAMux, 8 \<mapsto> TCoinShare, 9 \<mapsto> TABAHalt]"

text \<open>The interface \<^verbatim>\<open>Validator\<close>.\<close>

fun Verify :: "'a crypto_scheme \<Rightarrow> Committee \<Rightarrow> mvba_msg \<Rightarrow> bool option" where
  "Verify w c (ProposalMsg m) = Proposal_Verify w c m"
| "Verify w c (CommitmentMsg m) = Commitment_Verify w c m"
| "Verify w c (ReadyMsg m) = Ready_Verify w c m"
| "Verify w c (FinalMsg m) = Final_Verify w c m"
| "Verify w c (ElectShareMsg m) = ElectShare_Verify w c m"
| "Verify w c (VoteMsg m) = Vote_Verify w c m"
| "Verify w c (ABAValMsg m) = ABAVal_Verify w c m"
| "Verify w c (ABAMuxMsg m) = ABAMux_Verify w c m"
| "Verify w c (CoinShareMsg m) = CoinShare_Verify w c m"
| "Verify w c (ABAHaltMsg m) = ABAHalt_Verify w c m"

lemmas mvba_new_defs = NewProposal_def NewCommitment_def NewReady_def NewFinal_def NewElectShare_def
  NewVote_def NewABAVal_def NewABAMux_def NewCoinShare_def NewABAHalt_def

lemmas mvba_verify_defs = Proposal_Verify_def Commitment_Verify_def Ready_Verify_def Final_Verify_def ElectShare_Verify_def
  Vote_Verify_def ABAVal_Verify_def ABAMux_Verify_def CoinShare_Verify_def ABAHalt_Verify_def

end
