(* ===== verification/Mvba_Cbc.thy ===== *)
theory Mvba_Cbc
  imports Mvba_Message
begin

text \<open>
  \<^verbatim>\<open>core/mvba/consensus/cbc.go\<close>: one consistent broadcast, of a block (tag \<^verbatim>\<open>DATA_CBC\<close>) or of a commitment
  (tag \<^verbatim>\<open>COMMIT_CBC\<close>). The methods run in goroutines of their own. They are given whole, and in the
  atomic pieces in which they interleave: a section under a mutex, an atomic counter, the making
  and sending of a message, and a send on a channel are one piece each.

  \<open>mvba_ctx\<close> is the part of the core that the instances use. A channel is the list of the values
  that wait in it; its capacity is not modelled.
\<close>

section \<open>What the instances use of the core\<close>

record CBCBack =
  cbk_Epoch :: int
  cbk_Author :: NodeID
  cbk_Tag :: byte
  cbk_Commitment :: "slice option"

record ABABack =
  abk_Typ :: int
  abk_Epoch :: int
  abk_ExRound :: int
  abk_InRound :: int
  abk_Flag :: byte
  abk_Leader :: NodeID

record mvba_ctx =
  c_Name :: NodeID
  c_Committee :: Committee
  c_Parameters :: Parameters
  c_SigService :: SigService
  c_Transimtor :: "mvba_msg Transmitor"
  c_cbcCallBack :: "CBCBack list"
  c_abaCallBack :: "ABABack list"

definition c_send :: "NodeID \<Rightarrow> mvba_msg \<Rightarrow> 'c mvba_ctx_scheme \<Rightarrow> 'c mvba_ctx_scheme" where
  "c_send to msg c = c\<lparr>c_Transimtor := Transmitor_Send (c_Name c) to msg (c_Transimtor c)\<rparr>"

definition c_push :: "mvba_msg \<Rightarrow> 'c mvba_ctx_scheme \<Rightarrow> 'c mvba_ctx_scheme" where
  "c_push msg c = c\<lparr>c_Transimtor := RecvChannel_push msg (c_Transimtor c)\<rparr>"

section \<open>Instances\<close>

record CBC =
  cb_Proposer :: NodeID
  cb_Epoch :: int
  cb_BlockHash :: "Digest option"
  cb_Commitment :: "slice option"
  cb_unHandleReady :: "Ready list"
  cb_unHandleFinal :: "Final list"
  cb_readyCnts :: "32 word"
  cb_finalCnts :: "32 word"

definition NewCBC :: "NodeID \<Rightarrow> int \<Rightarrow> CBC" where
  "NewCBC proposer epoch = \<lparr>cb_Proposer = proposer, cb_Epoch = epoch, cb_BlockHash = None, cb_Commitment = None,
     cb_unHandleReady = [], cb_unHandleFinal = [], cb_readyCnts = 0, cb_finalCnts = 0\<rparr>"

text \<open>The program points of the goroutines.\<close>

datatype cbc_pc =
    ProposalEntry Proposal
  | CommitmentEntry Commitment
  | Flush byte
  | MakeReady byte
  | ReadyEntry Ready
  | ReadyQueue Ready
  | ReadyCount Ready
  | ReadyAct Ready int
  | FinalEntry Final
  | FinalQueue Final
  | FinalCount Final
  | FinalAct Final int
  | CbcPush mvba_msg

text \<open>A ready or final message waits while the value of its tag is not known.\<close>

definition waits :: "byte \<Rightarrow> CBC \<Rightarrow> bool" where
  "waits tag i \<longleftrightarrow> tag = DATA_CBC \<and> cb_BlockHash i = None \<or>
     tag \<noteq> DATA_CBC \<and> tag = COMMIT_CBC \<and> cb_Commitment i = None"

definition waiting :: "CBC \<Rightarrow> cbc_pc list" where
  "waiting i = map ReadyEntry (cb_unHandleReady i) @ map FinalEntry (cb_unHandleFinal i)"

text \<open>A ready message goes to the proposer.\<close>

definition send_ready :: "Ready \<Rightarrow> CBC \<Rightarrow> 'c mvba_ctx_scheme \<Rightarrow> 'c mvba_ctx_scheme" where
  "send_ready ready i c =
     (if c_Name c = cb_Proposer i then c_push (ReadyMsg ready) c
      else c_send (cb_Proposer i) (ReadyMsg ready) c)"

definition cbc_back :: "Final \<Rightarrow> CBC \<Rightarrow> 'c mvba_ctx_scheme \<Rightarrow> 'c mvba_ctx_scheme" where
  "cbc_back f i c = c\<lparr>c_cbcCallBack := c_cbcCallBack c @
     [\<lparr>cbk_Epoch = cb_Epoch i, cbk_Author = cb_Proposer i, cbk_Tag = fi_Tag f, cbk_Commitment = cb_Commitment i\<rparr>]\<rparr>"

section \<open>The methods run without interruption\<close>

text \<open>The result has the goroutines that were started, the instance and the core.\<close>

definition ProcessProposal ::
  "'a crypto_scheme \<Rightarrow> Proposal \<Rightarrow> CBC \<Rightarrow> 'c mvba_ctx_scheme \<Rightarrow>
     (cbc_pc list \<times> CBC \<times> 'c mvba_ctx_scheme) option" where
  "ProcessProposal w p i c =
     (if pr_Author p \<noteq> cb_Proposer i then Some ([], i, c)
      else do {
        b \<leftarrow> nonnil (pr_B p);
        let d = Block_Hash w b;
        let i = i\<lparr>cb_BlockHash := Some d\<rparr>;
        let spawned = waiting i;
        let i = i\<lparr>cb_unHandleReady := [], cb_unHandleFinal := []\<rparr>;
        ready \<leftarrow> NewReady w (c_Name c) (cb_Proposer i) (cb_Epoch i) DATA_CBC (c_SigService c);
        Some (spawned, i, send_ready ready i c) })"

definition ProcessCommitment ::
  "'a crypto_scheme \<Rightarrow> Commitment \<Rightarrow> CBC \<Rightarrow> 'c mvba_ctx_scheme \<Rightarrow>
     (cbc_pc list \<times> CBC \<times> 'c mvba_ctx_scheme) option" where
  "ProcessCommitment w m i c =
     (if co_Author m \<noteq> cb_Proposer i then Some ([], i, c)
      else do {
        let i = i\<lparr>cb_Commitment := co_C m\<rparr>;
        let spawned = waiting i;
        let i = i\<lparr>cb_unHandleReady := [], cb_unHandleFinal := []\<rparr>;
        ready \<leftarrow> NewReady w (c_Name c) (cb_Proposer i) (cb_Epoch i) COMMIT_CBC (c_SigService c);
        Some (spawned, i, send_ready ready i c) })"

text \<open>The counters are of type \<^verbatim>\<open>atomic.Int32\<close>: they wrap, and \<^verbatim>\<open>int\<close> reads them with their sign.\<close>

definition ProcessReady ::
  "'a crypto_scheme \<Rightarrow> Ready \<Rightarrow> CBC \<Rightarrow> 'c mvba_ctx_scheme \<Rightarrow> (CBC \<times> 'c mvba_ctx_scheme) option" where
  "ProcessReady w r i c =
     (if waits (re_Tag r) i then Some (i\<lparr>cb_unHandleReady := cb_unHandleReady i @ [r]\<rparr>, c)
      else
        let i = i\<lparr>cb_readyCnts := cb_readyCnts i + 1\<rparr>;
            cnts = cb_readyCnts i in
        if sint cnts = HightThreshold (c_Committee c) then do {
          final \<leftarrow> NewFinal w (c_Name c) (cb_Epoch i) (re_Tag r) (c_SigService c);
          let c = c_send NONE (FinalMsg final) c;
          Some (i, c_push (FinalMsg final) c) }
        else Some (i, c))"

definition ProcessFinal :: "Final \<Rightarrow> CBC \<Rightarrow> 'c mvba_ctx_scheme \<Rightarrow> CBC \<times> 'c mvba_ctx_scheme" where
  "ProcessFinal f i c =
     (if waits (fi_Tag f) i then (i\<lparr>cb_unHandleFinal := cb_unHandleFinal i @ [f]\<rparr>, c)
      else
        let i = i\<lparr>cb_finalCnts := cb_finalCnts i + 1\<rparr>;
            cnts = cb_finalCnts i in
        if sint cnts = 1 then (i, cbc_back f i c) else (i, c))"

section \<open>The methods in atomic pieces\<close>

fun cbc_step ::
  "'a crypto_scheme \<Rightarrow> cbc_pc \<Rightarrow> CBC \<Rightarrow> 'c mvba_ctx_scheme \<Rightarrow>
     (cbc_pc option \<times> cbc_pc list \<times> CBC \<times> 'c mvba_ctx_scheme) option" where
  "cbc_step w (ProposalEntry p) i c =
     (if pr_Author p \<noteq> cb_Proposer i then Some (None, [], i, c)
      else do {
        b \<leftarrow> nonnil (pr_B p);
        Some (Some (Flush DATA_CBC), [], i\<lparr>cb_BlockHash := Some (Block_Hash w b)\<rparr>, c) })"
| "cbc_step w (CommitmentEntry m) i c =
     (if co_Author m \<noteq> cb_Proposer i then Some (None, [], i, c)
      else Some (Some (Flush COMMIT_CBC), [], i\<lparr>cb_Commitment := co_C m\<rparr>, c))"
| "cbc_step w (Flush tag) i c =
     Some (Some (MakeReady tag), waiting i, i\<lparr>cb_unHandleReady := [], cb_unHandleFinal := []\<rparr>, c)"
| "cbc_step w (MakeReady tag) i c = do {
     ready \<leftarrow> NewReady w (c_Name c) (cb_Proposer i) (cb_Epoch i) tag (c_SigService c);
     Some (None, [], i, send_ready ready i c) }"
| "cbc_step w (ReadyEntry r) i c =
     Some (Some (if waits (re_Tag r) i then ReadyQueue r else ReadyCount r), [], i, c)"
| "cbc_step w (ReadyQueue r) i c = Some (None, [], i\<lparr>cb_unHandleReady := cb_unHandleReady i @ [r]\<rparr>, c)"
| "cbc_step w (ReadyCount r) i c =
     (let i = i\<lparr>cb_readyCnts := cb_readyCnts i + 1\<rparr>
      in Some (Some (ReadyAct r (sint (cb_readyCnts i))), [], i, c))"
| "cbc_step w (ReadyAct r cnts) i c =
     (if cnts = HightThreshold (c_Committee c) then do {
        final \<leftarrow> NewFinal w (c_Name c) (cb_Epoch i) (re_Tag r) (c_SigService c);
        Some (Some (CbcPush (FinalMsg final)), [], i, c_send NONE (FinalMsg final) c) }
      else Some (None, [], i, c))"
| "cbc_step w (FinalEntry f) i c =
     Some (Some (if waits (fi_Tag f) i then FinalQueue f else FinalCount f), [], i, c)"
| "cbc_step w (FinalQueue f) i c = Some (None, [], i\<lparr>cb_unHandleFinal := cb_unHandleFinal i @ [f]\<rparr>, c)"
| "cbc_step w (FinalCount f) i c =
     (let i = i\<lparr>cb_finalCnts := cb_finalCnts i + 1\<rparr>
      in Some (Some (FinalAct f (sint (cb_finalCnts i))), [], i, c))"
| "cbc_step w (FinalAct f cnts) i c = Some (None, [], i, if cnts = 1 then cbc_back f i c else c)"
| "cbc_step w (CbcPush msg) i c = Some (None, [], i, c_push msg c)"

fun cbc_solo ::
  "nat \<Rightarrow> 'a crypto_scheme \<Rightarrow> cbc_pc \<Rightarrow> CBC \<Rightarrow> 'c mvba_ctx_scheme \<Rightarrow>
     (cbc_pc list \<times> CBC \<times> 'c mvba_ctx_scheme) option" where
  "cbc_solo 0 w pc i c = None"
| "cbc_solo (Suc n) w pc i c = do {
     (pc', spawned, i, c) \<leftarrow> cbc_step w pc i c;
     case pc' of
       None \<Rightarrow> Some (spawned, i, c)
     | Some pc' \<Rightarrow> do { (spawned', i, c) \<leftarrow> cbc_solo n w pc' i c; Some (spawned @ spawned', i, c) } }"

section \<open>Both readings agree\<close>

lemma cbc_solo_4: "cbc_solo 4 w pc i c = cbc_solo (Suc (Suc (Suc (Suc 0)))) w pc i c"
  by (simp add: numeral_eq_Suc)

lemma cbc_solo_Proposal: "cbc_solo 4 w (ProposalEntry p) i c = ProcessProposal w p i c"
  by (cases "pr_B p") (simp_all add: cbc_solo_4 ProcessProposal_def waiting_def send_ready_def Let_def go_simps split: bind_splits)

lemma cbc_solo_Commitment: "cbc_solo 4 w (CommitmentEntry m) i c = ProcessCommitment w m i c"
  by (simp add: cbc_solo_4 ProcessCommitment_def waiting_def send_ready_def Let_def split: bind_splits)

lemma cbc_solo_Ready: "cbc_solo 4 w (ReadyEntry r) i c = do { (i, c) \<leftarrow> ProcessReady w r i c; Some ([], i, c) }"
  by (simp add: cbc_solo_4 ProcessReady_def Let_def split: bind_splits)

lemma cbc_solo_Final: "cbc_solo 4 w (FinalEntry f) i c = Some ([], ProcessFinal f i c)"
  by (simp add: cbc_solo_4 ProcessFinal_def cbc_back_def Let_def)

end
