(* ===== verification/Mvba_Aba.thy ===== *)
theory Mvba_Aba
  imports Mvba_Cbc
begin

text \<open>
  \<^verbatim>\<open>core/mvba/consensus/aba.go\<close>: one binary agreement, on whether the leader of a round is taken. It runs
  in inner rounds. In each of them the nodes exchange values (\<^verbatim>\<open>ABAVal\<close>), then votes on values that
  were seen often enough (\<^verbatim>\<open>ABAMux\<close>), then the shares of a coin that decides or gives the value of
  the next inner round. The methods are given whole and in atomic pieces.
\<close>

section \<open>Instances\<close>

definition ABA_INVOKE :: int where "ABA_INVOKE = 0"
definition ABA_HALT :: int where "ABA_HALT = 1"

record ABA =
  ab_Epoch :: int
  ab_ExRound :: int
  ab_valYesCnt :: "int \<rightharpoonup> int"
  ab_valNoCnt :: "int \<rightharpoonup> int"
  ab_muxFlag :: "int fset"
  ab_muxFinFlag :: "int fset"
  ab_yesFlag :: "int fset"
  ab_noFlag :: "int fset"
  ab_muxYesCnt :: "int \<rightharpoonup> int"
  ab_muxNoCnt :: "int \<rightharpoonup> int"
  ab_halt :: bool

definition NewABA :: "int \<Rightarrow> int \<Rightarrow> ABA" where
  "NewABA epoch exRound = \<lparr>ab_Epoch = epoch, ab_ExRound = exRound, ab_valYesCnt = Map.empty, ab_valNoCnt = Map.empty,
     ab_muxFlag = {||}, ab_muxFinFlag = {||}, ab_yesFlag = {||}, ab_noFlag = {||},
     ab_muxYesCnt = Map.empty, ab_muxNoCnt = Map.empty, ab_halt = False\<rparr>"

text \<open>A missing entry of a Go map of numbers reads as 0.\<close>

definition cnt_of :: "(int \<rightharpoonup> int) \<Rightarrow> int \<Rightarrow> int" where
  "cnt_of m k = (case m k of None \<Rightarrow> 0 | Some n \<Rightarrow> n)"

definition inc :: "int \<Rightarrow> (int \<rightharpoonup> int) \<Rightarrow> (int \<rightharpoonup> int)" where
  "inc k m = m(k \<mapsto> cnt_of m k + 1)"

lemma cnt_of_inc [simp]: "cnt_of (inc k m) k' = (if k' = k then cnt_of m k + 1 else cnt_of m k')"
  by (simp add: cnt_of_def inc_def)

lemma cnt_of_empty [simp]: "cnt_of Map.empty k = 0"
  by (simp add: cnt_of_def)

datatype aba_pc =
    ValEntry ABAVal
  | ValCount ABAVal
  | ValAct ABAVal int
  | MuxEntry ABAMux
  | MuxCheck ABAMux
  | MuxCount ABAMux
  | MuxRead ABAMux int int
  | MuxDecide ABAMux int int int int
  | MuxShare ABAMux
  | CoinEntry int byte NodeID
  | HaltEntry ABAHalt
  | HaltPush ABAHalt ABAHalt
  | HaltBack ABAHalt
  | AbaPush mvba_msg

definition aba_back :: "ABABack \<Rightarrow> 'c mvba_ctx_scheme \<Rightarrow> 'c mvba_ctx_scheme" where
  "aba_back back c = c\<lparr>c_abaCallBack := c_abaCallBack c @ [back]\<rparr>"

definition invoke_back :: "ABAVal \<Rightarrow> ABA \<Rightarrow> ABABack" where
  "invoke_back val a = \<lparr>abk_Typ = ABA_INVOKE, abk_Epoch = ab_Epoch a, abk_ExRound = ab_ExRound a,
     abk_InRound = av_InRound val, abk_Flag = av_Flag val, abk_Leader = av_Leader val\<rparr>"

definition halt_back :: "ABAHalt \<Rightarrow> ABABack" where
  "halt_back halt = \<lparr>abk_Typ = ABA_HALT, abk_Epoch = ah_Epoch halt, abk_ExRound = ah_Round halt,
     abk_InRound = ah_InRound halt, abk_Flag = ah_Flag halt, abk_Leader = ah_Leader halt\<rparr>"

text \<open>The section of \<^verbatim>\<open>ProcessABAVal\<close> that counts a value, with the new count.\<close>

definition count_val :: "ABAVal \<Rightarrow> ABA \<Rightarrow> int \<times> ABA" where
  "count_val val a =
     (if av_Flag val = FLAG_NO then
        let a = a\<lparr>ab_valNoCnt := inc (av_InRound val) (ab_valNoCnt a)\<rparr> in (cnt_of (ab_valNoCnt a) (av_InRound val), a)
      else if av_Flag val = FLAG_YES then
        let a = a\<lparr>ab_valYesCnt := inc (av_InRound val) (ab_valYesCnt a)\<rparr> in (cnt_of (ab_valYesCnt a) (av_InRound val), a)
      else (0, a))"

definition count_mux :: "ABAMux \<Rightarrow> ABA \<Rightarrow> ABA" where
  "count_mux mux a =
     (if mx_Flag mux = FLAG_NO then a\<lparr>ab_muxNoCnt := inc (mx_InRound mux) (ab_muxNoCnt a)\<rparr>
      else if mx_Flag mux = FLAG_YES then a\<lparr>ab_muxYesCnt := inc (mx_InRound mux) (ab_muxYesCnt a)\<rparr>
      else a)"

text \<open>The flags that \<^verbatim>\<open>ProcessABAMux\<close> sets for yes and for no, from the counts it has read.\<close>

definition mux_flags :: "int \<Rightarrow> int \<Rightarrow> int \<Rightarrow> int \<Rightarrow> int \<Rightarrow> bool \<times> bool" where
  "mux_flags th muxYescnt muxNocnt valYescnt valNocnt =
     (if muxYescnt + muxNocnt \<ge> th then
        (if valYescnt \<ge> th \<and> valNocnt \<ge> th then (muxYescnt > 0, muxNocnt > 0)
         else if valYescnt \<ge> th \<and> muxYescnt \<ge> th then (True, False)
         else if valNocnt \<ge> th \<and> muxNocnt \<ge> th then (False, True)
         else (False, False))
      else (False, False))"

definition set_flags :: "int \<Rightarrow> bool \<times> bool \<Rightarrow> ABA \<Rightarrow> ABA" where
  "set_flags r = (\<lambda>(yes, no) a.
     let a = (if yes then a\<lparr>ab_yesFlag := finsert r (ab_yesFlag a), ab_muxFinFlag := finsert r (ab_muxFinFlag a)\<rparr> else a)
     in if no then a\<lparr>ab_noFlag := finsert r (ab_noFlag a), ab_muxFinFlag := finsert r (ab_muxFinFlag a)\<rparr> else a)"

text \<open>The message that \<^verbatim>\<open>ProcessCoin\<close> makes: a halt, or the value of the next inner round.\<close>

definition coin_msg ::
  "'a crypto_scheme \<Rightarrow> int \<Rightarrow> byte \<Rightarrow> NodeID \<Rightarrow> ABA \<Rightarrow> 'c mvba_ctx_scheme \<Rightarrow> mvba_msg option" where
  "coin_msg w inRound coin leader a c =
     (let okYes = inRound |\<in>| ab_yesFlag a; okNo = inRound |\<in>| ab_noFlag a in
      if okYes \<and> okNo \<or> \<not> okYes \<and> \<not> okNo then do {
        abaVal \<leftarrow> NewABAVal w (c_Name c) leader (ab_Epoch a) (ab_ExRound a) (i64 (inRound + 1)) coin (c_SigService c);
        Some (ABAValMsg abaVal) }
      else if okYes \<and> coin = FLAG_YES \<or> okNo \<and> coin = FLAG_NO then do {
        halt \<leftarrow> NewABAHalt w (c_Name c) leader (ab_Epoch a) (ab_ExRound a) inRound coin (c_SigService c);
        Some (ABAHaltMsg halt) }
      else do {
        abaVal \<leftarrow> NewABAVal w (c_Name c) leader (ab_Epoch a) (ab_ExRound a) (i64 (inRound + 1))
                    (if okYes then FLAG_YES else FLAG_NO) (c_SigService c);
        Some (ABAValMsg abaVal) })"

section \<open>The methods run without interruption\<close>

definition ProcessABAVal ::
  "'a crypto_scheme \<Rightarrow> ABAVal \<Rightarrow> ABA \<Rightarrow> 'c mvba_ctx_scheme \<Rightarrow> (ABA \<times> 'c mvba_ctx_scheme) option" where
  "ProcessABAVal w val a c =
     (if ab_halt a then Some (a, c)
      else
        let (cnt, a) = count_val val a in
        if cnt = LowThreshold (c_Committee c) then Some (a, aba_back (invoke_back val a) c)
        else if cnt = HightThreshold (c_Committee c) \<and> av_InRound val |\<notin>| ab_muxFlag a then do {
          let a = a\<lparr>ab_muxFlag := finsert (av_InRound val) (ab_muxFlag a)\<rparr>;
          mux \<leftarrow> NewABAMux w (c_Name c) (av_Leader val) (av_Epoch val) (av_Round val) (av_InRound val) (av_Flag val)
                  (c_SigService c);
          let c = c_send NONE (ABAMuxMsg mux) c;
          Some (a, c_push (ABAMuxMsg mux) c) }
        else Some (a, c))"

definition ProcessABAMux ::
  "'a crypto_scheme \<Rightarrow> ABAMux \<Rightarrow> ABA \<Rightarrow> 'c mvba_ctx_scheme \<Rightarrow> (ABA \<times> 'c mvba_ctx_scheme) option" where
  "ProcessABAMux w mux a c =
     (if ab_halt a then Some (a, c)
      else if mx_InRound mux |\<in>| ab_muxFinFlag a then Some (a, c)
      else
        let r = mx_InRound mux;
            a = count_mux mux a;
            flags = mux_flags (HightThreshold (c_Committee c)) (cnt_of (ab_muxYesCnt a) r) (cnt_of (ab_muxNoCnt a) r)
                      (cnt_of (ab_valYesCnt a) r) (cnt_of (ab_valNoCnt a) r);
            a = set_flags r flags a in
        if fst flags \<or> snd flags then do {
          (coinShare, _) \<leftarrow> NewCoinShare w (c_Name c) (mx_Leader mux) (mx_Epoch mux) (mx_Round mux) (mx_InRound mux)
                             (c_SigService c);
          let c = c_send NONE (CoinShareMsg coinShare) c;
          Some (a, c_push (CoinShareMsg coinShare) c) }
        else Some (a, c))"

definition ProcessCoin ::
  "'a crypto_scheme \<Rightarrow> int \<Rightarrow> byte \<Rightarrow> NodeID \<Rightarrow> ABA \<Rightarrow> 'c mvba_ctx_scheme \<Rightarrow> (ABA \<times> 'c mvba_ctx_scheme) option" where
  "ProcessCoin w inRound coin leader a c = do {
     msg \<leftarrow> coin_msg w inRound coin leader a c;
     let c = c_send NONE msg c;
     Some (a, c_push msg c) }"

definition ProcessHalt ::
  "'a crypto_scheme \<Rightarrow> ABAHalt \<Rightarrow> ABA \<Rightarrow> 'c mvba_ctx_scheme \<Rightarrow> (ABA \<times> 'c mvba_ctx_scheme) option" where
  "ProcessHalt w halt a c =
     (if ab_halt a then Some (a, c)
      else do {
        let a = a\<lparr>ab_halt := True\<rparr>;
        temp \<leftarrow> NewABAHalt w (c_Name c) (ah_Leader halt) (ab_Epoch a) (ab_ExRound a) (ah_InRound halt) (ah_Flag halt)
                 (c_SigService c);
        let c = c_send NONE (ABAHaltMsg temp) c;
        let c = c_push (ABAHaltMsg temp) c;
        Some (a, aba_back (halt_back halt) c) })"

section \<open>The methods in atomic pieces\<close>

text \<open>
  The sections under \<^verbatim>\<open>flagMutex\<close> that send messages hold it until the message is in the own queue;
  here the queueing is a piece of its own, so the model allows some more interleavings.
\<close>

fun aba_step ::
  "'a crypto_scheme \<Rightarrow> aba_pc \<Rightarrow> ABA \<Rightarrow> 'c mvba_ctx_scheme \<Rightarrow>
     (aba_pc option \<times> ABA \<times> 'c mvba_ctx_scheme) option" where
  "aba_step w (ValEntry val) a c = Some (if ab_halt a then None else Some (ValCount val), a, c)"
| "aba_step w (ValCount val) a c = (let (cnt, a) = count_val val a in Some (Some (ValAct val cnt), a, c))"
| "aba_step w (ValAct val cnt) a c =
     (if cnt = LowThreshold (c_Committee c) then Some (None, a, aba_back (invoke_back val a) c)
      else if cnt = HightThreshold (c_Committee c) \<and> av_InRound val |\<notin>| ab_muxFlag a then do {
        mux \<leftarrow> NewABAMux w (c_Name c) (av_Leader val) (av_Epoch val) (av_Round val) (av_InRound val) (av_Flag val)
                (c_SigService c);
        Some (Some (AbaPush (ABAMuxMsg mux)), a\<lparr>ab_muxFlag := finsert (av_InRound val) (ab_muxFlag a)\<rparr>,
              c_send NONE (ABAMuxMsg mux) c) }
      else Some (None, a, c))"
| "aba_step w (MuxEntry mux) a c = Some (if ab_halt a then None else Some (MuxCheck mux), a, c)"
| "aba_step w (MuxCheck mux) a c =
     Some (if mx_InRound mux |\<in>| ab_muxFinFlag a then None else Some (MuxCount mux), a, c)"
| "aba_step w (MuxCount mux) a c =
     (let a = count_mux mux a in
      Some (Some (MuxRead mux (cnt_of (ab_muxYesCnt a) (mx_InRound mux)) (cnt_of (ab_muxNoCnt a) (mx_InRound mux))), a, c))"
| "aba_step w (MuxRead mux muxYescnt muxNocnt) a c =
     Some (Some (MuxDecide mux muxYescnt muxNocnt (cnt_of (ab_valYesCnt a) (mx_InRound mux))
                   (cnt_of (ab_valNoCnt a) (mx_InRound mux))), a, c)"
| "aba_step w (MuxDecide mux muxYescnt muxNocnt valYescnt valNocnt) a c =
     (if mx_InRound mux |\<in>| ab_muxFinFlag a then Some (None, a, c)
      else
        let flags = mux_flags (HightThreshold (c_Committee c)) muxYescnt muxNocnt valYescnt valNocnt in
        Some (if fst flags \<or> snd flags then Some (MuxShare mux) else None, set_flags (mx_InRound mux) flags a, c))"
| "aba_step w (MuxShare mux) a c = do {
     (coinShare, _) \<leftarrow> NewCoinShare w (c_Name c) (mx_Leader mux) (mx_Epoch mux) (mx_Round mux) (mx_InRound mux)
                        (c_SigService c);
     Some (Some (AbaPush (CoinShareMsg coinShare)), a, c_send NONE (CoinShareMsg coinShare) c) }"
| "aba_step w (CoinEntry inRound coin leader) a c = do {
     msg \<leftarrow> coin_msg w inRound coin leader a c;
     Some (Some (AbaPush msg), a, c_send NONE msg c) }"
| "aba_step w (HaltEntry halt) a c =
     (if ab_halt a then Some (None, a, c)
      else do {
        temp \<leftarrow> NewABAHalt w (c_Name c) (ah_Leader halt) (ab_Epoch a) (ab_ExRound a) (ah_InRound halt) (ah_Flag halt)
                 (c_SigService c);
        Some (Some (HaltPush halt temp), a\<lparr>ab_halt := True\<rparr>, c_send NONE (ABAHaltMsg temp) c) })"
| "aba_step w (HaltPush halt temp) a c = Some (Some (HaltBack halt), a, c_push (ABAHaltMsg temp) c)"
| "aba_step w (HaltBack halt) a c = Some (None, a, aba_back (halt_back halt) c)"
| "aba_step w (AbaPush msg) a c = Some (None, a, c_push msg c)"

fun aba_solo ::
  "nat \<Rightarrow> 'a crypto_scheme \<Rightarrow> aba_pc \<Rightarrow> ABA \<Rightarrow> 'c mvba_ctx_scheme \<Rightarrow> (ABA \<times> 'c mvba_ctx_scheme) option" where
  "aba_solo 0 w pc a c = None"
| "aba_solo (Suc n) w pc a c = do {
     (pc', a, c) \<leftarrow> aba_step w pc a c;
     case pc' of None \<Rightarrow> Some (a, c) | Some pc' \<Rightarrow> aba_solo n w pc' a c }"

section \<open>Both readings agree\<close>

lemma set_flags_none [simp]: "set_flags r (False, False) a = a"
  by (simp add: set_flags_def)

lemma count_mux_fields [simp]:
  "ab_muxFinFlag (count_mux mux a) = ab_muxFinFlag a" "ab_yesFlag (count_mux mux a) = ab_yesFlag a"
  "ab_noFlag (count_mux mux a) = ab_noFlag a" "ab_muxFlag (count_mux mux a) = ab_muxFlag a"
  "ab_valYesCnt (count_mux mux a) = ab_valYesCnt a" "ab_valNoCnt (count_mux mux a) = ab_valNoCnt a"
  "ab_Epoch (count_mux mux a) = ab_Epoch a" "ab_ExRound (count_mux mux a) = ab_ExRound a"
  by (simp_all add: count_mux_def)

lemma aba_solo_7: "aba_solo 7 w pc a c = aba_solo (Suc (Suc (Suc (Suc (Suc (Suc (Suc 0))))))) w pc a c"
  by (simp add: numeral_eq_Suc)

lemma aba_solo_Val: "aba_solo 7 w (ValEntry val) a c = ProcessABAVal w val a c"
  by (cases "count_val val a") (simp add: aba_solo_7 ProcessABAVal_def split: bind_splits)

lemma aba_solo_Mux: "aba_solo 7 w (MuxEntry mux) a c = ProcessABAMux w mux a c"
  by (auto simp: aba_solo_7 ProcessABAMux_def Let_def split: bind_splits)

lemma aba_solo_Coin: "aba_solo 7 w (CoinEntry r coin l) a c = ProcessCoin w r coin l a c"
  by (simp add: aba_solo_7 ProcessCoin_def Let_def split: bind_splits)

lemma aba_solo_Halt: "aba_solo 7 w (HaltEntry halt) a c = ProcessHalt w halt a c"
  by (simp add: aba_solo_7 ProcessHalt_def Let_def split: bind_splits)

end
