(* ===== verification/Mvba_Elector.thy ===== *)
theory Mvba_Elector
  imports Mvba_Message "HOL-Library.Multiset"
begin

text \<open>
  \<^verbatim>\<open>core/mvba/consensus/elector.go\<close>: the shares of an epoch's seed and the order of leaders that the seed
  gives. The set \<^verbatim>\<open>used\<close> is made but never filled by the source.
\<close>

section \<open>Seeds\<close>

definition RANDOM_LEN :: nat where
  "RANDOM_LEN = 7"

fun seed_loop :: "nat \<Rightarrow> nat \<Rightarrow> bytes \<Rightarrow> int \<Rightarrow> int" where
  "seed_loop 0 i data seed = seed"
| "seed_loop (Suc k) i data seed =
     (if i < length data then seed_loop k (Suc i) data (i64 (push_bit 8 seed + uint (data ! i))) else seed)"

text \<open>
  \<^verbatim>\<open>rand.Shuffle\<close> of the Go library: for every position from the last one down to 1 it draws a position
  that is not larger and swaps the two.
\<close>

definition swap :: "'a list \<Rightarrow> nat \<Rightarrow> nat \<Rightarrow> 'a list" where
  "swap xs i j = xs[i := xs ! j, j := xs ! i]"

fun Shuffle :: "(nat \<Rightarrow> nat) \<Rightarrow> nat \<Rightarrow> 'a list \<Rightarrow> 'a list" where
  "Shuffle draw 0 xs = xs"
| "Shuffle draw (Suc i) xs = Shuffle draw i (swap xs (Suc i) (draw (Suc i)))"

section \<open>The elector\<close>

record Elector =
  el_committee :: Committee
  el_sigService :: SigService
  el_seeds :: "int \<rightharpoonup> int"
  el_randGen :: "int \<rightharpoonup> NodeID list"
  el_used :: "int \<rightharpoonup> NodeID fset"
  el_electShares :: "int \<rightharpoonup> SignatureShare list"

definition NewElector :: "Committee \<Rightarrow> SigService \<Rightarrow> Elector" where
  "NewElector committee sigService = \<lparr>el_committee = committee, el_sigService = sigService, el_seeds = Map.empty,
     el_randGen = Map.empty, el_used = Map.empty, el_electShares = Map.empty\<rparr>"

definition addSeed :: "'a mvba_env_scheme \<Rightarrow> int \<Rightarrow> int \<Rightarrow> Elector \<Rightarrow> Elector" where
  "addSeed w epoch seed e =
     (let e = e\<lparr>el_seeds := (el_seeds e)(epoch \<mapsto> seed)\<rparr>;
          randLeader = map int [0..<nat (Committee_Size (el_committee e))];
          randLeader = Shuffle (env_draw w seed) (length randLeader - 1) randLeader
      in e\<lparr>el_randGen := (el_randGen e)(epoch \<mapsto> randLeader)\<rparr>)"

definition addElectShare ::
  "'a mvba_env_scheme \<Rightarrow> ElectShare \<Rightarrow> Elector \<Rightarrow> (bool \<times> error option) \<times> Elector" where
  "addElectShare w share e =
     (let used = (case el_used e (es_Epoch share) of None \<Rightarrow> {||} | Some used \<Rightarrow> used);
          e = e\<lparr>el_used := (el_used e)(es_Epoch share \<mapsto> used)\<rparr>;
          shares = (case el_electShares e (es_Epoch share) of None \<Rightarrow> [] | Some shares \<Rightarrow> shares);
          e = e\<lparr>el_electShares := (el_electShares e)(es_Epoch share \<mapsto> shares)\<rparr> in
      if es_Author share |\<in>| used
      then ((False, Some (ErrOneMoreMessage (MsgType (ElectShareMsg (Some share))) (es_Epoch share) 0
                            (es_Author share))), e)
      else
        let shares = shares @ [es_Share share];
            e = e\<lparr>el_electShares := (el_electShares e)(es_Epoch share \<mapsto> shares)\<rparr> in
        if int (length shares) = HightThreshold (el_committee e) then
          (case CombineIntactTSPartial w shares (ss_ShareKey (el_sigService e)) (ElectShare_Hash w share) of
             (data, Some err) \<Rightarrow> ((False, Some err), e)
           | (data, None) \<Rightarrow>
               let seed = seed_loop RANDOM_LEN 0 data 0
               in ((True, None), addSeed w (es_Epoch share) seed e))
        else ((False, None), e))"

text \<open>The order has as many leaders as the committee has members; indexing past them panics.\<close>

definition Leader :: "int \<Rightarrow> int \<Rightarrow> Elector \<Rightarrow> NodeID option" where
  "Leader epoch rnd e =
     (case el_randGen e epoch of
        None \<Rightarrow> Some NONE
      | Some gen \<Rightarrow> if 0 \<le> rnd \<and> rnd < int (length gen) then Some (gen ! nat rnd) else None)"

section \<open>Every member leads once\<close>

lemma length_swap [simp]: "length (swap xs i j) = length xs"
  by (simp add: swap_def)

lemma swap_mset: "i < length xs \<Longrightarrow> j < length xs \<Longrightarrow> mset (swap xs i j) = mset xs"
  by (simp add: swap_def mset_swap)

lemma length_Shuffle [simp]: "length (Shuffle draw i xs) = length xs"
  by (induction i arbitrary: xs) simp_all

text \<open>What the library promises: the drawn position is not larger than the one it is drawn for.\<close>

lemma mset_Shuffle:
  assumes "\<And>k. draw k \<le> k" "i < length xs \<or> i = 0"
  shows "mset (Shuffle draw i xs) = mset xs"
  using assms(2)
proof (induction i arbitrary: xs)
  case (Suc i)
  then have "draw (Suc i) < length xs" using assms(1) [of "Suc i"] by simp
  then show ?case using Suc by (simp add: swap_mset)
qed simp

definition elector_ok :: "'a mvba_env_scheme \<Rightarrow> Elector \<Rightarrow> bool" where
  "elector_ok w e \<longleftrightarrow> (\<forall>epoch gen. el_randGen e epoch = Some gen \<longrightarrow>
     mset gen = mset (map int [0..<nat (Committee_Size (el_committee e))]))"

lemma elector_const_mvba [simp]:
  "el_committee (addSeed w epoch seed e) = el_committee e"
  "el_committee (snd (addElectShare w share e)) = el_committee e"
  "el_sigService (snd (addElectShare w share e)) = el_sigService e"
  by (simp_all add: addSeed_def addElectShare_def Let_def split: prod.split option.split)

lemma addSeed_ok:
  assumes "\<And>seed k. env_draw w seed k \<le> k" "elector_ok w e"
  shows "elector_ok w (addSeed w epoch seed e)"
proof -
  let ?l = "map int [0..<nat (Committee_Size (el_committee e))]"
  have "mset (Shuffle (env_draw w seed) (length ?l - 1) ?l) = mset ?l"
    by (rule mset_Shuffle [OF assms(1)]) auto
  then show ?thesis using assms(2) by (simp add: elector_ok_def addSeed_def)
qed

lemma addElectShare_ok:
  assumes "\<And>seed k. env_draw w seed k \<le> k" "elector_ok w e"
  shows "elector_ok w (snd (addElectShare w share e))"
proof -
  have "elector_ok w (e\<lparr>el_used := u, el_electShares := s\<rparr>)" for u s
    using assms(2) by (simp add: elector_ok_def)
  then show ?thesis
    by (auto simp: addElectShare_def Let_def split: prod.split option.split intro: addSeed_ok [OF assms(1)])
qed

end
