(* ===== verification/Mvba_Aggreator.thy ===== *)
theory Mvba_Aggreator
  imports Mvba_Elector
begin

text \<open>
  \<^verbatim>\<open>core/mvba/consensus/aggreator.go\<close>: the votes on a leader, which give the input of the binary agreement,
  and the shares of its coin. The set \<^verbatim>\<open>Used\<close> of a coin is never filled by the source.
\<close>

section \<open>Votes\<close>

definition ACTION_NO :: byte where "ACTION_NO = 0"
definition ACTION_ONE :: byte where "ACTION_ONE = 1"
definition ACTION_TWO :: byte where "ACTION_TWO = 2"

lemmas mvba_action_defs = ACTION_NO_def ACTION_ONE_def ACTION_TWO_def

record VoteAggreator =
  va_Used :: "NodeID fset"
  va_flag :: bool

definition NewVoteAggreator :: VoteAggreator where
  "NewVoteAggreator = \<lparr>va_Used = {||}, va_flag = False\<rparr>"

definition VoteAggreator_append ::
  "Committee \<Rightarrow> Vote \<Rightarrow> VoteAggreator \<Rightarrow> (byte \<times> error option) \<times> VoteAggreator" where
  "VoteAggreator_append committee vote v =
     (if vo_Author vote |\<in>| va_Used v
      then ((ACTION_NO, Some (ErrOneMoreMessage (MsgType (VoteMsg vote)) (vo_Epoch vote) (vo_Round vote)
                                (vo_Author vote))), v)
      else
        let v = v\<lparr>va_Used := finsert (vo_Author vote) (va_Used v)\<rparr> in
        if \<not> va_flag v \<and> vo_Flag vote = FLAG_YES then ((ACTION_ONE, None), v\<lparr>va_flag := True\<rparr>)
        else if \<not> va_flag v \<and> int (fcard (va_Used v)) = HightThreshold committee
        then ((ACTION_TWO, None), v\<lparr>va_flag := True\<rparr>)
        else ((ACTION_NO, None), v))"

section \<open>Shares of a coin\<close>

record CoinAggreator =
  ca_Used :: "NodeID fset"
  ca_Shares :: "SignatureShare list"

definition NewCoinAggreator :: CoinAggreator where
  "NewCoinAggreator = \<lparr>ca_Used = {||}, ca_Shares = []\<rparr>"

text \<open>The loop over the combined signature, in \<^verbatim>\<open>uint64\<close>.\<close>

fun coin_seed :: "nat \<Rightarrow> nat \<Rightarrow> bytes \<Rightarrow> 64 word \<Rightarrow> 64 word" where
  "coin_seed 0 i data seed = seed"
| "coin_seed (Suc k) i data seed =
     (if i < length data then coin_seed k (Suc i) data (push_bit 8 seed + ucast (data ! i)) else seed)"

definition CoinAggreator_append ::
  "'a crypto_scheme \<Rightarrow> Committee \<Rightarrow> SigService \<Rightarrow> CoinShare \<Rightarrow> CoinAggreator \<Rightarrow>
     (bool \<times> byte \<times> error option) \<times> CoinAggreator" where
  "CoinAggreator_append w committee sigService share c =
     (if cs_Author share |\<in>| ca_Used c
      then ((False, 0, Some (ErrOneMoreMessage (MsgType (CoinShareMsg (Some share))) (cs_Epoch share) (cs_Round share)
                               (cs_Author share))), c)
      else
        let c = c\<lparr>ca_Shares := ca_Shares c @ [cs_Share share]\<rparr> in
        if int (length (ca_Shares c)) = HightThreshold committee then
          (case CombineIntactTSPartial w (ca_Shares c) (ss_ShareKey sigService) (CoinShare_Hash w share) of
             (data, Some err) \<Rightarrow> ((False, 0, Some err), c)
           | (data, None) \<Rightarrow>
               let seed = coin_seed RANDOM_LEN 0 data 0
               in ((True, ucast (seed mod 2), None), c))
        else ((False, 0, None), c))"

section \<open>The tables\<close>

record Aggreator =
  ag_committee :: Committee
  ag_sigService :: SigService
  ag_votes :: "int \<rightharpoonup> int \<rightharpoonup> VoteAggreator"
  ag_coins :: "int \<rightharpoonup> int \<rightharpoonup> int \<rightharpoonup> CoinAggreator"

definition NewAggreator :: "Committee \<Rightarrow> SigService \<Rightarrow> Aggreator" where
  "NewAggreator committee sigService = \<lparr>ag_committee = committee, ag_sigService = sigService,
     ag_votes = Map.empty, ag_coins = Map.empty\<rparr>"

definition addVote :: "Vote \<Rightarrow> Aggreator \<Rightarrow> (byte \<times> error option) \<times> Aggreator" where
  "addVote vote a =
     (let item = (case get2 (ag_votes a) (vo_Epoch vote) (vo_Round vote) of
                    Some item \<Rightarrow> item | None \<Rightarrow> NewVoteAggreator);
          (res, item) = VoteAggreator_append (ag_committee a) vote item
      in (res, a\<lparr>ag_votes := put2 (ag_votes a) (vo_Epoch vote) (vo_Round vote) item\<rparr>))"

definition addCoinShare ::
  "'a crypto_scheme \<Rightarrow> CoinShare \<Rightarrow> Aggreator \<Rightarrow> (bool \<times> byte \<times> error option) \<times> Aggreator" where
  "addCoinShare w coinShare a =
     (let instance = (case get3 (ag_coins a) (cs_Epoch coinShare) (cs_Round coinShare) (cs_InRound coinShare) of
                        Some instance \<Rightarrow> instance | None \<Rightarrow> NewCoinAggreator);
          (res, instance) = CoinAggreator_append w (ag_committee a) (ag_sigService a) coinShare instance
      in (res, a\<lparr>ag_coins := put3 (ag_coins a) (cs_Epoch coinShare) (cs_Round coinShare) (cs_InRound coinShare) instance\<rparr>))"

section \<open>One input for each agreement\<close>

interpretation mva: vote_counter va_Used VoteAggreator_append vo_Author "\<lambda>_. True" "\<lambda>_. True"
  by unfold_locales (auto simp: VoteAggreator_append_def Let_def)

end
