(* ===== verification/Mvba_Commitor.thy ===== *)
theory Mvba_Commitor
  imports Mvba_Message
begin

text \<open>
  \<^verbatim>\<open>core/mvba/consensus/commitor.go\<close>: blocks leave over \<^verbatim>\<open>blockChan\<close> in the order of the epochs they were
  committed for; the leader of an epoch can be recorded before its block is known.
  \<open>cm_blockChan\<close> is the sequence of everything sent on the channel.
\<close>

record Commitor =
  cm_commitLeaders :: "int \<rightharpoonup> NodeID"
  cm_commitBlocks :: "(int, Block) fmap"
  cm_blockChan :: "Block list"
  cm_curIndex :: int

definition NewCommitor :: Commitor where
  "NewCommitor = \<lparr>cm_commitLeaders = Map.empty, cm_commitBlocks = fmempty, cm_blockChan = [], cm_curIndex = 0\<rparr>"

text \<open>The goroutine that \<^verbatim>\<open>NewCommitor\<close> starts: what it logs, and the number of its call-backs.\<close>

fun Commitor_run :: "Block list \<Rightarrow> (int \<times> NodeID \<times> int) list \<times> nat" where
  "Commitor_run [] = ([], 0)"
| "Commitor_run (block # bs) =
     (let (infos, callBack) = Commitor_run bs in
      (if bt_Txs (b_Batch block) \<noteq> None
       then (b_Epoch block, b_Proposer block, bt_ID (b_Batch block)) # infos else infos, Suc callBack))"

definition CommitLeader :: "int \<Rightarrow> Commitor \<Rightarrow> NodeID" where
  "CommitLeader epoch c = (case cm_commitLeaders c epoch of None \<Rightarrow> NONE | Some leader \<Rightarrow> leader)"

function commit_loop :: "Commitor \<Rightarrow> Commitor" where
  "commit_loop c =
     (case fmlookup (cm_commitBlocks c) (cm_curIndex c) of
        Some b \<Rightarrow>
          let c = c\<lparr>cm_blockChan := cm_blockChan c @ [b]\<rparr>;
              c = c\<lparr>cm_commitBlocks := fmdrop (cm_curIndex c) (cm_commitBlocks c)\<rparr>
          in commit_loop (c\<lparr>cm_curIndex := i64 (cm_curIndex c + 1)\<rparr>)
      | None \<Rightarrow> c)"
  by pat_completeness auto

termination
  by (relation "measure (\<lambda>c. fcard (fmdom (cm_commitBlocks c)))") (simp_all add: fcard_fmdrop_less del: fmdom_drop)

declare commit_loop.simps [simp del]

definition Commit :: "int \<Rightarrow> NodeID \<Rightarrow> Block option \<Rightarrow> Commitor \<Rightarrow> Commitor" where
  "Commit epoch leader block c =
     (if epoch < cm_curIndex c then c
      else
        let c = c\<lparr>cm_commitLeaders := (cm_commitLeaders c)(epoch \<mapsto> leader)\<rparr> in
        case block of
          None \<Rightarrow> c
        | Some b \<Rightarrow> commit_loop (c\<lparr>cm_commitBlocks := fmupd epoch b (cm_commitBlocks c)\<rparr>))"

section \<open>The committor is a reorder buffer\<close>

definition cm_view :: "Commitor \<Rightarrow> Block buffer" where
  "cm_view c = (cm_curIndex c, cm_commitBlocks c, cm_blockChan c)"

lemma mvba_loop_drain: "cm_view (commit_loop c) = drain (cm_view c)"
proof (induction c rule: commit_loop.induct)
  case (1 c)
  show ?case
  proof (cases "fmlookup (cm_commitBlocks c) (cm_curIndex c)")
    case None
    then show ?thesis by (simp add: commit_loop.simps [of c] cm_view_def drain.simps)
  next
    case (Some b)
    show ?thesis
      using 1 [OF Some refl refl] Some
      by (simp add: commit_loop.simps [of c] cm_view_def drain.simps [of "cm_curIndex c"])
  qed
qed

definition cm_submit :: "int \<times> NodeID \<times> Block \<Rightarrow> Commitor \<Rightarrow> Commitor" where
  "cm_submit = (\<lambda>(epoch, leader, b). Commit epoch leader (Some b))"

lemma cm_view_eq: "cm_view c = (i, m, out) \<longleftrightarrow> cm_curIndex c = i \<and> cm_commitBlocks c = m \<and> cm_blockChan c = out"
  by (simp add: cm_view_def)

interpretation mco: reorder_buffer cm_view fst "\<lambda>x. snd (snd x)" cm_submit
proof unfold_locales
  fix c i m out and x :: "int \<times> NodeID \<times> Block"
  assume v: "cm_view c = (i, m, out)"
  obtain e l b where x: "x = (e, l, b)" by (cases x)
  let ?c = "c\<lparr>cm_commitLeaders := (cm_commitLeaders c)(e \<mapsto> l), cm_commitBlocks := fmupd e b (cm_commitBlocks c)\<rparr>"
  show "fst x < i \<Longrightarrow> cm_view (cm_submit x c) = (i, m, out)"
    using v by (simp add: x cm_submit_def Commit_def cm_view_eq)
  have "drain (cm_view ?c) = drain (i, fmupd e b m, out)" using v by (simp add: cm_view_def)
  then show "i \<le> fst x \<Longrightarrow> cm_view (cm_submit x c) = drain (i, fmupd (fst x) (snd (snd x)) m, out)"
    using v mvba_loop_drain [of ?c] by (simp add: x cm_submit_def Commit_def cm_view_eq)
qed

lemma mvba_New_view [simp]: "cm_view NewCommitor = (0, fmempty, [])"
  by (simp add: cm_view_def NewCommitor_def)

text \<open>A commit without a block only records the leader.\<close>

lemma Commit_nil_view [simp]: "cm_view (Commit epoch leader None c) = cm_view c"
  by (simp add: Commit_def cm_view_def Let_def)

lemma mvba_Commit_grows: "prefix (cm_blockChan c) (cm_blockChan (Commit epoch leader block c))"
proof (cases block)
  case None
  then show ?thesis using Commit_nil_view [of epoch leader c] by (simp add: cm_view_def)
next
  case (Some b)
  then show ?thesis
    using mco.submit_grows [of c "(epoch, leader, b)"] by (simp add: cm_submit_def cm_view_def delivered_def)
qed

text \<open>The index is the number of blocks that were sent, at its width.\<close>

definition cm_counted :: "Commitor \<Rightarrow> bool" where
  "cm_counted c \<longleftrightarrow> cm_curIndex c = i64 (int (length (cm_blockChan c)))"

lemma commit_loop_counted: "cm_counted c \<Longrightarrow> cm_counted (commit_loop c)"
proof (induction c rule: commit_loop.induct)
  case (1 c)
  show ?case
  proof (cases "fmlookup (cm_commitBlocks c) (cm_curIndex c)")
    case None
    then show ?thesis using 1(2) by (simp add: commit_loop.simps [of c])
  next
    case (Some b)
    have "cm_counted (c\<lparr>cm_blockChan := cm_blockChan c @ [b], cm_commitBlocks := fmdrop (cm_curIndex c) (cm_commitBlocks c),
        cm_curIndex := i64 (cm_curIndex c + 1)\<rparr>)"
      using 1(2) by (simp add: cm_counted_def) (simp add: add.commute)
    then show ?thesis using 1(1) [OF Some refl refl] Some by (simp add: commit_loop.simps [of c])
  qed
qed

lemma Commit_counted: "cm_counted c \<Longrightarrow> cm_counted (Commit epoch leader block c)"
  by (cases block) (auto simp: Commit_def Let_def intro!: commit_loop_counted, simp_all add: cm_counted_def)

text \<open>While the block of the next epoch is missing, blocks of other epochs wait.\<close>

lemma commit_loop_stuck: "fmlookup (cm_commitBlocks c) (cm_curIndex c) = None \<Longrightarrow> commit_loop c = c"
  by (simp add: commit_loop.simps [of c])

definition cm_drained :: "Commitor \<Rightarrow> bool" where
  "cm_drained c \<longleftrightarrow> fmlookup (cm_commitBlocks c) (cm_curIndex c) = None"

lemma commit_loop_drained: "cm_drained (commit_loop c)"
proof (induction c rule: commit_loop.induct)
  case (1 c)
  then show ?case by (subst commit_loop.simps) (auto simp: cm_drained_def split: option.split)
qed

lemma Commit_drained: "cm_drained c \<Longrightarrow> cm_drained (Commit epoch leader block c)"
  by (cases block) (auto simp: Commit_def Let_def commit_loop_drained, simp_all add: cm_drained_def)

lemma Commit_stuck:
  assumes "cm_drained c" "epoch \<noteq> cm_curIndex c"
  shows "cm_blockChan (Commit epoch leader block c) = cm_blockChan c"
    "cm_curIndex (Commit epoch leader block c) = cm_curIndex c"
  using assms by (cases block; auto simp: Commit_def Let_def commit_loop_stuck cm_drained_def)+

end
