(* ===== verification/Mvba_Core.thy ===== *)
theory Mvba_Core
  imports Mvba_Aba Mvba_Aggreator Mvba_Commitor
begin

text \<open>
  \<^verbatim>\<open>core/mvba/consensus/core.go\<close>: the state of one MVBA node, its handlers, the dispatch of a message and
  the main loop, which also reads the call-backs of the two kinds of instances. A handler returns
  its \<^verbatim>\<open>error\<close> with the core it leaves, or \<open>None\<close> for a panic. \<open>c_cbcTasks\<close> and \<open>c_abaTasks\<close> hold the
  goroutines of the instances that have not ended.
\<close>

section \<open>State\<close>

record 'db Core = mvba_ctx +
  c_Store :: "'db Store"
  c_TxPool :: Pool
  c_Commitor :: Commitor
  c_Elector :: Elector
  c_Aggreator :: Aggreator
  c_Epoch :: int
  c_cbcInstances :: "int \<rightharpoonup> NodeID \<rightharpoonup> byte \<rightharpoonup> CBC"
  c_cbcFinalCnts :: "int \<rightharpoonup> byte \<rightharpoonup> int"
  c_cbcFinalIndexs :: "int \<rightharpoonup> bool list"
  c_commitments :: "int \<rightharpoonup> NodeID \<rightharpoonup> slice option"
  c_abaInstances :: "int \<rightharpoonup> int \<rightharpoonup> ABA"
  c_abaInvokeFlag :: "int \<rightharpoonup> int \<rightharpoonup> int \<rightharpoonup> byte \<rightharpoonup> unit"
  c_cbcTasks :: "((int \<times> NodeID \<times> byte) \<times> cbc_pc) list"
  c_abaTasks :: "((int \<times> int) \<times> aba_pc) list"

definition NewCore ::
  "NodeID \<Rightarrow> Committee \<Rightarrow> Parameters \<Rightarrow> SigService \<Rightarrow> 'db Store \<Rightarrow> Pool \<Rightarrow> mvba_msg Transmitor \<Rightarrow> 'db Core" where
  "NewCore name committee parameters sigService store txPool transimtor =
     \<lparr>c_Name = name, c_Committee = committee, c_Parameters = parameters, c_SigService = sigService,
      c_Transimtor = transimtor, c_cbcCallBack = [], c_abaCallBack = [], c_Store = store, c_TxPool = txPool,
      c_Commitor = NewCommitor, c_Elector = NewElector committee sigService,
      c_Aggreator = NewAggreator committee sigService, c_Epoch = 0, c_cbcInstances = Map.empty,
      c_cbcFinalCnts = Map.empty, c_cbcFinalIndexs = Map.empty, c_commitments = Map.empty,
      c_abaInstances = Map.empty, c_abaInvokeFlag = Map.empty, c_cbcTasks = [], c_abaTasks = []\<rparr>"

section \<open>Helpers\<close>

definition storeBlock ::
  "'a mvba_env_scheme \<Rightarrow> Block option \<Rightarrow> 'db Core \<Rightarrow> (error option \<times> 'db Core) option" where
  "storeBlock w block c = do {
     b \<leftarrow> nonnil block;
     let key = Block_Hash w b;
     case Block_Encode w b of
       Inl err \<Rightarrow> Some (Some err, c)
     | Inr val \<Rightarrow>
         let (err, store) = Store_Write key val (c_Store c)
         in Some (err, c\<lparr>c_Store := store\<rparr>) }"

text \<open>The block that comes with an error is not used by any caller.\<close>

definition getBlock :: "'a mvba_env_scheme \<Rightarrow> Digest \<Rightarrow> 'db Core \<Rightarrow> (error + Block) \<times> 'db Core" where
  "getBlock w digest c =
     (let ((data, err), store) = Store_Read digest (c_Store c);
          c = c\<lparr>c_Store := store\<rparr> in
      case err of Some err \<Rightarrow> (Inl err, c) | None \<Rightarrow> (Block_Decode w data, c))"

definition getCBCInstance :: "int \<Rightarrow> NodeID \<Rightarrow> byte \<Rightarrow> 'db Core \<Rightarrow> CBC \<times> 'db Core" where
  "getCBCInstance epoch node tag c =
     (case get3 (c_cbcInstances c) epoch node tag of
        Some instance \<Rightarrow> (instance, c)
      | None \<Rightarrow>
          let instance = NewCBC node epoch
          in (instance, c\<lparr>c_cbcInstances := put3 (c_cbcInstances c) epoch node tag instance\<rparr>))"

definition getABAInstance :: "int \<Rightarrow> int \<Rightarrow> 'db Core \<Rightarrow> ABA \<times> 'db Core" where
  "getABAInstance epoch rnd c =
     (case get2 (c_abaInstances c) epoch rnd of
        Some instance \<Rightarrow> (instance, c)
      | None \<Rightarrow>
          let instance = NewABA epoch rnd
          in (instance, c\<lparr>c_abaInstances := put2 (c_abaInstances c) epoch rnd instance\<rparr>))"

definition isInvokeABA :: "int \<Rightarrow> int \<Rightarrow> int \<Rightarrow> byte \<Rightarrow> 'db Core \<Rightarrow> bool" where
  "isInvokeABA epoch rnd inRound tag c \<longleftrightarrow>
     (case get3 (c_abaInvokeFlag c) epoch rnd inRound of None \<Rightarrow> False | Some item \<Rightarrow> item tag \<noteq> None)"

text \<open>Writing at an index that the slice does not have panics.\<close>

definition addFinals :: "int \<Rightarrow> byte \<Rightarrow> NodeID \<Rightarrow> 'db Core \<Rightarrow> (int \<times> 'db Core) option" where
  "addFinals epoch tag node c = do {
     let c = (if c_cbcFinalCnts c epoch = None
              then c\<lparr>c_cbcFinalCnts := ensure (c_cbcFinalCnts c) epoch,
                     c_cbcFinalIndexs := (c_cbcFinalIndexs c)(epoch \<mapsto> replicate (nat (Committee_Size (c_Committee c))) False)\<rparr>
              else c);
     c \<leftarrow> (if tag = DATA_CBC then do {
             bits \<leftarrow> nonnil (c_cbcFinalIndexs c epoch);
             if 0 \<le> node \<and> node < int (length bits)
             then Some (c\<lparr>c_cbcFinalIndexs := (c_cbcFinalIndexs c)(epoch \<mapsto> bits[nat node := True])\<rparr>)
             else None }
           else Some c);
     let cnt = (case get2 (c_cbcFinalCnts c) epoch tag of None \<Rightarrow> 0 | Some n \<Rightarrow> n) + 1;
     Some (cnt, c\<lparr>c_cbcFinalCnts := put2 (c_cbcFinalCnts c) epoch tag cnt\<rparr>) }"

definition addCommitment :: "int \<Rightarrow> NodeID \<Rightarrow> slice option \<Rightarrow> 'db Core \<Rightarrow> 'db Core" where
  "addCommitment epoch node commitment c = c\<lparr>c_commitments := put2 (c_commitments c) epoch node commitment\<rparr>"

text \<open>The bits a slice has now.\<close>

fun bits_of :: "'db Core \<Rightarrow> slice \<Rightarrow> bool list" where
  "bits_of c (Alias epoch) = (case c_cbcFinalIndexs c epoch of None \<Rightarrow> [] | Some bits \<Rightarrow> bits)"
| "bits_of c (Bits bits) = bits"

definition index :: "bool list \<Rightarrow> int \<Rightarrow> bool option" where
  "index bits i = (if 0 \<le> i \<and> i < int (length bits) then Some (bits ! nat i) else None)"

definition checkVote :: "Vote \<Rightarrow> 'db Core \<Rightarrow> bool option" where
  "checkVote vote c =
     (if vo_Flag vote = FLAG_NO then
        (case get2 (c_commitments c) (vo_Epoch vote) (vo_Author vote) of
           Some (Some item) \<Rightarrow> index (bits_of c item) (vo_Leader vote)
         | _ \<Rightarrow> Some False)
      else Some False)"

definition messageFilter :: "int \<Rightarrow> 'db Core \<Rightarrow> bool" where
  "messageFilter epoch c \<longleftrightarrow> c_Epoch c > epoch"

definition generateBlock :: "int \<Rightarrow> 'db Core \<Rightarrow> (Block \<times> 'db Core) option" where
  "generateBlock epoch c = do {
     (batch, txPool) \<leftarrow> GetBatch (c_TxPool c);
     Some (NewBlock (c_Name c) batch epoch, c\<lparr>c_TxPool := txPool\<rparr>) }"

text \<open>
  \<^verbatim>\<open>go c.getCBCInstance(e, n, t).Process...(m)\<close> and the same for an agreement: the instance is looked up
  before the goroutine starts.
\<close>

definition go_cbc :: "int \<times> NodeID \<times> byte \<Rightarrow> cbc_pc \<Rightarrow> 'db Core \<Rightarrow> 'db Core" where
  "go_cbc key pc c =
     (let (_, c) = getCBCInstance (fst key) (fst (snd key)) (snd (snd key)) c
      in c\<lparr>c_cbcTasks := c_cbcTasks c @ [(key, pc)]\<rparr>)"

definition go_aba :: "int \<times> int \<Rightarrow> aba_pc \<Rightarrow> 'db Core \<Rightarrow> 'db Core" where
  "go_aba key pc c =
     (let (_, c) = getABAInstance (fst key) (snd key) c in c\<lparr>c_abaTasks := c_abaTasks c @ [(key, pc)]\<rparr>)"

section \<open>Broadcasts\<close>

definition handleProposal ::
  "'a mvba_env_scheme \<Rightarrow> Proposal \<Rightarrow> 'db Core \<Rightarrow> (error option \<times> 'db Core) option" where
  "handleProposal w p c =
     (if messageFilter (pr_Epoch p) c then Some (None, c)
      else do {
        let c = (if CommitLeader (pr_Epoch p) (c_Commitor c) = pr_Author p
                 then c\<lparr>c_Commitor := Commit (pr_Epoch p) (pr_Author p) (pr_B p) (c_Commitor c)\<rparr> else c);
        (err, c) \<leftarrow> storeBlock w (pr_B p) c;
        if err \<noteq> None then Some (err, c)
        else Some (None, go_cbc (pr_Epoch p, pr_Author p, DATA_CBC) (ProposalEntry p) c) })"

definition handleReady :: "Ready \<Rightarrow> 'db Core \<Rightarrow> (error option \<times> 'db Core) option" where
  "handleReady r c =
     (if messageFilter (re_Epoch r) c then Some (None, c)
      else Some (None, go_cbc (re_Epoch r, re_Proposer r, re_Tag r) (ReadyEntry r) c))"

definition handleFinal :: "Final \<Rightarrow> 'db Core \<Rightarrow> (error option \<times> 'db Core) option" where
  "handleFinal f c =
     (if messageFilter (fi_Epoch f) c then Some (None, c)
      else Some (None, go_cbc (fi_Epoch f, fi_Author f, fi_Tag f) (FinalEntry f) c))"

definition handleCommitment :: "Commitment \<Rightarrow> 'db Core \<Rightarrow> (error option \<times> 'db Core) option" where
  "handleCommitment commit c =
     (if messageFilter (co_Epoch commit) c then Some (None, c)
      else Some (None, go_cbc (co_Epoch commit, co_Author commit, COMMIT_CBC) (CommitmentEntry commit) c))"

text \<open>
  What follows when \<open>2 f + 1\<close> broadcasts of a tag are final. The node's own commitment is a slice
  over the array in \<^verbatim>\<open>cbcFinalIndexs\<close>, not a copy.
\<close>

definition cbc_quorum ::
  "'a mvba_env_scheme \<Rightarrow> int \<Rightarrow> byte \<Rightarrow> 'db Core \<Rightarrow> (error option \<times> 'db Core) option" where
  "cbc_quorum w epoch tag c =
     (if tag = DATA_CBC then do {
        let commitment = (case c_cbcFinalIndexs c epoch of None \<Rightarrow> None | Some _ \<Rightarrow> Some (Alias epoch));
        msg \<leftarrow> NewCommitment w (c_Name c) commitment epoch (c_SigService c);
        let c = c_send NONE (CommitmentMsg msg) c;
        Some (None, c_push (CommitmentMsg msg) c) }
      else if tag = COMMIT_CBC then do {
        (elect, _) \<leftarrow> NewElectShare w (c_Name c) epoch (c_SigService c);
        let c = c_send NONE (ElectShareMsg elect) c;
        Some (None, c_push (ElectShareMsg elect) c) }
      else Some (None, c))"

definition processCBCBack ::
  "'a mvba_env_scheme \<Rightarrow> CBCBack \<Rightarrow> 'db Core \<Rightarrow> (error option \<times> 'db Core) option" where
  "processCBCBack w back c =
     (if messageFilter (cbk_Epoch back) c then Some (None, c)
      else do {
        (cnt, c) \<leftarrow> addFinals (cbk_Epoch back) (cbk_Tag back) (cbk_Author back) c;
        let c = (if cbk_Tag back = COMMIT_CBC
                 then addCommitment (cbk_Epoch back) (cbk_Author back) (cbk_Commitment back) c else c);
        if cnt = HightThreshold (c_Committee c) then cbc_quorum w (cbk_Epoch back) (cbk_Tag back) c
        else Some (None, c) })"

section \<open>Leaders and votes\<close>

definition invokeStageTwo ::
  "'a mvba_env_scheme \<Rightarrow> int \<Rightarrow> int \<Rightarrow> 'db Core \<Rightarrow> (error option \<times> 'db Core) option" where
  "invokeStageTwo w epoch rnd c = do {
     leader \<leftarrow> Leader epoch rnd (c_Elector c);
     flag \<leftarrow> (case c_cbcFinalIndexs c epoch of
               None \<Rightarrow> Some FLAG_NO
             | Some commitment \<Rightarrow> do {
                 b \<leftarrow> index commitment leader;
                 Some (if \<not> b then FLAG_NO else FLAG_YES) });
     vote \<leftarrow> NewVote w (c_Name c) leader epoch rnd flag (c_SigService c);
     let c = c_send NONE (VoteMsg vote) c;
     Some (None, c_push (VoteMsg vote) c) }"

text \<open>The second stage is started for the node's epoch, not for the epoch of the shares.\<close>

definition handleElectShare ::
  "'a mvba_env_scheme \<Rightarrow> ElectShare \<Rightarrow> 'db Core \<Rightarrow> (error option \<times> 'db Core) option" where
  "handleElectShare w elect c =
     (if messageFilter (es_Epoch elect) c then Some (None, c)
      else
        let ((flag, err), el) = addElectShare w elect (c_Elector c);
            c = c\<lparr>c_Elector := el\<rparr> in
        if err \<noteq> None then Some (err, c)
        else if flag then invokeStageTwo w (c_Epoch c) 0 c
        else Some (None, c))"

definition invokeABAVal ::
  "'a mvba_env_scheme \<Rightarrow> NodeID \<Rightarrow> int \<Rightarrow> int \<Rightarrow> int \<Rightarrow> byte \<Rightarrow> 'db Core \<Rightarrow> (error option \<times> 'db Core) option" where
  "invokeABAVal w leader epoch rnd inRound flag c =
     (if isInvokeABA epoch rnd inRound flag c then Some (None, c)
      else do {
        let item = (case get3 (c_abaInvokeFlag c) epoch rnd inRound of None \<Rightarrow> Map.empty | Some item \<Rightarrow> item);
        let c = c\<lparr>c_abaInvokeFlag := put3 (c_abaInvokeFlag c) epoch rnd inRound (item(flag \<mapsto> ()))\<rparr>;
        abaVal \<leftarrow> NewABAVal w (c_Name c) leader epoch rnd inRound flag (c_SigService c);
        let c = c_send NONE (ABAValMsg abaVal) c;
        Some (None, c_push (ABAValMsg abaVal) c) })"

definition handleVote ::
  "'a mvba_env_scheme \<Rightarrow> Vote \<Rightarrow> 'db Core \<Rightarrow> (error option \<times> 'db Core) option" where
  "handleVote w vote c =
     (if messageFilter (vo_Epoch vote) c then Some (None, c)
      else do {
        bad \<leftarrow> checkVote vote c;
        if bad then Some (Some (ErrVoteCheck (vo_Epoch vote) (vo_Round vote) (vo_Author vote) (vo_Leader vote)), c)
        else
          let ((flag, err), ag) = addVote vote (c_Aggreator c);
              c = c\<lparr>c_Aggreator := ag\<rparr> in
          if err \<noteq> None then Some (err, c)
          else if flag \<noteq> ACTION_NO then
            (if flag = ACTION_ONE then invokeABAVal w (vo_Leader vote) (vo_Epoch vote) (vo_Round vote) 0 FLAG_YES c
             else invokeABAVal w (vo_Leader vote) (vo_Epoch vote) (vo_Round vote) 0 FLAG_NO c)
          else Some (None, c) })"

section \<open>Agreement\<close>

definition handleABAVal :: "ABAVal \<Rightarrow> 'db Core \<Rightarrow> (error option \<times> 'db Core) option" where
  "handleABAVal val c =
     (if messageFilter (av_Epoch val) c then Some (None, c)
      else Some (None, go_aba (av_Epoch val, av_Round val) (ValEntry val) c))"

definition handleABAMux :: "ABAMux \<Rightarrow> 'db Core \<Rightarrow> (error option \<times> 'db Core) option" where
  "handleABAMux mux c =
     (if messageFilter (mx_Epoch mux) c then Some (None, c)
      else Some (None, go_aba (mx_Epoch mux, mx_Round mux) (MuxEntry mux) c))"

definition handleCoinShare ::
  "'a mvba_env_scheme \<Rightarrow> CoinShare \<Rightarrow> 'db Core \<Rightarrow> (error option \<times> 'db Core) option" where
  "handleCoinShare w share c =
     (if messageFilter (cs_Epoch share) c then Some (None, c)
      else
        let ((ok, coin, err), ag) = addCoinShare w share (c_Aggreator c);
            c = c\<lparr>c_Aggreator := ag\<rparr> in
        if err \<noteq> None then Some (err, c)
        else if ok then
          Some (None, go_aba (cs_Epoch share, cs_Round share) (CoinEntry (cs_InRound share) coin (cs_Leader share)) c)
        else Some (None, c))"

definition handleABAHalt :: "ABAHalt \<Rightarrow> 'db Core \<Rightarrow> (error option \<times> 'db Core) option" where
  "handleABAHalt halt c =
     (if messageFilter (ah_Epoch halt) c then Some (None, c)
      else Some (None, go_aba (ah_Epoch halt, ah_Round halt) (HaltEntry halt) c))"

definition abvanceNextEpoch ::
  "'a mvba_env_scheme \<Rightarrow> int \<Rightarrow> 'db Core \<Rightarrow> (error option \<times> 'db Core) option" where
  "abvanceNextEpoch w epoch c =
     (if epoch \<le> c_Epoch c then Some (None, c)
      else do {
        let c = c\<lparr>c_Epoch := epoch\<rparr>;
        (block, c) \<leftarrow> generateBlock (c_Epoch c) c;
        proposal \<leftarrow> NewProposal w (c_Name c) (Some block) (c_Epoch c) (c_SigService c);
        let c = c_send NONE (ProposalMsg proposal) c;
        Some (None, c_push (ProposalMsg proposal) c) })"

text \<open>The part of \<^verbatim>\<open>handleOutput\<close> for a leader whose block hash is known.\<close>

definition output_block ::
  "'a mvba_env_scheme \<Rightarrow> int \<Rightarrow> NodeID \<Rightarrow> Digest \<Rightarrow> 'db Core \<Rightarrow> 'db Core" where
  "output_block w epoch leader hash c =
     (case getBlock w hash c of
        (Inl err, c) \<Rightarrow> c\<lparr>c_Commitor := Commit epoch leader None (c_Commitor c)\<rparr>
      | (Inr block, c) \<Rightarrow>
          let c = c\<lparr>c_Commitor := Commit epoch leader (Some block) (c_Commitor c)\<rparr> in
          if b_Proposer block \<noteq> c_Name c then
            let (cbc, c) = getCBCInstance epoch (c_Name c) DATA_CBC c in
            (case cb_BlockHash cbc of
               None \<Rightarrow> c
             | Some temp \<Rightarrow>
                 (case getBlock w temp c of
                    (Inr block, c) \<Rightarrow> c\<lparr>c_TxPool := PutBatch (b_Batch block) (c_TxPool c)\<rparr>
                  | (_, c) \<Rightarrow> c))
          else c)"

definition handleOutput ::
  "'a mvba_env_scheme \<Rightarrow> int \<Rightarrow> NodeID \<Rightarrow> 'db Core \<Rightarrow> (error option \<times> 'db Core) option" where
  "handleOutput w epoch leader c =
     (let (cbc, c) = getCBCInstance epoch leader DATA_CBC c;
          c = (case cb_BlockHash cbc of None \<Rightarrow> c | Some hash \<Rightarrow> output_block w epoch leader hash c)
      in abvanceNextEpoch w (i64 (epoch + 1)) c)"

definition processABABack ::
  "'a mvba_env_scheme \<Rightarrow> ABABack \<Rightarrow> 'db Core \<Rightarrow> (error option \<times> 'db Core) option" where
  "processABABack w back c =
     (if abk_Typ back = ABA_INVOKE then
        invokeABAVal w (abk_Leader back) (abk_Epoch back) (abk_ExRound back) (abk_InRound back) (abk_Flag back) c
      else if abk_Typ back = ABA_HALT then
        (if abk_Flag back = FLAG_NO then invokeStageTwo w (abk_Epoch back) (i64 (abk_ExRound back + 1)) c
         else if abk_Flag back = FLAG_YES then handleOutput w (abk_Epoch back) (abk_Leader back) c
         else Some (None, c))
      else Some (None, c))"

section \<open>The main loop\<close>

fun handle ::
  "'a mvba_env_scheme \<Rightarrow> mvba_msg \<Rightarrow> 'db Core \<Rightarrow> (error option \<times> 'db Core) option" where
  "handle w (ProposalMsg p) c = handleProposal w p c"
| "handle w (CommitmentMsg m) c = handleCommitment m c"
| "handle w (ReadyMsg r) c = handleReady r c"
| "handle w (FinalMsg f) c = handleFinal f c"
| "handle w (ElectShareMsg e) c = do { e \<leftarrow> nonnil e; handleElectShare w e c }"
| "handle w (VoteMsg v) c = handleVote w v c"
| "handle w (ABAValMsg v) c = handleABAVal v c"
| "handle w (ABAMuxMsg m) c = handleABAMux m c"
| "handle w (CoinShareMsg s) c = do { s \<leftarrow> nonnil s; handleCoinShare w s c }"
| "handle w (ABAHaltMsg h) c = handleABAHalt h c"

text \<open>
  A message whose signature is wrong is handled like any other: the source sets its error and
  overwrites it with the result of the handler. Only a panic of the check has an effect.
\<close>

definition dispatch ::
  "'a mvba_env_scheme \<Rightarrow> mvba_msg \<Rightarrow> 'db Core \<Rightarrow> (error option \<times> 'db Core) option" where
  "dispatch w msg c = do {
     valid \<leftarrow> Verify w (c_Committee c) msg;
     let err = (if \<not> valid then Some (ErrSignature (MsgType msg)) else None);
     (err, c) \<leftarrow> handle w msg c;
     Some (err, c) }"

definition Run_start :: "'a mvba_env_scheme \<Rightarrow> 'db Core \<Rightarrow> 'db Core option" where
  "Run_start w c = do {
     (block, c) \<leftarrow> generateBlock (c_Epoch c) c;
     proposal \<leftarrow> NewProposal w (c_Name c) (Some block) (c_Epoch c) (c_SigService c);
     let c = c_send NONE (ProposalMsg proposal) c;
     Some (c_push (ProposalMsg proposal) c) }"

text \<open>One turn of the loop takes a value from one of the three channels.\<close>

definition Run_turn :: "'a mvba_env_scheme \<Rightarrow> 'db Core \<Rightarrow> (error option \<times> 'db Core) option" where
  "Run_turn w c =
     (case Transmitor_Recv (c_Transimtor c) of
        None \<Rightarrow> Some (None, c)
      | Some (msg, tr) \<Rightarrow> dispatch w msg (c\<lparr>c_Transimtor := tr\<rparr>))"

definition Run_cbc :: "'a mvba_env_scheme \<Rightarrow> 'db Core \<Rightarrow> (error option \<times> 'db Core) option" where
  "Run_cbc w c =
     (case c_cbcCallBack c of
        [] \<Rightarrow> Some (None, c)
      | cbcBack # bs \<Rightarrow> processCBCBack w cbcBack (c\<lparr>c_cbcCallBack := bs\<rparr>))"

definition Run_aba :: "'a mvba_env_scheme \<Rightarrow> 'db Core \<Rightarrow> (error option \<times> 'db Core) option" where
  "Run_aba w c =
     (case c_abaCallBack c of
        [] \<Rightarrow> Some (None, c)
      | abaBack # bs \<Rightarrow> processABABack w abaBack (c\<lparr>c_abaCallBack := bs\<rparr>))"

end
