(* ===== verification/Mvba_Effects.thy ===== *)
theory Mvba_Effects
  imports Mvba_Core
begin

text \<open>
  What the handlers of an MVBA node can do to its state: \<open>mvba_upd\<close> lists the single updates. Every
  handler is a sequence of such updates, after which it may start one goroutine. So an invariant
  needs one case for each update and one for the start of a goroutine. A block is committed for an
  epoch that is not past, except by the call-back of an agreement; \<open>E\<close> is the epoch of that call-back.
\<close>

section \<open>Single updates\<close>

text \<open>The messages that a node sends at most once in the place they belong to.\<close>

fun guarded :: "mvba_msg \<Rightarrow> bool" where
  "guarded (CommitmentMsg _) \<longleftrightarrow> True"
| "guarded (ElectShareMsg _) \<longleftrightarrow> True"
| "guarded (ABAMuxMsg _) \<longleftrightarrow> True"
| "guarded (CoinShareMsg _) \<longleftrightarrow> True"
| "guarded _ \<longleftrightarrow> False"

definition finals_of :: "'db Core \<Rightarrow> int \<Rightarrow> byte \<Rightarrow> int" where
  "finals_of c epoch tag = (case get2 (c_cbcFinalCnts c) epoch tag of None \<Rightarrow> 0 | Some n \<Rightarrow> n)"

definition count_final :: "int \<Rightarrow> byte \<Rightarrow> 'db Core \<Rightarrow> 'db Core" where
  "count_final epoch tag c = c\<lparr>c_cbcFinalCnts := put2 (c_cbcFinalCnts c) epoch tag (finals_of c epoch tag + 1)\<rparr>"

inductive mvba_upd :: "'a mvba_env_scheme \<Rightarrow> int option \<Rightarrow> 'db Core \<Rightarrow> 'db Core \<Rightarrow> bool" for w E where
  send: "\<not> guarded msg \<Longrightarrow> mvba_upd w E c (c_send to msg c)"
| push: "mvba_upd w E c (c_push msg c)"
| cbc_inst: "get3 (c_cbcInstances c) e n t = None \<Longrightarrow>
    mvba_upd w E c (c\<lparr>c_cbcInstances := put3 (c_cbcInstances c) e n t (NewCBC n e)\<rparr>)"
| store: "mvba_upd w E c (c\<lparr>c_Store := store\<rparr>)"
| get_batch: "GetBatch (c_TxPool c) = Some (batch, txPool) \<Longrightarrow> mvba_upd w E c (c\<lparr>c_TxPool := txPool\<rparr>)"
| put_batch: "mvba_upd w E c (c\<lparr>c_TxPool := PutBatch batch (c_TxPool c)\<rparr>)"
| cnts: "mvba_upd w E c (c\<lparr>c_cbcFinalCnts := ensure (c_cbcFinalCnts c) e\<rparr>)"
| indexs: "length bits = nat (Committee_Size (c_Committee c)) \<or>
      (\<exists>bits'. c_cbcFinalIndexs c e = Some bits' \<and> length bits = length bits') \<Longrightarrow>
    mvba_upd w E c (c\<lparr>c_cbcFinalIndexs := (c_cbcFinalIndexs c)(e \<mapsto> bits)\<rparr>)"
| final: "\<not> (finals_of c e t + 1 = HightThreshold (c_Committee c) \<and> (t = DATA_CBC \<or> t = COMMIT_CBC)) \<Longrightarrow>
    mvba_upd w E c (count_final e t c)"
| final_data: "finals_of c e DATA_CBC + 1 = HightThreshold (c_Committee c) \<Longrightarrow> co_Epoch m = e \<Longrightarrow>
    mvba_upd w E c (c_send to (CommitmentMsg m) (count_final e DATA_CBC c))"
| final_commit: "finals_of c e COMMIT_CBC + 1 = HightThreshold (c_Committee c) \<Longrightarrow>
    NewElectShare w name e sig = Some (share, serr) \<Longrightarrow>
    mvba_upd w E c (c_send to (ElectShareMsg share) (count_final e COMMIT_CBC c))"
| commitment: "mvba_upd w E c (addCommitment e n s c)"
| elect: "addElectShare w share (c_Elector c) = (res, el) \<Longrightarrow> mvba_upd w E c (c\<lparr>c_Elector := el\<rparr>)"
| vote: "addVote v (c_Aggreator c) = (vres, ag) \<Longrightarrow> mvba_upd w E c (c\<lparr>c_Aggreator := ag\<rparr>)"
| coin: "addCoinShare w cshare (c_Aggreator c) = (cres, ag) \<Longrightarrow> mvba_upd w E c (c\<lparr>c_Aggreator := ag\<rparr>)"
| invoke: "mvba_upd w E c (c\<lparr>c_abaInvokeFlag := flags\<rparr>)"
| commit: "c_Epoch c \<le> e \<or> E = Some e \<Longrightarrow> mvba_upd w E c (c\<lparr>c_Commitor := Commit e l b (c_Commitor c)\<rparr>)"
| epoch: "e = (if e' \<le> c_Epoch c then c_Epoch c else e') \<Longrightarrow> mvba_upd w E c (c\<lparr>c_Epoch := e\<rparr>)"

abbreviation mvba_upds :: "'a mvba_env_scheme \<Rightarrow> int option \<Rightarrow> 'db Core \<Rightarrow> 'db Core \<Rightarrow> bool" where
  "mvba_upds w E \<equiv> (mvba_upd w E)\<^sup>*\<^sup>*"

lemma mvba_upds_snoc: "mvba_upd w E c1 c2 \<Longrightarrow> mvba_upds w E c c1 \<Longrightarrow> mvba_upds w E c c2"
  by (rule rtranclp.rtrancl_into_rtrancl)

lemmas mvba_upds_intros = mvba_upd.intros [THEN mvba_upds_snoc]

section \<open>The goroutine a message starts\<close>

fun started_cbc :: "mvba_msg \<Rightarrow> int \<times> NodeID \<times> byte \<Rightarrow> cbc_pc \<Rightarrow> bool" where
  "started_cbc (ProposalMsg p) key pc \<longleftrightarrow> key = (pr_Epoch p, pr_Author p, DATA_CBC) \<and> pc = ProposalEntry p"
| "started_cbc (CommitmentMsg m) key pc \<longleftrightarrow> key = (co_Epoch m, co_Author m, COMMIT_CBC) \<and> pc = CommitmentEntry m"
| "started_cbc (ReadyMsg r) key pc \<longleftrightarrow> key = (re_Epoch r, re_Proposer r, re_Tag r) \<and> pc = ReadyEntry r"
| "started_cbc (FinalMsg f) key pc \<longleftrightarrow> key = (fi_Epoch f, fi_Author f, fi_Tag f) \<and> pc = FinalEntry f"
| "started_cbc _ key pc \<longleftrightarrow> False"

fun started_aba :: "mvba_msg \<Rightarrow> int \<times> int \<Rightarrow> aba_pc \<Rightarrow> bool" where
  "started_aba (ABAValMsg v) key pc \<longleftrightarrow> key = (av_Epoch v, av_Round v) \<and> pc = ValEntry v"
| "started_aba (ABAMuxMsg m) key pc \<longleftrightarrow> key = (mx_Epoch m, mx_Round m) \<and> pc = MuxEntry m"
| "started_aba (CoinShareMsg (Some s)) key pc \<longleftrightarrow>
     key = (cs_Epoch s, cs_Round s) \<and> (\<exists>coin. pc = CoinEntry (cs_InRound s) coin (cs_Leader s))"
| "started_aba (ABAHaltMsg h) key pc \<longleftrightarrow> key = (ah_Epoch h, ah_Round h) \<and> pc = HaltEntry h"
| "started_aba _ key pc \<longleftrightarrow> False"

text \<open>What a handler does: updates, and then perhaps one goroutine, on an instance of an epoch that is not past.\<close>

definition effect :: "'a mvba_env_scheme \<Rightarrow> mvba_msg \<Rightarrow> 'db Core \<Rightarrow> 'db Core \<Rightarrow> bool" where
  "effect w m c c' \<longleftrightarrow> (\<exists>c1. mvba_upds w None c c1 \<and> (c' = c1 \<or>
     (\<exists>key pc. started_cbc m key pc \<and> c_Epoch c1 \<le> fst key \<and> c' = go_cbc key pc c1) \<or>
     (\<exists>key pc. started_aba m key pc \<and> c_Epoch c1 \<le> fst key \<and> c' = go_aba key pc c1)))"

lemma effect_upds: "mvba_upds w None c c' \<Longrightarrow> effect w m c c'"
  by (auto simp: effect_def)

lemma effect_cbc:
  "mvba_upds w None c c1 \<Longrightarrow> started_cbc m key pc \<Longrightarrow> c_Epoch c1 \<le> fst key \<Longrightarrow> effect w m c (go_cbc key pc c1)"
  unfolding effect_def by blast

lemma effect_aba:
  "mvba_upds w None c c1 \<Longrightarrow> started_aba m key pc \<Longrightarrow> c_Epoch c1 \<le> fst key \<Longrightarrow> effect w m c (go_aba key pc c1)"
  unfolding effect_def by blast

section \<open>The helpers\<close>

lemma mvba_ctx_fields [simp]:
  "c_Name (c_send to msg c) = c_Name c" "c_Name (c_push msg c) = c_Name c"
  "c_Committee (c_send to msg c) = c_Committee c" "c_Committee (c_push msg c) = c_Committee c"
  "c_SigService (c_send to msg c) = c_SigService c" "c_SigService (c_push msg c) = c_SigService c"
  "c_cbcCallBack (c_send to msg c) = c_cbcCallBack c" "c_cbcCallBack (c_push msg c) = c_cbcCallBack c"
  "c_abaCallBack (c_send to msg c) = c_abaCallBack c" "c_abaCallBack (c_push msg c) = c_abaCallBack c"
  by (simp_all add: c_send_def c_push_def)

lemma mvba_getBlock_snd [simp]: "snd (getBlock w d c) = c"
  by (simp add: getBlock_def Store_Read_eq split: prod.split option.split)

lemma mvba_getBlock_same: "getBlock w d c = (r, c') \<Longrightarrow> c' = c"
  using mvba_getBlock_snd [of w d c] by simp

lemma getCBCInstance_upds: "mvba_upds w E c0 c \<Longrightarrow> mvba_upds w E c0 (snd (getCBCInstance e n t c))"
  by (auto simp: getCBCInstance_def Let_def split: option.splits intro: mvba_upds_intros(3))

lemma getCBCInstance_fields [simp]:
  "c_Name (snd (getCBCInstance e n t c)) = c_Name c" "c_Epoch (snd (getCBCInstance e n t c)) = c_Epoch c"
  "c_SigService (snd (getCBCInstance e n t c)) = c_SigService c"
  "c_TxPool (snd (getCBCInstance e n t c)) = c_TxPool c" "c_Commitor (snd (getCBCInstance e n t c)) = c_Commitor c"
  by (simp_all add: getCBCInstance_def Let_def split: option.splits)

lemma mvba_storeBlock_upds:
  assumes "storeBlock w b c = Some (err, c')" "mvba_upds w E c0 c"
  shows "mvba_upds w E c0 c' \<and> c_Epoch c' = c_Epoch c"
  using assms
  by (cases b) (auto simp: storeBlock_def go_simps Let_def split: sum.splits prod.splits intro: mvba_upds_intros(4))

lemma generateBlock_upds:
  assumes "generateBlock e c = Some (b, c')" "mvba_upds w E c0 c"
  shows "mvba_upds w E c0 c'"
  using assms by (auto simp: generateBlock_def bind_eq_Some_conv intro: mvba_upds_intros(5))

lemma mvba_send_push:
  assumes "\<not> guarded msg" "mvba_upds w E c0 c"
  shows "mvba_upds w E c0 (c_push msg (c_send to msg c))"
  by (intro mvba_upds_intros(1,2) assms)

section \<open>The handlers\<close>

lemma handleProposal_effect: "handleProposal w p c = Some (err, c') \<Longrightarrow> effect w (ProposalMsg p) c c'"
proof (cases "messageFilter (pr_Epoch p) c")
  case True
  then show "handleProposal w p c = Some (err, c') \<Longrightarrow> ?thesis" by (simp add: handleProposal_def effect_upds)
next
  case False
  assume h: "handleProposal w p c = Some (err, c')"
  let ?c = "if CommitLeader (pr_Epoch p) (c_Commitor c) = pr_Author p
      then c\<lparr>c_Commitor := Commit (pr_Epoch p) (pr_Author p) (pr_B p) (c_Commitor c)\<rparr> else c"
  obtain e c1 where c1: "storeBlock w (pr_B p) ?c = Some (e, c1)"
    and c': "c' = (if e \<noteq> None then c1 else go_cbc (pr_Epoch p, pr_Author p, DATA_CBC) (ProposalEntry p) c1)"
    using h False by (auto simp: handleProposal_def Let_def bind_eq_Some_conv split: if_splits)
  have "mvba_upds w None c ?c" using False by (auto simp: messageFilter_def intro!: mvba_upds_intros(17))
  then have "mvba_upds w None c c1" "c_Epoch c1 = c_Epoch c" using mvba_storeBlock_upds [OF c1] by auto
  then show ?thesis
    using c' False by (cases "e = None") (auto simp: messageFilter_def intro: effect_upds effect_cbc)
qed

lemma simple_effects:
  "handleReady r c = Some (err, c') \<Longrightarrow> effect w (ReadyMsg r) c c'"
  "handleFinal f c = Some (err, c') \<Longrightarrow> effect w (FinalMsg f) c c'"
  "handleCommitment m c = Some (err, c') \<Longrightarrow> effect w (CommitmentMsg m) c c'"
  "handleABAVal v c = Some (err, c') \<Longrightarrow> effect w (ABAValMsg v) c c'"
  "handleABAMux mx c = Some (err, c') \<Longrightarrow> effect w (ABAMuxMsg mx) c c'"
  "handleABAHalt h c = Some (err, c') \<Longrightarrow> effect w (ABAHaltMsg h) c c'"
  by (auto simp: handleReady_def handleFinal_def handleCommitment_def handleABAVal_def handleABAMux_def
      handleABAHalt_def messageFilter_def split: if_splits intro: effect_upds effect_cbc effect_aba)

lemma handleCoinShare_effect:
  assumes "handleCoinShare w s c = Some (err, c')"
  shows "effect w (CoinShareMsg (Some s)) c c'"
proof -
  obtain ok coin e ag where add: "addCoinShare w s (c_Aggreator c) = ((ok, coin, e), ag)" by (metis prod.exhaust)
  have "mvba_upds w None c (c\<lparr>c_Aggreator := ag\<rparr>)" by (rule mvba_upds_intros(15) [OF add]) simp
  then show ?thesis
    using assms add by (auto simp: handleCoinShare_def messageFilter_def Let_def split: if_splits intro: effect_upds effect_aba)
qed

lemma invokeStageTwo_upds:
  "invokeStageTwo w e rnd c = Some (err, c') \<Longrightarrow> mvba_upds w E c0 c \<Longrightarrow> mvba_upds w E c0 c'"
  by (auto simp: invokeStageTwo_def Let_def bind_eq_Some_conv intro!: mvba_send_push)

lemma handleElectShare_effect:
  "handleElectShare w s c = Some (err, c') \<Longrightarrow> effect w m c c'"
  by (auto simp: handleElectShare_def Let_def split: if_splits prod.splits
      intro!: effect_upds mvba_upds_intros(13) elim!: invokeStageTwo_upds)

lemma invokeABAVal_upds:
  "invokeABAVal w l e rnd i f c = Some (err, c') \<Longrightarrow> mvba_upds w E c0 c \<Longrightarrow> mvba_upds w E c0 c'"
  by (auto simp: invokeABAVal_def Let_def bind_eq_Some_conv split: if_splits intro!: mvba_send_push mvba_upds_intros(16))

lemma mvba_handleVote_effect:
  "handleVote w v c = Some (err, c') \<Longrightarrow> effect w m c c'"
  by (auto simp: handleVote_def Let_def bind_eq_Some_conv split: if_splits prod.splits
      intro!: effect_upds mvba_upds_intros(14) elim!: invokeABAVal_upds)

lemma mvba_handle_effect: "handle w m c = Some (err, c') \<Longrightarrow> effect w m c c'"
  by (cases m)
     (auto simp: bind_eq_Some_conv go_simps intro: handleProposal_effect simple_effects handleElectShare_effect
       mvba_handleVote_effect handleCoinShare_effect)

lemma mvba_dispatch_effect: "dispatch w m c = Some (err, c') \<Longrightarrow> effect w m c c'"
  by (auto simp: dispatch_def bind_eq_Some_conv intro: mvba_handle_effect)

lemma mvba_advance_upds:
  "abvanceNextEpoch w e c = Some (err, c') \<Longrightarrow> mvba_upds w E c0 c \<Longrightarrow> mvba_upds w E c0 c'"
  by (auto simp: abvanceNextEpoch_def Let_def bind_eq_Some_conv split: if_splits
      intro!: mvba_send_push elim!: generateBlock_upds mvba_upds_intros(18) [rotated])

lemma output_block_upds: "mvba_upds w (Some e) c0 c \<Longrightarrow> mvba_upds w (Some e) c0 (output_block w e l d c)"
  by (auto simp: output_block_def Let_def split_beta split: prod.splits sum.splits option.splits
      dest!: mvba_getBlock_same intro!: mvba_upds_intros(6,17) getCBCInstance_upds
      simp del: getCBCInstance_fields(4,5))

lemma mvba_handleOutput_upds:
  "handleOutput w e l c = Some (err, c') \<Longrightarrow> mvba_upds w (Some e) c0 c \<Longrightarrow> mvba_upds w (Some e) c0 c'"
  by (auto simp: handleOutput_def Let_def split: prod.splits option.splits
      elim!: mvba_advance_upds intro!: output_block_upds dest!: arg_cong [where f = snd] intro: getCBCInstance_upds)

lemma processABABack_upds: "processABABack w b c = Some (err, c') \<Longrightarrow> mvba_upds w (Some (abk_Epoch b)) c c'"
  by (auto simp: processABABack_def split: if_splits elim!: invokeABAVal_upds invokeStageTwo_upds mvba_handleOutput_upds)

lemma addFinals_upds:
  assumes "addFinals e t n c = Some (cnt, c')"
  obtains c1 where "mvba_upds w E c c1" "c' = count_final e t c1" "cnt = finals_of c1 e t + 1"
    "c_Committee c1 = c_Committee c"
proof -
  let ?c = "if c_cbcFinalCnts c e = None
      then c\<lparr>c_cbcFinalCnts := ensure (c_cbcFinalCnts c) e,
             c_cbcFinalIndexs := (c_cbcFinalIndexs c)(e \<mapsto> replicate (nat (Committee_Size (c_Committee c))) False)\<rparr>
      else c"
  let ?d = "c\<lparr>c_cbcFinalCnts := ensure (c_cbcFinalCnts c) e\<rparr>"
  have "mvba_upds w E c ?d" by (rule mvba_upds_intros(7)) simp
  then have "mvba_upds w E c (?d\<lparr>c_cbcFinalIndexs := (c_cbcFinalIndexs ?d)(e \<mapsto> replicate (nat (Committee_Size (c_Committee c))) False)\<rparr>)"
    by (rule mvba_upds_intros(8) [rotated]) simp
  then have u: "mvba_upds w E c ?c" by (cases "c_cbcFinalCnts c e = None") simp_all
  let ?P = "\<lambda>c1. c' = count_final e t c1 \<and> cnt = finals_of c1 e t + 1 \<and> c_Committee c1 = c_Committee c"
  show thesis
  proof (cases "t = DATA_CBC")
    case False
    then have "?P ?c" using assms by (auto simp: addFinals_def Let_def count_final_def finals_of_def)
    then show thesis using that u by blast
  next
    case True
    then obtain bits where bits: "c_cbcFinalIndexs ?c e = Some bits"
      and P: "?P (?c\<lparr>c_cbcFinalIndexs := (c_cbcFinalIndexs ?c)(e \<mapsto> bits[nat n := True])\<rparr>)"
      using assms by (auto simp: addFinals_def Let_def bind_eq_Some_conv go_simps count_final_def finals_of_def split: if_splits)
    have "mvba_upds w E c (?c\<lparr>c_cbcFinalIndexs := (c_cbcFinalIndexs ?c)(e \<mapsto> bits[nat n := True])\<rparr>)"
      by (rule mvba_upds_intros(8) [OF _ u]) (use bits in simp)
    then show thesis using that P by blast
  qed
qed

lemma count_final_commute: "addCommitment e n s (count_final e' t c) = count_final e' t (addCommitment e n s c)"
  by (simp add: addCommitment_def count_final_def finals_of_def)

lemma addCommitment_fields [simp]:
  "finals_of (addCommitment e n s c) e' t = finals_of c e' t" "c_Committee (addCommitment e n s c) = c_Committee c"
  "c_Committee (count_final e t c) = c_Committee c"
  by (simp_all add: addCommitment_def finals_of_def count_final_def)

lemma quorum_upds:
  assumes "(if cnt = HightThreshold (c_Committee c) then cbc_quorum w e t (count_final e t c)
      else Some (None, count_final e t c)) = Some (err, c')"
    and "cnt = finals_of c e t + 1" "mvba_upds w E c0 c"
  shows "mvba_upds w E c0 c'"
proof (cases "cnt = HightThreshold (c_Committee c) \<and> (t = DATA_CBC \<or> t = COMMIT_CBC)")
  case False
  then have "c' = count_final e t c" using assms(1) by (auto simp: cbc_quorum_def split: if_splits)
  then show ?thesis using mvba_upds_intros(9) [OF _ assms(3)] False assms(2) by auto
next
  case True
  show ?thesis
  proof (cases "t = DATA_CBC")
    case True
    obtain msg where "c' = c_push (CommitmentMsg msg) (c_send NONE (CommitmentMsg msg) (count_final e t c))" "co_Epoch msg = e"
      using assms(1) True \<open>cnt = _ \<and> _\<close> by (auto simp: cbc_quorum_def Let_def bind_eq_Some_conv NewCommitment_def)
    then show ?thesis
      using mvba_upds_intros(10) [OF _ _ assms(3), of e msg] True \<open>cnt = _ \<and> _\<close> assms(2) by (auto intro!: mvba_upds_intros(2))
  next
    case False
    then obtain share serr where c': "c' = c_push (ElectShareMsg share) (c_send NONE (ElectShareMsg share) (count_final e t c))"
      and share: "NewElectShare w (c_Name (count_final e t c)) e (c_SigService (count_final e t c)) = Some (share, serr)"
      using assms(1) \<open>cnt = _ \<and> _\<close> by (auto simp: cbc_quorum_def Let_def bind_eq_Some_conv)
    show ?thesis
      using mvba_upds_intros(11) [OF _ share assms(3)] False \<open>cnt = _ \<and> _\<close> assms(2) by (auto simp: c' intro!: mvba_upds_intros(2))
  qed
qed

lemma processCBCBack_upds:
  assumes "processCBCBack w b c = Some (err, c')"
  shows "mvba_upds w E c c'"
proof (cases "messageFilter (cbk_Epoch b) c")
  case True
  then show ?thesis using assms by (simp add: processCBCBack_def)
next
  case False
  let ?e = "cbk_Epoch b" and ?t = "cbk_Tag b"
  obtain cnt c2 where "addFinals ?e ?t (cbk_Author b) c = Some (cnt, c2)"
    using assms False by (auto simp: processCBCBack_def bind_eq_Some_conv)
  note fin = this
  then obtain c1 where u: "mvba_upds w E c c1" and c2: "c2 = count_final ?e ?t c1" and cnt: "cnt = finals_of c1 ?e ?t + 1"
    and cm: "c_Committee c1 = c_Committee c"
    by (rule addFinals_upds)
  let ?c1 = "if ?t = COMMIT_CBC then addCommitment ?e (cbk_Author b) (cbk_Commitment b) c1 else c1"
  have u1: "mvba_upds w E c ?c1" using u mvba_upds_intros(12) [OF u] by simp
  have c2': "(if ?t = COMMIT_CBC then addCommitment ?e (cbk_Author b) (cbk_Commitment b) c2 else c2) = count_final ?e ?t ?c1"
    by (simp add: c2 count_final_commute)
  have cnt1: "cnt = finals_of ?c1 ?e ?t + 1" and cm1: "c_Committee ?c1 = c_Committee c1" using cnt by simp_all
  have res: "(if cnt = HightThreshold (c_Committee ?c1) then cbc_quorum w ?e ?t (count_final ?e ?t ?c1)
      else Some (None, count_final ?e ?t ?c1)) = Some (err, c')"
    using assms fin False unfolding processCBCBack_def by (simp only: Let_def bind.bind_lunit prod.case c2' if_False) simp
  show ?thesis
    by (rule quorum_upds [OF res cnt1 u1])
qed

lemma mvba_Run_start_upds: "Run_start w c = Some c' \<Longrightarrow> mvba_upds w E c c'"
  by (auto simp: Run_start_def Let_def bind_eq_Some_conv intro!: mvba_send_push elim!: generateBlock_upds)

end
