(* ===== verification/Mvba_Node.thy ===== *)
theory Mvba_Node
  imports Mvba_Effects
begin

text \<open>
  A running MVBA node: the main loop over its three channels, the receiver and the goroutines of
  the instances, interleaved in any order, together with the history of the messages that the main
  loop has handled; and the invariants of every reachable state.
\<close>

section \<open>Steps\<close>

definition cbc_task :: "'a mvba_env_scheme \<Rightarrow> nat \<Rightarrow> 'db Core \<Rightarrow> 'db Core option" where
  "cbc_task w i c =
     (case c_cbcTasks c ! i of ((e, n, t), pc) \<Rightarrow> do {
        cbc \<leftarrow> get3 (c_cbcInstances c) e n t;
        (pc', spawned, cbc, c) \<leftarrow> cbc_step w pc cbc c;
        let c = c\<lparr>c_cbcInstances := put3 (c_cbcInstances c) e n t cbc\<rparr>;
        Some (c\<lparr>c_cbcTasks := task_update i (e, n, t) pc' spawned (c_cbcTasks c)\<rparr>) })"

definition aba_task :: "'a mvba_env_scheme \<Rightarrow> nat \<Rightarrow> 'db Core \<Rightarrow> 'db Core option" where
  "aba_task w i c =
     (case c_abaTasks c ! i of ((e, rnd), pc) \<Rightarrow> do {
        aba \<leftarrow> get2 (c_abaInstances c) e rnd;
        (pc', aba, c) \<leftarrow> aba_step w pc aba c;
        let c = c\<lparr>c_abaInstances := put2 (c_abaInstances c) e rnd aba\<rparr>;
        Some (c\<lparr>c_abaTasks := task_update i (e, rnd) pc' [] (c_abaTasks c)\<rparr>) })"

text \<open>A step is labelled with the message that the main loop handles in it, if it does.\<close>

inductive mvba_step ::
  "'a mvba_env_scheme \<Rightarrow> (mvba_msg \<Rightarrow> bool) \<Rightarrow> mvba_msg list \<Rightarrow> 'db Core \<Rightarrow> 'db Core \<Rightarrow> bool" for w net where
  deliver: "net msg \<Longrightarrow> mvba_step w net [] c (c_push msg c)"
| turn: "tr_recvCh (c_Transimtor c) = msg # ms \<Longrightarrow> Run_turn w c = Some (err, c') \<Longrightarrow> mvba_step w net [msg] c c'"
| cbc_turn: "Run_cbc w c = Some (err, c') \<Longrightarrow> mvba_step w net [] c c'"
| aba_turn: "Run_aba w c = Some (err, c') \<Longrightarrow> mvba_step w net [] c c'"
| cbc: "i < length (c_cbcTasks c) \<Longrightarrow> cbc_task w i c = Some c' \<Longrightarrow> mvba_step w net [] c c'"
| aba: "i < length (c_abaTasks c) \<Longrightarrow> aba_task w i c = Some c' \<Longrightarrow> mvba_step w net [] c c'"

inductive mvba_reach ::
  "'a mvba_env_scheme \<Rightarrow> (mvba_msg \<Rightarrow> bool) \<Rightarrow> 'db Core \<Rightarrow> mvba_msg list \<Rightarrow> 'db Core \<Rightarrow> bool" for w net c0 where
  start: "Run_start w c0 = Some c \<Longrightarrow> mvba_reach w net c0 [] c"
| step: "mvba_reach w net c0 h c \<Longrightarrow> mvba_step w net l c c' \<Longrightarrow> mvba_reach w net c0 (h @ l) c'"

inductive mvba_steps ::
  "'a mvba_env_scheme \<Rightarrow> (mvba_msg \<Rightarrow> bool) \<Rightarrow> 'db Core \<Rightarrow> 'db Core \<Rightarrow> bool" for w net where
  refl: "mvba_steps w net c c"
| step: "mvba_steps w net c c1 \<Longrightarrow> mvba_step w net l c1 c2 \<Longrightarrow> mvba_steps w net c c2"

section \<open>What a goroutine does to the core\<close>

fun by_core :: "mvba_msg \<Rightarrow> bool" where
  "by_core (CommitmentMsg _) \<longleftrightarrow> True"
| "by_core (ElectShareMsg _) \<longleftrightarrow> True"
| "by_core _ \<longleftrightarrow> False"

lemma cbc_step_ctx:
  assumes "cbc_step w pc i c = Some (pc', spawned, i', c')"
  shows "c' = c \<or> (\<exists>to m. c' = c_send to m c \<and> \<not> guarded m) \<or> (\<exists>m. c' = c_push m c) \<or> (\<exists>f. c' = cbc_back f i c)"
  using assms
  by (cases pc) (auto simp: bind_eq_Some_conv Let_def send_ready_def split: if_splits, (metis guarded.simps)+)

lemma coin_msg_cases:
  "coin_msg w r coin l a c = Some m \<Longrightarrow> (\<exists>v. m = ABAValMsg v) \<or> (\<exists>h. m = ABAHaltMsg h)"
  by (auto simp: coin_msg_def Let_def bind_eq_Some_conv split: if_splits)

inductive aba_ctx :: "'c mvba_ctx_scheme \<Rightarrow> 'c mvba_ctx_scheme \<Rightarrow> bool" for c where
  same: "aba_ctx c c"
| send: "\<not> by_core m \<Longrightarrow> aba_ctx c (c_send NONE m c)"
| push: "aba_ctx c (c_push m c)"
| backs: "aba_ctx c (aba_back b c)"

lemma aba_step_ctx: "aba_step w pc a c = Some (pc', a', c') \<Longrightarrow> aba_ctx c c'"
  by (cases pc)
     (auto simp: bind_eq_Some_conv Let_def split: if_splits prod.splits dest!: coin_msg_cases intro: aba_ctx.intros)

lemma cbc_task_cases:
  assumes "cbc_task w i c = Some c'"
  obtains e n t pc cbc pc' spawned cbc' c1 where
    "c_cbcTasks c ! i = ((e, n, t), pc)" "get3 (c_cbcInstances c) e n t = Some cbc"
    "cbc_step w pc cbc c = Some (pc', spawned, cbc', c1)"
    "c1 = c \<or> (\<exists>to m. c1 = c_send to m c \<and> \<not> guarded m) \<or> (\<exists>m. c1 = c_push m c) \<or> (\<exists>f. c1 = cbc_back f cbc c)"
    "c' = c1\<lparr>c_cbcInstances := put3 (c_cbcInstances c) e n t cbc',
       c_cbcTasks := task_update i (e, n, t) pc' spawned (c_cbcTasks c)\<rparr>"
proof -
  obtain e n t pc where key: "c_cbcTasks c ! i = ((e, n, t), pc)" by (metis prod.exhaust)
  obtain cbc pc' spawned cbc' c1 where st: "get3 (c_cbcInstances c) e n t = Some cbc"
    "cbc_step w pc cbc c = Some (pc', spawned, cbc', c1)"
    and c': "c' = c1\<lparr>c_cbcInstances := put3 (c_cbcInstances c1) e n t cbc',
       c_cbcTasks := task_update i (e, n, t) pc' spawned (c_cbcTasks c1)\<rparr>"
    using assms key by (auto simp: cbc_task_def bind_eq_Some_conv Let_def)
  note ctx = cbc_step_ctx [OF st(2)]
  moreover have "c_cbcInstances c1 = c_cbcInstances c" "c_cbcTasks c1 = c_cbcTasks c"
    using ctx by (auto simp: c_send_def c_push_def cbc_back_def)
  ultimately show thesis using that [OF key st] c' by simp
qed

lemma aba_task_cases:
  assumes "aba_task w i c = Some c'"
  obtains e rnd pc a pc' a' c1 where
    "c_abaTasks c ! i = ((e, rnd), pc)" "get2 (c_abaInstances c) e rnd = Some a"
    "aba_step w pc a c = Some (pc', a', c1)"
    "aba_ctx c c1"
    "c' = c1\<lparr>c_abaInstances := put2 (c_abaInstances c) e rnd a',
       c_abaTasks := task_update i (e, rnd) pc' [] (c_abaTasks c)\<rparr>"
proof -
  obtain e rnd pc where key: "c_abaTasks c ! i = ((e, rnd), pc)" by (metis prod.exhaust)
  obtain a pc' a' c1 where st: "get2 (c_abaInstances c) e rnd = Some a" "aba_step w pc a c = Some (pc', a', c1)"
    and c': "c' = c1\<lparr>c_abaInstances := put2 (c_abaInstances c1) e rnd a',
       c_abaTasks := task_update i (e, rnd) pc' [] (c_abaTasks c1)\<rparr>"
    using assms key by (auto simp: aba_task_def bind_eq_Some_conv Let_def)
  note ctx = aba_step_ctx [OF st(2)]
  moreover have "c_abaInstances c1 = c_abaInstances c" "c_abaTasks c1 = c_abaTasks c"
    using ctx by (auto simp: c_send_def c_push_def aba_back_def elim!: aba_ctx.cases)
  ultimately show thesis using that [OF key st] c' by simp
qed

section \<open>Invariants of a node\<close>

text \<open>An invariant may speak of the messages that were handled so far.\<close>

locale mvba_invariant =
  fixes I :: "mvba_msg list \<Rightarrow> 'db Core \<Rightarrow> bool"
    and w :: "'a mvba_env_scheme"
    and net :: "mvba_msg \<Rightarrow> bool"
  assumes mupd: "I h c \<Longrightarrow> mvba_upd w None c c' \<Longrightarrow> I h c'"
    and mskip: "I h c \<Longrightarrow> I (h @ [m]) c"
    and mgo_cbc: "I h c \<Longrightarrow> started_cbc m key pc \<Longrightarrow> c_Epoch c \<le> fst key \<Longrightarrow> I (h @ [m]) (go_cbc key pc c)"
    and mgo_aba: "I h c \<Longrightarrow> started_aba m akey apc \<Longrightarrow> c_Epoch c \<le> fst akey \<Longrightarrow> I (h @ [m]) (go_aba akey apc c)"
    and mdeliver: "I h c \<Longrightarrow> net m \<Longrightarrow> I h (c_push m c)"
    and mback: "I h c \<Longrightarrow> c_abaCallBack c = ab # bs' \<Longrightarrow>
      mvba_upds w (Some (abk_Epoch ab)) (c\<lparr>c_abaCallBack := bs'\<rparr>) c' \<Longrightarrow> I h c'"
    and mrecv: "I h c \<Longrightarrow> tr_recvCh (c_Transimtor c) = m # ms \<Longrightarrow>
      I h (c\<lparr>c_Transimtor := (c_Transimtor c)\<lparr>tr_recvCh := ms\<rparr>\<rparr>)"
    and mcbc: "I h c \<Longrightarrow> c_cbcCallBack c = b # bs \<Longrightarrow> I h (c\<lparr>c_cbcCallBack := bs\<rparr>)"
    and mctask: "I h c \<Longrightarrow> i < length (c_cbcTasks c) \<Longrightarrow> cbc_task w i c = Some c' \<Longrightarrow> I h c'"
    and matask: "I h c \<Longrightarrow> i < length (c_abaTasks c) \<Longrightarrow> aba_task w i c = Some c' \<Longrightarrow> I h c'"
begin

lemma mvba_upds_keep: "mvba_upds w None c c' \<Longrightarrow> I h c \<Longrightarrow> I h c'"
  by (induction rule: rtranclp_induct) (auto intro: mupd)

lemma mvba_effect_keep:
  assumes "effect w m c c'" "I h c"
  shows "I (h @ [m]) c'"
proof -
  obtain c1 where "mvba_upds w None c c1" and c': "c' = c1 \<or>
     (\<exists>key pc. started_cbc m key pc \<and> c_Epoch c1 \<le> fst key \<and> c' = go_cbc key pc c1) \<or>
     (\<exists>key pc. started_aba m key pc \<and> c_Epoch c1 \<le> fst key \<and> c' = go_aba key pc c1)"
    using assms(1) unfolding effect_def by blast
  then have "I h c1" using assms(2) mvba_upds_keep by blast
  then show ?thesis using c' by (elim disjE exE conjE) (simp_all add: mskip mgo_cbc mgo_aba)
qed

lemma mvba_step_keep: "mvba_step w net l c c' \<Longrightarrow> I h c \<Longrightarrow> I (h @ l) c'"
proof (induction rule: mvba_step.induct)
  case (turn c msg ms err c')
  have "effect w msg (c\<lparr>c_Transimtor := (c_Transimtor c)\<lparr>tr_recvCh := ms\<rparr>\<rparr>) c'"
    using turn.hyps by (simp add: Run_turn_def Transmitor_Recv_def mvba_dispatch_effect)
  then show ?case by (rule mvba_effect_keep) (rule mrecv [OF turn.prems turn.hyps(1)])
next
  case (cbc_turn c err c')
  show ?case
  proof (cases "c_cbcCallBack c")
    case Nil
    then show ?thesis using cbc_turn by (simp add: Run_cbc_def)
  next
    case (Cons b bs)
    have "mvba_upds w None (c\<lparr>c_cbcCallBack := bs\<rparr>) c'"
      by (rule processCBCBack_upds) (use Cons cbc_turn.hyps in \<open>simp add: Run_cbc_def\<close>)
    then show ?thesis using mvba_upds_keep mcbc [OF cbc_turn.prems Cons] by simp
  qed
next
  case (aba_turn c err c')
  show ?case
  proof (cases "c_abaCallBack c")
    case Nil
    then show ?thesis using aba_turn by (simp add: Run_aba_def)
  next
    case (Cons b bs)
    have "mvba_upds w (Some (abk_Epoch b)) (c\<lparr>c_abaCallBack := bs\<rparr>) c'"
      by (rule processABABack_upds) (use Cons aba_turn.hyps in \<open>simp add: Run_aba_def\<close>)
    then show ?thesis using mback [OF aba_turn.prems Cons] by simp
  qed
next
  case (deliver msg c)
  then show ?case by (simp add: mdeliver)
next
  case (cbc i c c')
  then show ?case using mctask [OF cbc.prems cbc.hyps] by simp
next
  case (aba i c c')
  then show ?case using matask [OF aba.prems aba.hyps] by simp
qed

lemma mvba_steps_keep: "mvba_steps w net c c' \<Longrightarrow> I h c \<Longrightarrow> \<exists>h'. I h' c'"
  by (induction rule: mvba_steps.induct) (blast intro: mvba_step_keep)+

lemma mvba_reach_keep: "mvba_reach w net c0 h c \<Longrightarrow> I [] c0 \<Longrightarrow> I h c"
  by (induction rule: mvba_reach.induct) (auto intro: mvba_step_keep mvba_upds_keep mvba_Run_start_upds)

end

text \<open>An invariant that every update keeps, whichever the call-back, is kept by the call-backs.\<close>

lemma upds_back:
  assumes "\<And>E c c'. P c \<Longrightarrow> mvba_upd w E c c' \<Longrightarrow> P c'" "P (c\<lparr>c_abaCallBack := bs\<rparr>)"
    and "mvba_upds w E (c\<lparr>c_abaCallBack := bs\<rparr>) c'"
  shows "P c'"
  using assms(3,2) by (induction rule: rtranclp_induct) (auto intro: assms(1))

subsection \<open>The log of blocks and the epoch\<close>

definition mvba_log_inv :: "Block list \<Rightarrow> int \<Rightarrow> 'db Core \<Rightarrow> bool" where
  "mvba_log_inv l k c \<longleftrightarrow> prefix l (cm_blockChan (c_Commitor c)) \<and> k \<le> c_Epoch c \<and> cm_counted (c_Commitor c) \<and>
     cm_drained (c_Commitor c)"

lemma mvba_log_Commit:
  "prefix l (cm_blockChan cm) \<Longrightarrow> prefix l (cm_blockChan (Commit e n b cm))"
  using mvba_Commit_grows prefix_order.trans by blast

lemma go_fields [simp]:
  "c_Commitor (go_cbc key pc c) = c_Commitor c" "c_Epoch (go_cbc key pc c) = c_Epoch c"
  "c_Transimtor (go_cbc key pc c) = c_Transimtor c" "c_Committee (go_cbc key pc c) = c_Committee c"
  "c_cbcFinalCnts (go_cbc key pc c) = c_cbcFinalCnts c" "c_abaInstances (go_cbc key pc c) = c_abaInstances c"
  "c_abaTasks (go_cbc key pc c) = c_abaTasks c" "c_cbcCallBack (go_cbc key pc c) = c_cbcCallBack c"
  "c_abaCallBack (go_cbc key pc c) = c_abaCallBack c" "c_cbcFinalIndexs (go_cbc key pc c) = c_cbcFinalIndexs c"
  "c_Elector (go_cbc key pc c) = c_Elector c"
  "c_Commitor (go_aba akey apc c) = c_Commitor c" "c_Epoch (go_aba akey apc c) = c_Epoch c"
  "c_Transimtor (go_aba akey apc c) = c_Transimtor c" "c_Committee (go_aba akey apc c) = c_Committee c"
  "c_cbcFinalCnts (go_aba akey apc c) = c_cbcFinalCnts c" "c_cbcInstances (go_aba akey apc c) = c_cbcInstances c"
  "c_cbcTasks (go_aba akey apc c) = c_cbcTasks c" "c_cbcCallBack (go_aba akey apc c) = c_cbcCallBack c"
  "c_abaCallBack (go_aba akey apc c) = c_abaCallBack c" "c_cbcFinalIndexs (go_aba akey apc c) = c_cbcFinalIndexs c"
  "c_Elector (go_aba akey apc c) = c_Elector c"
  by (simp_all add: go_cbc_def go_aba_def getCBCInstance_def getABAInstance_def Let_def split: option.split)

lemmas mvba_ctx_defs = c_send_def c_push_def cbc_back_def aba_back_def

lemma mvba_log_upd: "mvba_log_inv l k c \<Longrightarrow> mvba_upd w E c c' \<Longrightarrow> mvba_log_inv l k c'"
  by (rotate_tac 1, induction rule: mvba_upd.induct)
     (auto simp: mvba_log_inv_def mvba_ctx_defs count_final_def addCommitment_def intro: mvba_log_Commit Commit_counted Commit_drained)

interpretation mlg: mvba_invariant "\<lambda>_. mvba_log_inv l k" w net for l k w net
proof unfold_locales
  show "mvba_log_inv l k c \<Longrightarrow> mvba_upd w None c c' \<Longrightarrow> mvba_log_inv l k c'" for c c'
    by (rule mvba_log_upd)
  show "mvba_log_inv l k c \<Longrightarrow> mvba_upds w (Some (abk_Epoch b)) (c\<lparr>c_abaCallBack := bs\<rparr>) c' \<Longrightarrow> mvba_log_inv l k c'" for c b bs c'
    by (rule upds_back [of "mvba_log_inv l k", OF mvba_log_upd]) (simp_all add: mvba_log_inv_def)
qed (auto simp: mvba_log_inv_def mvba_ctx_defs elim!: cbc_task_cases aba_task_cases aba_ctx.cases)

subsection \<open>One commitment and one share for each epoch\<close>

definition sent :: "(mvba_msg \<Rightarrow> bool) \<Rightarrow> mvba_msg Transmitor \<Rightarrow> nat" where
  "sent P tr = length (filter P (map nm_Msg (tr_msgCh tr)))"

lemma mvba_sent_simps [simp]:
  "sent P (Transmitor_Send from to m tr) = (if P m then Suc (sent P tr) else sent P tr)"
  "sent P (RecvChannel_push m tr) = sent P tr"
  "sent P (tr\<lparr>tr_recvCh := ms\<rparr>) = sent P tr"
  by (simp_all add: sent_def)

fun is_commitment :: "int \<Rightarrow> mvba_msg \<Rightarrow> bool" where
  "is_commitment e (CommitmentMsg m) \<longleftrightarrow> co_Epoch m = e"
| "is_commitment e _ \<longleftrightarrow> False"

fun is_elect :: "int \<Rightarrow> mvba_msg \<Rightarrow> bool" where
  "is_elect e (ElectShareMsg (Some s)) \<longleftrightarrow> es_Epoch s = e"
| "is_elect e _ \<longleftrightarrow> False"

lemma not_by_core [simp]:
  "\<not> guarded m \<Longrightarrow> \<not> is_commitment e m" "\<not> guarded m \<Longrightarrow> \<not> is_elect e m"
  "\<not> by_core m \<Longrightarrow> \<not> is_commitment e m" "\<not> by_core m \<Longrightarrow> \<not> is_elect e m"
  by (cases m; simp)+

definition finals_inv :: "Committee \<Rightarrow> int \<Rightarrow> 'db Core \<Rightarrow> bool" where
  "finals_inv cm e c \<longleftrightarrow> c_Committee c = cm \<and>
     sent (is_commitment e) (c_Transimtor c) = (if HightThreshold cm \<le> finals_of c e DATA_CBC then 1 else 0) \<and>
     sent (is_elect e) (c_Transimtor c) \<le> (if HightThreshold cm \<le> finals_of c e COMMIT_CBC then 1 else 0)"

lemma finals_of_simps [simp]:
  "finals_of (count_final e t c) e' t' = (if e' = e \<and> t' = t then finals_of c e t + 1 else finals_of c e' t')"
  "finals_of (c_send to msg c) e' t' = finals_of c e' t'"
  "finals_of (go_cbc key pc c) e' t' = finals_of c e' t'"
  "finals_of (go_aba akey apc c) e' t' = finals_of c e' t'"
  by (simp_all add: finals_of_def count_final_def c_send_def)

lemma is_elect_New: "NewElectShare w name e sig = Some (share, serr) \<Longrightarrow> is_elect e' (ElectShareMsg share) \<Longrightarrow> e' = e"
  by (auto simp: NewElectShare_def Let_def bind_eq_Some_conv split: if_splits)

lemma finals_upd:
  assumes "mvba_upd w E c c'" "finals_inv cm e' c"
  shows "finals_inv cm e' c'"
  using assms
proof (induction rule: mvba_upd.induct)
  case (final c e t)
  have "c_Transimtor (count_final e t c) = c_Transimtor c" "c_Committee (count_final e t c) = c_Committee c"
    by (simp_all add: count_final_def)
  then show ?case using final by (auto simp: finals_inv_def)
next
  case (final_data c e m to)
  have "c_Transimtor (c_send to (CommitmentMsg m) (count_final e DATA_CBC c)) =
      Transmitor_Send (c_Name c) to (CommitmentMsg m) (c_Transimtor c)"
    by (simp add: count_final_def c_send_def)
  then show ?case using final_data by (auto simp: finals_inv_def)
next
  case (final_commit c e name sig share serr to)
  have "c_Transimtor (c_send to (ElectShareMsg share) (count_final e COMMIT_CBC c)) =
      Transmitor_Send (c_Name c) to (ElectShareMsg share) (c_Transimtor c)"
    by (simp add: count_final_def c_send_def)
  then show ?case using final_commit by (auto simp: finals_inv_def dest: is_elect_New)
qed (auto simp: finals_inv_def finals_of_def mvba_ctx_defs addCommitment_def)

interpretation mfn: mvba_invariant "\<lambda>_. finals_inv cm e" w net for cm e w net
proof unfold_locales
  show "finals_inv cm e c \<Longrightarrow> mvba_upd w None c c' \<Longrightarrow> finals_inv cm e c'" for c c'
    by (rule finals_upd)
  show "finals_inv cm e c \<Longrightarrow> mvba_upds w (Some (abk_Epoch b)) (c\<lparr>c_abaCallBack := bs\<rparr>) c' \<Longrightarrow> finals_inv cm e c'" for c b bs c'
    by (rule upds_back [of "finals_inv cm e", OF finals_upd [rotated]]) (simp_all add: finals_inv_def finals_of_def)
qed (auto simp: finals_inv_def finals_of_def mvba_ctx_defs elim!: cbc_task_cases aba_task_cases aba_ctx.cases)

subsection \<open>The order of the leaders\<close>

text \<open>The hypothesis is what \<^verbatim>\<open>math/rand\<close> promises of the positions that it draws.\<close>

definition leaders_inv :: "'a mvba_env_scheme \<Rightarrow> Committee \<Rightarrow> 'db Core \<Rightarrow> bool" where
  "leaders_inv w cm c \<longleftrightarrow> el_committee (c_Elector c) = cm \<and>
     ((\<forall>seed k. env_draw w seed k \<le> k) \<longrightarrow> elector_ok w (c_Elector c))"

lemma leaders_upd:
  assumes "leaders_inv w cm c" "mvba_upd w E c c'"
  shows "leaders_inv w cm c'"
  using assms(2,1)
proof (induction rule: mvba_upd.induct)
  case (elect share c res el)
  have "el = snd (addElectShare w share (c_Elector c))" using elect.hyps by simp
  then show ?case using elect.prems by (auto simp: leaders_inv_def intro: addElectShare_ok)
qed (auto simp: leaders_inv_def mvba_ctx_defs count_final_def addCommitment_def)

interpretation mle: mvba_invariant "\<lambda>_. leaders_inv w cm" w net for w cm net
proof unfold_locales
  show "leaders_inv w cm c \<Longrightarrow> mvba_upd w None c c' \<Longrightarrow> leaders_inv w cm c'" for c c'
    by (rule leaders_upd)
  show "leaders_inv w cm c \<Longrightarrow> mvba_upds w (Some (abk_Epoch b)) (c\<lparr>c_abaCallBack := bs\<rparr>) c' \<Longrightarrow> leaders_inv w cm c'" for c b bs c'
    by (rule upds_back [of "leaders_inv w cm", OF leaders_upd]) (simp_all add: leaders_inv_def)
qed (auto simp: leaders_inv_def mvba_ctx_defs elim!: cbc_task_cases aba_task_cases aba_ctx.cases)

end
