(* ===== verification/Mvba_Agreement.thy ===== *)
theory Mvba_Agreement
  imports Mvba_Node
begin

text \<open>
  The binary agreement inside a running MVBA node. For every instance and inner round the node sends
  one mux vote and one share of the coin at most, and it takes a single value as the result of the
  round only after a quorum of mux votes for that value.
\<close>

section \<open>Votes, counters and program points\<close>

fun is_mux :: "int \<times> int \<Rightarrow> int \<Rightarrow> mvba_msg \<Rightarrow> bool" where
  "is_mux k r (ABAMuxMsg m) \<longleftrightarrow> (mx_Epoch m, mx_Round m) = k \<and> mx_InRound m = r"
| "is_mux k r _ \<longleftrightarrow> False"

fun is_coin :: "int \<times> int \<Rightarrow> int \<Rightarrow> mvba_msg \<Rightarrow> bool" where
  "is_coin k r (CoinShareMsg (Some s)) \<longleftrightarrow> (cs_Epoch s, cs_Round s) = k \<and> cs_InRound s = r"
| "is_coin k r _ \<longleftrightarrow> False"

fun mux_for :: "int \<times> int \<Rightarrow> int \<Rightarrow> byte \<Rightarrow> mvba_msg \<Rightarrow> bool" where
  "mux_for k r f (ABAMuxMsg m) \<longleftrightarrow> (mx_Epoch m, mx_Round m) = k \<and> mx_InRound m = r \<and> mx_Flag m = f"
| "mux_for k r f _ \<longleftrightarrow> False"

definition mux_cnt :: "byte \<Rightarrow> int \<Rightarrow> ABA \<Rightarrow> int" where
  "mux_cnt f r a = cnt_of (if f = FLAG_YES then ab_muxYesCnt a else ab_muxNoCnt a) r"

text \<open>The goroutines that have not yet counted their mux vote, and those that are to send a share.\<close>

fun uncounted :: "int \<Rightarrow> byte \<Rightarrow> aba_pc \<Rightarrow> bool" where
  "uncounted r f (MuxEntry m) \<longleftrightarrow> mx_InRound m = r \<and> mx_Flag m = f"
| "uncounted r f (MuxCheck m) \<longleftrightarrow> mx_InRound m = r \<and> mx_Flag m = f"
| "uncounted r f (MuxCount m) \<longleftrightarrow> mx_InRound m = r \<and> mx_Flag m = f"
| "uncounted r f _ \<longleftrightarrow> False"

fun sharing :: "int \<Rightarrow> aba_pc \<Rightarrow> bool" where
  "sharing r (MuxShare m) \<longleftrightarrow> mx_InRound m = r"
| "sharing r _ \<longleftrightarrow> False"

text \<open>A goroutine works for the instance its message names.\<close>

fun pc_key :: "int \<times> int \<Rightarrow> aba_pc \<Rightarrow> bool" where
  "pc_key k (ValEntry v) \<longleftrightarrow> (av_Epoch v, av_Round v) = k"
| "pc_key k (ValCount v) \<longleftrightarrow> (av_Epoch v, av_Round v) = k"
| "pc_key k (ValAct v _) \<longleftrightarrow> (av_Epoch v, av_Round v) = k"
| "pc_key k (MuxEntry m) \<longleftrightarrow> (mx_Epoch m, mx_Round m) = k"
| "pc_key k (MuxCheck m) \<longleftrightarrow> (mx_Epoch m, mx_Round m) = k"
| "pc_key k (MuxCount m) \<longleftrightarrow> (mx_Epoch m, mx_Round m) = k"
| "pc_key k (MuxRead m _ _) \<longleftrightarrow> (mx_Epoch m, mx_Round m) = k"
| "pc_key k (MuxDecide m _ _ _ _) \<longleftrightarrow> (mx_Epoch m, mx_Round m) = k"
| "pc_key k (MuxShare m) \<longleftrightarrow> (mx_Epoch m, mx_Round m) = k"
| "pc_key k (HaltEntry h) \<longleftrightarrow> (ah_Epoch h, ah_Round h) = k"
| "pc_key k (HaltPush h _) \<longleftrightarrow> (ah_Epoch h, ah_Round h) = k"
| "pc_key k (HaltBack h) \<longleftrightarrow> (ah_Epoch h, ah_Round h) = k"
| "pc_key k _ \<longleftrightarrow> True"

text \<open>The counts a goroutine has read are not larger than the counts of the instance.\<close>

fun pc_read :: "int \<Rightarrow> ABA \<Rightarrow> aba_pc \<Rightarrow> bool" where
  "pc_read r a (MuxRead m y n) \<longleftrightarrow> (mx_InRound m = r \<longrightarrow> y \<le> mux_cnt FLAG_YES r a \<and> n \<le> mux_cnt FLAG_NO r a)"
| "pc_read r a (MuxDecide m y n _ _) \<longleftrightarrow> (mx_InRound m = r \<longrightarrow> y \<le> mux_cnt FLAG_YES r a \<and> n \<le> mux_cnt FLAG_NO r a)"
| "pc_read r a _ \<longleftrightarrow> True"

definition inst_ok :: "int \<Rightarrow> int \<Rightarrow> ABA \<Rightarrow> bool" where
  "inst_ok th r a \<longleftrightarrow>
     (r |\<in>| ab_yesFlag a \<and> r |\<notin>| ab_noFlag a \<longrightarrow> th \<le> mux_cnt FLAG_YES r a) \<and>
     (r |\<in>| ab_noFlag a \<and> r |\<notin>| ab_yesFlag a \<longrightarrow> th \<le> mux_cnt FLAG_NO r a) \<and>
     (r |\<in>| ab_yesFlag a \<or> r |\<in>| ab_noFlag a \<longrightarrow> r |\<in>| ab_muxFinFlag a)"

section \<open>One piece of a goroutine\<close>

lemma count_val_fields [simp]:
  "ab_muxYesCnt (snd (count_val v a)) = ab_muxYesCnt a" "ab_muxNoCnt (snd (count_val v a)) = ab_muxNoCnt a"
  "ab_muxFlag (snd (count_val v a)) = ab_muxFlag a" "ab_muxFinFlag (snd (count_val v a)) = ab_muxFinFlag a"
  "ab_yesFlag (snd (count_val v a)) = ab_yesFlag a" "ab_noFlag (snd (count_val v a)) = ab_noFlag a"
  "ab_Epoch (snd (count_val v a)) = ab_Epoch a" "ab_ExRound (snd (count_val v a)) = ab_ExRound a"
  by (simp_all add: count_val_def Let_def)

lemma set_flags_fields [simp]:
  "ab_muxYesCnt (set_flags r fl a) = ab_muxYesCnt a" "ab_muxNoCnt (set_flags r fl a) = ab_muxNoCnt a"
  "ab_muxFlag (set_flags r fl a) = ab_muxFlag a" "ab_Epoch (set_flags r fl a) = ab_Epoch a"
  "ab_ExRound (set_flags r fl a) = ab_ExRound a"
  "ab_yesFlag (set_flags r fl a) = (if fst fl then finsert r (ab_yesFlag a) else ab_yesFlag a)"
  "ab_noFlag (set_flags r fl a) = (if snd fl then finsert r (ab_noFlag a) else ab_noFlag a)"
  "ab_muxFinFlag (set_flags r fl a) = (if fst fl \<or> snd fl then finsert r (ab_muxFinFlag a) else ab_muxFinFlag a)"
  by (cases fl; auto simp: set_flags_def Let_def)+

lemma mux_cnt_same:
  "ab_muxYesCnt a' = ab_muxYesCnt a \<Longrightarrow> ab_muxNoCnt a' = ab_muxNoCnt a \<Longrightarrow> mux_cnt f r a' = mux_cnt f r a"
  by (simp add: mux_cnt_def)

lemma mux_cnt_simps [simp]:
  "mux_cnt f r (snd (count_val v a)) = mux_cnt f r a" "mux_cnt f r (set_flags r' fl a) = mux_cnt f r a"
  "mux_cnt f r (a\<lparr>ab_muxFlag := s\<rparr>) = mux_cnt f r a" "mux_cnt f r (a\<lparr>ab_halt := b\<rparr>) = mux_cnt f r a"
  by (simp_all add: mux_cnt_def)

lemma mux_cnt_count [simp]:
  "f = FLAG_YES \<or> f = FLAG_NO \<Longrightarrow>
     mux_cnt f r (count_mux m a) = mux_cnt f r a + (if mx_InRound m = r \<and> mx_Flag m = f then 1 else 0)"
  by (auto simp: mux_cnt_def count_mux_def)

lemmas aba_step_unfold = bind_eq_Some_conv Let_def split_beta

lemma aba_step_counts:
  assumes "aba_step w pc a c = Some (pc', a', c')" "f = FLAG_YES \<or> f = FLAG_NO"
  shows "mux_cnt f r a \<le> mux_cnt f r a'"
    and "mux_cnt f r a' + (case pc' of None \<Rightarrow> 0 | Some p \<Rightarrow> if uncounted r f p then 1 else 0) \<le>
      mux_cnt f r a + (if uncounted r f pc then 1 else 0)"
  using assms by (cases pc; auto simp: aba_step_unfold split: if_splits; fail)+

lemma mux_flags_quorum:
  "mux_flags th y n vy vn = (True, False) \<Longrightarrow> th \<le> y" "mux_flags th y n vy vn = (False, True) \<Longrightarrow> th \<le> n"
  by (auto simp: mux_flags_def split: if_splits)

lemma set_flags_inst:
  assumes "inst_ok th r a" "r |\<notin>| ab_muxFinFlag a" "y \<le> mux_cnt FLAG_YES r a" "n \<le> mux_cnt FLAG_NO r a"
  shows "inst_ok th r (set_flags r (mux_flags th y n vy vn) a)"
proof (cases "mux_flags th y n vy vn")
  case (Pair yes no)
  have "r |\<notin>| ab_yesFlag a" "r |\<notin>| ab_noFlag a" using assms by (auto simp: inst_ok_def)
  moreover have "yes \<Longrightarrow> \<not> no \<Longrightarrow> th \<le> y" "no \<Longrightarrow> \<not> yes \<Longrightarrow> th \<le> n"
    using mux_flags_quorum [of th y n vy vn] Pair by auto
  ultimately show ?thesis using assms(3,4) Pair by (cases yes; cases no) (simp_all add: inst_ok_def)
qed

lemma set_flags_other: "r' \<noteq> r \<Longrightarrow> inst_ok th r (set_flags r' fl a) = inst_ok th r a"
  by (simp add: inst_ok_def)

lemma inst_ok_simps [simp]:
  "inst_ok th r (a\<lparr>ab_muxFlag := s\<rparr>) = inst_ok th r a" "inst_ok th r (a\<lparr>ab_halt := b\<rparr>) = inst_ok th r a"
  "inst_ok th r (snd (count_val v a)) = inst_ok th r a"
  by (simp_all add: inst_ok_def)

lemma inst_ok_count: "inst_ok th r a \<Longrightarrow> inst_ok th r (count_mux m a)"
  by (auto simp: inst_ok_def)

lemma aba_step_inst:
  assumes "aba_step w pc a c = Some (pc', a', c')" "pc_read r a pc" "inst_ok (HightThreshold (c_Committee c)) r a"
  shows "inst_ok (HightThreshold (c_Committee c)) r a'"
proof (cases pc)
  case (MuxDecide m y n vy vn)
  then show ?thesis
    using assms by (cases "mx_InRound m = r") (auto simp: set_flags_inst set_flags_other Let_def split: if_splits)
qed (use assms in \<open>auto simp: inst_ok_count aba_step_unfold split: if_splits\<close>)

lemma aba_step_key: "aba_step w pc a c = Some (Some p, a', c') \<Longrightarrow> pc_key k pc \<Longrightarrow> pc_key k p"
  by (cases pc) (auto simp: aba_step_unfold split: if_splits)

lemma aba_step_read: "aba_step w pc a c = Some (Some p, a', c') \<Longrightarrow> pc_read r a pc \<Longrightarrow> pc_read r a' p"
  by (cases pc) (auto simp: aba_step_unfold mux_cnt_def split: if_splits)

lemma pc_read_mono:
  assumes "pc_read r a p" "mux_cnt FLAG_YES r a \<le> mux_cnt FLAG_YES r a'" "mux_cnt FLAG_NO r a \<le> mux_cnt FLAG_NO r a'"
  shows "pc_read r a' p"
  using assms by (cases p) auto

lemma NewABAMux_fields:
  "NewABAMux w n l e rnd i f sig = Some m \<Longrightarrow> mx_Epoch m = e \<and> mx_Round m = rnd \<and> mx_InRound m = i \<and> mx_Flag m = f \<and> mx_Author m = n"
  by (auto simp: NewABAMux_def bind_eq_Some_conv)

lemma NewCoinShare_fields:
  "NewCoinShare w n l e rnd i sig = Some (Some s, err) \<Longrightarrow> cs_Epoch s = e \<and> cs_Round s = rnd \<and> cs_InRound s = i"
  by (auto simp: NewCoinShare_def bind_eq_Some_conv Let_def split: if_splits)

lemma aba_step_mux:
  assumes "aba_step w pc a c = Some (pc', a', c')" "pc_key k pc"
  shows "sent (is_mux k' r) (c_Transimtor c') + (if k' = k \<and> r |\<in>| ab_muxFlag a then 1 else 0) =
    sent (is_mux k' r) (c_Transimtor c) + (if k' = k \<and> r |\<in>| ab_muxFlag a' then 1 else 0)"
  using assms
  by (cases pc)
     (auto simp: aba_step_unfold mvba_ctx_defs split: if_splits dest!: NewABAMux_fields coin_msg_cases)

lemma is_coin_New:
  "NewCoinShare w n l e rnd i sig = Some (share, err) \<Longrightarrow> is_coin k r (CoinShareMsg share) \<Longrightarrow> k = (e, rnd) \<and> r = i"
  by (cases share) (auto dest: NewCoinShare_fields)

lemma aba_step_coin:
  assumes "aba_step w pc a c = Some (pc', a', c')" "pc_key k pc"
  shows "sent (is_coin k' r) (c_Transimtor c') +
      (if k' = k then (case pc' of None \<Rightarrow> 0 | Some p \<Rightarrow> if sharing r p then 1 else 0) + (if r |\<in>| ab_muxFinFlag a then 1 else 0) else 0) \<le>
    sent (is_coin k' r) (c_Transimtor c) +
      (if k' = k then (if sharing r pc then 1 else 0) + (if r |\<in>| ab_muxFinFlag a' then 1 else 0) else 0)"
  using assms
  by (cases pc)
     (auto simp: aba_step_unfold mvba_ctx_defs split: if_splits dest!: coin_msg_cases dest: is_coin_New)

section \<open>The invariant of a node\<close>

definition aba_of :: "'db Core \<Rightarrow> int \<times> int \<Rightarrow> ABA" where
  "aba_of c k = (case get2 (c_abaInstances c) (fst k) (snd k) of None \<Rightarrow> NewABA (fst k) (snd k) | Some a \<Rightarrow> a)"

definition tasks_at :: "'db Core \<Rightarrow> int \<times> int \<Rightarrow> (aba_pc \<Rightarrow> bool) \<Rightarrow> nat" where
  "tasks_at c k P = length (filter (\<lambda>t. fst t = k \<and> P (snd t)) (c_abaTasks c))"

definition handled :: "(mvba_msg \<Rightarrow> bool) \<Rightarrow> mvba_msg list \<Rightarrow> nat" where
  "handled P h = length (filter P h)"

lemma handled_snoc [simp]: "handled P (h @ [m]) = handled P h + (if P m then 1 else 0)"
  by (simp add: handled_def)

definition aba_inv :: "Committee \<Rightarrow> int \<times> int \<Rightarrow> int \<Rightarrow> mvba_msg list \<Rightarrow> 'db Core \<Rightarrow> bool" where
  "aba_inv cm k r h c \<longleftrightarrow> c_Committee c = cm \<and>
     (ab_Epoch (aba_of c k), ab_ExRound (aba_of c k)) = k \<and>
     (\<forall>t\<in>set (c_abaTasks c). pc_key (fst t) (snd t)) \<and>
     (\<forall>t\<in>set (c_abaTasks c). fst t = k \<longrightarrow> pc_read r (aba_of c k) (snd t)) \<and>
     inst_ok (HightThreshold cm) r (aba_of c k) \<and>
     sent (is_mux k r) (c_Transimtor c) = (if r |\<in>| ab_muxFlag (aba_of c k) then 1 else 0) \<and>
     sent (is_coin k r) (c_Transimtor c) + tasks_at c k (sharing r) \<le> (if r |\<in>| ab_muxFinFlag (aba_of c k) then 1 else 0) \<and>
     mux_cnt FLAG_YES r (aba_of c k) + int (tasks_at c k (uncounted r FLAG_YES)) \<le> int (handled (mux_for k r FLAG_YES) h) \<and>
     mux_cnt FLAG_NO r (aba_of c k) + int (tasks_at c k (uncounted r FLAG_NO)) \<le> int (handled (mux_for k r FLAG_NO) h)"

lemma aba_invD:
  assumes "aba_inv cm k r h c"
  shows "c_Committee c = cm"
    "(ab_Epoch (aba_of c k), ab_ExRound (aba_of c k)) = k"
    "(\<forall>t\<in>set (c_abaTasks c). pc_key (fst t) (snd t))"
    "(\<forall>t\<in>set (c_abaTasks c). fst t = k \<longrightarrow> pc_read r (aba_of c k) (snd t))"
    "inst_ok (HightThreshold cm) r (aba_of c k)"
    "sent (is_mux k r) (c_Transimtor c) = (if r |\<in>| ab_muxFlag (aba_of c k) then 1 else 0)"
    "sent (is_coin k r) (c_Transimtor c) + tasks_at c k (sharing r) \<le> (if r |\<in>| ab_muxFinFlag (aba_of c k) then 1 else 0)"
    "mux_cnt FLAG_YES r (aba_of c k) + int (tasks_at c k (uncounted r FLAG_YES)) \<le> int (handled (mux_for k r FLAG_YES) h)"
    "mux_cnt FLAG_NO r (aba_of c k) + int (tasks_at c k (uncounted r FLAG_NO)) \<le> int (handled (mux_for k r FLAG_NO) h)"
  using assms by (simp_all add: aba_inv_def)

text \<open>The part of the core that the invariant reads.\<close>

lemma aba_inv_same:
  assumes "aba_inv cm k r h c"
    and "c_Committee c' = c_Committee c" "c_abaInstances c' = c_abaInstances c" "c_abaTasks c' = c_abaTasks c"
    and "sent (is_mux k r) (c_Transimtor c') = sent (is_mux k r) (c_Transimtor c)"
    and "sent (is_coin k r) (c_Transimtor c') = sent (is_coin k r) (c_Transimtor c)"
  shows "aba_inv cm k r h c'"
  using assms by (simp add: aba_inv_def aba_of_def tasks_at_def)

lemma not_guarded_vote [simp]: "\<not> guarded m \<Longrightarrow> \<not> is_mux k r m" "\<not> guarded m \<Longrightarrow> \<not> is_coin k r m"
  by (cases m; simp)+

lemma mvba_upd_aba:
  assumes "mvba_upd w E c c'"
  shows "c_Committee c' = c_Committee c" "c_abaInstances c' = c_abaInstances c" "c_abaTasks c' = c_abaTasks c"
    "sent (is_mux k r) (c_Transimtor c') = sent (is_mux k r) (c_Transimtor c)"
    "sent (is_coin k r) (c_Transimtor c') = sent (is_coin k r) (c_Transimtor c)"
  using assms by (induction rule: mvba_upd.induct) (simp_all add: mvba_ctx_defs count_final_def addCommitment_def)

lemma aba_inv_upd:
  assumes "mvba_upd w E c c'" "aba_inv cm k r h c"
  shows "aba_inv cm k r h c'"
  using mvba_upd_aba [OF assms(1)] by (intro aba_inv_same [OF assms(2)])

lemma aba_of_go_aba [simp]: "aba_of (go_aba key pc c) k = aba_of c k"
  by (simp add: aba_of_def go_aba_def getABAInstance_def Let_def split: option.split)

lemma abaTasks_go_aba [simp]: "c_abaTasks (go_aba key pc c) = c_abaTasks c @ [(key, pc)]"
  by (simp add: go_aba_def getABAInstance_def Let_def split: option.split)

lemma tasks_at_go_aba [simp]:
  "tasks_at (go_aba key pc c) k P = tasks_at c k P + (if key = k \<and> P pc then 1 else 0)"
  by (simp add: tasks_at_def)

lemma started_aba_facts:
  assumes "started_aba m key pc"
  shows "pc_key key pc" "pc_read r a pc" "\<not> sharing r pc" "key = k \<and> uncounted r f pc \<longleftrightarrow> mux_for k r f m"
  using assms by (induction m key pc rule: started_aba.induct) auto

lemma aba_inv_go:
  assumes "aba_inv cm k r h c" "started_aba m key pc"
  shows "aba_inv cm k r (h @ [m]) (go_aba key pc c)"
  using assms(1) started_aba_facts(1-3) [OF assms(2)] started_aba_facts(4) [OF assms(2), of k r FLAG_YES]
    started_aba_facts(4) [OF assms(2), of k r FLAG_NO]
  by (auto simp: aba_inv_def)

lemma aba_inv_skip: "aba_inv cm k r h c \<Longrightarrow> aba_inv cm k r (h @ [m]) c"
  by (auto simp: aba_inv_def)

lemma aba_of_task:
  assumes "get2 (c_abaInstances c) e rnd = Some a"
    "c' = c1\<lparr>c_abaInstances := put2 (c_abaInstances c) e rnd a', c_abaTasks := ts\<rparr>"
  shows "aba_of c (e, rnd) = a" "aba_of c' k = (if k = (e, rnd) then a' else aba_of c k)"
  using assms by (auto simp: aba_of_def)

lemma tasks_at_task:
  assumes "i < length (c_abaTasks c)" "c_abaTasks c ! i = (key, pc)" "c_abaTasks c' = task_update i key pc' [] (c_abaTasks c)"
  shows "tasks_at c' k P + (if key = k \<and> P pc then 1 else 0) =
    tasks_at c k P + (if key = k then (case pc' of None \<Rightarrow> 0 | Some p \<Rightarrow> if P p then 1 else 0) else 0)"
  using count_task_update [OF assms(1), of "\<lambda>t. fst t = k \<and> P (snd t)" key pc' "[]"] assms(2,3)
  by (simp add: tasks_at_def split: option.splits if_splits)

lemma aba_step_keeps:
  assumes "aba_step w pc a c = Some (pc', a', c')"
  shows "ab_Epoch a' = ab_Epoch a" "ab_ExRound a' = ab_ExRound a" "c_Committee c' = c_Committee c"
  using assms by (cases pc; auto simp: aba_step_unfold mvba_ctx_defs split: if_splits)+

lemma aba_inv_task:
  assumes inv: "aba_inv cm k r h c" and i: "i < length (c_abaTasks c)" and st: "aba_task w i c = Some c'"
  shows "aba_inv cm k r h c'"
  using st
proof (rule aba_task_cases)
  fix e rnd pc a pc' a' c1
  assume key: "c_abaTasks c ! i = ((e, rnd), pc)" and a: "get2 (c_abaInstances c) e rnd = Some a"
    and step: "aba_step w pc a c = Some (pc', a', c1)"
    and c': "c' = c1\<lparr>c_abaInstances := put2 (c_abaInstances c) e rnd a', c_abaTasks := task_update i (e, rnd) pc' [] (c_abaTasks c)\<rparr>"
  have mem: "((e, rnd), pc) \<in> set (c_abaTasks c)" using i key by (metis nth_mem)
  have pk: "pc_key (e, rnd) pc" using aba_invD(3) [OF inv] mem by auto
  have ts: "set (c_abaTasks c') \<subseteq> set (c_abaTasks c) \<union> {((e, rnd), p) | p. pc' = Some p}"
    using set_task_update [of i "(e, rnd)" pc' "[]"] c' by auto
  note at = tasks_at_task [OF i key, of c' pc' k]
  note of_c = aba_of_task [OF a c']
  note y = aba_step_counts [OF step, of FLAG_YES r] and n = aba_step_counts [OF step, of FLAG_NO r]
  have tr: "c_Transimtor c' = c_Transimtor c1" "c_Committee c' = c_Committee c"
    and tl: "c_abaTasks c' = task_update i (e, rnd) pc' [] (c_abaTasks c)"
    using c' aba_step_keeps [OF step] by simp_all
  have keys: "\<forall>t\<in>set (c_abaTasks c'). pc_key (fst t) (snd t)"
    using aba_invD(3) [OF inv] ts pk aba_step_key [of w pc a c _ a' c1] step by fastforce
  show ?thesis
  proof (cases "k = (e, rnd)")
    case True
    have of_k: "aba_of c k = a" "aba_of c' k = a'" using of_c True by simp_all
    have pr: "pc_read r a pc" using aba_invD(4) [OF inv] mem of_k True by auto
    have reads: "\<forall>t\<in>set (c_abaTasks c'). fst t = k \<longrightarrow> pc_read r a' (snd t)"
      using aba_invD(4) [OF inv] ts pc_read_mono [OF _ y(1) n(1)] aba_step_read [of w pc a c _ a' c1 r] step pr of_k
      by fastforce
    have inst: "inst_ok (HightThreshold cm) r a'"
      using aba_step_inst [OF step pr] aba_invD(1,5) [OF inv] of_k by simp
    have mux: "sent (is_mux k r) (c_Transimtor c') = (if r |\<in>| ab_muxFlag a' then 1 else 0)"
      using aba_step_mux [OF step pk, of k r] aba_invD(6) [OF inv] of_k True tr by (simp split: if_splits)
    have coin: "sent (is_coin k r) (c_Transimtor c') + tasks_at c' k (sharing r) \<le> (if r |\<in>| ab_muxFinFlag a' then 1 else 0)"
      using aba_step_coin [OF step pk, of k r] at [OF tl, of "sharing r"] aba_invD(7) [OF inv] of_k True tr by simp
    have "mux_cnt FLAG_YES r a' + int (tasks_at c' k (uncounted r FLAG_YES)) \<le>
        mux_cnt FLAG_YES r a + int (tasks_at c k (uncounted r FLAG_YES))"
      "mux_cnt FLAG_NO r a' + int (tasks_at c' k (uncounted r FLAG_NO)) \<le>
        mux_cnt FLAG_NO r a + int (tasks_at c k (uncounted r FLAG_NO))"
      using y(2) n(2) at [OF tl, of "uncounted r FLAG_YES"] at [OF tl, of "uncounted r FLAG_NO"] True
      by (auto split: option.splits if_splits)
    then show ?thesis
      using aba_invD [OF inv] keys reads inst mux coin tr of_k aba_step_keeps [OF step] unfolding aba_inv_def
      by (intro conjI) (simp_all del: split_paired_All)
  next
    case False
    have "aba_of c' k = aba_of c k" "\<And>P. tasks_at c' k P = tasks_at c k P"
      using of_c at [OF tl] False by simp_all
    moreover have "sent (is_mux k r) (c_Transimtor c') = sent (is_mux k r) (c_Transimtor c)"
      "sent (is_coin k r) (c_Transimtor c') \<le> sent (is_coin k r) (c_Transimtor c)"
      using aba_step_mux [OF step pk, of k r] aba_step_coin [OF step pk, of k r] tr False by simp_all
    ultimately show ?thesis using inv keys tr ts False by (auto simp: aba_inv_def)
  qed
qed

interpretation mab: mvba_invariant "aba_inv cm k r" w net for cm k r w net
proof unfold_locales
  show "aba_inv cm k r h c \<Longrightarrow> mvba_upd w None c c' \<Longrightarrow> aba_inv cm k r h c'" for h c c'
    by (rule aba_inv_upd)
  show "aba_inv cm k r h c \<Longrightarrow> aba_inv cm k r (h @ [m]) c" for h c m
    by (rule aba_inv_skip)
  show "aba_inv cm k r h c \<Longrightarrow> started_aba m akey apc \<Longrightarrow> aba_inv cm k r (h @ [m]) (go_aba akey apc c)" for h c m akey apc
    by (rule aba_inv_go)
  show "aba_inv cm k r h c \<Longrightarrow> i < length (c_abaTasks c) \<Longrightarrow> aba_task w i c = Some c' \<Longrightarrow> aba_inv cm k r h c'" for h c i c'
    by (rule aba_inv_task)
  show "aba_inv cm k r h c \<Longrightarrow> aba_inv cm k r (h @ [m]) (go_cbc key pc c)" for h c m key pc
    by (rule aba_inv_same [OF aba_inv_skip]) simp_all
  show "aba_inv cm k r h c \<Longrightarrow> aba_inv cm k r h (c_push m c)" for h c m
    by (erule aba_inv_same) (simp_all add: mvba_ctx_defs)
  show "aba_inv cm k r h c \<Longrightarrow> aba_inv cm k r h (c\<lparr>c_Transimtor := (c_Transimtor c)\<lparr>tr_recvCh := ms\<rparr>\<rparr>)" for h c ms
    by (erule aba_inv_same) simp_all
  show "aba_inv cm k r h c \<Longrightarrow> aba_inv cm k r h (c\<lparr>c_cbcCallBack := bs\<rparr>)" for h c bs
    by (erule aba_inv_same) simp_all
  show "aba_inv cm k r h c \<Longrightarrow> mvba_upds w (Some (abk_Epoch b)) (c\<lparr>c_abaCallBack := bs\<rparr>) c' \<Longrightarrow> aba_inv cm k r h c'" for h c b bs c'
    by (rule upds_back [of "aba_inv cm k r h", OF aba_inv_upd [rotated]]) (simp_all add: aba_inv_same)
  show "aba_inv cm k r h c \<Longrightarrow> cbc_task w i c = Some c' \<Longrightarrow> aba_inv cm k r h c'" for h c i c'
    by (erule cbc_task_cases, erule aba_inv_same) (auto simp: mvba_ctx_defs)
qed

lemma aba_inv_New:
  "aba_inv cm k r [] (NewCore name cm ps sig st pool (NewTransmitor par net))"
  by (simp add: aba_inv_def NewCore_def aba_of_def tasks_at_def inst_ok_def mux_cnt_def NewABA_def handled_def
    sent_def NewTransmitor_def)

section \<open>Two nodes and one inner round\<close>

fun mux_author :: "mvba_msg \<Rightarrow> NodeID" where
  "mux_author (ABAMuxMsg m) = mx_Author m"
| "mux_author _ = NONE"

definition sends :: "'db Core \<Rightarrow> mvba_msg set" where
  "sends c = set (map nm_Msg (tr_msgCh (c_Transimtor c)))"

definition voters :: "int \<times> int \<Rightarrow> int \<Rightarrow> byte \<Rightarrow> mvba_msg list \<Rightarrow> NodeID set" where
  "voters k r f h = mux_author ` {m \<in> set h. mux_for k r f m}"

lemma voters_elim:
  assumes "x \<in> voters k r f h"
  obtains m where "m \<in> set h" "mux_for k r f m" "mux_author m = x"
  using assms by (auto simp: voters_def)

lemma mux_for_is_mux: "mux_for k r f m \<Longrightarrow> is_mux k r m"
  by (cases m) auto

lemma card_voters:
  assumes "distinct (map mux_author (filter (is_mux k r) h))"
  shows "card (voters k r f h) = handled (mux_for k r f) h"
proof -
  have "filter (mux_for k r f) (filter (is_mux k r) h) = filter (mux_for k r f) h"
    by (auto simp: intro!: filter_cong dest: mux_for_is_mux)
  then have "distinct (map mux_author (filter (mux_for k r f) h))"
    using distinct_map_filter [OF assms, of "mux_for k r f"] by simp
  then have "card (set (map mux_author (filter (mux_for k r f) h))) = handled (mux_for k r f) h"
    using distinct_card by (fastforce simp: handled_def)
  then show ?thesis by (simp add: voters_def)
qed

lemma sent_at_most_one:
  assumes "sent P (c_Transimtor c) \<le> 1" "m \<in> sends c" "m' \<in> sends c" "P m" "P m'"
  shows "m = m'"
proof -
  have "length (filter P (map nm_Msg (tr_msgCh (c_Transimtor c)))) \<le> 1" using assms(1) by (simp add: sent_def)
  moreover have "{m, m'} \<subseteq> set (filter P (map nm_Msg (tr_msgCh (c_Transimtor c))))"
    using assms(2-) unfolding sends_def set_filter by blast
  ultimately show ?thesis
    by (cases "filter P (map nm_Msg (tr_msgCh (c_Transimtor c)))") auto
qed

lemma decided_quorum:
  assumes "aba_inv cm k r h c" "(r |\<in>| ab_yesFlag (aba_of c k)) \<noteq> (r |\<in>| ab_noFlag (aba_of c k))"
    and "distinct (map mux_author (filter (is_mux k r) h))"
  shows "nat (HightThreshold cm) \<le> card (voters k r (if r |\<in>| ab_yesFlag (aba_of c k) then FLAG_YES else FLAG_NO) h)"
  using assms(1,2) by (auto simp: card_voters [OF assms(3)] aba_inv_def inst_ok_def nat_le_iff)

lemma decided_alike:
  assumes "bft_committee cm" "finite F" "card F \<le> faults cm"
    and A: "aba_inv cm k r hA cA" "distinct (map mux_author (filter (is_mux k r) hA))"
    and B: "aba_inv cm k r hB cB" "distinct (map mux_author (filter (is_mux k r) hB))"
    and auth: "\<And>m. m \<in> set hA \<union> set hB \<Longrightarrow> is_mux k r m \<Longrightarrow>
      mux_author m \<in> members cm \<and> (mux_author m \<notin> F \<longrightarrow> m \<in> sends (node (mux_author m)))"
    and once: "\<And>i. i \<in> members cm - F \<Longrightarrow> sent (is_mux k r) (c_Transimtor (node i)) \<le> 1"
    and dA: "(r |\<in>| ab_yesFlag (aba_of cA k)) \<noteq> (r |\<in>| ab_noFlag (aba_of cA k))"
    and dB: "(r |\<in>| ab_yesFlag (aba_of cB k)) \<noteq> (r |\<in>| ab_noFlag (aba_of cB k))"
  shows "(r |\<in>| ab_yesFlag (aba_of cA k)) = (r |\<in>| ab_yesFlag (aba_of cB k))"
proof -
  let ?fA = "if r |\<in>| ab_yesFlag (aba_of cA k) then FLAG_YES else FLAG_NO"
  let ?fB = "if r |\<in>| ab_yesFlag (aba_of cB k) then FLAG_YES else FLAG_NO"
  have sub: "voters k r f h \<subseteq> members cm" if "h = hA \<or> h = hB" for f h
    using that auth mux_for_is_mux [of k r f] unfolding voters_def by blast
  obtain x where x: "x \<in> voters k r ?fA hA" "x \<in> voters k r ?fB hB" "x \<notin> F" "x \<in> members cm"
    using cq.common_correct [OF assms(1) sub sub decided_quorum [OF A(1) dA A(2)] decided_quorum [OF B(1) dB B(2)] assms(2,3)]
      sub by blast
  obtain m where m: "m \<in> set hA" "mux_for k r ?fA m" "mux_author m = x" using x(1) by (rule voters_elim)
  obtain m' where m': "m' \<in> set hB" "mux_for k r ?fB m'" "mux_author m' = x" using x(2) by (rule voters_elim)
  note ismux = mux_for_is_mux [OF m(2)] mux_for_is_mux [OF m'(2)]
  have "m = m'"
    using auth [of m] auth [of m'] m m' ismux x
    by (intro sent_at_most_one [of "is_mux k r" "node x" m m'] once) auto
  then show ?thesis using m(2) m'(2) by (cases m) (auto split: if_splits)
qed

lemma coin_msg_flag:
  "coin_msg w r v l a c = Some (ABAHaltMsg halt) \<Longrightarrow>
     ah_Flag halt = v \<and> (r |\<in>| ab_yesFlag a) \<noteq> (r |\<in>| ab_noFlag a) \<and> v = (if r |\<in>| ab_yesFlag a then FLAG_YES else FLAG_NO)"
  by (auto simp: coin_msg_def Let_def bind_eq_Some_conv NewABAHalt_def split: if_splits)

lemma coin_msg_undecided:
  "coin_msg w r v l a c = Some msg \<Longrightarrow> (r |\<in>| ab_yesFlag a) = (r |\<in>| ab_noFlag a) \<Longrightarrow>
     \<exists>val. msg = ABAValMsg val \<and> av_Flag val = v \<and> av_InRound val = i64 (r + 1)"
  by (auto simp: coin_msg_def Let_def bind_eq_Some_conv NewABAVal_def split: if_splits)

lemma coin_msg_decided:
  "coin_msg w r v l a c = Some msg \<Longrightarrow> (r |\<in>| ab_yesFlag a) \<noteq> (r |\<in>| ab_noFlag a) \<Longrightarrow>
     v = (if r |\<in>| ab_yesFlag a then FLAG_YES else FLAG_NO) \<Longrightarrow> \<exists>halt. msg = ABAHaltMsg halt \<and> ah_Flag halt = v"
  by (auto simp: coin_msg_def Let_def bind_eq_Some_conv NewABAHalt_def split: if_splits)

end
