(* ===== verification/Mvba_Progress.thy ===== *)
theory Mvba_Progress
  imports Mvba_Agreement
begin

text \<open>
  What an MVBA node gets done: a node that has left an epoch without its block commits nothing any
  more; the goroutines alone always come to an end; and a goroutine that no other one interrupts
  does in the node what its method does.
\<close>

section \<open>A missing block\<close>

text \<open>
  The node waits for the block of epoch \<open>k\<close>, has left that epoch, and no agreement of that epoch has
  a goroutine or a call-back left.
\<close>

definition stalled :: "Block list \<Rightarrow> int \<Rightarrow> 'db Core \<Rightarrow> bool" where
  "stalled l k c \<longleftrightarrow> cm_blockChan (c_Commitor c) = l \<and> cm_curIndex (c_Commitor c) = k \<and> cm_drained (c_Commitor c) \<and>
     k < c_Epoch c \<and> (\<forall>b\<in>set (c_abaCallBack c). abk_Epoch b \<noteq> k) \<and>
     (\<forall>t\<in>set (c_abaTasks c). fst (fst t) \<noteq> k \<and> pc_key (fst t) (snd t)) \<and>
     (\<forall>e rnd. ab_Epoch (aba_of c (e, rnd)) = e)"

lemma stalled_upd:
  assumes "stalled l k c" "mvba_upd w E c c'" "E \<noteq> Some k"
  shows "stalled l k c'"
  using assms(2,1)
proof (induction rule: mvba_upd.induct)
  case (commit c e n b)
  then have "e \<noteq> cm_curIndex (c_Commitor c)" using assms(3) by (auto simp: stalled_def)
  then show ?case using commit.prems by (simp add: stalled_def Commit_stuck Commit_drained aba_of_def)
qed (auto simp: stalled_def mvba_ctx_defs count_final_def addCommitment_def aba_of_def)

lemma stalled_upds: "mvba_upds w E c c' \<Longrightarrow> E \<noteq> Some k \<Longrightarrow> stalled l k c \<Longrightarrow> stalled l k c'"
  by (induction rule: rtranclp_induct) (auto intro: stalled_upd)

lemma aba_step_back:
  assumes "aba_step w pc a c = Some (pc', a', c')" "pc_key (e, rnd) pc" "ab_Epoch a = e"
  shows "\<forall>b\<in>set (c_abaCallBack c'). b \<in> set (c_abaCallBack c) \<or> abk_Epoch b = e"
  using assms
  by (cases pc) (auto simp: aba_step_unfold mvba_ctx_defs invoke_back_def halt_back_def split: if_splits)

lemma stalled_task:
  assumes st: "stalled l k c" and i: "i < length (c_abaTasks c)" and task: "aba_task w i c = Some c'"
  shows "stalled l k c'"
  using task
proof (rule aba_task_cases)
  fix e rnd pc a pc' a' c1
  assume key: "c_abaTasks c ! i = ((e, rnd), pc)" and a: "get2 (c_abaInstances c) e rnd = Some a"
    and step: "aba_step w pc a c = Some (pc', a', c1)" and ctx: "aba_ctx c c1"
    and c': "c' = c1\<lparr>c_abaInstances := put2 (c_abaInstances c) e rnd a', c_abaTasks := task_update i (e, rnd) pc' [] (c_abaTasks c)\<rparr>"
  have mem: "((e, rnd), pc) \<in> set (c_abaTasks c)" using i key by (metis nth_mem)
  then have pk: "pc_key (e, rnd) pc" "e \<noteq> k" using st by (auto simp: stalled_def)
  have of_a: "ab_Epoch a = e" using st aba_of_task(1) [OF a c'] by (auto simp: stalled_def)
  have "set (c_abaTasks c') \<subseteq> set (c_abaTasks c) \<union> {((e, rnd), p) | p. pc' = Some p}"
    using set_task_update [of i "(e, rnd)" pc' "[]"] c' by auto
  then have tasks: "\<forall>t\<in>set (c_abaTasks c'). fst (fst t) \<noteq> k \<and> pc_key (fst t) (snd t)"
    using st pk aba_step_key [of w pc a c _ a' c1] step by (fastforce simp: stalled_def)
  have backs: "\<forall>b\<in>set (c_abaCallBack c'). abk_Epoch b \<noteq> k"
    using aba_step_back [OF step pk(1) of_a] st pk(2) c' by (auto simp: stalled_def)
  have insts: "\<forall>e rnd. ab_Epoch (aba_of c' (e, rnd)) = e"
    using aba_of_task(2) [OF a c'] aba_step_keeps(1) [OF step] of_a st by (auto simp: stalled_def)
  have "c_Commitor c' = c_Commitor c" "c_Epoch c' = c_Epoch c"
    using ctx c' by (auto simp: mvba_ctx_defs elim!: aba_ctx.cases)
  then show ?thesis using st tasks backs insts by (simp add: stalled_def)
qed

interpretation mst: mvba_invariant "\<lambda>_. stalled l k" w net for l k w net
proof unfold_locales
  show "stalled l k c \<Longrightarrow> mvba_upd w None c c' \<Longrightarrow> stalled l k c'" for c c'
    by (erule (1) stalled_upd) simp
  show "stalled l k c \<Longrightarrow> started_aba m akey apc \<Longrightarrow> c_Epoch c \<le> fst akey \<Longrightarrow> stalled l k (go_aba akey apc c)" for c m akey apc
    using started_aba_facts(1) [of m akey apc] by (auto simp: stalled_def)
  show "stalled l k c \<Longrightarrow> c_abaCallBack c = b # bs \<Longrightarrow>
      mvba_upds w (Some (abk_Epoch b)) (c\<lparr>c_abaCallBack := bs\<rparr>) c' \<Longrightarrow> stalled l k c'" for c b bs c'
    by (erule stalled_upds) (auto simp: stalled_def aba_of_def)
  show "stalled l k c \<Longrightarrow> i < length (c_abaTasks c) \<Longrightarrow> aba_task w i c = Some c' \<Longrightarrow> stalled l k c'" for c i c'
    by (rule stalled_task)
qed (auto simp: stalled_def aba_of_def mvba_ctx_defs elim!: cbc_task_cases)

section \<open>The goroutines come to an end\<close>

text \<open>The number of pieces a goroutine has left, and the goroutines that may still start others.\<close>

fun cbc_rank :: "cbc_pc \<Rightarrow> nat" where
  "cbc_rank (ProposalEntry _) = 3"
| "cbc_rank (CommitmentEntry _) = 3"
| "cbc_rank (Flush _) = 2"
| "cbc_rank (MakeReady _) = 1"
| "cbc_rank (ReadyEntry _) = 4"
| "cbc_rank (ReadyQueue _) = 1"
| "cbc_rank (ReadyCount _) = 3"
| "cbc_rank (ReadyAct _ _) = 2"
| "cbc_rank (FinalEntry _) = 3"
| "cbc_rank (FinalQueue _) = 1"
| "cbc_rank (FinalCount _) = 2"
| "cbc_rank (FinalAct _ _) = 1"
| "cbc_rank (CbcPush _) = 1"

fun starter :: "cbc_pc \<Rightarrow> bool" where
  "starter (ProposalEntry _) \<longleftrightarrow> True"
| "starter (CommitmentEntry _) \<longleftrightarrow> True"
| "starter (Flush _) \<longleftrightarrow> True"
| "starter _ \<longleftrightarrow> False"

fun aba_rank :: "aba_pc \<Rightarrow> nat" where
  "aba_rank (ValEntry _) = 4"
| "aba_rank (ValCount _) = 3"
| "aba_rank (ValAct _ _) = 2"
| "aba_rank (MuxEntry _) = 7"
| "aba_rank (MuxCheck _) = 6"
| "aba_rank (MuxCount _) = 5"
| "aba_rank (MuxRead _ _ _) = 4"
| "aba_rank (MuxDecide _ _ _ _ _) = 3"
| "aba_rank (MuxShare _) = 2"
| "aba_rank (CoinEntry _ _ _) = 2"
| "aba_rank (HaltEntry _) = 3"
| "aba_rank (HaltPush _ _) = 2"
| "aba_rank (HaltBack _) = 1"
| "aba_rank (AbaPush _) = 1"

definition starters :: "'db Core \<Rightarrow> nat" where
  "starters c = length (filter (\<lambda>t. starter (snd t)) (c_cbcTasks c))"

definition pieces_left :: "'db Core \<Rightarrow> nat" where
  "pieces_left c = sum_list (map (\<lambda>t. cbc_rank (snd t)) (c_cbcTasks c)) + sum_list (map (\<lambda>t. aba_rank (snd t)) (c_abaTasks c))"

inductive task_step :: "'a mvba_env_scheme \<Rightarrow> 'db Core \<Rightarrow> 'db Core \<Rightarrow> bool" for w where
  cbc_piece: "i < length (c_cbcTasks c) \<Longrightarrow> cbc_task w i c = Some c' \<Longrightarrow> task_step w c c'"
| aba_piece: "i < length (c_abaTasks c) \<Longrightarrow> aba_task w i c = Some c' \<Longrightarrow> task_step w c c'"

lemma sum_task_update:
  fixes f :: "'k \<times> 'p \<Rightarrow> nat"
  assumes "i < length ts"
  shows "sum_list (map f (task_update i key pc spawned ts)) + f (ts ! i) =
    sum_list (map f ts) + (case pc of None \<Rightarrow> 0 | Some p \<Rightarrow> f (key, p)) + sum_list (map (\<lambda>p. f (key, p)) spawned)"
proof -
  have "sum_list (map f ts) = sum_list (map f (take i ts @ ts ! i # drop (Suc i) ts))"
    by (rule arg_cong [OF id_take_nth_drop [OF assms], of "\<lambda>xs. sum_list (map f xs)"])
  then show ?thesis by (simp add: task_update_def comp_def split: option.split)
qed

lemma cbc_step_spawned:
  "cbc_step w pc i c = Some (pc', spawned, i', c') \<Longrightarrow> list_all (\<lambda>p. \<not> starter p) spawned"
  by (cases pc) (auto simp: bind_eq_Some_conv waiting_def list_all_iff Let_def split: if_splits)

lemma cbc_step_starter:
  "cbc_step w pc i c = Some (pc', spawned, i', c') \<Longrightarrow> (case pc' of None \<Rightarrow> False | Some p \<Rightarrow> starter p) \<Longrightarrow> starter pc"
  by (cases pc) (auto simp: bind_eq_Some_conv Let_def split: if_splits)

lemma cbc_step_rank:
  assumes "cbc_step w pc i c = Some (pc', spawned, i', c')"
    and "(case pc' of None \<Rightarrow> False | Some p \<Rightarrow> starter p) = starter pc"
  shows "spawned = [] \<and> (case pc' of None \<Rightarrow> 0 | Some p \<Rightarrow> cbc_rank p) < cbc_rank pc"
  using assms by (cases pc) (auto simp: bind_eq_Some_conv Let_def split: if_splits)

lemma aba_step_rank:
  assumes "aba_step w pc a c = Some (pc', a', c')"
  shows "(case pc' of None \<Rightarrow> 0 | Some p \<Rightarrow> aba_rank p) < aba_rank pc"
  using assms by (cases pc) (auto simp: aba_step_unfold split: if_splits)

lemma aba_step_tasks: "aba_ctx c c1 \<Longrightarrow> c_cbcTasks c1 = c_cbcTasks c"
  by (auto simp: mvba_ctx_defs elim!: aba_ctx.cases)

lemma task_step_measure:
  assumes "task_step w c c'"
  shows "starters c' < starters c \<or> starters c' = starters c \<and> pieces_left c' < pieces_left c"
  using assms
proof cases
  case (cbc_piece i)
  from cbc_piece(2) show ?thesis
  proof (rule cbc_task_cases)
    fix e n t pc cbc pc' spawned cbc' c1
    assume key: "c_cbcTasks c ! i = ((e, n, t), pc)" and st: "cbc_step w pc cbc c = Some (pc', spawned, cbc', c1)"
      and c1: "c1 = c \<or> (\<exists>to m. c1 = c_send to m c \<and> \<not> guarded m) \<or> (\<exists>m. c1 = c_push m c) \<or> (\<exists>f. c1 = cbc_back f cbc c)"
      and c': "c' = c1\<lparr>c_cbcInstances := put3 (c_cbcInstances c) e n t cbc',
        c_cbcTasks := task_update i (e, n, t) pc' spawned (c_cbcTasks c)\<rparr>"
    have tasks: "c_abaTasks c' = c_abaTasks c" "c_cbcTasks c' = task_update i (e, n, t) pc' spawned (c_cbcTasks c)"
      using c1 c' by (auto simp: mvba_ctx_defs)
    have none: "filter (\<lambda>t. starter (snd t)) (map (Pair (e, n, t)) spawned) = []"
      using cbc_step_spawned [OF st] by (auto simp: filter_empty_conv list_all_iff)
    have cnt: "starters c' + (if starter pc then 1 else 0) =
        starters c + (case pc' of None \<Rightarrow> 0 | Some p \<Rightarrow> if starter p then 1 else 0)"
      using count_task_update [OF cbc_piece(1), of "\<lambda>t. starter (snd t)" "(e, n, t)" pc' spawned] none key
      by (simp add: starters_def tasks split: option.splits)
    show ?thesis
    proof (cases "(case pc' of None \<Rightarrow> False | Some p \<Rightarrow> starter p) = starter pc")
      case True
      then have "starters c' = starters c" using cnt by (auto split: option.splits if_splits)
      moreover have "pieces_left c' < pieces_left c"
        using sum_task_update [OF cbc_piece(1), of "\<lambda>t. cbc_rank (snd t)" "(e, n, t)" pc' spawned]
          cbc_step_rank [OF st True] key
        by (simp add: pieces_left_def tasks split: option.splits)
      ultimately show ?thesis by simp
    next
      case False
      then have "starter pc" "(case pc' of None \<Rightarrow> 0 | Some p \<Rightarrow> if starter p then 1 else 0) = (0::nat)"
        using cbc_step_starter [OF st] by (auto split: option.splits)
      then show ?thesis using cnt by simp
    qed
  qed
next
  case (aba_piece i)
  from aba_piece(2) show ?thesis
  proof (rule aba_task_cases)
    fix e rnd pc a pc' a' c1
    assume key: "c_abaTasks c ! i = ((e, rnd), pc)" and st: "aba_step w pc a c = Some (pc', a', c1)" and ctx: "aba_ctx c c1"
      and c': "c' = c1\<lparr>c_abaInstances := put2 (c_abaInstances c) e rnd a', c_abaTasks := task_update i (e, rnd) pc' [] (c_abaTasks c)\<rparr>"
    have "c_cbcTasks c' = c_cbcTasks c" "c_abaTasks c' = task_update i (e, rnd) pc' [] (c_abaTasks c)"
      using aba_step_tasks [OF ctx] c' by simp_all
    then show ?thesis
      using sum_task_update [OF aba_piece(1), of "\<lambda>t. aba_rank (snd t)" "(e, rnd)" pc' "[]"] aba_step_rank [OF st] key
      by (simp add: starters_def pieces_left_def split: option.splits)
  qed
qed

section \<open>A goroutine that runs alone\<close>

text \<open>A goroutine does not read the tables of instances and goroutines.\<close>

lemma aba_step_frame:
  "aba_step w pc a (c\<lparr>c_abaInstances := x, c_abaTasks := y\<rparr>) =
     map_option (\<lambda>(pc, a, c). (pc, a, c\<lparr>c_abaInstances := x, c_abaTasks := y\<rparr>)) (aba_step w pc a c)"
  by (cases pc) (auto simp: mvba_ctx_defs Let_def coin_msg_def invoke_back_def split_beta split: bind_splits)

lemma aba_solo_frame:
  "aba_solo n w pc a (c\<lparr>c_abaInstances := x, c_abaTasks := y\<rparr>) =
     map_option (\<lambda>(a, c). (a, c\<lparr>c_abaInstances := x, c_abaTasks := y\<rparr>)) (aba_solo n w pc a c)"
  by (induction n arbitrary: pc a c) (auto simp: aba_step_frame split: bind_splits option.splits)

text \<open>What is left of a single goroutine runs to its end with no other step in between.\<close>

lemma solo_steps:
  assumes "aba_solo n w pc a c = Some (a', c')" "c_abaTasks c = [((e, rnd), pc)]" "get2 (c_abaInstances c) e rnd = Some a"
  shows "(mvba_step w net [])\<^sup>*\<^sup>* c (c'\<lparr>c_abaInstances := put2 (c_abaInstances c) e rnd a', c_abaTasks := []\<rparr>)"
  using assms
proof (induction n arbitrary: pc a c a' c')
  case 0
  then show ?case by simp
next
  case (Suc n)
  obtain pc' a1 c1 where st: "aba_step w pc a c = Some (pc', a1, c1)"
    and rest: "case pc' of None \<Rightarrow> a' = a1 \<and> c' = c1 | Some p \<Rightarrow> aba_solo n w p a1 c1 = Some (a', c')"
    using Suc.prems(1) by (auto simp: bind_eq_Some_conv split: option.splits)
  have same: "c_abaInstances c1 = c_abaInstances c" "c_abaTasks c1 = c_abaTasks c"
    using aba_step_ctx [OF st] by (auto simp: mvba_ctx_defs elim!: aba_ctx.cases)
  let ?d = "c1\<lparr>c_abaInstances := put2 (c_abaInstances c) e rnd a1,
    c_abaTasks := (case pc' of None \<Rightarrow> [] | Some p \<Rightarrow> [((e, rnd), p)])\<rparr>"
  have "aba_task w 0 c = Some ?d"
    using Suc.prems(2,3) st same by (simp add: aba_task_def task_update_def split: option.split)
  then have first: "mvba_step w net [] c ?d"
    by (intro mvba_step.aba [of 0]) (simp_all add: Suc.prems(2))
  show ?case
  proof (cases pc')
    case None
    then show ?thesis using first rest by auto
  next
    case (Some p)
    have "(mvba_step w net [])\<^sup>*\<^sup>* ?d (c'\<lparr>c_abaInstances := put2 (c_abaInstances c) e rnd a1, c_abaTasks := [((e, rnd), p)]\<rparr>
        \<lparr>c_abaInstances := put2 (c_abaInstances ?d) e rnd a', c_abaTasks := []\<rparr>)"
      by (rule Suc.IH [where pc = p and a = a1]) (use rest Some in \<open>simp_all add: aba_solo_frame\<close>)
    then show ?thesis using first Some by (simp add: converse_rtranclp_into_rtranclp)
  qed
qed

lemma reach_solo: "(mvba_step w net [])\<^sup>*\<^sup>* c c' \<Longrightarrow> mvba_reach w net c0 h c \<Longrightarrow> mvba_reach w net c0 h c'"
proof (induction rule: rtranclp_induct)
  case (step c1 c2)
  then show ?case using mvba_reach.step [of w net c0 h c1 "[]" c2] by simp
qed

lemma reach_deliver: "mvba_reach w net c0 h c \<Longrightarrow> net m \<Longrightarrow> mvba_reach w net c0 h (c_push m c)"
  using mvba_reach.step [OF _ mvba_step.deliver, of w net c0 h c m] by simp

lemma go_aba_eq:
  "go_aba k pc c = c\<lparr>c_abaInstances := c_abaInstances (go_aba k pc c), c_abaTasks := c_abaTasks c @ [(k, pc)]\<rparr>"
  by (simp add: go_aba_def getABAInstance_def Let_def split: option.split)

lemma go_aba_instance:
  "get2 (c_abaInstances (go_aba (e, rnd) pc c)) e rnd = Some (aba_of c (e, rnd))"
  "put2 (c_abaInstances (go_aba (e, rnd) pc c)) e rnd a = put2 (c_abaInstances c) e rnd a"
  by (simp_all add: go_aba_def getABAInstance_def aba_of_def Let_def split: option.split)

definition popped :: "'db Core \<Rightarrow> 'db Core" where
  "popped c = c\<lparr>c_Transimtor := (c_Transimtor c)\<lparr>tr_recvCh := tl (tr_recvCh (c_Transimtor c))\<rparr>\<rparr>"

text \<open>A message is taken from the queue and its goroutine runs to the end.\<close>

lemma message_steps:
  assumes "tr_recvCh (c_Transimtor c) = m # ms" "c_abaTasks c = []"
    and "Verify w (c_Committee c) m = Some b" "handle w m (popped c) = Some (None, go_aba (e, rnd) pc (popped c))"
    and "aba_solo n w pc (aba_of c (e, rnd)) (popped c) = Some (a', c')"
  obtains d where "mvba_step w net [m] c d"
    "(mvba_step w net [])\<^sup>*\<^sup>* d (c'\<lparr>c_abaInstances := put2 (c_abaInstances c) e rnd a', c_abaTasks := []\<rparr>)"
proof
  let ?d = "go_aba (e, rnd) pc (popped c)"
  have "Run_turn w c = Some (None, ?d)"
    using assms(1,3,4) by (simp add: Run_turn_def Transmitor_Recv_def dispatch_def popped_def)
  then show "mvba_step w net [m] c ?d" by (rule mvba_step.turn [OF assms(1)])
  have inst: "aba_of (popped c) (e, rnd) = aba_of c (e, rnd)" "c_abaInstances (popped c) = c_abaInstances c"
    "c_abaTasks (popped c) = []"
    using assms(2) by (simp_all add: popped_def aba_of_def)
  have "aba_solo n w pc (aba_of c (e, rnd)) ?d =
      Some (a', c'\<lparr>c_abaInstances := c_abaInstances ?d, c_abaTasks := [((e, rnd), pc)]\<rparr>)"
    using assms(5) inst(3) by (subst go_aba_eq) (simp add: aba_solo_frame)
  then have "(mvba_step w net [])\<^sup>*\<^sup>* ?d (c'\<lparr>c_abaInstances := c_abaInstances ?d, c_abaTasks := [((e, rnd), pc)]\<rparr>
      \<lparr>c_abaInstances := put2 (c_abaInstances ?d) e rnd a', c_abaTasks := []\<rparr>)"
    by (rule solo_steps) (simp_all add: inst go_aba_instance)
  then show "(mvba_step w net [])\<^sup>*\<^sup>* ?d (c'\<lparr>c_abaInstances := put2 (c_abaInstances c) e rnd a', c_abaTasks := []\<rparr>)"
    by (simp add: go_aba_instance inst)
qed

lemma reach_message:
  assumes "mvba_reach w net c0 h c" "tr_recvCh (c_Transimtor c) = m # ms" "c_abaTasks c = []"
    and "Verify w (c_Committee c) m = Some b" "handle w m (popped c) = Some (None, go_aba (e, rnd) pc (popped c))"
    and "aba_solo n w pc (aba_of c (e, rnd)) (popped c) = Some (a', c')"
  shows "mvba_reach w net c0 (h @ [m]) (c'\<lparr>c_abaInstances := put2 (c_abaInstances c) e rnd a', c_abaTasks := []\<rparr>)"
  using assms(2-6) by (rule message_steps [where net = net]) (blast intro: reach_solo mvba_reach.step [OF assms(1)])

text \<open>Steps without a message are steps.\<close>

lemma steps_solo: "(mvba_step w net [])\<^sup>*\<^sup>* c c' \<Longrightarrow> mvba_steps w net c0 c \<Longrightarrow> mvba_steps w net c0 c'"
  by (induction rule: rtranclp_induct) (auto intro: mvba_steps.step)

end
