(* ===== verification/Mvba_Samples.thy ===== *)
theory Mvba_Samples
  imports Mvba_Progress Samples
begin

text \<open>
  Concrete MVBA nodes and short runs of them, on which the properties of the protocol are applied.
\<close>

section \<open>Concrete nodes\<close>

definition mtoy_block :: Block where
  "mtoy_block = \<lparr>b_Proposer = 0, b_Batch = \<lparr>bt_ID = 0, bt_Txs = Some [[]]\<rparr>, b_Epoch = 0\<rparr>"

definition mtoy_env :: mvba_env where
  "mtoy_env = crypto.extend toy_crypto
     \<lparr>env_gob = \<lparr>gob_Encode = (\<lambda>b. Inr []), gob_Decode = (\<lambda>bs. Inr mtoy_block)\<rparr>, env_draw = (\<lambda>seed i. i)\<rparr>"

definition mtoy_core :: "NodeID \<Rightarrow> (bytes \<rightharpoonup> bytes) Core" where
  "mtoy_core i = NewCore i four DefaultParameters toy_sig toy_store toy_pool (NewTransmitor DefaultParameters four)"

lemma mtoy_env_simps [simp]:
  "tbls_Sign mtoy_env = tbls_Sign toy_crypto" "env_draw mtoy_env seed i = i"
  by (simp_all add: mtoy_env_def crypto.defs toy_crypto_def)

section \<open>Runs\<close>

datatype mact = Deliver mvba_msg | Turn | CbcTurn | AbaTurn | CbcStep nat | AbaStep nat

fun mexec ::
  "'a mvba_env_scheme \<Rightarrow> mact \<Rightarrow> mvba_msg list \<times> 'db Core \<Rightarrow> (mvba_msg list \<times> 'db Core) option" where
  "mexec w (Deliver m) (h, c) = Some (h, c_push m c)"
| "mexec w Turn (h, c) =
     (case tr_recvCh (c_Transimtor c) of
        [] \<Rightarrow> None
      | m # _ \<Rightarrow> do { (err, c) \<leftarrow> Run_turn w c; Some (h @ [m], c) })"
| "mexec w CbcTurn (h, c) = do { (err, c) \<leftarrow> Run_cbc w c; Some (h, c) }"
| "mexec w AbaTurn (h, c) = do { (err, c) \<leftarrow> Run_aba w c; Some (h, c) }"
| "mexec w (CbcStep i) (h, c) =
     (if i < length (c_cbcTasks c) then do { c \<leftarrow> cbc_task w i c; Some (h, c) } else None)"
| "mexec w (AbaStep i) (h, c) =
     (if i < length (c_abaTasks c) then do { c \<leftarrow> aba_task w i c; Some (h, c) } else None)"

fun mplay ::
  "'a mvba_env_scheme \<Rightarrow> mact list \<Rightarrow> mvba_msg list \<times> 'db Core \<Rightarrow> (mvba_msg list \<times> 'db Core) option" where
  "mplay w [] s = Some s"
| "mplay w (a # as) s = (case mexec w a s of None \<Rightarrow> None | Some s \<Rightarrow> mplay w as s)"

lemma mexec_step:
  assumes "mexec w a (h, c) = Some (h', c')" "\<forall>m. a = Deliver m \<longrightarrow> net m"
  shows "\<exists>l. h' = h @ l \<and> mvba_step w net l c c'"
  using assms
  by (cases a)
     (auto simp: bind_eq_Some_conv split: list.splits if_splits intro: mvba_step.intros)

lemma mplay_Cons:
  assumes "mplay w (a # as) (h, c) = Some r" "\<forall>m. a = Deliver m \<longrightarrow> net m"
  obtains l c1 where "mvba_step w net l c c1" "mplay w as (h @ l, c1) = Some r"
proof -
  obtain h1 c1 where "mexec w a (h, c) = Some (h1, c1)" "mplay w as (h1, c1) = Some r"
    using assms(1) by (auto split: option.splits)
  then show thesis using mexec_step [OF _ assms(2)] that by metis
qed

lemma mplay_reach:
  assumes "mplay w as (h, c) = Some (h', c')" "mvba_reach w net c0 h c" "\<forall>m. Deliver m \<in> set as \<longrightarrow> net m"
  shows "mvba_reach w net c0 h' c'"
  using assms
proof (induction as arbitrary: h c)
  case Nil
  then show ?case by simp
next
  case (Cons a as)
  obtain l c1 where c1: "mvba_step w net l c c1" "mplay w as (h @ l, c1) = Some (h', c')"
    using Cons.prems by (elim mplay_Cons [where net = net]) auto
  show ?case
    by (rule Cons.IH [OF c1(2) mvba_reach.step [OF Cons.prems(2) c1(1)]]) (use Cons.prems(3) in simp)
qed

lemma mplay_steps:
  assumes "mplay w as (h, c) = Some (h', c')" "mvba_steps w net c0 c" "\<forall>m. Deliver m \<in> set as \<longrightarrow> net m"
  shows "mvba_steps w net c0 c'"
  using assms
proof (induction as arbitrary: h c)
  case Nil
  then show ?case by simp
next
  case (Cons a as)
  obtain l c1 where c1: "mvba_step w net l c c1" "mplay w as (h @ l, c1) = Some (h', c')"
    using Cons.prems by (elim mplay_Cons [where net = net]) auto
  show ?case
    by (rule Cons.IH [OF c1(2) mvba_steps.step [OF Cons.prems(2) c1(1)]]) (use Cons.prems(3) in simp)
qed

section \<open>Three nodes that vote\<close>

text \<open>
  Node \<open>i\<close> gets three values yes for the first agreement and votes for yes. A node that also gets
  the votes of the two others finishes the inner round with yes alone.
\<close>

definition mtoy_val :: ABAVal where
  "mtoy_val = the (NewABAVal mtoy_env 0 0 0 0 0 FLAG_YES toy_sig)"

definition mtoy_mux :: "NodeID \<Rightarrow> ABAMux" where
  "mtoy_mux i = the (NewABAMux mtoy_env i 0 0 0 0 FLAG_YES toy_sig)"

lemma mtoy_val_fields [simp]:
  "av_Epoch mtoy_val = 0" "av_Round mtoy_val = 0" "av_InRound mtoy_val = 0" "av_Flag mtoy_val = FLAG_YES" "av_Leader mtoy_val = 0"
  by (simp_all add: mtoy_val_def NewABAVal_def RequestSignature_eq toy_sig_def PrivateKeySize_def Let_def)

lemma mtoy_mux_New: "NewABAMux mtoy_env i 0 0 0 0 FLAG_YES toy_sig = Some (mtoy_mux i)"
  by (simp add: mtoy_mux_def NewABAMux_def RequestSignature_eq toy_sig_def PrivateKeySize_def Let_def)

lemma mtoy_mux_fields [simp]:
  "mx_Epoch (mtoy_mux i) = 0" "mx_Round (mtoy_mux i) = 0" "mx_InRound (mtoy_mux i) = 0" "mx_Flag (mtoy_mux i) = FLAG_YES"
  "mx_Author (mtoy_mux i) = i"
  using NewABAMux_fields [OF mtoy_mux_New, of i] by simp_all

lemma mtoy_verify: "list_all (\<lambda>m. Verify mtoy_env four m = Some True) (ABAValMsg mtoy_val # map (ABAMuxMsg \<circ> mtoy_mux) [0, 1, 2])"
  by code_simp

definition at_start :: "NodeID \<Rightarrow> (bytes \<rightharpoonup> bytes) Core \<Rightarrow> bool" where
  "at_start i c \<longleftrightarrow> c_Name c = i \<and> c_Committee c = four \<and> c_SigService c = toy_sig \<and> c_Epoch c = 0 \<and> c_abaTasks c = [] \<and>
     c_abaInstances c 0 = None \<and> tr_recvCh (c_Transimtor c) = [] \<and> length (tr_msgCh (c_Transimtor c)) = 1"

lemma mtoy_started:
  "list_all (\<lambda>i. case Run_start mtoy_env (mtoy_core i) of None \<Rightarrow> False
   | Some c \<Rightarrow> (case mplay mtoy_env [Turn] ([], c) of None \<Rightarrow> False
      | Some (h, c) \<Rightarrow> at_start i c \<and> list_all (\<lambda>m. MsgType m = 0) h)) [0, 1, 2]"
  by code_simp

definition toy_at :: "NodeID \<Rightarrow> ABA \<Rightarrow> mvba_msg list \<Rightarrow> (bytes \<rightharpoonup> bytes) Core \<Rightarrow> bool" where
  "toy_at i a q c \<longleftrightarrow> c_Name c = i \<and> c_Committee c = four \<and> c_SigService c = toy_sig \<and> c_Epoch c = 0 \<and> c_abaTasks c = [] \<and>
     aba_of c (0, 0) = a \<and> tr_recvCh (c_Transimtor c) = q"

lemma toy_at_push: "toy_at i a q c \<Longrightarrow> toy_at i a (q @ [m]) (c_push m c)"
  by (simp add: toy_at_def mvba_ctx_defs aba_of_def RecvChannel_push_def)

lemma toy_at_popped: "toy_at i a (m # q) c \<Longrightarrow> toy_at i a q (popped c)"
  by (simp add: toy_at_def popped_def aba_of_def)

lemma toy_at_send: "toy_at i a q c \<Longrightarrow> toy_at i a q (c_send to m c)"
  by (simp add: toy_at_def mvba_ctx_defs aba_of_def)

lemma toy_at_back: "toy_at i a q c \<Longrightarrow> toy_at i a q (aba_back b c)"
  by (simp add: toy_at_def mvba_ctx_defs aba_of_def)

lemma toy_at_put:
  "toy_at i a q c \<Longrightarrow> toy_at i a' q (c\<lparr>c_abaInstances := put2 x 0 0 a', c_abaTasks := []\<rparr>)"
  by (simp add: toy_at_def aba_of_def)

lemmas toy_at_intros = toy_at_push toy_at_popped toy_at_send toy_at_back toy_at_put

lemma toy_value:
  assumes "mvba_reach mtoy_env net c0 h c" "toy_at i a (ABAValMsg mtoy_val # q) c"
    and "ProcessABAVal mtoy_env mtoy_val a (popped c) = Some (a', c')"
  shows "mvba_reach mtoy_env net c0 (h @ [ABAValMsg mtoy_val]) (c'\<lparr>c_abaInstances := put2 (c_abaInstances c) 0 0 a', c_abaTasks := []\<rparr>)"
  by (rule reach_message [where pc = "ValEntry mtoy_val" and n = 7 and b = True, OF assms(1)])
     (use assms(2,3) mtoy_verify in \<open>simp_all add: toy_at_def popped_def messageFilter_def handleABAVal_def aba_solo_Val\<close>)

lemma toy_vote:
  assumes "mvba_reach mtoy_env net c0 h c" "toy_at i a (ABAMuxMsg (mtoy_mux j) # q) c" "j \<in> {0, 1, 2}"
    and "ProcessABAMux mtoy_env (mtoy_mux j) a (popped c) = Some (a', c')"
  shows "mvba_reach mtoy_env net c0 (h @ [ABAMuxMsg (mtoy_mux j)]) (c'\<lparr>c_abaInstances := put2 (c_abaInstances c) 0 0 a', c_abaTasks := []\<rparr>)"
  by (rule reach_message [where pc = "MuxEntry (mtoy_mux j)" and n = 7 and b = True, OF assms(1)])
     (use assms(2-4) mtoy_verify in \<open>auto simp: toy_at_def popped_def messageFilter_def handleABAMux_def aba_solo_Mux\<close>)

definition yes_vals :: "int \<Rightarrow> ABA" where
  "yes_vals n = (NewABA 0 0)\<lparr>ab_valYesCnt := [0 \<mapsto> n]\<rparr>"

definition yes_mux :: "int \<Rightarrow> ABA" where
  "yes_mux n = (yes_vals 3)\<lparr>ab_muxFlag := {|0|}, ab_muxYesCnt := [0 \<mapsto> n]\<rparr>"

definition voted :: ABA where
  "voted = (yes_vals 3)\<lparr>ab_muxFlag := {|0|}\<rparr>"

definition decided :: ABA where
  "decided = (yes_mux 3)\<lparr>ab_muxFinFlag := {|0|}, ab_yesFlag := {|0|}\<rparr>"

lemmas toy_aba_defs = yes_vals_def yes_mux_def voted_def decided_def NewABA_def

lemma toy_values:
  assumes "toy_at i a q c"
  shows "ProcessABAVal mtoy_env mtoy_val (NewABA 0 0) c = Some (yes_vals 1, c)"
    "ProcessABAVal mtoy_env mtoy_val (yes_vals 1) c = Some (yes_vals 2, aba_back (invoke_back mtoy_val (yes_vals 2)) c)"
    "ProcessABAVal mtoy_env mtoy_val (yes_vals 2) c =
       Some (voted, c_push (ABAMuxMsg (mtoy_mux i)) (c_send NONE (ABAMuxMsg (mtoy_mux i)) c))"
  using assms mtoy_mux_New [of i]
  by (simp_all add: ProcessABAVal_def toy_at_def count_val_def inc_def toy_aba_defs four_size cnt_of_def invoke_back_def)

definition mtoy_share :: "NodeID \<Rightarrow> NodeID \<Rightarrow> mvba_msg" where
  "mtoy_share i j = CoinShareMsg (Some \<lparr>cs_Author = i, cs_Leader = mx_Leader (mtoy_mux j), cs_Epoch = 0, cs_Round = 0,
     cs_InRound = 0, cs_Share = \<lparr>PartialSig = [1]\<rparr>\<rparr>)"

lemma toy_votes:
  assumes "toy_at i a q c"
  shows "ProcessABAMux mtoy_env (mtoy_mux j) voted c = Some (yes_mux 1, c)"
    "ProcessABAMux mtoy_env (mtoy_mux j) (yes_mux 1) c = Some (yes_mux 2, c)"
    "ProcessABAMux mtoy_env (mtoy_mux j) (yes_mux 2) c = Some (decided, c_push (mtoy_share i j) (c_send NONE (mtoy_share i j) c))"
  using assms
  by (simp_all add: ProcessABAMux_def toy_at_def count_mux_def inc_def toy_aba_defs four_size cnt_of_def mux_flags_def
      set_flags_def NewCoinShare_def RequestTsSugnature_eq toy_crypto_def toy_sig_def PrivateKeySize_def Let_def mtoy_share_def)

lemma mtoy_begun:
  assumes "i \<in> {0, 1, 2}"
  obtains h c where "mvba_reach mtoy_env (\<lambda>_. True) (mtoy_core i) h c" "toy_at i (NewABA 0 0) [] c" "filter (is_mux (0, 0) 0) h = []"
proof -
  obtain c where c: "Run_start mtoy_env (mtoy_core i) = Some c"
      "case mplay mtoy_env [Turn] ([], c) of None \<Rightarrow> False | Some (h, c) \<Rightarrow> at_start i c \<and> list_all (\<lambda>m. MsgType m = 0) h"
    using mtoy_started assms by (auto split: option.splits)
  then obtain h c1 where 1: "mplay mtoy_env [Turn] ([], c) = Some (h, c1)" "at_start i c1" "list_all (\<lambda>m. MsgType m = 0) h"
    by (auto split: option.splits)
  have "\<not> is_mux (0, 0) 0 m" if "MsgType m = 0" for m using that by (cases m) auto
  then have "filter (is_mux (0, 0) 0) h = []" using 1(3) by (simp add: filter_empty_conv list_all_iff)
  moreover have "mvba_reach mtoy_env (\<lambda>_. True) (mtoy_core i) h c1"
    by (rule mplay_reach [OF 1(1) mvba_reach.start [OF c(1)]]) simp
  moreover have "toy_at i (NewABA 0 0) [] c1"
    using 1(2) by (simp add: at_start_def toy_at_def aba_of_def get2_def inner_def)
  ultimately show thesis using that by blast
qed

lemma mtoy_voted:
  assumes "i \<in> {0, 1, 2}"
  obtains h c where "mvba_reach mtoy_env (\<lambda>_. True) (mtoy_core i) h c" "toy_at i voted [ABAMuxMsg (mtoy_mux i)] c"
    "ABAMuxMsg (mtoy_mux i) \<in> sends c" "filter (is_mux (0, 0) 0) h = []"
proof -
  let ?v = "ABAValMsg mtoy_val"
  obtain h c where c: "mvba_reach mtoy_env (\<lambda>_. True) (mtoy_core i) h c" "toy_at i (NewABA 0 0) [] c" "filter (is_mux (0, 0) 0) h = []"
    using assms by (rule mtoy_begun)
  let ?c = "c_push ?v (c_push ?v (c_push ?v c))"
  have r: "mvba_reach mtoy_env (\<lambda>_. True) (mtoy_core i) h ?c"
    by (intro reach_deliver c(1)) simp_all
  have at: "toy_at i (NewABA 0 0) [?v, ?v, ?v] ?c"
    using toy_at_push [OF toy_at_push [OF toy_at_push [OF c(2), of ?v], of ?v], of ?v] by simp
  note r1 = toy_value [OF r at toy_values(1) [OF toy_at_popped [OF at]]]
  note at1 = toy_at_put [OF toy_at_popped [OF at]]
  note r2 = toy_value [OF r1 at1 toy_values(2) [OF toy_at_popped [OF at1]]]
  note at2 = toy_at_put [OF toy_at_back [OF toy_at_popped [OF at1]]]
  note r3 = toy_value [OF r2 at2 toy_values(3) [OF toy_at_popped [OF at2]]]
  note at3 = toy_at_put [OF toy_at_push [OF toy_at_send [OF toy_at_popped [OF at2]]]]
  show thesis
    by (rule that [OF r3]) (use at3 c(3) in \<open>simp_all add: sends_def mvba_ctx_defs\<close>)
qed

lemma mtoy_decided:
  assumes "i \<in> {0, 1, 2}" "j \<in> {0, 1, 2}" "k \<in> {0, 1, 2}"
  obtains h c where "mvba_reach mtoy_env (\<lambda>_. True) (mtoy_core i) h c" "aba_of c (0, 0) = decided"
    "filter (is_mux (0, 0) 0) h = [ABAMuxMsg (mtoy_mux i), ABAMuxMsg (mtoy_mux j), ABAMuxMsg (mtoy_mux k)]"
    "c_Name c = i" "c_SigService c = toy_sig"
proof -
  let ?m = "\<lambda>i. ABAMuxMsg (mtoy_mux i)"
  obtain h c where c: "mvba_reach mtoy_env (\<lambda>_. True) (mtoy_core i) h c" "toy_at i voted [?m i] c" "filter (is_mux (0, 0) 0) h = []"
    using assms(1) by (rule mtoy_voted)
  let ?c = "c_push (?m k) (c_push (?m j) c)"
  have r: "mvba_reach mtoy_env (\<lambda>_. True) (mtoy_core i) h ?c"
    by (intro reach_deliver c(1)) simp_all
  have at: "toy_at i voted [?m i, ?m j, ?m k] ?c"
    using toy_at_push [OF toy_at_push [OF c(2), of "?m j"], of "?m k"] by simp
  note r1 = toy_vote [OF r at assms(1) toy_votes(1) [OF toy_at_popped [OF at]]]
  note at1 = toy_at_put [OF toy_at_popped [OF at]]
  note r2 = toy_vote [OF r1 at1 assms(2) toy_votes(2) [OF toy_at_popped [OF at1]]]
  note at2 = toy_at_put [OF toy_at_popped [OF at1]]
  note r3 = toy_vote [OF r2 at2 assms(3) toy_votes(3) [OF toy_at_popped [OF at2]]]
  note at3 = toy_at_put [OF toy_at_push [OF toy_at_send [OF toy_at_popped [OF at2]]]]
  show thesis
    by (rule that [OF r3]) (use at3 c(3) in \<open>simp_all add: toy_at_def\<close>)
qed

section \<open>Three short runs of node 0\<close>

text \<open>A halt for the first agreement that names a leader and has no valid signature.\<close>

definition mtoy_halt :: "NodeID \<Rightarrow> ABAHalt" where
  "mtoy_halt l = \<lparr>ah_Author = 3, ah_Leader = l, ah_Epoch = 0, ah_Round = 0, ah_InRound = 0, ah_Flag = FLAG_YES,
     ah_Signature = zero_Signature\<rparr>"

definition mtoy_elect :: "NodeID \<Rightarrow> int \<Rightarrow> mvba_msg" where
  "mtoy_elect i e = ElectShareMsg (fst (the (NewElectShare mtoy_env i e toy_sig)))"

text \<open>The node outputs its own block, outputs a leader whose block it has not got, or learns the seed of the epoch.\<close>

definition committing :: "mact list" where
  "committing = [Turn, CbcStep 0, Deliver (ABAHaltMsg (mtoy_halt 0)), Turn, AbaStep 0, AbaStep 0, AbaStep 0, AbaTurn]"

definition skipping :: "mact list" where
  "skipping = [Turn, Deliver (ABAHaltMsg (mtoy_halt 1)), Turn, AbaStep 0, AbaStep 0, AbaStep 0, AbaTurn]"

definition electing :: "mact list" where
  "electing = [Turn, Deliver (mtoy_elect 0 0), Deliver (mtoy_elect 1 0), Deliver (mtoy_elect 2 0), Turn, Turn, Turn]"

text \<open>A property that the state at the end of a run of node 0 can be evaluated to have.\<close>

definition ends :: "mact list \<Rightarrow> ((bytes \<rightharpoonup> bytes) Core \<Rightarrow> bool) \<Rightarrow> bool" where
  "ends as P = (case Run_start mtoy_env (mtoy_core 0) of None \<Rightarrow> False
     | Some c \<Rightarrow> (case mplay mtoy_env as ([], c) of None \<Rightarrow> False | Some (h, c) \<Rightarrow> P c))"

lemma ends_reach:
  assumes "ends as P"
  obtains h c where "mvba_reach mtoy_env (\<lambda>_. True) (mtoy_core 0) h c" "P c"
proof -
  obtain c h c' where c: "Run_start mtoy_env (mtoy_core 0) = Some c" "mplay mtoy_env as ([], c) = Some (h, c')" "P c'"
    using assms by (auto simp: ends_def split: option.splits)
  show thesis by (rule that [OF mplay_reach [OF c(2) mvba_reach.start [OF c(1)]] c(3)]) simp
qed

lemma mtoy_commits: "ends committing (\<lambda>c. cm_blockChan (c_Commitor c) = [mtoy_block] \<and> c_Epoch c = 1)"
  by code_simp

lemma mtoy_skips: "ends skipping (\<lambda>c. cm_blockChan (c_Commitor c) = [] \<and> cm_curIndex (c_Commitor c) = 0 \<and> c_Epoch c = 1 \<and>
   c_abaTasks c = [] \<and> c_abaCallBack c = [])"
  by code_simp

lemma mtoy_elects: "ends electing (\<lambda>c. el_randGen (c_Elector c) 0 = Some [0, 1, 2, 3])"
  by code_simp

end
