(* ===== verification/Mvba_Properties.thy ===== *)
theory Mvba_Properties
  imports Mvba_Samples
begin

text \<open>
  The properties of the MVBA protocol: of the binary agreement between nodes, of a running node in
  any interleaving, of the order of the leaders, and of what a single message can do.
\<close>

section \<open>Agreement\<close>

lemma fresh_aba_inv:
  assumes "mvba_reach w net (NewCore name cm par sig st pool (NewTransmitor par cm)) h c"
  shows "aba_inv cm k r h c"
  by (rule mab.mvba_reach_keep [OF assms aba_inv_New])

text \<open>C7: Let at most \<open>f\<close> members of a committee of \<open>3 f + 1\<close> be faulty and the others run the code, in any
  interleaving and with any other messages. Let two nodes have handled at most one mux vote of each
  member for an inner round of an agreement, those of members that are not faulty being votes that
  these members did send. If the coin makes one of the nodes halt with a value, then the same coin
  makes the other one halt with that value or enter the next inner round with it.\<close>

theorem aba_agreement:
  assumes "bft_committee cm" "finite F" "card F \<le> faults cm"
    and "\<forall>i\<in>members cm - F. mvba_reach w (net i)
      (NewCore i cm (par i) (sig i) (st i) (pool i) (NewTransmitor (par i) cm)) (h i) (node i)"
    and "mvba_reach w netA (NewCore a cm parA sigA stA poolA (NewTransmitor parA cm)) hA cA"
    and "mvba_reach w netB (NewCore b cm parB sigB stB poolB (NewTransmitor parB cm)) hB cB"
    and "\<forall>m\<in>set hA \<union> set hB. is_mux (e, rnd) r m \<longrightarrow>
      mux_author m \<in> members cm \<and> (mux_author m \<notin> F \<longrightarrow> m \<in> sends (node (mux_author m)))"
    and "distinct (map mux_author (filter (is_mux (e, rnd) r) hA))"
    and "distinct (map mux_author (filter (is_mux (e, rnd) r) hB))"
    and "coin_msg w r coin l (aba_of cA (e, rnd)) cA = Some (ABAHaltMsg halt)"
    and "coin_msg w r coin l' (aba_of cB (e, rnd)) cB = Some msg"
  shows "(\<exists>halt'. msg = ABAHaltMsg halt' \<and> ah_Flag halt' = ah_Flag halt) \<or>
    (\<exists>val. msg = ABAValMsg val \<and> av_Flag val = ah_Flag halt \<and> av_InRound val = i64 (r + 1))"
proof -
  let ?yes = "\<lambda>c. r |\<in>| ab_yesFlag (aba_of c (e, rnd))" and ?no = "\<lambda>c. r |\<in>| ab_noFlag (aba_of c (e, rnd))"
  note A = coin_msg_flag [OF assms(10)]
  show ?thesis
  proof (cases "?yes cB = ?no cB")
    case True
    then show ?thesis using coin_msg_undecided [OF assms(11)] A by simp
  next
    case False
    have once: "sent (is_mux (e, rnd) r) (c_Transimtor (node i)) \<le> 1" if "i \<in> members cm - F" for i
    proof -
      have "aba_inv cm (e, rnd) r (h i) (node i)"
        using assms(4) that fresh_aba_inv [of w "net i" i cm "par i" "sig i" "st i" "pool i"] by blast
      from aba_invD(6) [OF this] show ?thesis by simp
    qed
    have "?yes cA = ?yes cB"
      by (rule decided_alike [OF assms(1-3) fresh_aba_inv [OF assms(5)] assms(8) fresh_aba_inv [OF assms(6)] assms(9)])
         (use assms(7) once A False in auto)
    then show ?thesis using coin_msg_decided [OF assms(11) False] A by simp
  qed
qed

theorem aba_agreement_witness:
  "\<exists>hA cA hB cB halt halt'. mvba_reach mtoy_env (\<lambda>_. True) (mtoy_core 0) hA cA \<and>
     mvba_reach mtoy_env (\<lambda>_. True) (mtoy_core 1) hB cB \<and>
     coin_msg mtoy_env 0 FLAG_YES 0 (aba_of cA (0, 0)) cA = Some (ABAHaltMsg halt) \<and>
     coin_msg mtoy_env 0 FLAG_YES 0 (aba_of cB (0, 0)) cB = Some (ABAHaltMsg halt') \<and> ah_Flag halt' = ah_Flag halt"
proof -
  let ?m = "\<lambda>i. ABAMuxMsg (mtoy_mux i)"
  have "\<exists>h c. mvba_reach mtoy_env (\<lambda>_. True) (mtoy_core i) h c \<and> ?m i \<in> sends c" if "i \<in> {0, 1, 2}" for i
    using mtoy_voted [OF that] by blast
  then obtain h node where n: "\<And>i. i \<in> {0, 1, 2} \<Longrightarrow> mvba_reach mtoy_env (\<lambda>_. True) (mtoy_core i) (h i) (node i) \<and> ?m i \<in> sends (node i)"
    by metis
  obtain hA cA where A: "mvba_reach mtoy_env (\<lambda>_. True) (mtoy_core 0) hA cA" "aba_of cA (0, 0) = decided"
      "filter (is_mux (0, 0) 0) hA = [?m 0, ?m 1, ?m 2]" "c_Name cA = 0" "c_SigService cA = toy_sig"
    using mtoy_decided [of 0 1 2] by auto
  obtain hB cB where B: "mvba_reach mtoy_env (\<lambda>_. True) (mtoy_core 1) hB cB" "aba_of cB (0, 0) = decided"
      "filter (is_mux (0, 0) 0) hB = [?m 1, ?m 0, ?m 2]" "c_Name cB = 1" "c_SigService cB = toy_sig"
    using mtoy_decided [of 1 0 2] by auto
  have msgs: "m \<in> {?m 0, ?m 1, ?m 2}" if "m \<in> set hA \<union> set hB" "is_mux (0, 0) 0 m" for m
    using that A(3) B(3) by (auto simp: set_eq_iff filter_eq_Cons_iff dest!: arg_cong [where f = set])
  have auth: "\<forall>m\<in>set hA \<union> set hB. is_mux (0, 0) 0 m \<longrightarrow>
      mux_author m \<in> members four \<and> (mux_author m \<notin> {3} \<longrightarrow> m \<in> sends (node (mux_author m)))"
  proof (intro ballI impI)
    fix m assume "m \<in> set hA \<union> set hB" "is_mux (0, 0) 0 m"
    from msgs [OF this] show "mux_author m \<in> members four \<and> (mux_author m \<notin> {3} \<longrightarrow> m \<in> sends (node (mux_author m)))"
      using n by (elim insertE emptyE) (simp_all add: four_members)
  qed
  have coin: "\<exists>halt. coin_msg mtoy_env 0 FLAG_YES 0 (aba_of c (0, 0)) c = Some (ABAHaltMsg halt)"
    if "aba_of c (0, 0) = decided" "c_SigService c = toy_sig" for c :: "(bytes \<rightharpoonup> bytes) Core"
    using that by (simp add: coin_msg_def decided_def toy_aba_defs NewABAHalt_def RequestSignature_eq toy_sig_def PrivateKeySize_def Let_def)
  obtain halt where hA: "coin_msg mtoy_env 0 FLAG_YES 0 (aba_of cA (0, 0)) cA = Some (ABAHaltMsg halt)"
    using coin [OF A(2,5)] by blast
  obtain halt' where hB: "coin_msg mtoy_env 0 FLAG_YES 0 (aba_of cB (0, 0)) cB = Some (ABAHaltMsg halt')"
    using coin [OF B(2,5)] by blast
  have "(\<exists>h. ABAHaltMsg halt' = ABAHaltMsg h \<and> ah_Flag h = ah_Flag halt) \<or>
      (\<exists>val. ABAHaltMsg halt' = ABAValMsg val \<and> av_Flag val = ah_Flag halt \<and> av_InRound val = i64 (0 + 1))"
    by (rule aba_agreement [OF four_bft, of "{3}", OF _ _ _ A(1) [unfolded mtoy_core_def] B(1) [unfolded mtoy_core_def] auth _ _ hA hB,
          where net = "\<lambda>_ _. True" and h = h and par = "\<lambda>_. DefaultParameters" and sig = "\<lambda>_. toy_sig"
          and st = "\<lambda>_. toy_store" and pool = "\<lambda>_. toy_pool"])
       (use n A(3) B(3) in \<open>auto simp: four_size four_members mtoy_core_def\<close>)
  then have "ah_Flag halt' = ah_Flag halt" by simp
  then show ?thesis using A(1) B(1) hA hB by blast
qed

section \<open>A running node\<close>

text \<open>C8: In every run of an MVBA node, whatever is delivered to it, the blocks it has handed to the application are
  never taken back or changed, the next epoch to be committed is the number of these blocks (at the
  width of the counter), no block of that epoch is waiting, and the node's epoch never decreases.\<close>

theorem mvba_commit_log:
  assumes "mvba_reach w net (NewCore name cm par sig st pool tr) h c" "mvba_steps w net c c'"
  shows "prefix (cm_blockChan (c_Commitor c)) (cm_blockChan (c_Commitor c')) \<and> c_Epoch c \<le> c_Epoch c' \<and>
    cm_curIndex (c_Commitor c') = i64 (int (length (cm_blockChan (c_Commitor c')))) \<and>
    fmlookup (cm_commitBlocks (c_Commitor c')) (cm_curIndex (c_Commitor c')) = None"
proof -
  have "mvba_log_inv [] 0 (NewCore name cm par sig st pool tr)"
    by (simp add: mvba_log_inv_def NewCore_def NewCommitor_def cm_counted_def cm_drained_def)
  then have "mvba_log_inv [] 0 c" by (rule mlg.mvba_reach_keep [OF assms(1)])
  then have "mvba_log_inv (cm_blockChan (c_Commitor c)) (c_Epoch c) c" by (simp add: mvba_log_inv_def)
  then have "mvba_log_inv (cm_blockChan (c_Commitor c)) (c_Epoch c) c'" using mlg.mvba_steps_keep [OF assms(2)] by blast
  then show ?thesis by (auto simp: mvba_log_inv_def cm_counted_def cm_drained_def)
qed

theorem mvba_commit_log_witness:
  "\<exists>h c. mvba_reach mtoy_env (\<lambda>_. True) (mtoy_core 0) h c \<and> cm_blockChan (c_Commitor c) = [mtoy_block] \<and>
     cm_curIndex (c_Commitor c) = 1"
proof -
  obtain h c where c: "mvba_reach mtoy_env (\<lambda>_. True) (mtoy_core 0) h c" "cm_blockChan (c_Commitor c) = [mtoy_block]"
    by (rule ends_reach [OF mtoy_commits]) blast
  have "cm_curIndex (c_Commitor c) = i64 (int (length (cm_blockChan (c_Commitor c))))"
    using mvba_commit_log [OF c(1) [unfolded mtoy_core_def] mvba_steps.refl] by simp
  then show ?thesis using c by (intro exI [of _ h] exI [of _ c]) (simp add: i64_def)
qed

text \<open>C10: In every reachable state an MVBA node has sent, for each epoch, exactly one commitment if \<open>2 f + 1\<close> broadcasts
  of blocks are final and none otherwise, and at most one share of the seed and only if \<open>2 f + 1\<close>
  broadcasts of commitments are final; and for each inner round of an agreement exactly one mux vote
  if its mux flag is set and none otherwise, and at most one share of the coin and only if the votes
  of the round are finished.\<close>

theorem mvba_messages_once:
  assumes "mvba_reach w net (NewCore name cm par sig st pool (NewTransmitor par cm)) h c"
  shows "sent (is_commitment e) (c_Transimtor c) = (if HightThreshold cm \<le> finals_of c e DATA_CBC then 1 else 0) \<and>
    sent (is_elect e) (c_Transimtor c) \<le> (if HightThreshold cm \<le> finals_of c e COMMIT_CBC then 1 else 0) \<and>
    sent (is_mux k r) (c_Transimtor c) = (if r |\<in>| ab_muxFlag (aba_of c k) then 1 else 0) \<and>
    sent (is_coin k r) (c_Transimtor c) \<le> (if r |\<in>| ab_muxFinFlag (aba_of c k) then 1 else 0)"
proof -
  have "finals_inv cm e (NewCore name cm par sig st pool (NewTransmitor par cm))"
    by (simp add: finals_inv_def NewCore_def NewTransmitor_def sent_def finals_of_def HightThreshold_eq)
  then have "finals_inv cm e c" by (rule mfn.mvba_reach_keep [OF assms(1)])
  then show ?thesis
    using aba_invD(6,7) [OF fresh_aba_inv [OF assms(1)], of k r] by (simp add: finals_inv_def split: if_splits)
qed

theorem mvba_messages_once_witness:
  "\<exists>h c. mvba_reach mtoy_env (\<lambda>_. True) (mtoy_core 0) h c \<and> sent (is_mux (0, 0) 0) (c_Transimtor c) = 1"
proof -
  obtain h c where c: "mvba_reach mtoy_env (\<lambda>_. True) (mtoy_core 0) h c" "toy_at 0 voted [ABAMuxMsg (mtoy_mux 0)] c"
    by (rule mtoy_voted [of 0]) simp_all
  have "0 |\<in>| ab_muxFlag (aba_of c (0, 0))" using c(2) by (simp add: toy_at_def voted_def)
  then show ?thesis using mvba_messages_once [OF c(1) [unfolded mtoy_core_def], of 0 "(0, 0)" 0] c(1) by auto
qed

text \<open>C11: If a node waits for the block of an epoch that it has left, and no agreement of that epoch has a goroutine
  or a call-back left, then it never commits a block again, whatever is delivered to it: the proposal
  it lacks is dropped because its epoch is past.\<close>

theorem missed_block_stalls:
  assumes "mvba_reach w net (NewCore name cm par sig st pool (NewTransmitor par cm)) h c"
    and "cm_curIndex (c_Commitor c) < c_Epoch c"
    and "\<forall>b\<in>set (c_abaCallBack c). abk_Epoch b \<noteq> cm_curIndex (c_Commitor c)"
    and "\<forall>t\<in>set (c_abaTasks c). fst (fst t) \<noteq> cm_curIndex (c_Commitor c)"
    and "mvba_steps w net c c'"
  shows "cm_blockChan (c_Commitor c') = cm_blockChan (c_Commitor c)"
proof -
  have "mvba_log_inv [] 0 (NewCore name cm par sig st pool (NewTransmitor par cm))"
    by (simp add: mvba_log_inv_def NewCore_def NewCommitor_def cm_counted_def cm_drained_def)
  then have "mvba_log_inv [] 0 c" by (rule mlg.mvba_reach_keep [OF assms(1)])
  moreover have "ab_Epoch (aba_of c (e, rnd)) = e" for e rnd
    using aba_invD(2) [OF fresh_aba_inv [OF assms(1)], of "(e, rnd)"] by simp
  ultimately have "stalled (cm_blockChan (c_Commitor c)) (cm_curIndex (c_Commitor c)) c"
    using aba_invD(3) [OF fresh_aba_inv [OF assms(1)]] assms(2-4) by (simp add: stalled_def mvba_log_inv_def)
  then show ?thesis using mst.mvba_steps_keep [OF assms(5)] unfolding stalled_def by blast
qed

theorem missed_block_stalls_witness:
  "\<exists>h c. mvba_reach mtoy_env (\<lambda>_. True) (mtoy_core 0) h c \<and> c_Epoch c = 1 \<and>
     (\<forall>c'. mvba_steps mtoy_env (\<lambda>_. True) c c' \<longrightarrow> cm_blockChan (c_Commitor c') = [])"
proof -
  obtain h c where c: "mvba_reach mtoy_env (\<lambda>_. True) (mtoy_core 0) h c" "cm_blockChan (c_Commitor c) = []"
    "cm_curIndex (c_Commitor c) = 0" "c_Epoch c = 1" "c_abaTasks c = []" "c_abaCallBack c = []"
    by (rule ends_reach [OF mtoy_skips]) blast
  have "cm_blockChan (c_Commitor c') = []" if "mvba_steps mtoy_env (\<lambda>_. True) c c'" for c'
    using missed_block_stalls [OF c(1) [unfolded mtoy_core_def] _ _ _ that] c by simp
  then show ?thesis using c by blast
qed



section \<open>Leaders\<close>

text \<open>C16: In every reachable state, once the seed of an epoch is known, the order of its leaders has every index of the
  committee exactly once, so that the rounds of the epoch have different leaders; asking for the leader
  of a round outside of the order panics. The hypothesis on the random numbers is the one of
  \<^verbatim>\<open>rand.Shuffle\<close>: the position drawn for \<open>k\<close> is at most \<open>k\<close>.\<close>

theorem leaders_permutation:
  assumes "\<forall>seed k. env_draw w seed k \<le> k"
    and "mvba_reach w net (NewCore name cm par sig st pool tr) h c"
    and "el_randGen (c_Elector c) e = Some gen"
  shows "length gen = length (Authorities cm) \<and> distinct gen \<and> set gen = {0..<Committee_Size cm} \<and>
    Leader e rnd (c_Elector c) = (if 0 \<le> rnd \<and> rnd < Committee_Size cm then Some (gen ! nat rnd) else None)"
proof -
  have "leaders_inv w cm (NewCore name cm par sig st pool tr)"
    by (simp add: leaders_inv_def NewCore_def NewElector_def elector_ok_def)
  then have "leaders_inv w cm c" by (rule mle.mvba_reach_keep [OF assms(2)])
  then have m: "mset gen = mset (map int [0..<nat (Committee_Size cm)])"
    using assms(1,3) by (auto simp: leaders_inv_def elector_ok_def)
  have n: "Committee_Size cm = int (length (Authorities cm))" by (simp add: Committee_Size_def)
  have len: "length gen = length (Authorities cm)" using mset_eq_length [OF m] n by simp
  have "distinct gen" using mset_eq_imp_distinct_iff [OF m] by (simp add: distinct_map)
  moreover have "set gen = {0..<Committee_Size cm}"
    using mset_eq_setD [OF m] n by (auto simp: image_iff) (metis atLeastLessThan_iff nat_0_le nat_less_iff zero_le)
  ultimately show ?thesis using len assms(3) n by (simp add: Leader_def)
qed

theorem leaders_permutation_witness:
  "\<exists>h c. mvba_reach mtoy_env (\<lambda>_. True) (mtoy_core 0) h c \<and> Leader 0 3 (c_Elector c) = Some 3 \<and> Leader 0 4 (c_Elector c) = None"
proof -
  obtain h c where c: "mvba_reach mtoy_env (\<lambda>_. True) (mtoy_core 0) h c" "el_randGen (c_Elector c) 0 = Some [0, 1, 2, 3]"
    by (rule ends_reach [OF mtoy_elects]) blast
  have d: "\<forall>seed k. env_draw mtoy_env seed k \<le> k" by simp
  show ?thesis
    using leaders_permutation [OF d c(1) [unfolded mtoy_core_def] c(2), of 3]
      leaders_permutation [OF d c(1) [unfolded mtoy_core_def] c(2), of 4] c(1)
    by (intro exI [of _ h] exI [of _ c]) (simp add: four_size nth_Cons')
qed

section \<open>What one message can do\<close>

lemma output_block_frame:
  "c_Epoch (output_block w e l d c) = c_Epoch c" "c_SigService (output_block w e l d c) = c_SigService c"
  "pool_wf (c_TxPool c) \<Longrightarrow> pool_wf (c_TxPool (output_block w e l d c))"
  by (auto simp: output_block_def getBlock_def getCBCInstance_def Store_Read_eq Let_def PutBatch_wf
      split: prod.splits sum.splits option.splits)

lemma abvanceNextEpoch_total:
  assumes "pool_wf (c_TxPool c)" "length (Prikey (ss_PriKey (c_SigService c))) = PrivateKeySize" "c_Epoch c < e"
  shows "\<exists>c'. abvanceNextEpoch w e c = Some (None, c') \<and> c_Epoch c' = e"
  using assms GetBatch_total [OF assms(1)]
  by (auto simp: abvanceNextEpoch_def generateBlock_def NewProposal_def Proposal_Hash_def go_simps RequestSignature_eq Let_def
      mvba_ctx_defs)

lemma handleOutput_advances:
  assumes "pool_wf (c_TxPool c)" "length (Prikey (ss_PriKey (c_SigService c))) = PrivateKeySize"
    and "is_i64 (c_Epoch c)" "c_Epoch c < 2 ^ 63 - 1"
  shows "\<exists>c'. handleOutput w (c_Epoch c) l c = Some (None, c') \<and> c_Epoch c' = c_Epoch c + 1"
proof -
  let ?i = "getCBCInstance (c_Epoch c) l DATA_CBC c"
  let ?c = "case cb_BlockHash (fst ?i) of None \<Rightarrow> snd ?i | Some d \<Rightarrow> output_block w (c_Epoch c) l d (snd ?i)"
  have same: "c_Epoch (snd ?i) = c_Epoch c" "c_SigService (snd ?i) = c_SigService c" "c_TxPool (snd ?i) = c_TxPool c"
    by (simp_all add: getCBCInstance_def Let_def split: option.splits)
  have "pool_wf (c_TxPool ?c)" "length (Prikey (ss_PriKey (c_SigService ?c))) = PrivateKeySize" "c_Epoch ?c = c_Epoch c"
    using assms(1,2) same output_block_frame(3) [of "snd ?i"] by (auto simp: output_block_frame split: option.split)
  moreover have "handleOutput w (c_Epoch c) l c = abvanceNextEpoch w (c_Epoch c + 1) ?c"
    using i64_succ [OF assms(3,4)] by (simp add: handleOutput_def Let_def split_beta)
  ultimately show ?thesis using abvanceNextEpoch_total [of ?c "c_Epoch c + 1" w] by simp
qed

text \<open>C37: A halt message of the current epoch with the flag \<^verbatim>\<open>FLAG_YES\<close> is believed whoever made it and whatever its
  signature check says, even if it fails: when it is the next message of a node whose agreement has not halted, with no
  goroutine and no call-back of an agreement waiting, the node comes by its own steps, without
  another message, to the next epoch.\<close>

theorem forged_halt_advances:
  assumes "tr_recvCh (c_Transimtor c) = ABAHaltMsg h # ms" "Verify w (c_Committee c) (ABAHaltMsg h) = Some valid"
    and "ah_Epoch h = c_Epoch c" "ah_Flag h = FLAG_YES" "\<not> ab_halt (aba_of c (ah_Epoch h, ah_Round h))"
    and "c_abaTasks c = []" "c_abaCallBack c = []" "is_i64 (c_Epoch c)" "c_Epoch c < 2 ^ 63 - 1"
    and "pool_wf (c_TxPool c)" "length (Prikey (ss_PriKey (c_SigService c))) = PrivateKeySize"
  shows "\<exists>c'. mvba_steps w (\<lambda>_. False) c c' \<and> c_Epoch c' = c_Epoch c + 1"
proof -
  let ?k = "(ah_Epoch h, ah_Round h)"
  have handle: "handle w (ABAHaltMsg h) (popped c) = Some (None, go_aba ?k (HaltEntry h) (popped c))"
    using assms(3) by (simp add: handleABAHalt_def messageFilter_def popped_def)
  obtain a' c1 where solo: "aba_solo 7 w (HaltEntry h) (aba_of c ?k) (popped c) = Some (a', c1)"
    and c1: "c_Epoch c1 = c_Epoch c" "c_TxPool c1 = c_TxPool c" "c_SigService c1 = c_SigService c"
      "c_abaCallBack c1 = [halt_back h]"
    using assms(5,7,11)
    by (auto simp: aba_solo_Halt ProcessHalt_def NewABAHalt_def RequestSignature_eq Let_def mvba_ctx_defs aba_back_def popped_def)
  let ?c2 = "c1\<lparr>c_abaInstances := put2 (c_abaInstances c) (ah_Epoch h) (ah_Round h) a', c_abaTasks := []\<rparr>"
  have "mvba_steps w (\<lambda>_. False) c ?c2"
    using assms(1,6,2) handle solo
    by (rule message_steps [where net = "\<lambda>_. False"]) (blast intro: steps_solo mvba_steps.intros)
  moreover obtain c' where c': "handleOutput w (c_Epoch c) (ah_Leader h) (?c2\<lparr>c_abaCallBack := []\<rparr>) = Some (None, c')"
      "c_Epoch c' = c_Epoch c + 1"
    using handleOutput_advances [of "?c2\<lparr>c_abaCallBack := []\<rparr>" w "ah_Leader h"] assms(8-11) c1 by auto
  then have "Run_aba w ?c2 = Some (None, c')"
    using c1(4) assms(3,4)
    by (simp add: Run_aba_def processABABack_def halt_back_def ABA_HALT_def ABA_INVOKE_def FLAG_YES_def FLAG_NO_def)
  ultimately show ?thesis using c'(2) mvba_steps.step mvba_step.aba_turn by blast
qed

theorem forged_halt_advances_witness:
  "Verify mtoy_env four (ABAHaltMsg (mtoy_halt 1)) = Some False \<and>
   (\<exists>c'. mvba_steps mtoy_env (\<lambda>_. False) (c_push (ABAHaltMsg (mtoy_halt 1)) (mtoy_core 0)) c' \<and> c_Epoch c' = 1)"
proof -
  have v: "Verify mtoy_env four (ABAHaltMsg (mtoy_halt 1)) = Some False" by code_simp
  have "\<exists>c'. mvba_steps mtoy_env (\<lambda>_. False) (c_push (ABAHaltMsg (mtoy_halt 1)) (mtoy_core 0)) c' \<and>
      c_Epoch c' = c_Epoch (c_push (ABAHaltMsg (mtoy_halt 1)) (mtoy_core 0)) + 1"
    by (rule forged_halt_advances [where h = "mtoy_halt 1" and ms = "[]" and valid = False])
       (use v pool_wf_New [OF toy_pool_New] in \<open>simp_all add: mtoy_core_def NewCore_def NewTransmitor_def mvba_ctx_defs
          mtoy_halt_def aba_of_def NewABA_def is_i64_def toy_sig_def PrivateKeySize_def\<close>)
  then show ?thesis using v by (simp add: mtoy_core_def NewCore_def mvba_ctx_defs)
qed

end
