(* ===== verification/Merc_Aggreator.thy ===== *)
theory Merc_Aggreator
  imports Merc_Message
begin

text \<open>
  The vote aggregators of \<^verbatim>\<open>core/mercury/consensus/aggreator.go\<close>. They are those of SMVBA; the tables of done
  messages, prevotes and final votes have one more level, for the try. A Go set
  \<^verbatim>\<open>map[NodeID]struct{}\<close> is an \<open>fset\<close>.
\<close>

section \<open>Finish votes\<close>

record FinishAggreator =
  fa_Authors :: "NodeID fset"

definition NewFinishAggreator :: FinishAggreator where
  "NewFinishAggreator = \<lparr>fa_Authors = {||}\<rparr>"

definition FinishAggreator_Append ::
  "Committee \<Rightarrow> Finish \<Rightarrow> FinishAggreator \<Rightarrow> (bool \<times> error option) \<times> FinishAggreator" where
  "FinishAggreator_Append committee finish f =
     (if fi_Author finish |\<in>| fa_Authors f
      then ((False, Some (ErrOneMoreMessage (MsgType (FinishMsg finish)) (fi_Epoch finish) (fi_Round finish)
                            (fi_Author finish))), f)
      else
        let f = f\<lparr>fa_Authors := finsert (fi_Author finish) (fa_Authors f)\<rparr> in
        if int (fcard (fa_Authors f)) = HightThreshold committee then ((True, None), f)
        else ((False, None), f))"

section \<open>Done votes\<close>

definition DONE_LOW_FLAG :: int where "DONE_LOW_FLAG = 0"
definition DONE_HIGH_FLAG :: int where "DONE_HIGH_FLAG = 1"
definition DONE_NONE_FLAG :: int where "DONE_NONE_FLAG = 2"

lemma merc_done_flags [simp]:
  "DONE_LOW_FLAG \<noteq> DONE_HIGH_FLAG" "DONE_HIGH_FLAG \<noteq> DONE_LOW_FLAG"
  "DONE_LOW_FLAG \<noteq> DONE_NONE_FLAG" "DONE_NONE_FLAG \<noteq> DONE_LOW_FLAG"
  "DONE_HIGH_FLAG \<noteq> DONE_NONE_FLAG" "DONE_NONE_FLAG \<noteq> DONE_HIGH_FLAG"
  by (simp_all add: DONE_LOW_FLAG_def DONE_HIGH_FLAG_def DONE_NONE_FLAG_def)

record DoneAggreator =
  da_Authors :: "NodeID fset"

definition NewDoneAggreator :: DoneAggreator where
  "NewDoneAggreator = \<lparr>da_Authors = {||}\<rparr>"

definition DoneAggreator_Append ::
  "Committee \<Rightarrow> Done \<Rightarrow> DoneAggreator \<Rightarrow> (int \<times> error option) \<times> DoneAggreator" where
  "DoneAggreator_Append committee dn d =
     (if dn_Author dn |\<in>| da_Authors d
      then ((0, Some (ErrOneMoreMessage (MsgType (DoneMsg dn)) (dn_Epoch dn) (dn_Round dn) (dn_Author dn))), d)
      else
        let d = d\<lparr>da_Authors := finsert (dn_Author dn) (da_Authors d)\<rparr> in
        if int (fcard (da_Authors d)) = LowThreshold committee then ((DONE_LOW_FLAG, None), d)
        else if int (fcard (da_Authors d)) = HightThreshold committee then ((DONE_HIGH_FLAG, None), d)
        else ((DONE_NONE_FLAG, None), d))"

section \<open>Shares of the common coin\<close>

record ElectAggreator =
  ea_shares :: "SignatureShare list"
  ea_authors :: "NodeID fset"

definition NewElectAggreator :: ElectAggreator where
  "NewElectAggreator = \<lparr>ea_shares = [], ea_authors = {||}\<rparr>"

text \<open>\<^verbatim>\<open>%\<close> panics for a zero divisor; Go's remainder has the sign of the dividend.\<close>

definition ElectAggreator_Append ::
  "'a crypto_scheme \<Rightarrow> Committee \<Rightarrow> SigService \<Rightarrow> ElectShare \<Rightarrow> ElectAggreator \<Rightarrow>
     ((NodeID \<times> error option) \<times> ElectAggreator) option" where
  "ElectAggreator_Append w committee sigService elect e =
     (if es_Author elect |\<in>| ea_authors e
      then Some ((NONE, Some (ErrOneMoreMessage (MsgType (ElectShareMsg (Some elect))) (es_Epoch elect)
                                (es_Round elect) (es_Author elect))), e)
      else
        let e = e\<lparr>ea_authors := finsert (es_Author elect) (ea_authors e)\<rparr>;
            e = e\<lparr>ea_shares := ea_shares e @ [es_SigShare elect]\<rparr> in
        if int (length (ea_shares e)) = HightThreshold committee then
          (case CombineIntactTSPartial w (ea_shares e) (ss_ShareKey sigService) (ElectShare_Hash w elect) of
             (coin, Some err) \<Rightarrow> Some ((NONE, Some err), e)
           | (coin, None) \<Rightarrow> do {
               rand \<leftarrow> coin_loop RANDOM_LEN 0 coin 0;
               if Committee_Size committee = 0 then None
               else Some ((rand smod Committee_Size committee, None), e) })
        else Some ((NONE, None), e))"

section \<open>Prevotes\<close>

definition ACTION_YES :: int where "ACTION_YES = 0"
definition ACTION_NO :: int where "ACTION_NO = 1"
definition ACTION_COMMIT :: int where "ACTION_COMMIT = 2"
definition ACTION_NONE :: int where "ACTION_NONE = 3"

lemma merc_actions [simp]:
  "ACTION_YES \<noteq> ACTION_NO" "ACTION_YES \<noteq> ACTION_COMMIT" "ACTION_YES \<noteq> ACTION_NONE"
  "ACTION_NO \<noteq> ACTION_YES" "ACTION_NO \<noteq> ACTION_COMMIT" "ACTION_NO \<noteq> ACTION_NONE"
  "ACTION_COMMIT \<noteq> ACTION_YES" "ACTION_COMMIT \<noteq> ACTION_NO" "ACTION_COMMIT \<noteq> ACTION_NONE"
  "ACTION_NONE \<noteq> ACTION_YES" "ACTION_NONE \<noteq> ACTION_NO" "ACTION_NONE \<noteq> ACTION_COMMIT"
  by (simp_all add: ACTION_YES_def ACTION_NO_def ACTION_COMMIT_def ACTION_NONE_def)

record PreVoteAggreator =
  pa_authors :: "NodeID fset"
  pa_yesNums :: int
  pa_noNums :: int
  pa_flag :: bool

definition NewPrevoteAggreator :: PreVoteAggreator where
  "NewPrevoteAggreator = \<lparr>pa_authors = {||}, pa_yesNums = 0, pa_noNums = 0, pa_flag = False\<rparr>"

definition PreVoteAggreator_Append ::
  "Committee \<Rightarrow> Prevote \<Rightarrow> PreVoteAggreator \<Rightarrow> (int \<times> error option) \<times> PreVoteAggreator" where
  "PreVoteAggreator_Append committee vote p =
     (if pv_Author vote |\<in>| pa_authors p
      then ((ACTION_NONE, Some (ErrOneMoreMessage (MsgType (PrevoteMsg vote)) (pv_Epoch vote)
                                  (pv_Round vote) (pv_Author vote))), p)
      else
        let p = p\<lparr>pa_authors := finsert (pv_Author vote) (pa_authors p)\<rparr>;
            p = (if pv_Flag vote = VOTE_FLAG_NO then p\<lparr>pa_noNums := pa_noNums p + 1\<rparr>
                 else p\<lparr>pa_yesNums := pa_yesNums p + 1\<rparr>) in
        if pa_yesNums p > 0 \<and> \<not> pa_flag p then ((ACTION_YES, None), p\<lparr>pa_flag := True\<rparr>)
        else if pa_noNums p = HightThreshold committee \<and> \<not> pa_flag p then ((ACTION_NO, None), p)
        else ((ACTION_NONE, None), p))"

section \<open>Final votes\<close>

record FinVoteAggreator =
  va_authors :: "NodeID fset"
  va_yesNums :: int
  va_noNums :: int

definition NewFinVoteAggreator :: FinVoteAggreator where
  "NewFinVoteAggreator = \<lparr>va_authors = {||}, va_yesNums = 0, va_noNums = 0\<rparr>"

definition FinVoteAggreator_Append ::
  "Committee \<Rightarrow> FinVote \<Rightarrow> FinVoteAggreator \<Rightarrow> (int \<times> error option) \<times> FinVoteAggreator" where
  "FinVoteAggreator_Append committee vote f =
     (if fv_Author vote |\<in>| va_authors f
      then ((ACTION_NONE, Some (ErrOneMoreMessage (MsgType (FinVoteMsg vote)) (fv_Epoch vote)
                                  (fv_Round vote) (fv_Author vote))), f)
      else
        let f = f\<lparr>va_authors := finsert (fv_Author vote) (va_authors f)\<rparr>;
            f = (if fv_Flag vote = VOTE_FLAG_YES then f\<lparr>va_yesNums := va_yesNums f + 1\<rparr>
                 else f\<lparr>va_noNums := va_noNums f + 1\<rparr>);
            th = HightThreshold committee in
        if va_yesNums f + va_noNums f = th then
          (if va_yesNums f = th then ((ACTION_COMMIT, None), f)
           else if va_noNums f = th then ((ACTION_NO, None), f)
           else ((ACTION_YES, None), f))
        else ((ACTION_NONE, None), f))"

section \<open>The aggregator of all epochs and rounds\<close>

record Aggreator =
  ag_committee :: Committee
  ag_finish :: "int \<rightharpoonup> int \<rightharpoonup> FinishAggreator"
  ag_done :: "int \<rightharpoonup> int \<rightharpoonup> int \<rightharpoonup> DoneAggreator"
  ag_prevote :: "int \<rightharpoonup> int \<rightharpoonup> int \<rightharpoonup> PreVoteAggreator"
  ag_finvote :: "int \<rightharpoonup> int \<rightharpoonup> int \<rightharpoonup> FinVoteAggreator"

definition NewAggreator :: "Committee \<Rightarrow> Aggreator" where
  "NewAggreator committee = \<lparr>ag_committee = committee, ag_finish = Map.empty, ag_done = Map.empty,
     ag_prevote = Map.empty, ag_finvote = Map.empty\<rparr>"

text \<open>
  On the first vote of a round \<^verbatim>\<open>AddFinishVote\<close> appends to one new aggregator and stores another one:
  the vote is not in the aggregator that the later votes reach.
\<close>

definition AddFinishVote :: "Finish \<Rightarrow> Aggreator \<Rightarrow> (bool \<times> error option) \<times> Aggreator" where
  "AddFinishVote finish a =
     (case get2 (ag_finish a) (fi_Epoch finish) (fi_Round finish) of
        Some item \<Rightarrow>
          let (r, item) = FinishAggreator_Append (ag_committee a) finish item
          in (r, a\<lparr>ag_finish := put2 (ag_finish a) (fi_Epoch finish) (fi_Round finish) item\<rparr>)
      | None \<Rightarrow>
          let item = NewFinishAggreator;
              a = a\<lparr>ag_finish := put2 (ag_finish a) (fi_Epoch finish) (fi_Round finish) NewFinishAggreator\<rparr>;
              (r, item) = FinishAggreator_Append (ag_committee a) finish item
          in (r, a))"

definition AddDoneVote :: "Done \<Rightarrow> Aggreator \<Rightarrow> (int \<times> error option) \<times> Aggreator" where
  "AddDoneVote dn a =
     (let item = (case get3 (ag_done a) (dn_Epoch dn) (dn_Round dn) (dn_Try dn) of
                    Some item \<Rightarrow> item | None \<Rightarrow> NewDoneAggreator);
          (r, item) = DoneAggreator_Append (ag_committee a) dn item
      in (r, a\<lparr>ag_done := put3 (ag_done a) (dn_Epoch dn) (dn_Round dn) (dn_Try dn) item\<rparr>))"

definition AddPreVote :: "Prevote \<Rightarrow> Aggreator \<Rightarrow> (int \<times> error option) \<times> Aggreator" where
  "AddPreVote vote a =
     (let item = (case get3 (ag_prevote a) (pv_Epoch vote) (pv_Round vote) (pv_Try vote) of
                    Some item \<Rightarrow> item | None \<Rightarrow> NewPrevoteAggreator);
          (r, item) = PreVoteAggreator_Append (ag_committee a) vote item
      in (r, a\<lparr>ag_prevote := put3 (ag_prevote a) (pv_Epoch vote) (pv_Round vote) (pv_Try vote) item\<rparr>))"

definition AddFinVote :: "FinVote \<Rightarrow> Aggreator \<Rightarrow> (int \<times> error option) \<times> Aggreator" where
  "AddFinVote vote a =
     (let item = (case get3 (ag_finvote a) (fv_Epoch vote) (fv_Round vote) (fv_Try vote) of
                    Some item \<Rightarrow> item | None \<Rightarrow> NewFinVoteAggreator);
          (r, item) = FinVoteAggreator_Append (ag_committee a) vote item
      in (r, a\<lparr>ag_finvote := put3 (ag_finvote a) (fv_Epoch vote) (fv_Round vote) (fv_Try vote) item\<rparr>))"

section \<open>The aggregators count votes\<close>

interpretation mdl: quorum_counter da_Authors DoneAggreator_Append dn_Author "\<lambda>_. True" "\<lambda>_. True"
    "\<lambda>r. r = DONE_LOW_FLAG" "\<lambda>c. nat (LowThreshold c)"
  by unfold_locales (auto simp: DoneAggreator_Append_def fcard_finsert_disjoint Let_def threshold_nat split: if_splits)

end
