(* ===== verification/Merc_Elector.thy ===== *)
theory Merc_Elector
  imports Merc_Aggreator
begin

text \<open>
  \<^verbatim>\<open>core/mercury/consensus/elector.go\<close>: the leader of each epoch and round, fixed by the common coin or
  taken from a halt message. The shares of all tries of a round are counted together.
\<close>

record Elector =
  el_leaders :: "int \<rightharpoonup> int \<rightharpoonup> NodeID"
  el_electAggreators :: "int \<rightharpoonup> int \<rightharpoonup> ElectAggreator"
  el_sigService :: SigService
  el_committee :: Committee

definition NewElector :: "SigService \<Rightarrow> Committee \<Rightarrow> Elector" where
  "NewElector sigService committee = \<lparr>el_leaders = Map.empty, el_electAggreators = Map.empty,
     el_sigService = sigService, el_committee = committee\<rparr>"

definition SetLeader :: "int \<Rightarrow> int \<Rightarrow> NodeID \<Rightarrow> Elector \<Rightarrow> Elector" where
  "SetLeader epoch rnd leader e = e\<lparr>el_leaders := put2 (el_leaders e) epoch rnd leader\<rparr>"

text \<open>The query makes the inner map when the epoch has none, so it also returns the elector.\<close>

definition Leader :: "int \<Rightarrow> int \<Rightarrow> Elector \<Rightarrow> NodeID \<times> Elector" where
  "Leader epoch rnd e =
     (let e = e\<lparr>el_leaders := ensure (el_leaders e) epoch\<rparr>
      in (case get2 (el_leaders e) epoch rnd of Some node \<Rightarrow> node | None \<Rightarrow> NONE, e))"

text \<open>An error of the aggregator is not passed on: the result is \<open>NONE\<close> without an error.\<close>

definition AddShareVote ::
  "'a crypto_scheme \<Rightarrow> ElectShare \<Rightarrow> Elector \<Rightarrow> ((NodeID \<times> error option) \<times> Elector) option" where
  "AddShareVote w share e =
     (let eA = (case get2 (el_electAggreators e) (es_Epoch share) (es_Round share) of
                  Some eA \<Rightarrow> eA | None \<Rightarrow> NewElectAggreator)
      in do {
        ((node, err), eA) \<leftarrow> ElectAggreator_Append w (el_committee e) (el_sigService e) share eA;
        let e = e\<lparr>el_electAggreators := put2 (el_electAggreators e) (es_Epoch share) (es_Round share) eA\<rparr>;
        if err \<noteq> None then Some ((NONE, None), e)
        else
          let e = (if node \<noteq> NONE then SetLeader (es_Epoch share) (es_Round share) node e else e)
          in Some ((node, None), e) })"

section \<open>Queries and updates\<close>

definition leader_of :: "Elector \<Rightarrow> int \<Rightarrow> int \<Rightarrow> NodeID" where
  "leader_of e epoch rnd = (case get2 (el_leaders e) epoch rnd of Some node \<Rightarrow> node | None \<Rightarrow> NONE)"

lemma merc_Leader_fst [simp]: "fst (Leader epoch rnd e) = leader_of e epoch rnd"
  by (simp add: Leader_def leader_of_def)

lemma merc_Leader_snd [simp]:
  "leader_of (snd (Leader epoch rnd e)) epoch' rnd' = leader_of e epoch' rnd'"
  "el_electAggreators (snd (Leader epoch rnd e)) = el_electAggreators e"
  "el_sigService (snd (Leader epoch rnd e)) = el_sigService e"
  "el_committee (snd (Leader epoch rnd e)) = el_committee e"
  by (simp_all add: Leader_def leader_of_def)

lemma merc_SetLeader_simps [simp]:
  "leader_of (SetLeader epoch rnd leader e) epoch' rnd' =
     (if epoch' = epoch \<and> rnd' = rnd then leader else leader_of e epoch' rnd')"
  "el_electAggreators (SetLeader epoch rnd leader e) = el_electAggreators e"
  "el_sigService (SetLeader epoch rnd leader e) = el_sigService e"
  "el_committee (SetLeader epoch rnd leader e) = el_committee e"
  by (simp_all add: SetLeader_def leader_of_def)

end
