(* ===== verification/Merc_Commitor.thy ===== *)
theory Merc_Commitor
  imports Merc_Message
begin

text \<open>
  \<^verbatim>\<open>core/mercury/consensus/commitor.go\<close>: with the block of each epoch, in the order of the epochs, leave the
  blocks that it lists and that have not left before. \<open>cm_commitCh\<close> is the sequence of everything
  sent on the channel. The listed blocks are read from the store that the core also uses.
\<close>

record Committor =
  cm_Index :: int
  cm_Blocks :: "(int, Block) fmap"
  cm_commitCh :: "Block list"
  cm_isCommitFlag :: "int fset"

definition NewCommittor :: Committor where
  "NewCommittor = \<lparr>cm_Index = 0, cm_Blocks = fmempty, cm_commitCh = [], cm_isCommitFlag = {||}\<rparr>"

text \<open>The loop over the listed blocks; one that cannot be read or decoded is passed over.\<close>

fun referenced ::
  "'a merc_env_scheme \<Rightarrow> Digest list \<Rightarrow> Block list \<Rightarrow> int fset \<Rightarrow> 'db Store \<Rightarrow> Block list \<times> int fset \<times> 'db Store" where
  "referenced w [] blocks flags st = (blocks, flags, st)"
| "referenced w (d # ds) blocks flags st =
     (let ((val, err), st) = Store_Read d st in
      if err = None then
        (case Block_Decode w val of
           Inl err \<Rightarrow> referenced w ds blocks flags st
         | Inr temp \<Rightarrow>
             if bt_Txs (b_Batch temp) \<noteq> None then
               (if bt_ID (b_Batch temp) |\<notin>| flags
                then referenced w ds (blocks @ [temp]) (finsert (bt_ID (b_Batch temp)) flags) st
                else referenced w ds blocks flags st)
             else referenced w ds blocks flags st)
      else referenced w ds blocks flags st)"

text \<open>What leaves with the block of an epoch.\<close>

definition commit_block :: "'a merc_env_scheme \<Rightarrow> Block \<Rightarrow> Committor \<Rightarrow> 'db Store \<Rightarrow> Committor \<times> 'db Store" where
  "commit_block w b c st =
     (let (blocks, flags, st) = referenced w (b_Reference b) [] (cm_isCommitFlag c) st;
          (blocks, flags) =
            (if bt_Txs (b_Batch b) \<noteq> None then (blocks @ [b], finsert (bt_ID (b_Batch b)) flags)
             else (blocks, flags))
      in (c\<lparr>cm_isCommitFlag := flags, cm_commitCh := cm_commitCh c @ blocks\<rparr>, st))"

lemma commit_block_frame:
  "commit_block w b c st = (c', st') \<Longrightarrow> cm_Blocks c' = cm_Blocks c \<and> cm_Index c' = cm_Index c"
  by (auto simp: commit_block_def split: prod.splits if_splits)

function commit_loop :: "'a merc_env_scheme \<Rightarrow> Committor \<Rightarrow> 'db Store \<Rightarrow> Committor \<times> 'db Store" where
  "commit_loop w c st =
     (case fmlookup (cm_Blocks c) (cm_Index c) of
        Some b \<Rightarrow>
          let (c, st) = commit_block w b c st;
              c = c\<lparr>cm_Blocks := fmdrop (cm_Index c) (cm_Blocks c)\<rparr>
          in commit_loop w (c\<lparr>cm_Index := i64 (cm_Index c + 1)\<rparr>) st
      | None \<Rightarrow> (c, st))"
  by pat_completeness auto

termination
  by (relation "measure (\<lambda>(w, c, st). fcard (fmdom (cm_Blocks c)))")
     (auto simp: fcard_fmdrop_less simp del: fmdom_drop dest: commit_block_frame [OF sym])

declare commit_loop.simps [simp del]

text \<open>\<^verbatim>\<open>Commit(nil)\<close> panics when it reads the epoch.\<close>

definition Commit ::
  "'a merc_env_scheme \<Rightarrow> Block option \<Rightarrow> Committor \<Rightarrow> 'db Store \<Rightarrow> (Committor \<times> 'db Store) option" where
  "Commit w block c st = do {
     b \<leftarrow> nonnil block;
     if b_Epoch b < cm_Index c then Some (c, st)
     else Some (commit_loop w (c\<lparr>cm_Blocks := fmupd (b_Epoch b) b (cm_Blocks c)\<rparr>) st) }"

fun Committor_run :: "Block list \<Rightarrow> (int \<times> NodeID \<times> int) list \<times> nat" where
  "Committor_run [] = ([], 0)"
| "Committor_run (block # bs) =
     (let (infos, callBack) = Committor_run bs in
      (if bt_Txs (b_Batch block) \<noteq> None
       then (b_Epoch block, b_Proposer block, bt_ID (b_Batch block)) # infos else infos, Suc callBack))"

text \<open>The store is only read.\<close>

lemma referenced_store: "snd (snd (referenced w ds blocks flags st)) = st"
proof (induction ds arbitrary: blocks flags)
  case (Cons d ds)
  obtain val err where rd: "Store_Read d st = ((val, err), st)"
    using Store_Read_eq by (metis prod.collapse)
  show ?case by (cases "Block_Decode w val") (use rd Cons in auto)
qed simp

lemma commit_loop_store: "snd (commit_loop w c st) = st"
proof (induction w c st rule: commit_loop.induct)
  case (1 w c st)
  show ?case
  proof (cases "fmlookup (cm_Blocks c) (cm_Index c)")
    case (Some b)
    have "snd (commit_block w b c st) = st"
      using referenced_store [of w "b_Reference b" "[]" "cm_isCommitFlag c" st] by (simp add: commit_block_def split_beta)
    then obtain c' where r: "commit_block w b c st = (c', st)" by (metis prod.collapse)
    then show ?thesis using 1 [OF Some r [symmetric] refl refl] Some by (simp add: commit_loop.simps [of w c st])
  qed (simp add: commit_loop.simps [of w c st])
qed

lemma Commit_store: "Commit w b c st = Some (c', st') \<Longrightarrow> st' = st"
  by (cases b) (auto simp: Commit_def nonnil_def commit_loop_store split: if_splits dest!: arg_cong [where f = snd])

lemma merc_Commit_total: "b \<noteq> None \<Longrightarrow> Commit w b c st \<noteq> None"
  by (cases b) (auto simp: Commit_def nonnil_def)

section \<open>The log that is allowed\<close>

text \<open>
  The specification of the log: it is extended by a block with transactions whose batch is new, or
  by the block of the epoch that is next, if that has transactions.
\<close>

abbreviation batch_IDs :: "Block list \<Rightarrow> int set" where
  "batch_IDs l \<equiv> (\<lambda>b. bt_ID (b_Batch b)) ` set l"

inductive allowed :: "int \<Rightarrow> Block list \<Rightarrow> bool" where
  fresh: "allowed 0 []"
| listed: "allowed i l \<Longrightarrow> bt_Txs (b_Batch b) \<noteq> None \<Longrightarrow> bt_ID (b_Batch b) \<notin> batch_IDs l \<Longrightarrow> allowed i (l @ [b])"
| leading: "allowed i l \<Longrightarrow> bt_Txs (b_Batch b) \<noteq> None \<Longrightarrow> b_Epoch b = i \<Longrightarrow> allowed (i64 (i + 1)) (l @ [b])"
| no_txs: "allowed i l \<Longrightarrow> allowed (i64 (i + 1)) l"

definition cm_ok :: "Committor \<Rightarrow> bool" where
  "cm_ok c \<longleftrightarrow> allowed (cm_Index c) (cm_commitCh c) \<and> fset (cm_isCommitFlag c) = batch_IDs (cm_commitCh c) \<and>
     (\<forall>e b. fmlookup (cm_Blocks c) e = Some b \<longrightarrow> b_Epoch b = e)"

lemma referenced_ok:
  assumes "referenced w ds blocks flags st = (blocks', flags', st')"
    and "allowed i (l @ blocks)" "fset flags = batch_IDs (l @ blocks)"
  shows "allowed i (l @ blocks') \<and> fset flags' = batch_IDs (l @ blocks') \<and> prefix blocks blocks' \<and> st' = st"
  using assms
proof (induction ds arbitrary: blocks flags)
  case (Cons d ds)
  obtain val err where rd: "Store_Read d st = ((val, err), st)"
    using Store_Read_eq by (metis prod.collapse)
  consider (skip) "referenced w (d # ds) blocks flags st = referenced w ds blocks flags st"
    | (add) b where "bt_Txs (b_Batch b) \<noteq> None" "bt_ID (b_Batch b) |\<notin>| flags"
        "referenced w (d # ds) blocks flags st =
           referenced w ds (blocks @ [b]) (finsert (bt_ID (b_Batch b)) flags) st"
    by (cases "Block_Decode w val") (use rd in \<open>fastforce split: if_splits\<close>)+
  then show ?case
  proof cases
    case skip
    then show ?thesis using Cons by simp
  next
    case (add b)
    have "allowed i (l @ blocks @ [b])"
      using allowed.listed [OF Cons.prems(2) add(1)] add(2) Cons.prems(3) by simp
    then have "prefix (blocks @ [b]) blocks' \<and> allowed i (l @ blocks') \<and> fset flags' = batch_IDs (l @ blocks') \<and> st' = st"
      using Cons.IH [of "blocks @ [b]"] Cons.prems add by simp
    then show ?thesis using append_prefixD by blast
  qed
qed simp

lemma commit_block_ok:
  assumes "commit_block w b c st = (c', st')" "cm_ok c" "b_Epoch b = cm_Index c"
  shows "cm_ok (c'\<lparr>cm_Blocks := fmdrop (cm_Index c') (cm_Blocks c'), cm_Index := i64 (cm_Index c' + 1)\<rparr>)"
    and "prefix (cm_commitCh c) (cm_commitCh c')" and "st' = st"
proof -
  obtain blocks flags st1 where r: "referenced w (b_Reference b) [] (cm_isCommitFlag c) st = (blocks, flags, st1)"
    by (metis prod.exhaust)
  have ok: "allowed (cm_Index c) (cm_commitCh c @ blocks)" "fset flags = batch_IDs (cm_commitCh c @ blocks)" "st1 = st"
    using referenced_ok [OF r, of "cm_Index c" "cm_commitCh c"] assms(2) by (auto simp: cm_ok_def)
  show "cm_ok (c'\<lparr>cm_Blocks := fmdrop (cm_Index c') (cm_Blocks c'), cm_Index := i64 (cm_Index c' + 1)\<rparr>)"
    "prefix (cm_commitCh c) (cm_commitCh c')" "st' = st"
    using assms r ok allowed.leading [OF ok(1), of b] allowed.no_txs [OF ok(1)]
    by (auto simp: commit_block_def cm_ok_def split: if_splits)
qed

lemma commit_loop_ok:
  assumes "cm_ok c"
  shows "cm_ok (fst (commit_loop w c st)) \<and> prefix (cm_commitCh c) (cm_commitCh (fst (commit_loop w c st))) \<and>
    snd (commit_loop w c st) = st"
  using assms
proof (induction w c st rule: commit_loop.induct)
  case (1 w c st)
  show ?case
  proof (cases "fmlookup (cm_Blocks c) (cm_Index c)")
    case None
    then show ?thesis using 1(2) by (simp add: commit_loop.simps [of w c st])
  next
    case (Some b)
    obtain c' st' where r: "commit_block w b c st = (c', st')" by (metis prod.exhaust)
    have "b_Epoch b = cm_Index c" using 1(2) Some by (simp add: cm_ok_def)
    note ok = commit_block_ok [OF r 1(2) this]
    let ?c = "c'\<lparr>cm_Blocks := fmdrop (cm_Index c') (cm_Blocks c'), cm_Index := i64 (cm_Index c' + 1)\<rparr>"
    have "commit_loop w c st = commit_loop w ?c st'"
      using Some r by (simp add: commit_loop.simps [of w c st])
    moreover have "cm_commitCh ?c = cm_commitCh c'" by simp
    ultimately show ?thesis
      using 1(1) [OF Some r [symmetric] refl refl] ok prefix_order.trans [OF ok(2)] by simp
  qed
qed

lemma Commit_ok:
  assumes "Commit w block c st = Some (c', st')" "cm_ok c"
  shows "cm_ok c' \<and> prefix (cm_commitCh c) (cm_commitCh c') \<and> st' = st"
proof (cases block)
  case (Some b)
  let ?c = "c\<lparr>cm_Blocks := fmupd (b_Epoch b) b (cm_Blocks c)\<rparr>"
  have "cm_ok ?c" using assms(2) by (simp add: cm_ok_def)
  then show ?thesis
    using commit_loop_ok [of ?c w st] assms Some by (auto simp: Commit_def nonnil_def split: if_splits)
qed (use assms in \<open>simp add: Commit_def nonnil_def\<close>)

text \<open>Every listed block that can be read and has transactions has left when the block that lists it has.\<close>

lemma referenced_flags: "fset flags \<subseteq> fset (fst (snd (referenced w ds blocks flags st)))"
proof (induction w ds blocks flags st rule: referenced.induct)
  case (2 w d ds blocks flags st)
  obtain val err where rd: "Store_Read d st = ((val, err), st)"
    using Store_Read_eq by (metis prod.collapse)
  show ?case
    by (cases "Block_Decode w val") (use rd 2 [OF rd [symmetric] refl] in auto)
qed simp

lemma referenced_complete:
  assumes "d \<in> set ds" "fst (Store_Read d st) = (val, None)" "Block_Decode w val = Inr b" "bt_Txs (b_Batch b) \<noteq> None"
  shows "bt_ID (b_Batch b) |\<in>| fst (snd (referenced w ds blocks flags st))"
  using assms(1)
proof (induction ds arbitrary: blocks flags)
  case (Cons d' ds)
  obtain val' err' where rd: "Store_Read d' st = ((val', err'), st)"
    using Store_Read_eq by (metis prod.collapse)
  show ?case
  proof (cases "d = d'")
    case True
    then have eq: "Store_Read d' st = ((val, None), st)" using rd assms(2) by simp
    have "bt_ID (b_Batch b) |\<in>| fst (snd (referenced w ds bl fl st))" if "bt_ID (b_Batch b) |\<in>| fl" for bl fl
      using referenced_flags [of fl w ds bl st] that by blast
    then show ?thesis using eq assms(3,4) by simp
  next
    case False
    then have "d \<in> set ds" using Cons.prems by simp
    then show ?thesis
      by (cases "Block_Decode w val'") (use rd Cons.IH in auto)
  qed
qed simp

lemma Commit_complete:
  assumes "Commit w (Some b) c st = Some (c', st')" "cm_ok c" "b_Epoch b = cm_Index c"
    and "d \<in> set (b_Reference b)" "fst (Store_Read d st) = (val, None)" "Block_Decode w val = Inr temp"
    and "bt_Txs (b_Batch temp) \<noteq> None"
  shows "bt_ID (b_Batch temp) \<in> batch_IDs (cm_commitCh c')"
proof -
  let ?c = "c\<lparr>cm_Blocks := fmupd (b_Epoch b) b (cm_Blocks c)\<rparr>"
  obtain c1 st1 where r: "commit_block w b ?c st = (c1, st1)" by (metis prod.exhaust)
  let ?c1 = "c1\<lparr>cm_Blocks := fmdrop (cm_Index c1) (cm_Blocks c1), cm_Index := i64 (cm_Index c1 + 1)\<rparr>"
  have "cm_ok ?c" using assms(2) by (simp add: cm_ok_def)
  then have ok: "cm_ok ?c1" using commit_block_ok(1) [OF r] assms(3) by simp
  have "commit_loop w ?c st = commit_loop w ?c1 st1"
    using r assms(3) by (subst commit_loop.simps) simp
  then have "prefix (cm_commitCh c1) (cm_commitCh c')"
    using commit_loop_ok [OF ok, of w st1] assms(1,3) by (simp add: Commit_def nonnil_def)
  moreover have "bt_ID (b_Batch temp) |\<in>| cm_isCommitFlag c1"
    using r referenced_complete [OF assms(4-7), of "[]" "cm_isCommitFlag c"]
    by (auto simp: commit_block_def split: prod.splits if_splits)
  then have "bt_ID (b_Batch temp) \<in> batch_IDs (cm_commitCh c1)"
    using ok by (simp add: cm_ok_def)
  ultimately show ?thesis by (auto dest: set_mono_prefix)
qed

lemma NewCommittor_ok [simp]: "cm_ok NewCommittor"
  by (simp add: cm_ok_def NewCommittor_def allowed.fresh)

end
