(* ===== verification/Merc_Effects.thy ===== *)
theory Merc_Effects
  imports Merc_Core
begin

text \<open>
  What a Mercury node can do to its state. \<open>merc_upd\<close> lists the single updates: a message sent or
  queued, a vote or a share counted, a leader elected together with the prevote that follows, a
  block committed, a flag set, the epoch advanced. Every handler is a sequence of such updates
  (\<open>merc_handle_effects\<close>), so an invariant needs one case for each update.
\<close>

section \<open>Shares and prevotes\<close>

text \<open>The shares of a round that were counted.\<close>

definition shares_of :: "int \<Rightarrow> int \<Rightarrow> Elector \<Rightarrow> nat" where
  "shares_of e r el = (case get2 (el_electAggreators el) e r of None \<Rightarrow> 0 | Some eA \<Rightarrow> length (ea_shares eA))"

lemma merc_Append_count:
  assumes "ElectAggreator_Append w cm sig share eA = Some ((leader, err), eA')"
  shows "length (ea_shares eA) \<le> length (ea_shares eA')"
    and "leader \<noteq> NONE \<Longrightarrow> length (ea_shares eA) < length (ea_shares eA') \<and> int (length (ea_shares eA')) = HightThreshold cm"
  using assms
  by (auto simp: ElectAggreator_Append_def Let_def bind_eq_Some_conv split: if_splits prod.splits option.splits)

lemma merc_AddShareVote_Append:
  assumes "AddShareVote w share el = Some ((leader, err), el')"
  obtains eA' leader' where "ElectAggreator_Append w (el_committee el) (el_sigService el) share
      (case get2 (el_electAggreators el) (es_Epoch share) (es_Round share) of Some eA \<Rightarrow> eA | None \<Rightarrow> NewElectAggreator)
      = Some (leader', eA')" "leader \<noteq> NONE \<Longrightarrow> fst leader' = leader"
    "el_electAggreators el' = put2 (el_electAggreators el) (es_Epoch share) (es_Round share) eA'"
    "el_committee el' = el_committee el"
  using assms by (auto simp: AddShareVote_def Let_def bind_eq_Some_conv split: if_splits)

text \<open>A share is counted at most once, and a leader comes out when the count reaches the threshold.\<close>

lemma merc_AddShareVote_count:
  assumes "AddShareVote w share el = Some ((leader, err), el')"
  shows "el_committee el' = el_committee el" "shares_of e r el \<le> shares_of e r el'"
    "leader \<noteq> NONE \<Longrightarrow> int (shares_of (es_Epoch share) (es_Round share) el') = HightThreshold (el_committee el)"
    "leader \<noteq> NONE \<Longrightarrow> shares_of (es_Epoch share) (es_Round share) el < shares_of (es_Epoch share) (es_Round share) el'"
  using assms
  by (auto elim!: merc_AddShareVote_Append dest: merc_Append_count
      simp: shares_of_def NewElectAggreator_def split: option.splits if_splits)

text \<open>
  The round that a prevote was made in. The \<^verbatim>\<open>VOTE_FLAG_YES\<close> prevote has it in the field of the try.
\<close>

definition is_prevote :: "int \<Rightarrow> int \<Rightarrow> merc_msg \<Rightarrow> bool" where
  "is_prevote e r m = (case m of
     PrevoteMsg pv \<Rightarrow> pv_Epoch pv = e \<and> (if pv_Flag pv = VOTE_FLAG_YES then pv_Try pv else pv_Round pv) = r
   | _ \<Rightarrow> False)"

definition is_done_try :: "int \<Rightarrow> int \<Rightarrow> int \<Rightarrow> merc_msg \<Rightarrow> bool" where
  "is_done_try e r t m = (case m of DoneMsg d \<Rightarrow> dn_Epoch d = e \<and> dn_Round d = r \<and> dn_Try d = t | _ \<Rightarrow> False)"

fun plain :: "merc_msg \<Rightarrow> bool" where
  "plain (DoneMsg d) = False"
| "plain (PrevoteMsg pv) = False"
| "plain m = True"

lemma plain_simps [simp]:
  "plain m \<Longrightarrow> \<not> is_prevote e r m" "plain m \<Longrightarrow> \<not> is_done_try e r t m"
  "\<not> is_prevote e r (DoneMsg d)" "is_prevote e' r' m \<Longrightarrow> \<not> is_done_try e r t m"
  by (cases m; simp add: is_prevote_def is_done_try_def)+

lemma is_prevote_New:
  "NewPrevote w n l e r t VOTE_FLAG_NO d sig = Some pv \<Longrightarrow> is_prevote e r (PrevoteMsg pv)"
  "NewPrevote w n l e t r VOTE_FLAG_YES d sig = Some pv \<Longrightarrow> is_prevote e r (PrevoteMsg pv)"
  by (auto simp: NewPrevote_def is_prevote_def bind_eq_Some_conv)

lemma is_done_try_New:
  "NewDone w n e r t sig = Some dn \<Longrightarrow> is_done_try e' r' t' (DoneMsg dn) \<longleftrightarrow> e' = e \<and> r' = r \<and> t' = t"
  by (auto simp: NewDone_def is_done_try_def bind_eq_Some_conv)

section \<open>Single updates\<close>

inductive merc_upd :: "'a merc_env_scheme \<Rightarrow> 'db Core \<Rightarrow> 'db Core \<Rightarrow> bool" for w where
  send: "plain msg \<Longrightarrow> merc_upd w c (c_send to msg c)"
| push: "own_msg w (c_Name c) (c_SigService c) msg \<Longrightarrow> merc_upd w c (c_push msg c)"
| inst: "get3 (c_SPbInstances c) e r n = None \<Longrightarrow>
    merc_upd w c (c\<lparr>c_SPbInstances := put3 (c_SPbInstances c) e r n (NewSPB e r n)\<rparr>)"
| go_proposal: "(sp_Phase p = SPB_ONE_PHASE \<Longrightarrow> sp_B p \<noteq> None) \<Longrightarrow>
    get3 (c_SPbInstances c) (sp_Epoch p) (sp_Round p) (sp_Author p) \<noteq> None \<Longrightarrow>
    merc_upd w c (c_go (sp_Epoch p, sp_Round p, sp_Author p) (PropEntry p) c)"
| go_vote: "get3 (c_SPbInstances c) (sv_Epoch v) (sv_Round v) (sv_Proposer v) \<noteq> None \<Longrightarrow>
    merc_upd w c (c_go (sv_Epoch v, sv_Round v, sv_Proposer v) (VoteEntry v) c)"
| store: "Store_Write key val (c_Store c) = (err, st) \<Longrightarrow> merc_upd w c (c\<lparr>c_Store := st\<rparr>)"
| get_batch: "GetBatch (c_TxPool c) = Some (batch, p) \<Longrightarrow> merc_upd w c (c\<lparr>c_TxPool := p\<rparr>)"
| vote: "merc_upd w c (c\<lparr>c_Aggreator := ag\<rparr>)"
| leader: "el_electAggreators el = el_electAggreators (c_Elector c) \<Longrightarrow>
    el_committee el = el_committee (c_Elector c) \<Longrightarrow> merc_upd w c (c\<lparr>c_Elector := el\<rparr>)"
| share: "AddShareVote w share (c_Elector c) = Some (res, el) \<Longrightarrow> merc_upd w c (c\<lparr>c_Elector := el\<rparr>)"
| elected: "AddShareVote w share (c_Elector c) = Some ((leader, err), el) \<Longrightarrow> leader \<noteq> NONE \<Longrightarrow>
    el_electAggreators el' = el_electAggreators el \<Longrightarrow> el_committee el' = el_committee el \<Longrightarrow>
    is_prevote (es_Epoch share) (es_Round share) m \<Longrightarrow>
    merc_upd w c (c_send NONE m (c\<lparr>c_Elector := el'\<rparr>))"
| commit: "Commit w b (c_Commitor c) (c_Store c) = Some (cm, st) \<Longrightarrow>
    merc_upd w c (c\<lparr>c_Commitor := cm, c_Store := st\<rparr>)"
| finish_flag: "merc_upd w c (c\<lparr>c_FinishFlags := ff\<rparr>)"
| ready_flag: "merc_upd w c (c\<lparr>c_ReadyFlags := rf\<rparr>)"
| done_row: "merc_upd w c (c\<lparr>c_DoneFlags := ensure (c_DoneFlags c) e\<rparr>)"
| done_flag: "get3 (c_DoneFlags c) e r t = None \<Longrightarrow> NewDone w (c_Name c) e r t (c_SigService c) = Some dn \<Longrightarrow>
    merc_upd w c ((c_send NONE (DoneMsg dn) c)\<lparr>c_DoneFlags := put3 (c_DoneFlags c) e r t ()\<rparr>)"
| halt: "merc_upd w c (c\<lparr>c_HaltFlags := finsert e (c_HaltFlags c),
      c_Epoch := (if i64 (e + 1) \<le> c_Epoch c then c_Epoch c else i64 (e + 1))\<rparr>)"

abbreviation merc_upds :: "'a merc_env_scheme \<Rightarrow> 'db Core \<Rightarrow> 'db Core \<Rightarrow> bool" where
  "merc_upds w \<equiv> (merc_upd w)\<^sup>*\<^sup>*"

lemma merc_snoc: "merc_upd w c1 c2 \<Longrightarrow> merc_upds w c c1 \<Longrightarrow> merc_upds w c c2"
  by (rule rtranclp.rtrancl_into_rtrancl)

lemmas merc_intros = merc_upd.intros [THEN merc_snoc]

section \<open>The helpers\<close>

lemma merc_bcast_upds:
  assumes "own_msg w (c_Name c) (c_SigService c) m" "plain m" "merc_upds w c0 c"
  shows "merc_upds w c0 (c_push m (c_send NONE m c))"
  using assms by (intro merc_intros(1,2)) (simp_all add: c_send_def)

lemma merc_getBlock_snd [simp]: "snd (getBlock w d c) = c"
  by (simp add: getBlock_def Store_Read_eq split: prod.split sum.split)

lemma merc_getSpbInstance_upds: "merc_upds w c0 c \<Longrightarrow> merc_upds w c0 (snd (getSpbInstance e r n c))"
  by (auto simp: getSpbInstance_def Let_def split: option.splits intro: merc_intros(3))

lemma merc_getSpbInstance_get [simp]:
  "get3 (c_SPbInstances (snd (getSpbInstance e r n c))) e r n = Some (fst (getSpbInstance e r n c))"
  by (simp add: getSpbInstance_def Let_def split: option.splits)

lemma merc_c_Leader_snd: "snd (c_Leader e r c) = c\<lparr>c_Elector := snd (Leader e r (c_Elector c))\<rparr>"
  by (simp add: c_Leader_def split: prod.splits)

lemma merc_c_Leader_upds: "merc_upds w c0 c \<Longrightarrow> merc_upds w c0 (snd (c_Leader e r c))"
  unfolding merc_c_Leader_snd by (rule merc_intros(9)) simp_all

lemma merc_hasReady_snd: "\<exists>rf. snd (hasReady e r t c) = c\<lparr>c_ReadyFlags := rf\<rparr>"
  by (auto simp: hasReady_def split: option.splits intro: exI [of _ "c_ReadyFlags c"])

lemma merc_hasReady_upds: "merc_upds w c0 c \<Longrightarrow> merc_upds w c0 (snd (hasReady e r t c))"
  using merc_hasReady_snd [of e r t c] merc_intros(14) by metis

lemma merc_hasDone:
  "fst (hasDone e r t c) = (get3 (c_DoneFlags c) e r t \<noteq> None)"
  "snd (hasDone e r t c) = c\<lparr>c_DoneFlags := ensure (c_DoneFlags c) e\<rparr>"
  by (auto simp: hasDone_def get3_def get2_def inner_def ensure_def split: option.splits)

lemma merc_helper_ctx [simp]:
  "c_Name (snd (getSpbInstance e r n c)) = c_Name c"
  "c_SigService (snd (getSpbInstance e r n c)) = c_SigService c"
  "c_TxPool (snd (getSpbInstance e r n c)) = c_TxPool c"
  "c_Name (snd (c_Leader e r c)) = c_Name c" "c_SigService (snd (c_Leader e r c)) = c_SigService c"
  "c_Name (snd (hasReady e r t c)) = c_Name c" "c_SigService (snd (hasReady e r t c)) = c_SigService c"
  "c_Name (c_send to m c) = c_Name c" "c_SigService (c_send to m c) = c_SigService c"
  "c_Name (c_push m c) = c_Name c" "c_SigService (c_push m c) = c_SigService c"
  by (simp_all add: getSpbInstance_def c_Leader_def hasReady_def c_send_def c_push_def Let_def
      split: option.splits prod.splits)

lemma merc_generatorBlock_upds:
  assumes "generatorBlock e ref c = Some (b, c')" "merc_upds w c0 c"
  shows "merc_upds w c0 c' \<and> c_Name c' = c_Name c \<and> c_SigService c' = c_SigService c"
  using assms by (auto simp: generatorBlock_def bind_eq_Some_conv intro: merc_intros(7))

lemma merc_storeBlock_upds:
  "storeBlock w p c = Some (err, c') \<Longrightarrow> merc_upds w c0 c \<Longrightarrow> merc_upds w c0 c' \<and> p \<noteq> None"
  by (cases p; cases "Block_Encode w (the p)")
     (auto simp: storeBlock_def go_simps Let_def split: prod.splits intro: merc_intros(6))

section \<open>The handlers\<close>

lemma merc_handleSpbProposal_upds:
  assumes "handleSpbProposal w p c = Some (err, c')"
  shows "merc_upds w c c'"
proof -
  define halted where "halted c1 \<longleftrightarrow> (if sp_Phase p = SPB_ONE_PHASE \<and> sp_Epoch p |\<in>| c_HaltFlags c then
             let (leader, c) = c_Leader (sp_Epoch p) (sp_Round p) c in
             if leader = sp_Author p then do {
               (cm, store) \<leftarrow> Commit w (sp_B p) (c_Commitor c) (c_Store c);
               Some (c\<lparr>c_Commitor := cm, c_Store := store\<rparr>) }
             else Some c
           else Some c) = Some c1" for c1
  have halted_upds: "merc_upds w c c1" if "halted c1" for c1
    using that
    by (auto simp: halted_def Let_def split_beta bind_eq_Some_conv split: if_splits
        intro!: merc_intros(12) merc_c_Leader_upds)
  obtain c1 where c1: "halted c1" and rest: "(if messgaeFilter (sp_Epoch p) c1 then Some (None, c1)
     else do {
       (err, c) \<leftarrow> (if sp_Phase p = SPB_ONE_PHASE then storeBlock w (sp_B p) c1 else Some (None, c1));
       if err \<noteq> None then Some (err, c)
       else
         let (spb, c) = getSpbInstance (sp_Epoch p) (sp_Round p) (sp_Author p) c
         in Some (None, c_go (sp_Epoch p, sp_Round p, sp_Author p) (PropEntry p) c) }) = Some (err, c')"
    using assms unfolding handleSpbProposal_def halted_def by (auto elim!: bind_SomeE)
  show ?thesis
    using rest halted_upds [OF c1]
    by (auto simp: Let_def split_beta bind_eq_Some_conv split: if_splits
        intro!: merc_intros(4) merc_getSpbInstance_upds dest!: merc_storeBlock_upds [where ?c0.0 = c])
qed

lemma merc_handleSpbVote_upds: "handleSpbVote v c = Some (err, c') \<Longrightarrow> merc_upds w c c'"
  by (auto simp: handleSpbVote_def Let_def split_beta split: if_splits
      intro!: merc_intros(5) merc_getSpbInstance_upds)

lemma merc_DoneFlags_commute:
  "(c::'db Core)\<lparr>c_DoneFlags := m, c_Transimtor := t\<rparr> = c\<lparr>c_Transimtor := t, c_DoneFlags := m\<rparr>"
  by (rule Core.equality) simp_all

lemma merc_invokeDoneAndShare_upds:
  assumes "invokeDoneAndShare w e r t c = Some (err, c')" "merc_upds w c0 c"
  shows "merc_upds w c0 c'"
proof -
  let ?c = "c\<lparr>c_DoneFlags := ensure (c_DoneFlags c) e\<rparr>"
  have upds: "merc_upds w c0 ?c" using assms(2) by (rule merc_intros(15))
  show ?thesis
  proof (cases "get3 (c_DoneFlags c) e r t")
    case (Some u)
    then show ?thesis using assms upds by (simp add: invokeDoneAndShare_def Let_def split_beta merc_hasDone)
  next
    case None
    obtain dn share serr where dn: "NewDone w (c_Name c) e r t (c_SigService c) = Some dn"
      and share: "NewElectShare w (c_Name c) e r t (c_SigService c) = Some (share, serr)"
      and c': "c' = (c_push (ElectShareMsg share) (c_push (DoneMsg dn) (c_send NONE (ElectShareMsg share)
          (c_send NONE (DoneMsg dn) ?c))))\<lparr>c_DoneFlags := put3 (c_DoneFlags ?c) e r t ()\<rparr>"
      using assms(1) None
      by (auto simp: invokeDoneAndShare_def Let_def split_beta merc_hasDone bind_eq_Some_conv c_push_def c_send_def)
    let ?d = "(c_send NONE (DoneMsg dn) ?c)\<lparr>c_DoneFlags := put3 (c_DoneFlags ?c) e r t ()\<rparr>"
    have "merc_upds w c0 ?d"
      using upds None dn by (intro merc_intros(16)) simp_all
    then have "merc_upds w c0 (c_push (ElectShareMsg share) (c_push (DoneMsg dn) (c_send NONE (ElectShareMsg share) ?d)))"
      using merc_own_New(4) [OF dn] merc_own_New(5) [OF share] by (intro merc_intros(1,2)) simp_all
    then show ?thesis
      unfolding c' by (simp add: c_push_def c_send_def merc_DoneFlags_commute)
  qed
qed

lemma merc_handleFinish_upds: "handleFinish w f c = Some (err, c') \<Longrightarrow> merc_upds w c c'"
  by (auto simp: handleFinish_def Let_def split: if_splits prod.splits
      intro!: merc_intros(8) merc_intros(13) elim!: merc_invokeDoneAndShare_upds)

lemma merc_handleDone_upds: "handleDone w d c = Some (err, c') \<Longrightarrow> merc_upds w c c'"
  by (auto simp: handleDone_def Let_def split: if_splits prod.splits
      intro!: merc_intros(8) merc_intros(14) elim!: merc_invokeDoneAndShare_upds)

text \<open>What an election does to the core before a message follows.\<close>

definition led :: "'db Core \<Rightarrow> 'db Core \<Rightarrow> bool" where
  "led c c' \<longleftrightarrow> (\<exists>el rf. c' = c\<lparr>c_Elector := el, c_ReadyFlags := rf\<rparr> \<and>
     el_electAggreators el = el_electAggreators (c_Elector c) \<and> el_committee el = el_committee (c_Elector c))"

lemma ledI:
  assumes "c' = c\<lparr>c_Elector := el, c_ReadyFlags := rf\<rparr>"
    and "el_electAggreators el = el_electAggreators (c_Elector c)" "el_committee el = el_committee (c_Elector c)"
  shows "led c c'"
  using assms unfolding led_def by blast

lemma ledE:
  assumes "led c c'"
  obtains el rf where "c' = c\<lparr>c_Elector := el, c_ReadyFlags := rf\<rparr>"
    "el_electAggreators el = el_electAggreators (c_Elector c)" "el_committee el = el_committee (c_Elector c)"
  using assms unfolding led_def by blast

lemma led_hasReady: "led c (snd (hasReady e r t c))"
proof -
  obtain rf where "snd (hasReady e r t c) = c\<lparr>c_ReadyFlags := rf\<rparr>" using merc_hasReady_snd by blast
  then show ?thesis by (intro ledI [where el = "c_Elector c" and rf = rf]) simp_all
qed

lemma led_c_Leader: "led c (snd (c_Leader e' r' (snd (hasReady e r t c))))"
proof -
  obtain rf where rf: "snd (hasReady e r t c) = c\<lparr>c_ReadyFlags := rf\<rparr>" using merc_hasReady_snd by blast
  show ?thesis
    unfolding merc_c_Leader_snd rf
    by (rule ledI [where el = "snd (Leader e' r' (c_Elector c))" and rf = rf]) simp_all
qed

lemma led_upds:
  assumes "led c c'" "merc_upds w c0 c"
  shows "merc_upds w c0 c'"
proof -
  obtain el rf where c': "c' = c\<lparr>c_Elector := el, c_ReadyFlags := rf\<rparr>"
    "el_electAggreators el = el_electAggreators (c_Elector c)" "el_committee el = el_committee (c_Elector c)"
    using assms(1) by (rule ledE)
  have "merc_upds w c0 (c\<lparr>c_Elector := el\<rparr>)" using c'(2,3) assms(2) by (rule merc_intros(9))
  then have "merc_upds w c0 (c\<lparr>c_Elector := el\<rparr>\<lparr>c_ReadyFlags := rf\<rparr>)" by (rule merc_intros(14))
  then show ?thesis by (simp add: c'(1))
qed

text \<open>After an election comes nothing, a halt message, or one prevote of the round.\<close>

lemma merc_processLeader:
  assumes "processLeader w e r t c = Some (err, c')"
  obtains (quiet) "led c c'"
    | (halts) c1 h where "led c c1" "c' = c_push (HaltMsg h) (c_send NONE (HaltMsg h) c1)"
        "own_msg w (c_Name c) (c_SigService c) (HaltMsg h)"
    | (votes) c1 n pv where "led c c1"
        "c' = c_push (PrevoteMsg pv) (c_send NONE (PrevoteMsg pv) (snd (getSpbInstance e r n c1)))"
        "is_prevote e r (PrevoteMsg pv)" "own_msg w (c_Name c) (c_SigService c) (PrevoteMsg pv)"
proof -
  let ?c1 = "snd (hasReady e r t c)" and ?c2 = "snd (c_Leader e r (snd (hasReady e r t c)))"
  let ?c3 = "snd (getSpbInstance e r (fst (c_Leader e r ?c1)) ?c2)"
  consider "c' = ?c1" | "c' = ?c2"
    | h where "c' = c_push (HaltMsg h) (c_send NONE (HaltMsg h) ?c2)" "own_msg w (c_Name c) (c_SigService c) (HaltMsg h)"
    | pv where "c' = c_push (PrevoteMsg pv) (c_send NONE (PrevoteMsg pv) ?c3)" "is_prevote e r (PrevoteMsg pv)"
        "own_msg w (c_Name c) (c_SigService c) (PrevoteMsg pv)"
    using assms
    by (auto simp: processLeader_def Let_def split_beta bind_eq_Some_conv split: if_splits
        simp del: own_msg.simps dest: is_prevote_New merc_own_New(6,8))
  then show thesis
    by cases (use quiet halts votes led_hasReady led_c_Leader in blast)+
qed

lemma getSpbInstance_Elector:
  "(snd (getSpbInstance e r n (c\<lparr>c_ReadyFlags := rf\<rparr>)))\<lparr>c_Elector := el\<rparr> =
     snd (getSpbInstance e r n (c\<lparr>c_Elector := el, c_ReadyFlags := rf\<rparr>))"
  "c_Elector (snd (getSpbInstance e r n c)) = c_Elector c"
  by (simp_all add: getSpbInstance_def Let_def split: option.split)

lemma merc_handleElectShare_upds:
  assumes "handleElectShare w s c = Some (err, c')"
  shows "merc_upds w c c'"
proof (cases "messgaeFilter (es_Epoch s) c")
  case True
  then show ?thesis using assms by (simp add: handleElectShare_def)
next
  case False
  obtain leader serr el where add: "AddShareVote w s (c_Elector c) = Some ((leader, serr), el)"
    using assms False by (auto simp: handleElectShare_def bind_eq_Some_conv)
  let ?c = "c\<lparr>c_Elector := el\<rparr>"
  have upds: "merc_upds w c ?c" using add by (intro merc_intros(10)) simp_all
  show ?thesis
  proof (cases "serr = None \<and> leader \<noteq> NONE")
    case quiet: False
    then show ?thesis using assms False add upds by (auto simp: handleElectShare_def Let_def split: if_splits)
  next
    case True
    then obtain err' where "processLeader w (es_Epoch s) (es_Round s) (es_Try s) ?c = Some (err', c')"
      using assms False add by (auto simp: handleElectShare_def bind_eq_Some_conv)
    then show ?thesis
    proof (cases rule: merc_processLeader)
      case quiet
      then show ?thesis by (rule led_upds [OF _ upds])
    next
      case (halts c1 h)
      have "c_Name c1 = c_Name c" "c_SigService c1 = c_SigService c" using halts(1) by (auto elim!: ledE)
      then show ?thesis
        unfolding halts(2) using halts(3) led_upds [OF halts(1) upds] by (intro merc_bcast_upds) simp_all
    next
      case (votes c1 n pv)
      obtain el' rf where c1: "c1 = c\<lparr>c_Elector := el', c_ReadyFlags := rf\<rparr>"
        "el_electAggreators el' = el_electAggreators el" "el_committee el' = el_committee el"
        using votes(1) by (rule ledE) simp
      let ?d = "snd (getSpbInstance (es_Epoch s) (es_Round s) n (c\<lparr>c_ReadyFlags := rf\<rparr>))"
      have d: "merc_upds w c ?d"
        by (rule merc_getSpbInstance_upds, rule merc_intros(14)) simp
      have "AddShareVote w s (c_Elector ?d) = Some ((leader, serr), el)" using add by (simp add: getSpbInstance_Elector)
      then have "merc_upds w c (c_send NONE (PrevoteMsg pv) (?d\<lparr>c_Elector := el'\<rparr>))"
        using merc_intros(11) [OF _ _ c1(2,3) votes(3) d] True by blast
      then show ?thesis
        unfolding votes(2) c1(1) getSpbInstance_Elector using votes(4) by (intro merc_intros(2)) simp_all
    qed
  qed
qed

lemma merc_handlePrevote_upds: "handlePrevote w pv c = Some (err, c') \<Longrightarrow> merc_upds w c c'"
  by (auto simp: handlePrevote_def Let_def bind_eq_Some_conv split: if_splits prod.splits
      simp del: own_msg.simps intro!: merc_bcast_upds merc_intros(8) dest: merc_own_New(7))

lemma merc_advanceNextRound_upds:
  assumes "advanceNextRound w e r fl d c = Some (err, c')" "merc_upds w c0 c"
  shows "merc_upds w c0 c'"
proof -
  define c1 where "c1 = (if fl = ACTION_NO then snd (getSpbInstance e r (c_Name c) c) else c)"
  have c1: "merc_upds w c0 c1" "c_Name c1 = c_Name c" "c_SigService c1 = c_SigService c"
    using assms(2) by (auto simp: c1_def intro: merc_getSpbInstance_upds)
  show ?thesis
    using assms c1
    by (auto simp: advanceNextRound_def Let_def split_beta bind_eq_Some_conv c1_def
        split: if_splits option.splits intro!: merc_bcast_upds dest: merc_own_New(1)
        dest!: merc_generatorBlock_upds [where w = w and ?c0.0 = c0])
qed

lemma merc_handleFinvote_upds: "handleFinvote w fv c = Some (err, c') \<Longrightarrow> merc_upds w c c'"
  by (auto simp: handleFinvote_def Let_def bind_eq_Some_conv split: if_splits prod.splits
      simp del: own_msg.simps intro!: merc_bcast_upds merc_intros(8) dest: merc_own_New(8)
      elim!: merc_advanceNextRound_upds merc_invokeDoneAndShare_upds)

lemma merc_handleOutput_upds:
  assumes "handleOutput w e d c = Some (err, c')" "merc_upds w c0 c"
  shows "merc_upds w c0 c'"
  using assms
  by (auto simp: handleOutput_def Let_def split_beta bind_eq_Some_conv split: if_splits intro!: merc_intros(12))

lemma merc_advanceNextEpoch_upds:
  assumes "advanceNextEpoch w (i64 (e + 1)) ref (c\<lparr>c_HaltFlags := finsert e (c_HaltFlags c)\<rparr>) = Some c'"
    and "merc_upds w c0 c"
  shows "merc_upds w c0 c'"
proof -
  let ?c = "c\<lparr>c_HaltFlags := finsert e (c_HaltFlags c),
      c_Epoch := (if i64 (e + 1) \<le> c_Epoch c then c_Epoch c else i64 (e + 1))\<rparr>"
  have "merc_upds w c0 ?c" using assms(2) by (rule merc_intros(17))
  then show ?thesis
    using assms(1)
    by (cases "i64 (e + 1) \<le> c_Epoch c")
       (auto simp: advanceNextEpoch_def Let_def bind_eq_Some_conv intro!: merc_bcast_upds dest: merc_own_New(1)
         dest!: merc_generatorBlock_upds [where w = w and ?c0.0 = c0])
qed

lemma merc_handleHalt_upds: "handleHalt w h c = Some (err, c') \<Longrightarrow> merc_upds w c c'"
  by (auto simp: handleHalt_def Let_def bind_eq_Some_conv SetLeader_def split: if_splits
      intro!: merc_intros(9) elim!: merc_handleOutput_upds merc_advanceNextEpoch_upds)

lemma merc_handle_effects: "handle w msg c = Some (err, c') \<Longrightarrow> merc_upds w c c'"
  by (cases msg)
     (auto simp: go_simps bind_eq_Some_conv intro: merc_handleSpbProposal_upds merc_handleSpbVote_upds
       merc_handleFinish_upds merc_handleDone_upds merc_handleElectShare_upds merc_handlePrevote_upds
       merc_handleFinvote_upds merc_handleHalt_upds)

lemma merc_dispatch_effects: "dispatch w msg c = Some (err, c') \<Longrightarrow> merc_upds w c c'"
  by (auto simp: dispatch_def bind_eq_Some_conv split: if_splits intro: merc_handle_effects)

lemma merc_Run_start_effects: "Run_start w c = Some c' \<Longrightarrow> merc_upds w c c'"
  by (auto simp: Run_start_def Let_def bind_eq_Some_conv intro!: merc_bcast_upds dest: merc_own_New(1)
      dest!: merc_generatorBlock_upds [where w = w and ?c0.0 = c])

end
