(* ===== verification/Merc_Node.thy ===== *)
theory Merc_Node
  imports Merc_Effects
begin

text \<open>
  A running Mercury node: the main loop, the receiver that delivers messages from the network, and
  the goroutines of the SPB instances, interleaved in any order. The invariants below are instances
  of the locale \<open>merc_invariant\<close>, whose laws ask for one case per update of \<^verbatim>\<open>Merc_Effects\<close>, for
  the delivery and the reception of a message, and for a piece of a goroutine.
\<close>

section \<open>Steps\<close>

definition task_step :: "'a merc_env_scheme \<Rightarrow> nat \<Rightarrow> 'db Core \<Rightarrow> 'db Core option" where
  "task_step w i c =
     (case c_tasks c ! i of ((e, r, n), pc) \<Rightarrow> do {
        s \<leftarrow> get3 (c_SPbInstances c) e r n;
        (pc', spawned, s, c) \<leftarrow> spb_step w pc s c;
        let c = c\<lparr>c_SPbInstances := put3 (c_SPbInstances c) e r n s\<rparr>;
        Some (c\<lparr>c_tasks := take i (c_tasks c) @ (case pc' of None \<Rightarrow> [] | Some pc \<Rightarrow> [((e, r, n), pc)]) @
                 drop (Suc i) (c_tasks c) @ map (Pair (e, r, n)) spawned\<rparr>) })"

inductive merc_step ::
  "'a merc_env_scheme \<Rightarrow> (merc_msg \<Rightarrow> bool) \<Rightarrow> 'db Core \<Rightarrow> 'db Core \<Rightarrow> bool" for w net where
  deliver: "net msg \<Longrightarrow> merc_step w net c (c_push msg c)"
| turn: "Run_turn w c = Some (err, c') \<Longrightarrow> merc_step w net c c'"
| task: "i < length (c_tasks c) \<Longrightarrow> task_step w i c = Some c' \<Longrightarrow> merc_step w net c c'"

inductive merc_reach ::
  "'a merc_env_scheme \<Rightarrow> (merc_msg \<Rightarrow> bool) \<Rightarrow> 'db Core \<Rightarrow> 'db Core \<Rightarrow> bool" for w net c0 where
  start: "Run_start w c0 = Some c \<Longrightarrow> merc_reach w net c0 c"
| step: "merc_reach w net c0 c \<Longrightarrow> merc_step w net c c' \<Longrightarrow> merc_reach w net c0 c'"

abbreviation merc_steps ::
  "'a merc_env_scheme \<Rightarrow> (merc_msg \<Rightarrow> bool) \<Rightarrow> 'db Core \<Rightarrow> 'db Core \<Rightarrow> bool" where
  "merc_steps w net \<equiv> (merc_step w net)\<^sup>*\<^sup>*"

text \<open>The process dies when a turn of the loop or a goroutine panics.\<close>

definition panics :: "'a merc_env_scheme \<Rightarrow> 'db Core \<Rightarrow> bool" where
  "panics w c \<longleftrightarrow> Run_turn w c = None \<or> (\<exists>i < length (c_tasks c). task_step w i c = None)"

section \<open>What a goroutine does to the core\<close>

text \<open>It sends no done messages and no prevotes.\<close>

lemma merc_send_vote_ctx:
  assumes "send_vote w p d s c = Some c'"
  obtains (send) to v where "c' = c_send to (SPBVoteMsg v) c" "own_msg w (c_Name c) (c_SigService c) (SPBVoteMsg v)"
    | (push) v where "c' = c_push (SPBVoteMsg v) c" "own_msg w (c_Name c) (c_SigService c) (SPBVoteMsg v)"
  using assms
  by (auto simp: send_vote_def bind_eq_Some_conv split: if_splits dest!: merc_own_New(2))

lemma merc_spb_step_ctx:
  assumes "spb_step w pc s c = Some (pc', spawned, s', c')"
  obtains (same) "c' = c"
    | (send) to m where "c' = c_send to m c" "own_msg w (c_Name c) (c_SigService c) m" "plain m"
    | (push) m where "c' = c_push m c" "own_msg w (c_Name c) (c_SigService c) m \<or> pc = Push m"
  using assms
  by (cases pc)
     (auto simp: bind_eq_Some_conv Let_def split: if_splits dest: merc_own_New elim!: merc_send_vote_ctx)

lemma merc_task_step_cases:
  assumes "task_step w i c = Some c'" "i < length (c_tasks c)"
  obtains e r n pc s pc' spawned s' c1 where
    "c_tasks c ! i = ((e, r, n), pc)" "get3 (c_SPbInstances c) e r n = Some s"
    "spb_step w pc s c = Some (pc', spawned, s', c1)"
    "c1 = c \<or> (\<exists>to m. c1 = c_send to m c \<and> own_msg w (c_Name c) (c_SigService c) m \<and> plain m) \<or>
     (\<exists>m. c1 = c_push m c \<and> (own_msg w (c_Name c) (c_SigService c) m \<or> pc = Push m))"
    "c' = c1\<lparr>c_SPbInstances := put3 (c_SPbInstances c) e r n s',
            c_tasks := take i (c_tasks c) @ (case pc' of None \<Rightarrow> [] | Some pc \<Rightarrow> [((e, r, n), pc)]) @
               drop (Suc i) (c_tasks c) @ map (Pair (e, r, n)) spawned\<rparr>"
proof -
  obtain e r n pc where key: "c_tasks c ! i = ((e, r, n), pc)" by (metis prod.exhaust)
  obtain s pc' spawned s' c1 where st: "get3 (c_SPbInstances c) e r n = Some s"
    "spb_step w pc s c = Some (pc', spawned, s', c1)"
    and c': "c' = c1\<lparr>c_SPbInstances := put3 (c_SPbInstances c1) e r n s',
            c_tasks := take i (c_tasks c1) @ (case pc' of None \<Rightarrow> [] | Some pc \<Rightarrow> [((e, r, n), pc)]) @
               drop (Suc i) (c_tasks c1) @ map (Pair (e, r, n)) spawned\<rparr>"
    using assms(1) key by (auto simp: task_step_def bind_eq_Some_conv Let_def)
  have ctx: "c1 = c \<or> (\<exists>to m. c1 = c_send to m c \<and> own_msg w (c_Name c) (c_SigService c) m \<and> plain m) \<or>
     (\<exists>m. c1 = c_push m c \<and> (own_msg w (c_Name c) (c_SigService c) m \<or> pc = Push m))"
    using st(2) by (rule merc_spb_step_ctx) blast+
  moreover have "c_SPbInstances c1 = c_SPbInstances c" "c_tasks c1 = c_tasks c"
    using ctx by (auto simp: c_send_def c_push_def)
  ultimately show thesis using that [OF key st] c' by simp
qed

section \<open>Invariants of a node\<close>

locale merc_invariant =
  fixes I :: "'db Core \<Rightarrow> bool"
    and w :: "'a merc_env_scheme"
    and net :: "merc_msg \<Rightarrow> bool"
  assumes mi_upd: "I c \<Longrightarrow> merc_upd w c c' \<Longrightarrow> I c'"
    and mi_deliver: "I c \<Longrightarrow> net m \<Longrightarrow> I (c_push m c)"
    and mi_recv: "I c \<Longrightarrow> tr_recvCh (c_Transimtor c) = m # ms \<Longrightarrow>
      I (c\<lparr>c_Transimtor := (c_Transimtor c)\<lparr>tr_recvCh := ms\<rparr>\<rparr>)"
    and mi_task: "I c \<Longrightarrow> i < length (c_tasks c) \<Longrightarrow> task_step w i c = Some c' \<Longrightarrow> I c'"
begin

lemma mi_upds: "merc_upds w c c' \<Longrightarrow> I c \<Longrightarrow> I c'"
  by (induction rule: rtranclp_induct) (auto intro: mi_upd)

lemma mi_turn: "Run_turn w c = Some (err, c') \<Longrightarrow> I c \<Longrightarrow> I c'"
  by (auto simp: Run_turn_def Transmitor_Recv_def split: list.splits intro: mi_upds mi_recv dest!: merc_dispatch_effects)

lemma mi_step: "merc_step w net c c' \<Longrightarrow> I c \<Longrightarrow> I c'"
  by (erule merc_step.cases) (auto intro: mi_deliver mi_turn mi_task)

lemma mi_steps: "merc_steps w net c c' \<Longrightarrow> I c \<Longrightarrow> I c'"
  by (induction rule: rtranclp_induct) (auto intro: mi_step)

lemma mi_reach: "merc_reach w net c0 c \<Longrightarrow> I c0 \<Longrightarrow> I c"
  by (induction rule: merc_reach.induct) (auto intro: mi_step mi_upds merc_Run_start_effects)

end

subsection \<open>The log\<close>

definition merc_log_inv :: "Block list \<Rightarrow> int \<Rightarrow> 'db Core \<Rightarrow> bool" where
  "merc_log_inv l k c \<longleftrightarrow> cm_ok (c_Commitor c) \<and> prefix l (cm_commitCh (c_Commitor c)) \<and> k \<le> c_Epoch c"

interpretation mel: merc_invariant "merc_log_inv l k" w net for l k w net
proof unfold_locales
  show "merc_log_inv l k c \<Longrightarrow> merc_upd w c c' \<Longrightarrow> merc_log_inv l k c'" for c c'
    by (rotate_tac, induction rule: merc_upd.induct)
       (auto simp: merc_log_inv_def c_send_def c_push_def c_go_def dest: Commit_ok intro: prefix_order.trans)
qed (auto simp: merc_log_inv_def c_send_def c_push_def elim!: merc_task_step_cases)

subsection \<open>One done message for each try of a round\<close>

definition sent :: "(merc_msg \<Rightarrow> bool) \<Rightarrow> 'db Core \<Rightarrow> nat" where
  "sent P c = length (filter P (map nm_Msg (tr_msgCh (c_Transimtor c))))"

lemma merc_sent_simps [simp]:
  "sent P (c_send to m c) = (if P m then Suc (sent P c) else sent P c)"
  "sent P (c_push m c) = sent P c"
  "sent P (c_go key pc c) = sent P c"
  by (simp_all add: sent_def c_send_def c_push_def c_go_def del: length_filter_map filter_map)

text \<open>Only the transmitter matters.\<close>

lemma merc_sent_cong: "map nm_Msg (tr_msgCh (c_Transimtor c')) = map nm_Msg (tr_msgCh (c_Transimtor c)) \<Longrightarrow> sent P c' = sent P c"
  by (simp add: sent_def del: length_filter_map filter_map)

lemma merc_sent_fields [simp]:
  "sent P (c\<lparr>c_SPbInstances := si\<rparr>) = sent P c" "sent P (c\<lparr>c_Store := st\<rparr>) = sent P c"
  "sent P (c\<lparr>c_TxPool := pool\<rparr>) = sent P c" "sent P (c\<lparr>c_Aggreator := ag\<rparr>) = sent P c"
  "sent P (c\<lparr>c_Elector := el\<rparr>) = sent P c" "sent P (c\<lparr>c_Commitor := cm\<rparr>) = sent P c"
  "sent P (c\<lparr>c_FinishFlags := ff\<rparr>) = sent P c" "sent P (c\<lparr>c_ReadyFlags := rf\<rparr>) = sent P c"
  "sent P (c\<lparr>c_DoneFlags := df\<rparr>) = sent P c" "sent P (c\<lparr>c_HaltFlags := hf\<rparr>) = sent P c"
  "sent P (c\<lparr>c_Epoch := e\<rparr>) = sent P c" "sent P (c\<lparr>c_tasks := ts\<rparr>) = sent P c"
  "sent P (c\<lparr>c_Transimtor := (c_Transimtor c)\<lparr>tr_recvCh := ms\<rparr>\<rparr>) = sent P c"
  by (rule merc_sent_cong, simp)+

lemma merc_push_fields [simp]:
  "c_DoneFlags (c_push m c) = c_DoneFlags c" "c_Elector (c_push m c) = c_Elector c"
  "c_DoneFlags (c_send to m c) = c_DoneFlags c" "c_Elector (c_send to m c) = c_Elector c"
  "c_DoneFlags (c_go key pc c) = c_DoneFlags c" "c_Elector (c_go key pc c) = c_Elector c"
  by (simp_all add: c_push_def c_send_def c_go_def)

lemma merc_task_frame:
  assumes "task_step w i c = Some c'" "i < length (c_tasks c)"
  shows "c_DoneFlags c' = c_DoneFlags c \<and> c_Elector c' = c_Elector c \<and>
    ((\<forall>m. plain m \<longrightarrow> \<not> P m) \<longrightarrow> sent P c' = sent P c)"
  using assms by (rule merc_task_step_cases) auto

definition merc_done_inv :: "'db Core \<Rightarrow> bool" where
  "merc_done_inv c \<longleftrightarrow>
     (\<forall>e r t. sent (is_done_try e r t) c = (if get3 (c_DoneFlags c) e r t = None then 0 else 1))"

interpretation med: merc_invariant merc_done_inv w net for w net
proof unfold_locales
  show "merc_done_inv c \<Longrightarrow> merc_upd w c c' \<Longrightarrow> merc_done_inv c'" for c c'
    by (rotate_tac, induction rule: merc_upd.induct)
       (auto simp: merc_done_inv_def is_done_try_New)
qed (auto simp: merc_done_inv_def merc_task_frame)

subsection \<open>One election for each round\<close>

text \<open>
  The shares of a round that are counted never become fewer. A prevote of the round is sent only
  with the share that reaches the threshold, whatever the try of the share.
\<close>

definition elected :: "int \<Rightarrow> int \<Rightarrow> 'db Core \<Rightarrow> bool" where
  "elected e r c \<longleftrightarrow> HightThreshold (el_committee (c_Elector c)) \<le> int (shares_of e r (c_Elector c))"

definition prevote_inv :: "int \<Rightarrow> int \<Rightarrow> 'db Core \<Rightarrow> bool" where
  "prevote_inv e r c \<longleftrightarrow> sent (is_prevote e r) c \<le> (if elected e r c then 1 else 0)"

definition frozen :: "int \<Rightarrow> int \<Rightarrow> nat \<Rightarrow> 'db Core \<Rightarrow> bool" where
  "frozen e r k c \<longleftrightarrow> elected e r c \<and> sent (is_prevote e r) c = k"

lemma elected_share:
  assumes "AddShareVote w share (c_Elector c) = Some (res, el)" "elected e r c"
  shows "HightThreshold (el_committee el) \<le> int (shares_of e r el)"
  using assms merc_AddShareVote_count(1,2) [of w share "c_Elector c" "fst res" "snd res" el]
  by (simp add: elected_def) (meson of_nat_mono order_trans)

lemma elected_first:
  assumes "AddShareVote w share (c_Elector c) = Some ((leader, err), el)" "leader \<noteq> NONE"
  shows "\<not> elected (es_Epoch share) (es_Round share) c"
    "HightThreshold (el_committee el) \<le> int (shares_of (es_Epoch share) (es_Round share) el)"
  using assms merc_AddShareVote_count [OF assms(1)] by (auto simp: elected_def)

lemma is_prevote_fun: "is_prevote e r m \<Longrightarrow> is_prevote e' r' m \<longleftrightarrow> e' = e \<and> r' = r"
  by (auto simp: is_prevote_def split: merc_msg.splits)

lemma shares_cong: "el_electAggreators el = el_electAggreators el' \<Longrightarrow> shares_of e r el = shares_of e r el'"
  by (simp add: shares_of_def)

interpretation mev: merc_invariant "prevote_inv e r" w net for e r w net
proof unfold_locales
  show "prevote_inv e r c \<Longrightarrow> merc_upd w c c' \<Longrightarrow> prevote_inv e r c'" for c c'
  proof (rotate_tac, induction rule: merc_upd.induct)
    case (share s c res el)
    then show ?case using elected_share [OF share(1), of e r] by (auto simp: prevote_inv_def elected_def split: if_splits)
  next
    case (elected s c leader err el el' m)
    then show ?case
      using elected_first [OF elected(1,2)] elected_share [OF elected(1), of e r] shares_cong [OF elected(3), of e r]
        is_prevote_fun [OF elected(5), of e r]
      by (auto simp: prevote_inv_def elected_def split: if_splits)
  next
    case (leader el c)
    then show ?case using shares_cong [OF leader(1), of e r] by (auto simp: prevote_inv_def elected_def)
  qed (auto simp: prevote_inv_def elected_def)
qed (auto simp: prevote_inv_def elected_def merc_task_frame)

interpretation mef: merc_invariant "frozen e r k" w net for e r k w net
proof unfold_locales
  show "frozen e r k c \<Longrightarrow> merc_upd w c c' \<Longrightarrow> frozen e r k c'" for c c'
  proof (rotate_tac, induction rule: merc_upd.induct)
    case (share s c res el)
    then show ?case using elected_share [OF share(1), of e r] by (auto simp: frozen_def elected_def)
  next
    case (elected s c leader err el el' m)
    then show ?case
      using elected_first [OF elected(1,2)] elected_share [OF elected(1), of e r] shares_cong [OF elected(3), of e r]
        is_prevote_fun [OF elected(5), of e r]
      by (auto simp: frozen_def elected_def)
  next
    case (leader el c)
    then show ?case using shares_cong [OF leader(1), of e r] by (auto simp: frozen_def elected_def)
  qed (auto simp: frozen_def elected_def)
qed (auto simp: frozen_def elected_def merc_task_frame)

subsection \<open>SPB instances and their goroutines\<close>

text \<open>
  An instance is filed under its own epoch, round and proposer; the hash it holds is the hash of a
  block of its proposer, and it is locked only with a hash. A goroutine that has seen a hash still
  finds one.
\<close>

definition spb_ok :: "'a crypto_scheme \<Rightarrow> int \<Rightarrow> int \<Rightarrow> NodeID \<Rightarrow> SPB \<Rightarrow> bool" where
  "spb_ok w e r n s \<longleftrightarrow> s_Epoch s = e \<and> s_Round s = r \<and> s_Proposer s = n \<and>
     (s_LockFlag s \<longrightarrow> s_BlockHash s \<noteq> None) \<and>
     (\<forall>d. s_BlockHash s = Some d \<longrightarrow> (\<exists>b. d = Block_Hash w b \<and> b_Proposer b = n))"

fun pc_ok :: "NodeID \<Rightarrow> SPB \<Rightarrow> spb_pc \<Rightarrow> bool" where
  "pc_ok n s (PropStore p) \<longleftrightarrow> (\<exists>b. sp_B p = Some b \<and> b_Proposer b = n)"
| "pc_ok n s (PropVote p d) \<longleftrightarrow> s_BlockHash s \<noteq> None"
| "pc_ok n s PropFlush \<longleftrightarrow> s_BlockHash s \<noteq> None"
| "pc_ok n s (PropLock p) \<longleftrightarrow> s_BlockHash s \<noteq> None"
| "pc_ok n s (PropVote2 p) \<longleftrightarrow> s_BlockHash s \<noteq> None"
| "pc_ok n s (VoteCount v) \<longleftrightarrow> s_BlockHash s \<noteq> None"
| "pc_ok n s (VoteAct v k) \<longleftrightarrow> s_BlockHash s \<noteq> None"
| "pc_ok n s _ \<longleftrightarrow> True"

definition inst_inv :: "'a crypto_scheme \<Rightarrow> 'db Core \<Rightarrow> bool" where
  "inst_inv w c \<longleftrightarrow>
     (\<forall>e r n s. get3 (c_SPbInstances c) e r n = Some s \<longrightarrow> spb_ok w e r n s) \<and>
     (\<forall>e r n pc. ((e, r, n), pc) \<in> set (c_tasks c) \<longrightarrow>
        (\<exists>s. get3 (c_SPbInstances c) e r n = Some s \<and> pc_ok n s pc))"

lemma merc_spb_ok_New: "spb_ok w e r n (NewSPB e r n)"
  by (simp add: spb_ok_def NewSPB_def)

lemma merc_spb_step_ok:
  assumes "spb_step w pc s c = Some (pc', spawned, s', c')" "spb_ok w e r n s" "pc_ok n s pc"
  shows "spb_ok w e r n s'" "\<forall>pc. pc' = Some pc \<longrightarrow> pc_ok n s' pc" "\<forall>pc \<in> set spawned. pc_ok n s' pc"
    "\<forall>pc. pc_ok n s pc \<longrightarrow> pc_ok n s' pc"
proof -
  have mono: "s_BlockHash s \<noteq> None \<longrightarrow> s_BlockHash s' \<noteq> None"
    using assms(1) by (cases pc) (auto simp: bind_eq_Some_conv Let_def split: if_splits)
  then show "\<forall>pc. pc_ok n s pc \<longrightarrow> pc_ok n s' pc"
    by (auto elim!: pc_ok.elims)
  show "spb_ok w e r n s'" "\<forall>pc. pc' = Some pc \<longrightarrow> pc_ok n s' pc" "\<forall>pc \<in> set spawned. pc_ok n s' pc"
    using assms
    by (cases pc; auto simp: spb_ok_def bind_eq_Some_conv Let_def go_simps unhandled_def split: if_splits)+
qed

lemma merc_inst_inv_task:
  assumes "inst_inv w c" "i < length (c_tasks c)" "task_step w i c = Some c'"
  shows "inst_inv w c'"
  using assms(3,2)
proof (rule merc_task_step_cases)
  fix e r n pc s pc' spawned s' c1
  assume key: "c_tasks c ! i = ((e, r, n), pc)" and s: "get3 (c_SPbInstances c) e r n = Some s"
    and st: "spb_step w pc s c = Some (pc', spawned, s', c1)"
    and c': "c' = c1\<lparr>c_SPbInstances := put3 (c_SPbInstances c) e r n s',
            c_tasks := take i (c_tasks c) @ (case pc' of None \<Rightarrow> [] | Some pc \<Rightarrow> [((e, r, n), pc)]) @
               drop (Suc i) (c_tasks c) @ map (Pair (e, r, n)) spawned\<rparr>"
  have mem: "((e, r, n), pc) \<in> set (c_tasks c)"
    using key assms(2) by (metis nth_mem)
  have ok: "spb_ok w e r n s" "pc_ok n s pc"
    using assms(1) s mem unfolding inst_inv_def by fastforce+
  note step = merc_spb_step_ok [OF st ok]
  have old: "\<exists>s2. get3 (put3 (c_SPbInstances c) e r n s') e2 r2 n2 = Some s2 \<and> pc_ok n2 s2 pc2"
    if "((e2, r2, n2), pc2) \<in> set (c_tasks c)" for e2 r2 n2 pc2
    using assms(1) that s step(4) by (fastforce simp: inst_inv_def)
  have sub: "set (c_tasks c') \<subseteq> set (c_tasks c) \<union> {((e, r, n), p) | p. pc' = Some p \<or> p \<in> set spawned}"
    using set_take_subset [of i "c_tasks c"] set_drop_subset [of "Suc i" "c_tasks c"]
    by (auto simp: c' split: option.splits)
  have "\<exists>s2. get3 (c_SPbInstances c') e2 r2 n2 = Some s2 \<and> pc_ok n2 s2 pc2"
    if "((e2, r2, n2), pc2) \<in> set (c_tasks c')" for e2 r2 n2 pc2
  proof (cases "((e2, r2, n2), pc2) \<in> set (c_tasks c)")
    case True
    then show ?thesis using old by (simp add: c')
  next
    case False
    then have "(e2, r2, n2) = (e, r, n)" "pc' = Some pc2 \<or> pc2 \<in> set spawned"
      using that sub by auto
    then show ?thesis using step(2,3) by (auto simp: c')
  qed
  moreover have "spb_ok w e2 r2 n2 s2" if "get3 (c_SPbInstances c') e2 r2 n2 = Some s2" for e2 r2 n2 s2
    using assms(1) step(1) that by (auto simp: inst_inv_def c' split: if_splits)
  ultimately show "inst_inv w c'" by (simp add: inst_inv_def)
qed

interpretation mei: merc_invariant "inst_inv w" w net for w :: "'a merc_env_scheme" and net
proof unfold_locales
  show "inst_inv w c \<Longrightarrow> merc_upd w c c' \<Longrightarrow> inst_inv w c'" for c c' :: "'b Core"
    by (rotate_tac, induction rule: merc_upd.induct)
       (auto simp: inst_inv_def c_send_def c_push_def c_go_def merc_spb_ok_New, fastforce)
qed (auto simp: merc_inst_inv_task, auto simp: inst_inv_def c_push_def)

end
