(* ===== verification/Merc_Safety.thy ===== *)
theory Merc_Safety
  imports Merc_Node
begin

text \<open>
  When a Mercury node can panic. With keys of the right size and a threshold-signature library that
  keeps its contract, and over a database with an error of its own for a missing key, a node whose
  network delivers only messages of members, with a block in each proposal of the first phase and no
  nil share, never panics, in any interleaving.
\<close>

section \<open>What the node relies on\<close>

definition prop_ok :: "SPBProposal \<Rightarrow> bool" where
  "prop_ok p \<longleftrightarrow> (sp_Phase p = SPB_ONE_PHASE \<longrightarrow> sp_B p \<noteq> None)"

fun msg_ok :: "Committee \<Rightarrow> merc_msg \<Rightarrow> bool" where
  "msg_ok cm (SPBProposalMsg p) \<longleftrightarrow> sp_Author p \<in> members cm \<and> prop_ok p"
| "msg_ok cm (SPBVoteMsg v) \<longleftrightarrow> sv_Author v \<in> members cm"
| "msg_ok cm (FinishMsg f) \<longleftrightarrow> fi_Author f \<in> members cm"
| "msg_ok cm (DoneMsg d) \<longleftrightarrow> dn_Author d \<in> members cm"
| "msg_ok cm (ElectShareMsg e) \<longleftrightarrow> e \<noteq> None"
| "msg_ok cm (PrevoteMsg p) \<longleftrightarrow> pv_Author p \<in> members cm"
| "msg_ok cm (FinVoteMsg v) \<longleftrightarrow> fv_Author v \<in> members cm"
| "msg_ok cm (HaltMsg h) \<longleftrightarrow> ha_Author h \<in> members cm"

fun pc_safe :: "Committee \<Rightarrow> spb_pc \<Rightarrow> bool" where
  "pc_safe cm (PropEntry p) \<longleftrightarrow> prop_ok p"
| "pc_safe cm (PropQueue p) \<longleftrightarrow> prop_ok p"
| "pc_safe cm (Push m) \<longleftrightarrow> msg_ok cm m"
| "pc_safe cm _ \<longleftrightarrow> True"

text \<open>
  The database reports a missing key with an error of its own, never with \<^verbatim>\<open>store.ErrNotFoundKey\<close>. This is
  so for nutsdb, whose errors \<^verbatim>\<open>store/nutsdb.go\<close> passes on as they are.
\<close>

definition store_ok :: "'db Store \<Rightarrow> bool" where
  "store_ok st \<longleftrightarrow> (\<forall>k db. snd (db_Get (st_ops st) k db) \<noteq> Some ErrNotFoundKey)"

lemma store_ok_Write: "store_ok st \<Longrightarrow> store_ok (snd (Store_Write k v st))"
  by (simp add: store_ok_def)

definition safe_inv :: "'a crypto_scheme \<Rightarrow> Committee \<Rightarrow> 'db Core \<Rightarrow> bool" where
  "safe_inv w cm c \<longleftrightarrow>
     c_Committee c = cm \<and> env_ok w cm (c_SigService c) \<and> c_Name c \<in> members cm \<and> pool_wf (c_TxPool c) \<and>
     el_committee (c_Elector c) = cm \<and> store_ok (c_Store c) \<and>
     (\<forall>m \<in> set (tr_recvCh (c_Transimtor c)). msg_ok cm m) \<and>
     (\<forall>(k, pc) \<in> set (c_tasks c). pc_safe cm pc) \<and>
     (\<forall>e r n s. get3 (c_SPbInstances c) e r n = Some s \<longrightarrow> (\<forall>p \<in> set (s_unHandleProposal s). prop_ok p))"

section \<open>It stays so\<close>

lemma merc_own_msg_ok:
  assumes "own_msg w name sig m" "env_ok w cm sig" "name \<in> members cm"
  shows "msg_ok cm m"
proof (cases m)
  case (ElectShareMsg e)
  then show ?thesis using assms env_share [OF assms(2)] by (cases e) auto
qed (use assms in \<open>auto simp: prop_ok_def\<close>)

lemma merc_spb_step_push:
  "spb_step w pc s c = Some (Some (Push m), spawned, s', c') \<Longrightarrow> own_msg w (c_Name c) (c_SigService c) m"
  by (cases pc) (auto simp: bind_eq_Some_conv Let_def split: if_splits simp del: own_msg.simps intro: merc_own_New)

lemma merc_spb_step_safe:
  assumes "spb_step w pc s c = Some (pc', spawned, s', c')" "pc_safe cm pc"
    "\<forall>p \<in> set (s_unHandleProposal s). prop_ok p" "env_ok w cm (c_SigService c)" "c_Name c \<in> members cm"
  shows "\<forall>p \<in> set (s_unHandleProposal s'). prop_ok p" "\<forall>pc. pc' = Some pc \<longrightarrow> pc_safe cm pc"
    "\<forall>pc \<in> set spawned. pc_safe cm pc"
proof -
  show "\<forall>p \<in> set (s_unHandleProposal s'). prop_ok p" "\<forall>pc \<in> set spawned. pc_safe cm pc"
    using assms(1-3) by (cases pc; auto simp: bind_eq_Some_conv Let_def unhandled_def split: if_splits)+
  have "pc_safe cm pc2" if pc': "pc' = Some pc2" for pc2
  proof (cases pc2)
    case (Push m)
    have "own_msg w (c_Name c) (c_SigService c) m"
      by (rule merc_spb_step_push [OF assms(1) [unfolded pc' Push]])
    then show ?thesis using Push merc_own_msg_ok [OF _ assms(4,5)] by simp
  next
    case (PropQueue p)
    then show ?thesis
      using assms(1,2) pc' by (cases pc) (auto simp: bind_eq_Some_conv Let_def split: if_splits)
  next
    case (PropEntry p)
    then show ?thesis
      using assms(1,2) pc' by (cases pc) (auto simp: bind_eq_Some_conv Let_def split: if_splits)
  qed simp_all
  then show "\<forall>pc. pc' = Some pc \<longrightarrow> pc_safe cm pc" by blast
qed

lemma merc_safe_task:
  assumes "safe_inv w cm c" "i < length (c_tasks c)" "task_step w i c = Some c'"
  shows "safe_inv w cm c'"
  using assms(3,2)
proof (rule merc_task_step_cases)
  fix e r n pc s pc' spawned s' c1
  assume key: "c_tasks c ! i = ((e, r, n), pc)" and s: "get3 (c_SPbInstances c) e r n = Some s"
    and st: "spb_step w pc s c = Some (pc', spawned, s', c1)"
    and ctx: "c1 = c \<or> (\<exists>to m. c1 = c_send to m c \<and> own_msg w (c_Name c) (c_SigService c) m \<and> plain m) \<or>
     (\<exists>m. c1 = c_push m c \<and> (own_msg w (c_Name c) (c_SigService c) m \<or> pc = Push m))"
    and c': "c' = c1\<lparr>c_SPbInstances := put3 (c_SPbInstances c) e r n s',
            c_tasks := take i (c_tasks c) @ (case pc' of None \<Rightarrow> [] | Some pc \<Rightarrow> [((e, r, n), pc)]) @
               drop (Suc i) (c_tasks c) @ map (Pair (e, r, n)) spawned\<rparr>"
  have mem: "((e, r, n), pc) \<in> set (c_tasks c)"
    using key assms(2) by (metis nth_mem)
  have env: "env_ok w cm (c_SigService c)" "c_Name c \<in> members cm" and safe: "pc_safe cm pc"
    "\<forall>p \<in> set (s_unHandleProposal s). prop_ok p"
    using assms(1) s mem by (auto simp: safe_inv_def)
  note step = merc_spb_step_safe [OF st safe env]
  have "set (c_tasks c') \<subseteq> set (c_tasks c) \<union> {((e, r, n), p) | p. pc' = Some p \<or> p \<in> set spawned}"
    using set_take_subset [of i "c_tasks c"] set_drop_subset [of "Suc i" "c_tasks c"]
    by (auto simp: c' split: option.splits)
  then have tasks: "\<forall>(k, pc) \<in> set (c_tasks c'). pc_safe cm pc"
    using assms(1) step(2,3) by (fastforce simp: safe_inv_def)
  have recv: "\<forall>m \<in> set (tr_recvCh (c_Transimtor c1)). msg_ok cm m"
    using ctx assms(1) safe(1) merc_own_msg_ok [OF _ env] by (auto simp: safe_inv_def c_send_def c_push_def)
  have fields: "c_Committee c1 = c_Committee c" "c_SigService c1 = c_SigService c" "c_Name c1 = c_Name c"
    "c_TxPool c1 = c_TxPool c" "c_Elector c1 = c_Elector c" "c_Store c1 = c_Store c"
    using ctx by (auto simp: c_send_def c_push_def)
  show "safe_inv w cm c'"
    using assms(1) tasks recv step(1) fields by (auto simp: safe_inv_def c')
qed

lemma merc_safe_upd: "merc_upd w c c' \<Longrightarrow> safe_inv w cm c \<Longrightarrow> safe_inv w cm c'"
proof (induction rule: merc_upd.induct)
  case (store key val c err st)
  then show ?case using store_ok_Write [of "c_Store c" key val] by (simp add: safe_inv_def)
next
  case (commit b c cm' st)
  then show ?case using Commit_store [OF commit(1)] by (simp add: safe_inv_def)
next
  case (share s c res el)
  then show ?case using merc_AddShareVote_count(1) [of w s "c_Elector c" "fst res" "snd res" el] by (simp add: safe_inv_def)
next
  case (elected s c leader err el el' m)
  then show ?case using merc_AddShareVote_count(1) [OF elected(1)] by (simp add: safe_inv_def c_send_def)
next
  case (get_batch c batch p)
  then show ?case using GetBatch_wf by (auto simp: safe_inv_def)
next
  case (inst c e r n)
  then show ?case by (auto simp: safe_inv_def NewSPB_def)
qed (auto simp: safe_inv_def c_send_def c_push_def c_go_def prop_ok_def intro: merc_own_msg_ok)

interpretation mes: merc_invariant "safe_inv w cm" w "msg_ok cm" for w :: "'a merc_env_scheme" and cm
proof unfold_locales
  show "safe_inv w cm c \<Longrightarrow> merc_upd w c c' \<Longrightarrow> safe_inv w cm c'" for c c' :: "'b Core"
    by (rule merc_safe_upd)
qed (auto simp: merc_safe_task, auto simp: safe_inv_def c_push_def)

section \<open>No handler panics\<close>

lemma merc_Verify_total: "env_ok w cm sig \<Longrightarrow> msg_ok cm m \<Longrightarrow> Verify w cm m \<noteq> None"
  by (cases m) (auto simp: merc_verify_defs go_simps Signature_Verify_total)

text \<open>Under \<open>env_ok\<close> every constructor returns a message.\<close>

lemma merc_New_total:
  assumes "env_ok w cm sig"
  shows "NewSPBProposal w name b e r ph sig \<noteq> None" "NewSPBVote w name n d e r ph sig \<noteq> None"
    "NewFinish w name d e r sig \<noteq> None" "NewDone w name e r t sig \<noteq> None"
    "NewElectShare w name e r t sig \<noteq> None" "NewPrevote w name l e r t fl d sig \<noteq> None"
    "NewFinVote w name l e r t fl d sig \<noteq> None" "NewHalt w name l d e r sig \<noteq> None"
  using assms
  by (simp_all add: merc_new_defs env_ok_def RequestSignature_eq RequestTsSugnature_eq split_beta Let_def)

lemma merc_send_vote_total:
  assumes "env_ok w cm (c_SigService c)"
  shows "send_vote w p d s c \<noteq> None"
  using merc_New_total(2) [OF assms] by (simp add: send_vote_def bind_eq_None_conv)

lemma merc_spb_step_total:
  assumes "env_ok w cm (c_SigService c)" "pc_safe cm pc" "pc_ok n s pc"
  shows "spb_step w pc s c \<noteq> None"
proof (cases pc)
  case (VoteAct v k)
  then show ?thesis
    using assms(3) merc_New_total(1,3) [OF assms(1)] by (simp add: bind_eq_None_conv del: not_None_eq)
next
  case (PropEntry p)
  then show ?thesis using assms(2) by (auto simp: prop_ok_def go_simps)
next
  case (PropStore p)
  then show ?thesis using assms(3) by (auto simp: go_simps Let_def)
qed (use merc_send_vote_total [OF assms(1)] in \<open>simp_all add: Let_def bind_eq_None_conv\<close>)

lemma merc_task_step_total:
  assumes "inst_inv w c" "safe_inv w cm c" "i < length (c_tasks c)"
  shows "task_step w i c \<noteq> None"
proof -
  obtain e r n pc where key: "c_tasks c ! i = ((e, r, n), pc)" by (metis prod.exhaust)
  then have mem: "((e, r, n), pc) \<in> set (c_tasks c)" using assms(3) by (metis nth_mem)
  then obtain s where s: "get3 (c_SPbInstances c) e r n = Some s" "pc_ok n s pc"
    using assms(1) unfolding inst_inv_def by blast
  have "pc_safe cm pc" "env_ok w cm (c_SigService c)"
    using assms(2) mem by (auto simp: safe_inv_def)
  then have "spb_step w pc s c \<noteq> None" using s(2) by (intro merc_spb_step_total)
  then show ?thesis using key s(1) by (auto simp: task_step_def Let_def)
qed

lemma merc_generatorBlock_total:
  assumes "pool_wf (c_TxPool c)"
  shows "generatorBlock e ref c \<noteq> None" "c_SigService (snd (the (generatorBlock e ref c))) = c_SigService c"
  using GetBatch_total [OF assms] by (auto simp: generatorBlock_def)

text \<open>What a handler needs of the state, kept by every update.\<close>

definition live :: "'a merc_env_scheme \<Rightarrow> Committee \<Rightarrow> 'db Core \<Rightarrow> bool" where
  "live w cm c \<longleftrightarrow> inst_inv w c \<and> safe_inv w cm c"

lemma merc_live_upds: "merc_upds w c c' \<Longrightarrow> live w cm c \<Longrightarrow> live w cm c'"
  unfolding live_def using mei.mi_upds [of w c c'] mes.mi_upds [of w c c' cm] by blast

lemma merc_live_env: "live w cm c \<Longrightarrow> env_ok w cm (c_SigService c)"
  and merc_live_pool: "live w cm c \<Longrightarrow> pool_wf (c_TxPool c)"
  and merc_live_lock: "live w cm c \<Longrightarrow> get3 (c_SPbInstances c) e r n = Some s \<Longrightarrow> IsLock s \<Longrightarrow> GetBlockHash s \<noteq> None"
  by (auto simp: live_def safe_inv_def inst_inv_def spb_ok_def IsLock_def GetBlockHash_def)

lemma merc_storeBlock_total: "p \<noteq> None \<Longrightarrow> storeBlock w p c \<noteq> None"
  by (cases p) (auto simp: storeBlock_def go_simps split_beta Let_def split: sum.split)

lemma merc_handleSpbProposal_total: "prop_ok p \<Longrightarrow> handleSpbProposal w p c \<noteq> None"
  using merc_storeBlock_total [of "sp_B p" w]
  by (auto simp: handleSpbProposal_def prop_ok_def bind_eq_None_conv Let_def split_beta merc_Commit_total
      simp del: not_None_eq)

lemma merc_handleSpbVote_total: "handleSpbVote v c \<noteq> None"
  by (simp add: handleSpbVote_def split_beta Let_def)

lemma merc_invokeDoneAndShare_total:
  assumes "live w cm c"
  shows "invokeDoneAndShare w e r t c \<noteq> None"
  using merc_New_total(4,5) [OF merc_live_env [OF assms]]
  by (simp add: invokeDoneAndShare_def merc_hasDone bind_eq_None_conv Let_def split_beta del: not_None_eq)

lemma merc_handleFinish_total:
  assumes "live w cm c"
  shows "handleFinish w f c \<noteq> None"
proof -
  have "invokeDoneAndShare w (fi_Epoch f) (fi_Round f) 0 (c\<lparr>c_Aggreator := snd (AddFinishVote f (c_Aggreator c)),
     c_FinishFlags := m\<rparr>) \<noteq> None" for m
    using merc_New_total(4,5) [OF merc_live_env [OF assms]]
    by (simp add: invokeDoneAndShare_def hasDone_def bind_eq_None_conv Let_def split_beta split: option.split del: not_None_eq)
  then show ?thesis by (simp add: handleFinish_def Let_def split_beta del: not_None_eq)
qed

lemma merc_live_inst_lock:
  assumes "live w cm c" "IsLock (fst (getSpbInstance e r n c))"
  shows "GetBlockHash (fst (getSpbInstance e r n c)) \<noteq> None"
proof (rule merc_live_lock [OF _ merc_getSpbInstance_get])
  show "live w cm (snd (getSpbInstance e r n c))"
    using assms(1) by (rule merc_live_upds [rotated]) (simp add: merc_getSpbInstance_upds)
qed (rule assms(2))

lemma merc_processLeader_total:
  assumes "live w cm c"
  shows "processLeader w e r t c \<noteq> None"
proof -
  let ?c2 = "snd (c_Leader e r (snd (hasReady e r t c)))"
  have "live w cm ?c2"
    using assms by (rule merc_live_upds [rotated]) (simp add: merc_c_Leader_upds merc_hasReady_upds)
  note lock = merc_live_inst_lock [OF this]
  show ?thesis
    using merc_New_total(6,8) [OF merc_live_env [OF assms]] lock
    by (simp add: processLeader_def bind_eq_None_conv Let_def split_beta del: not_None_eq)
qed

lemma merc_handleDone_total:
  assumes "live w cm c"
  shows "handleDone w d c \<noteq> None"
proof -
  have "live w cm (c\<lparr>c_Aggreator := snd (AddDoneVote d (c_Aggreator c))\<rparr>)"
    by (rule merc_live_upds [OF merc_intros(8) assms]) simp
  note tot = merc_invokeDoneAndShare_total [OF this]
  then show ?thesis by (simp add: handleDone_def Let_def split_beta del: not_None_eq)
qed

lemma merc_ElectAggreator_Append_total:
  assumes "env_ok w cm sig'"
  shows "ElectAggreator_Append w cm sig share e \<noteq> None"
proof -
  have "coin_loop RANDOM_LEN 0 coin 0 \<noteq> None"
    if "CombineIntactTSPartial w shares key d = (coin, None)" for shares key d coin
    using that assms coin_loop_Some [of 0 RANDOM_LEN coin 0]
    by (auto simp: env_ok_def CombineIntactTSPartial_def)
  then show ?thesis
    using assms
    by (auto simp: ElectAggreator_Append_def Let_def bind_eq_None_conv env_ok_def Committee_Size_def
        split: prod.split option.split simp del: not_None_eq)
qed

lemma merc_handleElectShare_total:
  assumes "live w cm c"
  shows "handleElectShare w share c \<noteq> None"
proof -
  have cm: "el_committee (c_Elector c) = cm"
    using assms by (simp add: live_def safe_inv_def)
  have "processLeader w e r t (c\<lparr>c_Elector := el\<rparr>) \<noteq> None"
    if "AddShareVote w share (c_Elector c) = Some (res, el)" for e r t res el
    using assms that by (intro merc_processLeader_total merc_live_upds [OF merc_intros(10)]) auto
  moreover have "AddShareVote w share (c_Elector c) \<noteq> None"
    using merc_ElectAggreator_Append_total [OF merc_live_env [OF assms]]
    by (auto simp: AddShareVote_def cm bind_eq_None_conv Let_def split_beta simp del: not_None_eq)
  then obtain node err el where "AddShareVote w share (c_Elector c) = Some ((node, err), el)"
    by (metis not_None_eq prod.exhaust)
  ultimately show ?thesis
    by (simp add: handleElectShare_def Let_def bind_eq_None_conv split_beta del: not_None_eq)
qed

lemma merc_handlePrevote_total:
  assumes "live w cm c"
  shows "handlePrevote w pv c \<noteq> None"
  using merc_New_total(7) [OF merc_live_env [OF assms]]
  by (simp add: handlePrevote_def Let_def bind_eq_None_conv split_beta del: not_None_eq)

lemma merc_advanceNextRound_total:
  assumes "live w cm c"
  shows "advanceNextRound w e r fl d c \<noteq> None"
  using merc_New_total(1) [OF merc_live_env [OF assms]] merc_live_pool [OF assms]
  by (auto simp: advanceNextRound_def Let_def bind_eq_None_conv split_beta merc_generatorBlock_total
      split: option.split simp del: not_None_eq)

lemma merc_handleFinvote_total:
  assumes "live w cm c"
  shows "handleFinvote w fv c \<noteq> None"
proof -
  have "live w cm (c\<lparr>c_Aggreator := snd (AddFinVote fv (c_Aggreator c))\<rparr>)"
    by (rule merc_live_upds [OF merc_intros(8) assms]) simp
  note tot = merc_advanceNextRound_total [OF this] merc_invokeDoneAndShare_total [OF this]
  then show ?thesis
    using merc_New_total(8) [OF merc_live_env [OF assms]]
    by (simp add: handleFinvote_def Let_def bind_eq_None_conv split_beta del: not_None_eq)
qed

text \<open>A block that is missing comes with an error, so no nil block is committed.\<close>

lemma merc_getBlock_nil:
  assumes "store_ok (c_Store c)" "snd (fst (getBlock w d c)) = None"
  shows "fst (fst (getBlock w d c)) \<noteq> None"
proof -
  obtain val err where rd: "db_Get (st_ops (c_Store c)) d (st_db (c_Store c)) = (val, err)" by (metis prod.exhaust)
  then have "err \<noteq> Some ErrNotFoundKey" using assms(1) unfolding store_ok_def by (metis snd_conv)
  then show ?thesis
    using assms(2) rd by (cases "Block_Decode w val") (auto simp: getBlock_def Store_Read_eq split: if_splits)
qed

lemma merc_handleOutput_total: "store_ok (c_Store c) \<Longrightarrow> handleOutput w e d c \<noteq> None"
  using merc_Commit_total [OF merc_getBlock_nil [of c w d]]
  by (auto simp: handleOutput_def Let_def bind_eq_None_conv split_beta simp del: not_None_eq)

lemma merc_advanceNextEpoch_total:
  assumes "live w cm c"
  shows "advanceNextEpoch w (i64 (e + 1)) ref (c\<lparr>c_HaltFlags := finsert e (c_HaltFlags c)\<rparr>) \<noteq> None"
  using merc_New_total(1) [OF merc_live_env [OF assms]] merc_live_pool [OF assms]
  by (simp add: advanceNextEpoch_def Let_def bind_eq_None_conv split_beta merc_generatorBlock_total del: not_None_eq)

lemma merc_handleHalt_total:
  assumes "live w cm c"
  shows "handleHalt w h c \<noteq> None"
proof -
  let ?c = "c\<lparr>c_Elector := SetLeader (ha_Epoch h) (ha_Round h) (ha_Leader h) (c_Elector c)\<rparr>"
  have upds: "merc_upds w c ?c" by (rule merc_intros(9)) simp_all
  have "store_ok (c_Store ?c)" using assms by (simp add: live_def safe_inv_def)
  then obtain err c1 where out: "handleOutput w (ha_Epoch h) (ha_BlockHash h) ?c = Some (err, c1)"
    using merc_handleOutput_total [of ?c w "ha_Epoch h" "ha_BlockHash h"] by auto
  have "live w cm c1"
    by (rule merc_live_upds [OF merc_handleOutput_upds [OF out upds] assms])
  then show ?thesis
    using merc_advanceNextEpoch_total [of w cm c1 "ha_Epoch h"] out
    by (simp add: handleHalt_def Let_def bind_eq_None_conv del: not_None_eq)
qed

lemma merc_handle_total:
  assumes "live w cm c" "msg_ok cm m"
  shows "handle w m c \<noteq> None"
proof (cases m)
  case (SPBProposalMsg p)
  then show ?thesis using assms(2) merc_handleSpbProposal_total [of p w c] by simp
next
  case (ElectShareMsg e)
  then obtain share where "m = ElectShareMsg (Some share)" using assms(2) by auto
  then show ?thesis using merc_handleElectShare_total [OF assms(1), of share] by (simp add: go_simps)
qed (simp_all add: merc_handleSpbVote_total merc_handleFinish_total [OF assms(1)] merc_handleDone_total [OF assms(1)]
      merc_handlePrevote_total [OF assms(1)] merc_handleFinvote_total [OF assms(1)] merc_handleHalt_total [OF assms(1)] del: not_None_eq)

lemma merc_live_no_panic:
  assumes "live w cm c"
  shows "\<not> panics w c"
proof -
  have "Run_turn w c \<noteq> None"
  proof (cases "tr_recvCh (c_Transimtor c)")
    case Nil
    then show ?thesis by (simp add: Run_turn_def Transmitor_Recv_def)
  next
    case (Cons m ms)
    let ?c = "c\<lparr>c_Transimtor := (c_Transimtor c)\<lparr>tr_recvCh := ms\<rparr>\<rparr>"
    have ok: "msg_ok cm m" and live: "live w cm ?c" and cm: "c_Committee c = cm"
      using assms Cons mei.mi_recv [of w c m ms] mes.mi_recv [of w cm c m ms] by (auto simp: live_def safe_inv_def)
    show ?thesis
      using merc_Verify_total [OF merc_live_env [OF assms] ok] merc_handle_total [OF live ok] cm
      by (simp add: Run_turn_def Transmitor_Recv_def Cons dispatch_def bind_eq_None_conv del: not_None_eq)
  qed
  then show ?thesis
    using assms merc_task_step_total [of w c cm] by (auto simp: panics_def live_def simp del: not_None_eq)
qed

end
