(* ===== verification/Merc_Properties.thy ===== *)
theory Merc_Properties
  imports Merc_Safety Samples
begin

text \<open>
  The properties of the Mercury protocol: of a running node in any interleaving, of its log, of its
  election, and of a halt message for a block that it does not have.
\<close>

section \<open>A concrete node\<close>

definition ctoy_block :: Block where
  "ctoy_block = \<lparr>b_Proposer = 0, b_Batch = \<lparr>bt_ID = 0, bt_Txs = Some [[]]\<rparr>, b_Epoch = 0, b_Reference = []\<rparr>"

definition ctoy_env :: merc_env where
  "ctoy_env = crypto.extend toy_crypto
     \<lparr>env_gob = \<lparr>gob_Encode = (\<lambda>b. Inr []), gob_Decode = (\<lambda>bs. Inr ctoy_block)\<rparr>\<rparr>"

definition ctoy_core :: "(bytes \<rightharpoonup> bytes) Core" where
  "ctoy_core = NewCore 0 four DefaultParameters toy_sig toy_store toy_pool (NewTransmitor DefaultParameters four)"

datatype cact = Deliver merc_msg | Turn

fun cplay :: "'a merc_env_scheme \<Rightarrow> cact list \<Rightarrow> 'db Core \<Rightarrow> 'db Core option" where
  "cplay w [] c = Some c"
| "cplay w (Deliver m # as) c = cplay w as (c_push m c)"
| "cplay w (Turn # as) c = do { (err, c) \<leftarrow> Run_turn w c; cplay w as c }"

lemma cplay_steps_net:
  "cplay w as c = Some c' \<Longrightarrow> (\<And>m. Deliver m \<in> set as \<Longrightarrow> net m) \<Longrightarrow> merc_steps w net c c'"
proof (induction as arbitrary: c)
  case (Cons a as)
  obtain c1 where c1: "merc_step w net c c1" "cplay w as c1 = Some c'"
    using Cons.prems by (cases a) (auto simp: bind_eq_Some_conv intro: merc_step.intros)
  then show ?case using Cons.IH Cons.prems(2) by (meson converse_rtranclp_into_rtranclp list.set_intros(2))
qed simp

lemma cplay_steps: "cplay w as c = Some c' \<Longrightarrow> merc_steps w (\<lambda>_. True) c c'"
  by (rule cplay_steps_net) simp_all

lemma cplay_reach:
  assumes "merc_steps w net c c'" "merc_reach w net c0 c"
  shows "merc_reach w net c0 c'"
  using assms by (induction rule: rtranclp_induct) (auto intro: merc_reach.step)

text \<open>The node stores its own block and gets a halt for it; or three shares elect the leader.\<close>

definition ctoy_halt :: merc_msg where
  "ctoy_halt = HaltMsg (the (NewHalt ctoy_env 1 0 (Block_Hash ctoy_env ctoy_block) 0 0 toy_sig))"

definition ctoy_lost :: Halt where
  "ctoy_lost = the (NewHalt ctoy_env 1 0 [1] 0 0 toy_sig)"

definition ctoy_share :: "NodeID \<Rightarrow> merc_msg" where
  "ctoy_share i = ElectShareMsg (fst (the (NewElectShare ctoy_env i 0 0 0 toy_sig)))"

definition ctoy_start :: "(bytes \<rightharpoonup> bytes) Core" where
  "ctoy_start = the (Run_start ctoy_env ctoy_core)"

definition ctoy_mid :: "(bytes \<rightharpoonup> bytes) Core" where
  "ctoy_mid = the (cplay ctoy_env [Turn] ctoy_start)"

definition ctoy_log :: "(bytes \<rightharpoonup> bytes) Core" where
  "ctoy_log = the (cplay ctoy_env [Deliver ctoy_halt, Turn] ctoy_mid)"

definition ctoy_vote :: "(bytes \<rightharpoonup> bytes) Core" where
  "ctoy_vote = the (cplay ctoy_env [Deliver (ctoy_share 1), Turn, Deliver (ctoy_share 2), Turn,
     Deliver (ctoy_share 3), Turn] ctoy_mid)"

definition ctoy_dn :: "NodeID \<Rightarrow> merc_msg" where
  "ctoy_dn i = DoneMsg (the (NewDone ctoy_env i 0 0 5 toy_sig))"

definition ctoy_done :: "(bytes \<rightharpoonup> bytes) Core" where
  "ctoy_done = the (cplay ctoy_env [Deliver (ctoy_dn 1), Turn, Deliver (ctoy_dn 2), Turn] ctoy_mid)"

lemma ctoy_runs:
  "case Run_start ctoy_env ctoy_core of None \<Rightarrow> False
   | Some c \<Rightarrow> (case cplay ctoy_env [Turn] c of None \<Rightarrow> False
      | Some c \<Rightarrow> fst (Store_Read (Block_Hash ctoy_env ctoy_block) (c_Store c)) = ([], None) \<and>
         cm_Index (c_Commitor c) = 0 \<and>
        (case cplay ctoy_env [Deliver ctoy_halt, Turn] c of None \<Rightarrow> False
         | Some c \<Rightarrow> cm_commitCh (c_Commitor c) = [ctoy_block] \<and> cm_Index (c_Commitor c) = 1) \<and>
        (case cplay ctoy_env [Deliver (ctoy_share 1), Turn, Deliver (ctoy_share 2), Turn,
              Deliver (ctoy_share 3), Turn] c of None \<Rightarrow> False
         | Some c \<Rightarrow> elected 0 0 c \<and> sent (is_prevote 0 0) c = 0 \<and> leader_of (c_Elector c) 0 0 = 3) \<and>
        (case cplay ctoy_env [Deliver (ctoy_dn 1), Turn, Deliver (ctoy_dn 2), Turn] c of None \<Rightarrow> False
         | Some c \<Rightarrow> get3 (c_DoneFlags c) 0 0 5 = Some ()))"
  by code_simp

lemma ctoy_mid: "Run_start ctoy_env ctoy_core = Some ctoy_start" "cplay ctoy_env [Turn] ctoy_start = Some ctoy_mid"
  using ctoy_runs by (auto simp: ctoy_start_def ctoy_mid_def split: option.splits)


lemma ctoy_log: "cplay ctoy_env [Deliver ctoy_halt, Turn] ctoy_mid = Some ctoy_log"
  "cm_commitCh (c_Commitor ctoy_log) = [ctoy_block]" "cm_Index (c_Commitor ctoy_log) = 1"
  using ctoy_runs unfolding ctoy_mid option.case ctoy_log_def by (auto split: option.splits)

lemma ctoy_vote: "cplay ctoy_env [Deliver (ctoy_share 1), Turn, Deliver (ctoy_share 2), Turn,
     Deliver (ctoy_share 3), Turn] ctoy_mid = Some ctoy_vote"
  "elected 0 0 ctoy_vote" "sent (is_prevote 0 0) ctoy_vote = 0" "leader_of (c_Elector ctoy_vote) 0 0 = 3"
  using ctoy_runs unfolding ctoy_mid option.case ctoy_vote_def by (auto split: option.splits)

lemma ctoy_done: "cplay ctoy_env [Deliver (ctoy_dn 1), Turn, Deliver (ctoy_dn 2), Turn] ctoy_mid = Some ctoy_done"
  "get3 (c_DoneFlags ctoy_done) 0 0 5 = Some ()"
  using ctoy_runs unfolding ctoy_mid option.case ctoy_done_def by (auto split: option.splits)

lemma ctoy_reach:
  "merc_reach ctoy_env (\<lambda>_. True) ctoy_core ctoy_mid" "merc_reach ctoy_env (\<lambda>_. True) ctoy_core ctoy_log"
  "merc_reach ctoy_env (\<lambda>_. True) ctoy_core ctoy_vote" "merc_reach ctoy_env (\<lambda>_. True) ctoy_core ctoy_done"
proof -
  show mid: "merc_reach ctoy_env (\<lambda>_. True) ctoy_core ctoy_mid"
    by (rule cplay_reach [OF cplay_steps [OF ctoy_mid(2)] merc_reach.start [OF ctoy_mid(1)]])
  show "merc_reach ctoy_env (\<lambda>_. True) ctoy_core ctoy_log" "merc_reach ctoy_env (\<lambda>_. True) ctoy_core ctoy_vote"
    "merc_reach ctoy_env (\<lambda>_. True) ctoy_core ctoy_done"
    using mid cplay_reach cplay_steps ctoy_log(1) ctoy_vote(1) ctoy_done(1) by blast+
qed

lemmas ctoy_reach_New = ctoy_reach [unfolded ctoy_core_def]

section \<open>A running node\<close>

text \<open>C5: A Mercury node that starts with a fresh state and a pool made by \<^verbatim>\<open>NewPool\<close>, whose keys have the sizes
  ed25519 demands, whose threshold library signs and recovers at least three bytes, and whose database
  has an error of its own for a missing key, never panics, neither in its main loop nor in a goroutine, in any
  interleaving, as long as the network delivers messages whose authors are members, whose proposals of
  the first phase have a block and whose shares are not nil.\<close>

theorem merc_no_panic:
  assumes "env_ok w cm sig" "name \<in> members cm" "NewPool ppar N i = Some pool" "store_ok st"
    and "merc_reach w (msg_ok cm) (NewCore name cm par sig st pool (NewTransmitor par cm)) c"
  shows "\<not> panics w c"
proof -
  let ?c0 = "NewCore name cm par sig st pool (NewTransmitor par cm)"
  have "inst_inv w ?c0" by (simp add: inst_inv_def NewCore_def)
  moreover have "safe_inv w cm ?c0"
    using assms(1,2,4) pool_wf_New [OF assms(3)]
    by (simp add: safe_inv_def NewCore_def NewElector_def NewTransmitor_def)
  ultimately have "live w cm c"
    using mei.mi_reach [OF assms(5)] mes.mi_reach [OF assms(5)] by (simp add: live_def)
  then show ?thesis by (rule merc_live_no_panic)
qed

text \<open>A node over such a database that takes its own proposal and a halt message for a block that it lacks.\<close>

definition ctoy_store :: "(bytes \<rightharpoonup> bytes) Store" where
  "ctoy_store = NewStore (map_DB (ErrExt ''key not found'')) Map.empty"

definition ctoy_safe :: "(bytes \<rightharpoonup> bytes) Core" where
  "ctoy_safe = NewCore 0 four DefaultParameters toy_sig ctoy_store toy_pool (NewTransmitor DefaultParameters four)"

definition ctoy_left :: "(bytes \<rightharpoonup> bytes) Core" where
  "ctoy_left = the (cplay ctoy_env [Turn, Deliver (HaltMsg ctoy_lost), Turn] (the (Run_start ctoy_env ctoy_safe)))"

lemma ctoy_left_runs:
  "case Run_start ctoy_env ctoy_safe of None \<Rightarrow> False
   | Some c \<Rightarrow> (case cplay ctoy_env [Turn, Deliver (HaltMsg ctoy_lost), Turn] c of None \<Rightarrow> False
      | Some c \<Rightarrow> c_Epoch c = 1 \<and> length (c_tasks c) = 1)"
  by code_simp

lemma ctoy_left:
  "merc_reach ctoy_env (msg_ok four) ctoy_safe ctoy_left" "c_Epoch ctoy_left = 1" "length (c_tasks ctoy_left) = 1"
proof -
  obtain c where c: "Run_start ctoy_env ctoy_safe = Some c"
    "cplay ctoy_env [Turn, Deliver (HaltMsg ctoy_lost), Turn] c = Some ctoy_left"
    using ctoy_left_runs by (auto simp: ctoy_left_def split: option.splits)
  have "msg_ok four (HaltMsg ctoy_lost)" by code_simp
  then have "merc_steps ctoy_env (msg_ok four) c ctoy_left" by (intro cplay_steps_net [OF c(2)]) auto
  then show "merc_reach ctoy_env (msg_ok four) ctoy_safe ctoy_left"
    by (rule cplay_reach) (rule merc_reach.start [OF c(1)])
  show "c_Epoch ctoy_left = 1" "length (c_tasks ctoy_left) = 1"
    using ctoy_left_runs unfolding c option.case by blast+
qed

lemma ctoy_env_ok: "env_ok ctoy_env four toy_sig" "store_ok ctoy_store"
  using four_keys
  by (simp_all add: env_ok_def four_def [THEN arg_cong [where f = Authorities]] toy_sig_def PrivateKeySize_def
      RANDOM_LEN_def ctoy_env_def crypto.defs toy_crypto_def store_ok_def ctoy_store_def NewStore_def map_DB_def split: option.split)

theorem merc_no_panic_witness:
  "env_ok ctoy_env four toy_sig \<and> store_ok ctoy_store \<and> merc_reach ctoy_env (msg_ok four) ctoy_safe ctoy_left \<and>
   c_Epoch ctoy_left = 1 \<and> length (c_tasks ctoy_left) = 1 \<and> \<not> panics ctoy_env ctoy_left"
proof -
  have "\<not> panics ctoy_env ctoy_left"
    by (rule merc_no_panic [OF ctoy_env_ok(1) _ toy_pool_New ctoy_env_ok(2) ctoy_left(1) [unfolded ctoy_safe_def]])
       (simp add: four_members)
  then show ?thesis using ctoy_env_ok ctoy_left by simp
qed

section \<open>The log\<close>






section \<open>Messages\<close>

text \<open>C24: In every reachable state a Mercury node has sent exactly one \<^verbatim>\<open>Done\<close> for each epoch, round and try whose
  done flag is set, and none for any other.\<close>

theorem merc_done_once:
  assumes "merc_reach w net (NewCore name cm par sig st pool (NewTransmitor par' cm')) c"
  shows "sent (is_done_try e r t) c = (if get3 (c_DoneFlags c) e r t = None then 0 else 1)"
proof -
  have "merc_done_inv (NewCore name cm par sig st pool (NewTransmitor par' cm'))"
    by (simp add: merc_done_inv_def sent_def NewCore_def NewTransmitor_def)
  then have "merc_done_inv c" by (rule med.mi_reach [OF assms])
  then show ?thesis by (simp add: merc_done_inv_def)
qed

theorem merc_done_once_witness:
  "merc_reach ctoy_env (\<lambda>_. True) ctoy_core ctoy_done \<and> sent (is_done_try 0 0 5) ctoy_done = 1"
  using merc_done_once [OF ctoy_reach_New(4), of 0 0 5] ctoy_reach(4) ctoy_done(2) by simp



text \<open>C36: A halt message of the current or a later epoch that passes the signature check and names a block
  that the store cannot give is believed, if the epoch has not halted. If the store says \<^verbatim>\<open>ErrNotFoundKey\<close>, the main
  loop panics: \<^verbatim>\<open>getBlock\<close> returns nil without an error, and \<^verbatim>\<open>handleOutput\<close> commits it. With any other error,
  which \<^verbatim>\<open>handleHalt\<close> ignores, the node leaves the epoch and commits nothing for it.\<close>

theorem merc_lost_block:
  assumes "tr_recvCh (c_Transimtor c) = HaltMsg h # ms" "Verify w (c_Committee c) (HaltMsg h) = Some True"
    and "c_Epoch c \<le> ha_Epoch h" "ha_Epoch h |\<notin>| c_HaltFlags c" "is_i64 (ha_Epoch h)" "ha_Epoch h < 2 ^ 63 - 1"
    and "snd (fst (Store_Read (ha_BlockHash h) (c_Store c))) = Some err"
    and "pool_wf (c_TxPool c)" "length (Prikey (ss_PriKey (c_SigService c))) = PrivateKeySize"
  shows "if err = ErrNotFoundKey then Run_turn w c = None
    else \<exists>c'. Run_turn w c = Some (None, c') \<and> c_Epoch c' = ha_Epoch h + 1 \<and> ha_Epoch h |\<in>| c_HaltFlags c' \<and>
      c_Commitor c' = c_Commitor c"
proof -
  have get: "getBlock w (ha_BlockHash h) c' = ((None, if err = ErrNotFoundKey then None else Some err), c')"
    if "c_Store c' = c_Store c" for c'
    using assms(7) that by (auto simp: getBlock_def Store_Read_eq split: prod.splits)
  obtain b p where pool: "GetBatch (c_TxPool c) = Some (b, p)" using GetBatch_total [OF assms(8)] by blast
  have succ: "i64 (ha_Epoch h + 1) = ha_Epoch h + 1" using assms(5,6) by (rule i64_succ)
  show ?thesis
    using assms(1-4,9) get pool succ
    by (auto simp: Run_turn_def Transmitor_Recv_def dispatch_def handleHalt_def messgaeFilter_def handleOutput_def
        Commit_def nonnil_def advanceNextEpoch_def generatorBlock_def NewSPBProposal_def RequestSignature_eq Let_def
        c_push_def c_send_def)
qed

lemma ctoy_lost_facts:
  "Verify ctoy_env four (HaltMsg ctoy_lost) = Some True" "ha_Epoch ctoy_lost = 0"
  "snd (fst (Store_Read (ha_BlockHash ctoy_lost) toy_store)) = Some ErrNotFoundKey"
  "snd (fst (Store_Read (ha_BlockHash ctoy_lost) (NewStore (map_DB (ErrExt ''key not found'')) Map.empty))) = Some (ErrExt ''key not found'')"
  by code_simp+

definition ctoy_other :: "(bytes \<rightharpoonup> bytes) Core" where
  "ctoy_other = c_push (HaltMsg ctoy_lost) (ctoy_core\<lparr>c_Store := NewStore (map_DB (ErrExt ''key not found'')) Map.empty\<rparr>)"

theorem merc_lost_block_witness:
  "Run_turn ctoy_env (c_push (HaltMsg ctoy_lost) ctoy_core) = None \<and>
   (\<exists>c'. Run_turn ctoy_env ctoy_other = Some (None, c') \<and> c_Epoch c' = 1)"
proof -
  have "if ErrNotFoundKey = ErrNotFoundKey then Run_turn ctoy_env (c_push (HaltMsg ctoy_lost) ctoy_core) = None
    else \<exists>c'. Run_turn ctoy_env (c_push (HaltMsg ctoy_lost) ctoy_core) = Some (None, c') \<and>
      c_Epoch c' = ha_Epoch ctoy_lost + 1 \<and> ha_Epoch ctoy_lost |\<in>| c_HaltFlags c' \<and>
      c_Commitor c' = c_Commitor (c_push (HaltMsg ctoy_lost) ctoy_core)"
    by (rule merc_lost_block [where ms = "[]"])
       (use ctoy_lost_facts pool_wf_New [OF toy_pool_New] in \<open>simp_all add: c_push_def ctoy_core_def NewCore_def
          NewTransmitor_def RecvChannel_push_def is_i64_def toy_sig_def PrivateKeySize_def\<close>)
  moreover have "if ErrExt ''key not found'' = ErrNotFoundKey then Run_turn ctoy_env ctoy_other = None
    else \<exists>c'. Run_turn ctoy_env ctoy_other = Some (None, c') \<and> c_Epoch c' = ha_Epoch ctoy_lost + 1 \<and>
      ha_Epoch ctoy_lost |\<in>| c_HaltFlags c' \<and> c_Commitor c' = c_Commitor ctoy_other"
    by (rule merc_lost_block [where ms = "[]"])
       (use ctoy_lost_facts pool_wf_New [OF toy_pool_New] in \<open>simp_all add: ctoy_other_def c_push_def ctoy_core_def NewCore_def
          NewTransmitor_def RecvChannel_push_def is_i64_def toy_sig_def PrivateKeySize_def\<close>)
  ultimately show ?thesis using ctoy_lost_facts(2) by auto
qed

end
