(* ===== verification/Spec2Isabelle.thy ===== *)
theory Spec2Isabelle
  imports Base_Properties Smvba_Properties Vaba_Properties Mvba_Properties Merc_Properties
begin

text \<open>
  \<^bold>\<open>Verification of the BFT-MVBA node.\<close>

  \<^bold>\<open>The program.\<close> A node of a Byzantine fault tolerant replicated log, written in Go. It has a base
  that all protocols share: keys, signatures and a signing service (\<^verbatim>\<open>crypto/crypto.go\<close>), the files a
  node is configured with (\<^verbatim>\<open>config/config.go\<close>), the committee and its vote thresholds
  (\<^verbatim>\<open>core/config.go\<close>), the network and its codec (\<^verbatim>\<open>network/\<close>, \<^verbatim>\<open>core/transmitor.go\<close>), the transaction
  pool (\<^verbatim>\<open>pool/\<close>) and the key-value store (\<^verbatim>\<open>store/\<close>). On it run four protocols, each in its own
  directory \<^verbatim>\<open>core/<protocol>/consensus/\<close>: SMVBA, VABA, MVBA and Mercury. Each has messages that are
  hashed, signed and checked; aggregators that count votes up to a threshold; an elector that turns
  threshold signature shares into a leader by a common coin; a committor that puts decided blocks into
  the order of their epochs; a broadcast (SPB for SMVBA and Mercury, promote for VABA, CBC for MVBA)
  and in MVBA a binary agreement (ABA); and a core, whose main loop takes one message after another
  from the receive channel, checks it and calls its handler. The cores start the methods of the
  broadcasts and agreements in goroutines of their own, which run beside the main loop.

  \<^bold>\<open>How Go is read.\<close>
  \<^item> A call that can panic returns \<open>'a option\<close>, with \<open>None\<close> for the panic; a Go \<^verbatim>\<open>error\<close> is a value of type
    \<open>error option\<close> beside the state the call leaves. A pointer that may be nil is an option too, and
    \<open>nonnil\<close> is its dereference.
  \<^item> \<^verbatim>\<open>int\<close> and \<^verbatim>\<open>int64\<close> are \<open>int\<close>, with \<open>i64\<close> written where an addition can wrap around at 64 bits; a \<^verbatim>\<open>uint8\<close> is a
    byte. Nested Go maps are nested partial maps with \<open>get2\<close>, \<open>put2\<close>, \<open>get3\<close>, \<open>put3\<close> and \<open>ensure\<close> of \<^verbatim>\<open>Prelude\<close>;
    the maps that a loop empties are finite maps, so that the loop is a total function.
  \<^item> A channel is the list of what is in it. The channel to the sender, \<open>tr_msgCh\<close>, and the channel to the
    application, \<open>cm_commitCh\<close>, keep everything that was ever put into them, so they are the logs of what a
    node has sent and committed.
  \<^item> A handler takes the record of the core and returns it updated. \<^verbatim>\<open>go f()\<close> adds an entry to the list of
    goroutines in the core. A goroutine is cut into atomic pieces (one atomic load or store, one section under a
    mutex, one channel operation each), and a step relation of each protocol (\<open>smvba_step\<close>, \<open>vaba_step\<close>,
    \<open>mvba_step\<close>, \<open>merc_step\<close>) interleaves the turns of the main loop, the pieces of the goroutines and the
    delivery of any message that a predicate \<open>net\<close> allows. The reachable states are those after \<^verbatim>\<open>Run\<close> has
    made its first proposal and any number of steps.

  \<^bold>\<open>The theories of the base.\<close>
  \<^item> \<^verbatim>\<open>Prelude\<close>: types, 64-bit arithmetic, nested maps and the locale \<open>table\<close> of what its clients use of such a map.
  \<^item> \<^verbatim>\<open>Crypto\<close>, \<^verbatim>\<open>Ts_Keys\<close>: \<^verbatim>\<open>crypto/crypto.go\<close>: hasher, signatures, signing service, the hexadecimal form of keys,
    the JSON form of threshold keys (locales \<open>round_trip\<close> and \<open>round_trip_chain\<close>).
  \<^item> \<^verbatim>\<open>Committee\<close>: \<^verbatim>\<open>core/config.go\<close> and \<^verbatim>\<open>core/error.go\<close>, with quorum intersection in the locale \<open>quorums\<close>.
  \<^item> \<^verbatim>\<open>Network\<close>: codec, connection reader, sender and transmitter. \<^verbatim>\<open>Pool\<close>, \<^verbatim>\<open>Store\<close>: the pool and the store with
    its nutsdb adapter. \<^verbatim>\<open>Config\<close>: \<^verbatim>\<open>config/config.go\<close>, the file system a map from names to contents.
  \<^item> \<^verbatim>\<open>Vote_Counting\<close> (locales \<open>vote_counter\<close>, \<open>quorum_counter\<close>) and \<^verbatim>\<open>Commit_Order\<close> (locale \<open>reorder_buffer\<close>): the contracts
    of the aggregators and of the committors, and what follows from them for any history of calls.
    \<^verbatim>\<open>Protocol_Base\<close>: the coin and what a node relies on. \<^verbatim>\<open>Samples\<close>: a concrete instance of the parameters.
  \<^item> \<^verbatim>\<open>Base_Properties\<close>: the thresholds overlap in a correct member exactly for committees of 3f+1; key, threshold
    key and committee files are read back as they were written; a broadcast reaches every other member exactly
    once and in order; batch numbers are unique.

  \<^bold>\<open>The theories of a protocol.\<close> \<^verbatim>\<open>Smvba_\<close>, \<^verbatim>\<open>Vaba_\<close>, \<^verbatim>\<open>Mvba_\<close> and \<^verbatim>\<open>Merc_\<close> (Mercury) have one theory per source file, with
  the definitions under the names of the source: \<^verbatim>\<open>Message\<close> (\<^verbatim>\<open>message.go\<close>), \<^verbatim>\<open>Aggreator\<close>, \<^verbatim>\<open>Elector\<close> (of VABA in
  \<^verbatim>\<open>Vaba_Aggreator\<close>), \<^verbatim>\<open>Commitor\<close>, the broadcast (\<^verbatim>\<open>Smvba_Spb\<close>, \<^verbatim>\<open>Vaba_Promote\<close>, \<^verbatim>\<open>Mvba_Cbc\<close>, \<^verbatim>\<open>Mvba_Aba\<close>, \<^verbatim>\<open>Merc_Spb\<close>) and
  \<^verbatim>\<open>Core\<close> (\<^verbatim>\<open>core.go\<close>: state, helpers, every handler, dispatch, one turn of the loop). Then come:
  \<^item> \<^verbatim>\<open>Effects\<close>: an inductive relation of the single updates of the core; every handler is a sequence of them.
  \<^item> \<^verbatim>\<open>Node\<close>: the interleaving, and a locale (\<open>core_invariant\<close>, \<open>vaba_invariant\<close>, \<open>mvba_invariant\<close>, \<open>merc_invariant\<close>) that
    turns a property kept by the single updates into one of all reachable states; it is interpreted once for each
    invariant.
  \<^item> \<^verbatim>\<open>Safety\<close> (SMVBA, VABA, Mercury): no handler and no goroutine panics. \<^verbatim>\<open>Mvba_Agreement\<close>: agreement of the binary
    agreement over the handled votes of several nodes. \<^verbatim>\<open>Mvba_Progress\<close>: goroutines end, and what a node cannot do
    any more. \<^verbatim>\<open>Smvba_Parts\<close>: properties of single parts of SMVBA. \<^verbatim>\<open>Properties\<close> (and \<^verbatim>\<open>Samples\<close>): the theorems, each
    with a run of a concrete node on which it is used.

  \<^bold>\<open>What is shown of the protocols.\<close>
  \<^item> \<^emph>\<open>No panic.\<close> An SMVBA, VABA or Mercury node never panics, in any interleaving, if the delivered messages have members
    as authors and the fields that the code dereferences unchecked are present. What happens without these
    conditions is shown as well, for votes of a negative phase (VABA) and for missing blocks (Mercury).
  \<^item> \<^emph>\<open>The log.\<close> Blocks leave in the order of their epochs without gap or repetition (SMVBA, VABA); nothing is taken
    back and the epoch never decreases (VABA, MVBA, Mercury); the log of Mercury refines the specification \<open>allowed\<close>, and
    every stored block that a committed one lists is in it.
  \<^item> \<^emph>\<open>Agreement.\<close> Final votes of SMVBA cannot commit at one node and reject at another; a decided MVBA agreement fixes
    the value every other node sees under the same coin; two nodes elect the same leader.
  \<^item> \<^emph>\<open>Messages.\<close> Done messages, shares, view changes, halts and votes are sent once, tied to the flags of the core;
    sent messages pass the signature check; messages written on a connection are read back.
  \<^item> \<^emph>\<open>Goroutines.\<close> The atomic pieces run without interruption are the methods of the source; goroutines end; a node
    votes once for a broadcast if the calls do not overlap, and there is an interleaving in which it votes twice.
  \<^item> \<^emph>\<open>Weaknesses.\<close> One forged or unchecked message moves a node to the next epoch (SMVBA halt, MVBA halt, VABA view
    change); an MVBA node that missed a block never commits again; a Mercury node never votes in a second try of a
    round; the hash of a block does not determine the block.

  \<^bold>\<open>What is assumed.\<close> Code outside the repository is an argument: SHA-256, ed25519 and the threshold signatures (record
  \<open>crypto\<close>), the scalars and points of kyber (record \<open>kyber\<close>), gob and JSON, the numbers of \<^verbatim>\<open>math/rand\<close>, the transactions
  of the database (record \<open>DB\<close>), dialling, generated random keys, and the order in which the run-time visits a Go
  map. What a theorem needs of them is a hypothesis of it: \<open>env_ok\<close> (key sizes, shares are signed without error, a coin
  has at least three bytes), \<open>db_laws\<close> and \<open>store_ok\<close> (a put is read back; a missing key has an error of the driver's own),
  \<open>reads_back\<close> and \<open>json_ok\<close> (decoding inverts encoding), and for \<open>net\<close> the predicate \<open>msg_ok\<close> of each protocol. The
  theorems on agreement have a committee of 3f+1 with at most f faulty members. Each hypothesis holds for the
  concrete instance in the witness of its theorem.

  \<^bold>\<open>Bounds and fuel.\<close> Only \<open>solo\<close> and its counterparts, which run the pieces of one goroutine to its end, have fuel: four
  pieces for SPB and CBC, five for promote and seven for ABA, shown to be enough by the theorems that equate them with the
  methods. The loops of the committors and of the network end because their maps and streams get shorter; \<open>serveConn\<close>
  asks for that explicitly, and \<open>Codec_Read_shorter\<close> shows that it is always so. Epochs and rounds wrap at 64 bits.
  A JSON number is the value that a \<^verbatim>\<open>float64\<close> holds, which is the integer itself up to \<open>2 ^ 53\<close>.

  \<^bold>\<open>Not modelled.\<close>
  \<^item> \<^verbatim>\<open>consensus.go\<close> of each protocol, \<^verbatim>\<open>node/node.go\<close> and \<^verbatim>\<open>main.go\<close>: they open sockets and files, wait until the other
    nodes answer, make the channels and start the parts, by calls of what is modelled here. \<^verbatim>\<open>logger/\<close>: output only.
  \<^item> Of \<^verbatim>\<open>network/network.go\<close>: accepting and dialling of sockets. Channels have no capacity in the model, so a send that
    blocks on a full channel, and a deadlock by it, are outside.
  \<^item> Of \<^verbatim>\<open>crypto/crypto.go\<close>: \<^verbatim>\<open>GenED25519Keys\<close> and \<^verbatim>\<open>GenTSKeys\<close>, which only draw random keys by library calls (the keys are
    arguments of the functions that write the files), and \<^verbatim>\<open>EqualTSPartialKey\<close>, which nothing calls.
\<close>

end
